(* ===== verification/Prelude.thy ===== *)
theory Prelude
  imports Complex_Main "HOL-Library.AList"
begin

text \<open>
  Shared vocabulary of the Dine-flow model.
  \<^item> MongoDB collections are association lists from object ids to documents, in
    insertion order (the natural order of \<open>find\<close>): \<open>map_of\<close> is \<open>findById\<close>,
    \<open>AList.update\<close> is \<open>save\<close>/\<open>findByIdAndUpdate\<close>, \<open>AList.delete\<close> is
    \<open>findByIdAndDelete\<close>.
  \<^item> Amounts of money are JavaScript numbers holding dollars; the model keeps them
    as exact integers of cents (\<open>money\<close>). Floating-point representation error is
    not modelled.
  \<^item> The JavaScript idioms \<open>x || d\<close> (a falsy value replaced by a default) and
    \<open>Math.round\<close> are defined once here and used by every component.
\<close>

named_theorems coll_simps "lookup and update facts of the document collections"
named_theorems js_simps "evaluation facts of the JavaScript helper functions"

type_synonym oid = nat
type_synonym money = int
type_synonym ms = nat
type_synonym ('k, 'v) coll = "('k \<times> 'v) list"

subsection \<open>Collections\<close>

definition coll_wf :: "('k, 'v) coll \<Rightarrow> bool" where
  "coll_wf c \<longleftrightarrow> distinct (map fst c)"

definition coll_ids :: "('k, 'v) coll \<Rightarrow> 'k list" where
  "coll_ids c = map fst c"

lemma coll_wf_update [coll_simps]: "coll_wf c \<Longrightarrow> coll_wf (AList.update k v c)"
  by (simp add: coll_wf_def distinct_update)

lemma coll_wf_delete [coll_simps]: "coll_wf c \<Longrightarrow> coll_wf (AList.delete k c)"
  by (simp add: coll_wf_def distinct_delete)

lemma coll_wf_Nil [coll_simps]: "coll_wf []"
  by (simp add: coll_wf_def)

lemma map_of_update_same [coll_simps]: "map_of (AList.update k v c) k = Some v"
  by (simp add: update_conv')

lemma map_of_update_other [coll_simps]:
  "k' \<noteq> k \<Longrightarrow> map_of (AList.update k v c) k' = map_of c k'"
  by (simp add: update_conv')

lemma map_of_delete_same [coll_simps]: "map_of (AList.delete k c) k = None"
  by (simp add: delete_conv')

lemma map_of_delete_other [coll_simps]:
  "k' \<noteq> k \<Longrightarrow> map_of (AList.delete k c) k' = map_of c k'"
  by (simp add: delete_conv')

text \<open>\<open>findByIdAndUpdate(k, f)\<close>: apply \<open>f\<close> to the document with id \<open>k\<close>, if any.\<close>

definition coll_modify :: "'k \<Rightarrow> ('v \<Rightarrow> 'v) \<Rightarrow> ('k, 'v) coll \<Rightarrow> ('k, 'v) coll" where
  "coll_modify k f c = map (\<lambda>(k', v). if k' = k then (k', f v) else (k', v)) c"

lemma map_of_coll_modify [coll_simps]:
  "map_of (coll_modify k f c) k' = (if k' = k then map_option f (map_of c k) else map_of c k')"
  by (induction c) (auto simp: coll_modify_def)

lemma coll_wf_modify [coll_simps]: "coll_wf (coll_modify k f c) = coll_wf c"
proof -
  have "map fst (coll_modify k f c) = map fst c"
    by (induction c) (auto simp: coll_modify_def)
  then show ?thesis by (simp add: coll_wf_def)
qed

lemma set_alist_update: "set (AList.update k v al) \<subseteq> insert (k, v) (set al)"
  by (induction al) auto

lemma set_alist_delete: "set (AList.delete k al) \<subseteq> set al"
  by (simp add: AList.delete_eq)

lemma map_fst_update_present:
  "map_of c k \<noteq> None \<Longrightarrow> map fst (AList.update k v c) = map fst c"
  by (induction c) auto

lemma update_absent_append:
  "map_of c k = None \<Longrightarrow> AList.update k v c = c @ [(k, v)]"
  by (induction c) auto

lemma length_update_present:
  "map_of c k \<noteq> None \<Longrightarrow> length (AList.update k v c) = length c"
  by (induction c) auto

lemma length_update_absent:
  "map_of c k = None \<Longrightarrow> length (AList.update k v c) = Suc (length c)"
  by (induction c) auto

lemma map_of_SomeD_set: "map_of c k = Some v \<Longrightarrow> (k, v) \<in> set c"
  by (rule map_of_SomeD)

subsection \<open>JavaScript defaults\<close>

text \<open>\<open>s || d\<close> on an optional string: \<open>undefined\<close> and \<open>""\<close> are falsy.\<close>

definition js_or_str :: "string option \<Rightarrow> string \<Rightarrow> string" where
  "js_or_str s d = (case s of None \<Rightarrow> d | Some x \<Rightarrow> if x = [] then d else x)"

text \<open>\<open>n || d\<close> on an optional number: \<open>undefined\<close> and \<open>0\<close> are falsy.\<close>

definition js_or_int :: "int option \<Rightarrow> int \<Rightarrow> int" where
  "js_or_int n d = (case n of None \<Rightarrow> d | Some x \<Rightarrow> if x = 0 then d else x)"

text \<open>The truth value of an optional string, as in \<open>if (s)\<close> or \<open>!!s\<close>: \<open>null\<close>,
  \<open>undefined\<close> and \<open>""\<close> are falsy.\<close>

definition js_truthy_str :: "string option \<Rightarrow> bool" where
  "js_truthy_str s = (case s of None \<Rightarrow> False | Some x \<Rightarrow> x \<noteq> [])"

text \<open>\<open>s.trim()\<close>: leading and trailing white space removed.\<close>

definition js_space :: "char \<Rightarrow> bool" where
  "js_space c \<longleftrightarrow> c \<in> set [CHR '' '', CHR 0x09, CHR 0x0A, CHR 0x0B, CHR 0x0C, CHR 0x0D]"

definition js_trim :: "string \<Rightarrow> string" where
  "js_trim s = rev (dropWhile js_space (rev (dropWhile js_space s)))"

text \<open>A field of a request body that overrides a stored field when present, as object spread
  and the \<open>$set\<close> of \<open>findByIdAndUpdate\<close> do.\<close>

definition patched :: "'a option \<Rightarrow> 'a \<Rightarrow> 'a" where
  "patched v x = (case v of None \<Rightarrow> x | Some y \<Rightarrow> y)"

lemma js_or_str_simps [simp, js_simps]:
  "js_or_str None d = d"
  "js_or_str (Some []) d = d"
  "x \<noteq> [] \<Longrightarrow> js_or_str (Some x) d = x"
  by (simp_all add: js_or_str_def)

lemma js_or_int_simps [simp, js_simps]:
  "js_or_int None d = d"
  "js_or_int (Some 0) d = d"
  "x \<noteq> 0 \<Longrightarrow> js_or_int (Some x) d = x"
  by (simp_all add: js_or_int_def)

lemma js_or_int_zero [simp]: "js_or_int n 0 = (case n of None \<Rightarrow> 0 | Some x \<Rightarrow> x)"
  by (simp add: js_or_int_def split: option.splits)

lemma patched_simps [simp, js_simps]:
  "patched None x = x"
  "patched (Some y) x = y"
  by (simp_all add: patched_def)

lemma js_or_str_nonempty: "d \<noteq> [] \<Longrightarrow> js_or_str s d \<noteq> []"
  by (simp add: js_or_str_def split: option.splits)

subsection \<open>Array helpers\<close>

text \<open>\<open>xs.findIndex(p)\<close>, with \<open>None\<close> for the \<open>-1\<close> of no match.\<close>

fun find_idx :: "('a \<Rightarrow> bool) \<Rightarrow> 'a list \<Rightarrow> nat option" where
  "find_idx P [] = None"
| "find_idx P (x # xs) = (if P x then Some 0 else map_option Suc (find_idx P xs))"

text \<open>\<open>xs.splice(i, 1)\<close> for an index in range.\<close>

definition splice_at :: "nat \<Rightarrow> 'a list \<Rightarrow> 'a list" where
  "splice_at i xs = take i xs @ drop (Suc i) xs"

lemma find_idx_None [simp]: "find_idx P xs = None \<longleftrightarrow> (\<forall>x\<in>set xs. \<not> P x)"
  by (induction xs) auto

lemma find_idx_SomeD:
  "find_idx P xs = Some i \<Longrightarrow> i < length xs \<and> P (xs ! i) \<and> (\<forall>j<i. \<not> P (xs ! j))"
proof (induction xs arbitrary: i)
  case Nil
  then show ?case by simp
next
  case (Cons x xs)
  then show ?case
    by (cases i) (auto simp: less_Suc_eq_0_disj split: if_splits)
qed

lemma set_splice_at_subset: "set (splice_at i xs) \<subseteq> set xs"
  by (auto simp: splice_at_def dest: in_set_takeD in_set_dropD)

lemma length_splice_at: "i < length xs \<Longrightarrow> length (splice_at i xs) = length xs - 1"
  by (simp add: splice_at_def)

lemma distinct_splice_at: "distinct xs \<Longrightarrow> distinct (splice_at i xs)"
proof -
  assume d: "distinct xs"
  have "splice_at i xs = take i xs @ drop (Suc i) xs" by (simp add: splice_at_def)
  moreover have "distinct (take i xs @ drop (Suc i) xs)"
  proof -
    have "take i xs @ drop i xs = xs" by simp
    with d have "set (take i xs) \<inter> set (drop i xs) = {}" by (metis distinct_append)
    moreover have "set (drop (Suc i) xs) \<subseteq> set (drop i xs)" by (simp add: set_drop_subset_set_drop)
    ultimately show ?thesis using d by (auto simp: distinct_take distinct_drop)
  qed
  ultimately show ?thesis by simp
qed

lemma set_splice_at_distinct:
  assumes "distinct xs" and "i < length xs"
  shows "set (splice_at i xs) = set xs - {xs ! i}"
proof -
  have xs: "xs = take i xs @ xs ! i # drop (Suc i) xs"
    using assms(2) by (rule id_take_nth_drop)
  then have "distinct (take i xs @ xs ! i # drop (Suc i) xs)" using assms(1) by simp
  then have "xs ! i \<notin> set (take i xs)" and "xs ! i \<notin> set (drop (Suc i) xs)" by auto
  moreover have "set xs = set (take i xs) \<union> {xs ! i} \<union> set (drop (Suc i) xs)"
    by (subst xs) auto
  ultimately show ?thesis by (auto simp: splice_at_def)
qed

lemma map_update_same_key:
  "i < length xs \<Longrightarrow> f y = f (xs ! i) \<Longrightarrow> map f (xs[i := y]) = map f xs"
proof -
  assume "i < length xs" and "f y = f (xs ! i)"
  then have "(map f xs)[i := f y] = (map f xs)[i := map f xs ! i]" by simp
  then show ?thesis by (simp add: map_update)
qed

text \<open>\<open>const i = xs.findIndex(x => x._id === y._id); if (i !== -1) xs[i] = y\<close>: the first
  element with the new element's key is replaced.\<close>

definition replace_first :: "('a \<Rightarrow> 'k) \<Rightarrow> 'a \<Rightarrow> 'a list \<Rightarrow> 'a list" where
  "replace_first key y xs = (case find_idx (\<lambda>x. key x = key y) xs of None \<Rightarrow> xs | Some i \<Rightarrow> xs[i := y])"

lemma replace_first_keys [simp]: "map key (replace_first key y xs) = map key xs"
proof (cases "find_idx (\<lambda>x. key x = key y) xs")
  case (Some i)
  from find_idx_SomeD [OF Some] have "i < length xs" "key y = key (xs ! i)" by simp_all
  then show ?thesis unfolding replace_first_def Some by (simp add: map_update_same_key)
next
  case None
  show ?thesis unfolding replace_first_def None by simp
qed

text \<open>With distinct keys, replacing the first match replaces every element with that key.\<close>

lemma replace_first_Cons:
  "replace_first key y (x # xs) = (if key x = key y then y # xs else x # replace_first key y xs)"
  by (cases "find_idx (\<lambda>x. key x = key y) xs") (simp_all add: replace_first_def del: find_idx_None)

lemma replace_first_map:
  "distinct (map key xs) \<Longrightarrow> replace_first key y xs = map (\<lambda>x. if key x = key y then y else x) xs"
proof (induction xs)
  case (Cons x xs)
  show ?case
  proof (cases "key x = key y")
    case True
    with Cons.prems have "key y \<notin> set (map key xs)" by simp
    then have "\<forall>z\<in>set xs. key z \<noteq> key y" by (metis image_eqI set_map)
    with True show ?thesis by (simp add: replace_first_Cons map_idI)
  next
    case False
    with Cons show ?thesis by (simp add: replace_first_Cons)
  qed
qed (simp add: replace_first_def)

lemma map_splice_at: "map f (splice_at i xs) = splice_at i (map f xs)"
  by (simp add: splice_at_def take_map drop_map)

subsection \<open>Math.round\<close>

text \<open>
  \<open>Math.round(a / b)\<close> for a positive divisor: the integer nearest to the quotient,
  halves rounded towards \<open>+\<infinity>\<close>, that is \<open>\<lfloor>a / b + 1/2\<rfloor>\<close>.
\<close>

definition js_round :: "int \<Rightarrow> int \<Rightarrow> int" where
  "js_round a b = (2 * a + b) div (2 * b)"

lemma js_round_floor:
  assumes "0 < b"
  shows "js_round a b = \<lfloor>rat_of_int a / rat_of_int b + 1 / 2\<rfloor>"
proof -
  have "rat_of_int a / rat_of_int b + 1 / 2 = rat_of_int (2 * a + b) / rat_of_int (2 * b)"
    using assms by (simp add: field_simps)
  then show ?thesis
    by (simp only: js_round_def floor_divide_of_int_eq)
qed

lemma js_round_bounds:
  assumes "0 < b"
  shows "b * (2 * js_round a b - 1) \<le> 2 * a \<and> 2 * a < b * (2 * js_round a b + 1)"
proof -
  let ?q = "(2 * a + b) div (2 * b)" and ?r = "(2 * a + b) mod (2 * b)"
  have eq: "2 * b * ?q + ?r = 2 * a + b" by (rule mult_div_mod_eq)
  have "0 \<le> ?r" and "?r < 2 * b" using assms by simp_all
  with eq show ?thesis
    by (simp add: js_round_def algebra_simps)
qed

lemma js_round_unique:
  assumes "0 < b" and "b * (2 * r - 1) \<le> 2 * a" and "2 * a < b * (2 * r + 1)"
  shows "js_round a b = r"
proof -
  have "(2 * a + b) div (2 * b) = r"
    using assms by (intro int_div_pos_eq [where r = "2 * a + b - 2 * b * r"]) (simp_all add: algebra_simps)
  then show ?thesis by (simp add: js_round_def)
qed

lemma js_round_mono:
  assumes "0 < b" and "a \<le> a'"
  shows "js_round a b \<le> js_round a' b"
  unfolding js_round_def using assms by (simp add: zdiv_mono1)

lemma js_round_multiple: "0 < b \<Longrightarrow> js_round (c * b) b = c"
  by (rule js_round_unique) (auto simp: algebra_simps)

lemma js_round_nonneg: "0 < b \<Longrightarrow> 0 \<le> a \<Longrightarrow> 0 \<le> js_round a b"
  by (simp add: js_round_def pos_imp_zdiv_nonneg_iff)

end
