(* ===== verification/Store.thy ===== *)
theory Store
  imports Prelude
begin

text \<open>
  The persistent data of the backend: one record or datatype per Mongoose schema of
  \<open>src/backend/models\<close>, restricted to the fields some handler reads or writes, and
  the database as one record of collections. Every handler of the model takes the
  database and returns it updated, with its HTTP outcome as a value of
  \<open>api_error + 'a\<close>.
\<close>

subsection \<open>Users (models/User.js)\<close>

datatype role = Customer | Restaurant_Owner | Admin

text \<open>
  The stored password is a bcrypt hash. The model keeps the hashed text inside the
  constructor \<open>Bcrypt\<close>: \<open>bcrypt.compare(c, h)\<close> holds exactly when \<open>h\<close> is the hash
  of \<open>c\<close>, an idealised hash (no collisions; the salt does not matter to \<open>compare\<close>).
\<close>

datatype credential = Bcrypt string

fun compare_password :: "string \<Rightarrow> credential \<Rightarrow> bool" where
  "compare_password c (Bcrypt p) \<longleftrightarrow> c = p"

record user =
  user_name :: string
  user_email :: string
  user_password :: credential
  user_phone :: string
  user_role :: role
  user_active :: bool
  user_last_login :: "ms option"

subsection \<open>Restaurants (models/Restaurant.js)\<close>

datatype restaurant_status = R_Pending | R_Approved | R_Rejected | R_Suspended

text \<open>\<open>rating_average\<close> is kept in tenths, the precision the rating handler rounds to.\<close>

record restaurant =
  rest_name :: string
  rest_owner :: oid
  delivery_fee :: money
  minimum_order :: money
  rating_average :: int
  rating_count :: nat
  rest_status :: restaurant_status
  rest_active :: bool
  total_orders :: int
  total_revenue :: money

text \<open>
  The schema validators on the modelled fields: \<open>name\<close> is required with at most 100
  characters, and the rating \<open>average\<close> has \<open>min: 0, max: 5\<close>.
\<close>

definition restaurant_valid :: "restaurant \<Rightarrow> bool" where
  "restaurant_valid r \<longleftrightarrow>
     rest_name r \<noteq> [] \<and> length (rest_name r) \<le> 100 \<and> 0 \<le> rating_average r \<and> rating_average r \<le> 50"

subsection \<open>Menu items and customizations (models/MenuItem.js, models/Cart.js)\<close>

text \<open>A selected option's \<open>price\<close> is optional in a request body; the schema default is 0.\<close>

record selected_option =
  so_name :: string
  so_price :: "money option"

record customization =
  cz_name :: string
  selected_options :: "selected_option list"

record menu_item =
  mi_restaurant :: oid
  mi_name :: string
  mi_category :: string
  mi_price :: money
  mi_available :: bool

text \<open>The values the schema's \<open>enum\<close> allows for \<open>category\<close>.\<close>

definition menu_categories :: "string list" where
  "menu_categories =
     [''Appetizers'', ''Main Course'', ''Desserts'', ''Beverages'', ''Salads'', ''Soups'', ''Pizza'',
      ''Burgers'', ''Sandwiches'', ''Pasta'', ''Rice'', ''Noodles'', ''Seafood'', ''Vegetarian'', ''Vegan'',
      ''Specials'', ''Combos'', ''Sides'']"

text \<open>The schema validators on the modelled fields: a required name of at most 100
  characters, a category of the enumeration and a price that is not negative.\<close>

definition menu_item_valid :: "menu_item \<Rightarrow> bool" where
  "menu_item_valid m \<longleftrightarrow>
     mi_name m \<noteq> [] \<and> length (mi_name m) \<le> 100 \<and> mi_category m \<in> set menu_categories \<and> 0 \<le> mi_price m"

subsection \<open>Carts (models/Cart.js)\<close>

record cart_entry =
  ce_id :: oid
  ce_menu_item :: oid
  ce_quantity :: nat
  ce_customizations :: "customization list"
  ce_instructions :: string

record cart =
  cart_restaurant :: "oid option"
  cart_items :: "cart_entry list"
  cart_subtotal :: money
  cart_item_count :: nat
  cart_last_updated :: ms

subsection \<open>Orders (models/Order.js)\<close>

datatype order_status =
  Pending | Confirmed | Preparing | Ready | Picked_Up | Out_For_Delivery
  | Delivered | Cancelled | Refunded

datatype order_type = Delivery | Pickup

datatype payment_method = Cash | Card | Digital_Wallet | Online_Payment

record order_item =
  oi_menu_item :: oid
  oi_name :: string
  oi_price :: money
  oi_quantity :: int
  oi_customizations :: "customization list"
  oi_item_total :: money
  oi_instructions :: "string option"

record pricing =
  pr_subtotal :: money
  pr_delivery_fee :: money
  pr_service_fee :: money
  pr_tax :: money
  pr_discount :: money
  pr_total :: money

record rating =
  rt_food :: int
  rt_delivery :: int
  rt_overall :: int
  rt_comment :: string
  rt_rated_at :: ms

record timeline_entry =
  tl_status :: order_status
  tl_time :: ms
  tl_note :: string

record order =
  order_number :: string
  o_customer :: oid
  o_restaurant :: oid
  o_items :: "order_item list"
  o_pricing :: pricing
  o_payment :: payment_method
  o_status :: order_status
  o_type :: order_type
  o_estimated :: ms
  o_actual_delivery :: "ms option"
  o_cancel_reason :: "string option"
  o_rating :: "rating option"
  o_timeline :: "timeline_entry list"
  o_created :: ms

subsection \<open>The database\<close>

text \<open>
  Carts are keyed by their \<open>user\<close> field, which the schema declares unique.
  \<open>next_oid\<close> supplies fresh object ids (for cart entries and orders).
\<close>

record db =
  users :: "(oid, user) coll"
  restaurants :: "(oid, restaurant) coll"
  menu_items :: "(oid, menu_item) coll"
  carts :: "(oid, cart) coll"
  orders :: "(oid, order) coll"
  next_oid :: oid

subsection \<open>Responses\<close>

text \<open>
  One constructor per distinct error response of the route handlers; \<open>http_status\<close>
  gives its status code.
\<close>

datatype api_error =
    Validation_Failed
  | Menu_Item_Unavailable
  | Restaurant_Unavailable
  | Item_Unavailable oid
  | Below_Minimum_Order money
  | Cannot_Cancel
  | Not_Delivered
  | Already_Rated
  | Header_Missing
  | Token_Expired
  | Token_Invalid
  | Token_User_Not_Found
  | Forbidden
  | Cart_Not_Found
  | Entry_Not_Found
  | Order_Not_Found
  | Restaurant_Not_Found
  | Menu_Item_Not_Found
  | Already_Registered
  | User_Exists
  | Invalid_Credentials
  | Account_Deactivated
  | Wrong_Password
  | User_Not_Found
  | Server_Error

type_synonym 'a response = "api_error + 'a"

fun http_status :: "api_error \<Rightarrow> nat" where
  "http_status Header_Missing = 401"
| "http_status Token_Expired = 401"
| "http_status Token_Invalid = 401"
| "http_status Token_User_Not_Found = 401"
| "http_status Invalid_Credentials = 401"
| "http_status Account_Deactivated = 401"
| "http_status Forbidden = 403"
| "http_status Cart_Not_Found = 404"
| "http_status Entry_Not_Found = 404"
| "http_status Order_Not_Found = 404"
| "http_status Restaurant_Not_Found = 404"
| "http_status Menu_Item_Not_Found = 404"
| "http_status User_Not_Found = 404"
| "http_status Server_Error = 500"
| "http_status _ = 400"

text \<open>
  The ownership test the routes share (\<open>orders.js\<close> line 307, \<open>menu.js\<close> lines 180
  and 221): \<open>req.user.role !== "admin" && x.restaurant.owner.toString() !== req.user.id\<close>.
  An admin passes without the restaurant being read; for anyone else a missing populated
  restaurant throws, which the handler answers with 500.
\<close>

definition owner_gate :: "db \<Rightarrow> oid \<Rightarrow> user \<Rightarrow> oid \<Rightarrow> api_error option" where
  "owner_gate d uid u rid =
     (if user_role u = Admin then None
      else case map_of (restaurants d) rid of
             None \<Rightarrow> Some Server_Error
           | Some r \<Rightarrow> if rest_owner r \<noteq> uid then Some Forbidden else None)"

definition fresh_oid :: "db \<Rightarrow> oid \<times> db" where
  "fresh_oid d = (next_oid d, d\<lparr>next_oid := Suc (next_oid d)\<rparr>)"

subsection \<open>Sample data\<close>

text \<open>
  The data of the end-to-end scenario of the specification: a customer (id 1), a
  restaurant owner (2) and an admin (3); an approved restaurant (10) with a delivery
  fee of 2.00 and a minimum order of 10.00, and its burger at 9.00 (20); a second
  approved restaurant (11) with a dish at 12.00 (21). The customer's cart holds one
  burger as entry 30. Witnesses of the theorems run the handlers on this database.
\<close>

definition sample_restaurant :: "oid \<Rightarrow> money \<Rightarrow> money \<Rightarrow> restaurant" where
  "sample_restaurant owner fee minimum =
     \<lparr>rest_name = ''Sample'', rest_owner = owner, delivery_fee = fee, minimum_order = minimum,
      rating_average = 0, rating_count = 0, rest_status = R_Approved, rest_active = True,
      total_orders = 0, total_revenue = 0\<rparr>"

definition sample_user :: "string \<Rightarrow> role \<Rightarrow> user" where
  "sample_user n r =
     \<lparr>user_name = n, user_email = n @ ''@x.io'', user_password = Bcrypt (n @ ''-secret''),
      user_phone = ''555-0100'', user_role = r, user_active = True, user_last_login = None\<rparr>"

definition sample_db :: db where
  "sample_db =
     \<lparr>users = [(1, sample_user ''ann'' Customer), (2, sample_user ''bob'' Restaurant_Owner),
               (3, sample_user ''eve'' Admin)],
      restaurants = [(10, sample_restaurant 2 200 1000), (11, sample_restaurant 4 0 0)],
      menu_items = [(20, \<lparr>mi_restaurant = 10, mi_name = ''Burger'', mi_category = ''Burgers'', mi_price = 900,
                          mi_available = True\<rparr>),
                    (21, \<lparr>mi_restaurant = 11, mi_name = ''Noodles'', mi_category = ''Noodles'', mi_price = 1200,
                          mi_available = True\<rparr>)],
      carts = [(1, \<lparr>cart_restaurant = Some 10,
                    cart_items = [\<lparr>ce_id = 30, ce_menu_item = 20, ce_quantity = 1,
                                   ce_customizations = [], ce_instructions = []\<rparr>],
                    cart_subtotal = 0, cart_item_count = 0, cart_last_updated = 0\<rparr>)],
      orders = [],
      next_oid = 100\<rparr>"

end
