(* ===== verification/Pricing.thy ===== *)
theory Pricing
  imports Store
begin

text \<open>
  The price arithmetic that \<open>routes/cart.js\<close> (GET /api/cart) and
  \<open>routes/orders.js\<close> (POST /api/orders) share: the nested loop that adds the
  selected options' prices to a base price, the line total, and the fees of an order.
  The loop is kept as the code writes it (an accumulator updated per option) and is
  proved equal to a closed sum.
\<close>

named_theorems price_simps "closed forms of the price computations"

definition option_price :: "selected_option \<Rightarrow> money" where
  "option_price opt = js_or_int (so_price opt) 0"

text \<open>\<open>for (const option of customization.selectedOptions) itemPrice += option.price || 0\<close>\<close>

fun add_options :: "money \<Rightarrow> selected_option list \<Rightarrow> money" where
  "add_options p [] = p"
| "add_options p (opt # opts) = add_options (p + option_price opt) opts"

text \<open>\<open>for (const customization of item.customizations) \<dots>\<close>\<close>

fun add_customizations :: "money \<Rightarrow> customization list \<Rightarrow> money" where
  "add_customizations p [] = p"
| "add_customizations p (c # cs) = add_customizations (add_options p (selected_options c)) cs"

text \<open>\<open>let itemPrice = menuItem.price; if (item.customizations) {\<dots>}\<close>\<close>

definition item_price :: "money \<Rightarrow> customization list \<Rightarrow> money" where
  "item_price base cs = add_customizations base cs"

definition customization_cost :: "customization list \<Rightarrow> money" where
  "customization_cost cs = (\<Sum>c\<leftarrow>cs. \<Sum>opt\<leftarrow>selected_options c. option_price opt)"

lemma add_options_sum [price_simps]:
  "add_options p opts = p + (\<Sum>opt\<leftarrow>opts. option_price opt)"
  by (induction opts arbitrary: p) simp_all

lemma add_customizations_sum [price_simps]:
  "add_customizations p cs = p + customization_cost cs"
  by (induction cs arbitrary: p) (simp_all add: add_options_sum customization_cost_def)

lemma customization_cost_simps [simp]:
  "customization_cost [] = 0"
  "customization_cost (c # cs) =
     (\<Sum>opt\<leftarrow>selected_options c. option_price opt) + customization_cost cs"
  by (simp_all add: customization_cost_def)

lemma item_price_eq [price_simps]: "item_price base cs = base + customization_cost cs"
  by (simp add: item_price_def add_customizations_sum)

lemma option_price_default [simp]: "so_price opt = None \<Longrightarrow> option_price opt = 0"
  by (simp add: option_price_def)

lemma option_price_given [simp]: "so_price opt = Some x \<Longrightarrow> option_price opt = x"
  by (simp add: option_price_def)

lemma customization_cost_nonneg:
  "(\<forall>c\<in>set cs. \<forall>opt\<in>set (selected_options c). 0 \<le> option_price opt) \<Longrightarrow>
   0 \<le> customization_cost cs"
  by (induction cs) (auto intro!: sum_list_nonneg add_nonneg_nonneg)

subsection \<open>Fees\<close>

text \<open>
  \<open>Math.round(subtotal * 0.05)\<close> and \<open>Math.round(subtotal * 0.08)\<close> round a dollar
  amount to whole dollars. With \<open>s\<close> in cents the dollar amount is \<open>s / 100\<close>, so the
  fee in dollars is \<open>round(5 s / 10000)\<close>, and in cents a hundred times that.
\<close>

definition service_fee :: "money \<Rightarrow> money" where
  "service_fee s = 100 * js_round (5 * s) 10000"

definition sales_tax :: "money \<Rightarrow> money" where
  "sales_tax s = 100 * js_round (8 * s) 10000"

definition order_delivery_fee :: "order_type \<Rightarrow> restaurant \<Rightarrow> money" where
  "order_delivery_fee t r = (if t = Delivery then delivery_fee r else 0)"

definition order_total :: "money \<Rightarrow> money \<Rightarrow> money" where
  "order_total s fee = s + fee + service_fee s + sales_tax s"

lemma service_fee_bounds [price_simps]:
  "20 * service_fee s - 1000 \<le> s \<and> s < 20 * service_fee s + 1000"
  using js_round_bounds [of 10000 "5 * s"] by (simp add: service_fee_def)

lemma sales_tax_bounds [price_simps]:
  "25 * sales_tax s - 1250 \<le> 2 * s \<and> 2 * s < 25 * sales_tax s + 1250"
  using js_round_bounds [of 10000 "8 * s"] by (simp add: sales_tax_def)

lemma service_fee_nonneg: "0 \<le> s \<Longrightarrow> 0 \<le> service_fee s"
  by (simp add: service_fee_def js_round_nonneg)

lemma sales_tax_nonneg: "0 \<le> s \<Longrightarrow> 0 \<le> sales_tax s"
  by (simp add: sales_tax_def js_round_nonneg)

lemma service_fee_dollars: "service_fee s mod 100 = 0"
  by (simp add: service_fee_def)

lemma sales_tax_dollars: "sales_tax s mod 100 = 0"
  by (simp add: sales_tax_def)

end
