(* ===== verification/Cart.thy ===== *)
theory Cart
  imports Pricing "HOL-Library.Sublist"
begin

text \<open>
  The cart handlers of \<open>src/backend/routes/cart.js\<close>. Each takes the database, the
  time of the request (\<open>Date.now()\<close>, which the schema's pre-save hook writes into
  \<open>lastUpdated\<close>) and the id of the authenticated user, and returns the database
  after the handler's writes together with the response.
\<close>

subsection \<open>GET /api/cart\<close>

record cart_line =
  line_entry :: cart_entry
  line_price :: money
  line_total :: money

record cart_view =
  view_items :: "cart_line list"
  view_subtotal :: money
  view_count :: nat
  view_restaurant :: "oid option"

text \<open>
  The callback of \<open>cart.items.filter\<close> (lines 34--59): an entry whose menu item is
  gone or unavailable is dropped; a kept entry gets its \<open>calculatedPrice\<close> and
  \<open>itemTotal\<close>.
\<close>

definition price_line :: "(oid, menu_item) coll \<Rightarrow> cart_entry \<Rightarrow> cart_line option" where
  "price_line m e =
     (case map_of m (ce_menu_item e) of
        None \<Rightarrow> None
      | Some mi \<Rightarrow>
          if \<not> mi_available mi then None
          else let p = item_price (mi_price mi) (ce_customizations e)
               in Some \<lparr>line_entry = e, line_price = p, line_total = p * int (ce_quantity e)\<rparr>)"

text \<open>The filter with its two accumulators \<open>subtotal\<close> and \<open>itemCount\<close>.\<close>

fun cart_lines :: "(oid, menu_item) coll \<Rightarrow> money \<Rightarrow> nat \<Rightarrow> cart_entry list \<Rightarrow>
    cart_line list \<times> money \<times> nat" where
  "cart_lines m s n [] = ([], s, n)"
| "cart_lines m s n (e # es) =
     (case price_line m e of
        None \<Rightarrow> cart_lines m s n es
      | Some l \<Rightarrow>
          (let (ls, s', n') = cart_lines m (s + line_total l) (n + ce_quantity e) es
           in (l # ls, s', n')))"

definition empty_view :: cart_view where
  "empty_view = \<lparr>view_items = [], view_subtotal = 0, view_count = 0, view_restaurant = None\<rparr>"

definition get_cart :: "db \<Rightarrow> ms \<Rightarrow> oid \<Rightarrow> db \<times> cart_view response" where
  "get_cart d now uid =
     (case map_of (carts d) uid of
        None \<Rightarrow> (d, Inr empty_view)
      | Some c \<Rightarrow>
          (let (ls, s, n) = cart_lines (menu_items d) 0 0 (cart_items c);
               d' = (if length ls \<noteq> length (cart_items c)
                     then d\<lparr>carts := AList.update uid
                              (c\<lparr>cart_items := map line_entry ls,
                                  cart_subtotal := s, cart_item_count := n,
                                  cart_last_updated := now\<rparr>) (carts d)\<rparr>
                     else d)
           in (d', Inr \<lparr>view_items = ls, view_subtotal = s, view_count = n,
                        view_restaurant = cart_restaurant c\<rparr>)))"

subsection \<open>POST /api/cart/add\<close>

record add_request =
  ar_menu_item :: oid
  ar_quantity :: int
  ar_customizations :: "customization list option"
  ar_instructions :: "string option"

text \<open>
  JSON values as \<open>JSON.stringify\<close> writes them: two values give the same text exactly
  when they are the same tree with the same keys in the same order. \<open>J_Object_Id\<close> is
  the \<open>_id\<close> ObjectId Mongoose gives every element of a subdocument array when the
  cart is cast; the modelled request bodies carry no \<open>_id\<close>, so its value never takes
  part in a comparison and is not recorded.
\<close>

datatype json = J_Null | J_Num money | J_Str string | J_Arr "json list"
  | J_Obj "(string \<times> json) list" | J_Object_Id

text \<open>A stored customization (models/Cart.js lines 27--36) serialises its \<open>name\<close>, its
  \<open>selectedOptions\<close>, each with \<open>name\<close>, \<open>price\<close> (schema default 0) and its own
  \<open>_id\<close>, and its \<open>_id\<close>.\<close>

definition stored_option_json :: "selected_option \<Rightarrow> json" where
  "stored_option_json so =
     J_Obj [(''name'', J_Str (so_name so)), (''price'', J_Num (case so_price so of None \<Rightarrow> 0 | Some p \<Rightarrow> p)),
            (''_id'', J_Object_Id)]"

definition stored_customization_json :: "customization \<Rightarrow> json" where
  "stored_customization_json c =
     J_Obj [(''name'', J_Str (cz_name c)), (''selectedOptions'', J_Arr (map stored_option_json (selected_options c))),
            (''_id'', J_Object_Id)]"

text \<open>A customization of the request body serialises as it was sent: a \<open>price\<close> only
  where one was given.\<close>

definition request_option_json :: "selected_option \<Rightarrow> json" where
  "request_option_json so =
     J_Obj ((''name'', J_Str (so_name so)) # (case so_price so of None \<Rightarrow> [] | Some p \<Rightarrow> [(''price'', J_Num p)]))"

definition request_customization_json :: "customization \<Rightarrow> json" where
  "request_customization_json c =
     J_Obj [(''name'', J_Str (cz_name c)), (''selectedOptions'', J_Arr (map request_option_json (selected_options c)))]"

text \<open>
  The entry the request matches (lines 144--149): same menu item, and
  \<open>JSON.stringify(item.customizations) === JSON.stringify(customizations || [])\<close>.
\<close>

definition same_line :: "oid \<Rightarrow> customization list \<Rightarrow> cart_entry \<Rightarrow> bool" where
  "same_line mid cs e \<longleftrightarrow>
     ce_menu_item e = mid \<and>
     J_Arr (map stored_customization_json (ce_customizations e)) = J_Arr (map request_customization_json cs)"

definition bump_entry :: "nat \<Rightarrow> string option \<Rightarrow> cart_entry \<Rightarrow> cart_entry" where
  "bump_entry q instr e =
     e\<lparr>ce_quantity := ce_quantity e + q,
       ce_instructions := js_or_str instr (ce_instructions e)\<rparr>"

text \<open>Lines 126--135: the user's cart, or a new one scoped to the item's restaurant.\<close>

definition load_or_new_cart :: "db \<Rightarrow> ms \<Rightarrow> oid \<Rightarrow> menu_item \<Rightarrow> cart" where
  "load_or_new_cart d now uid mi =
     (case map_of (carts d) uid of
        None \<Rightarrow> \<lparr>cart_restaurant = Some (mi_restaurant mi), cart_items = [],
                 cart_subtotal = 0, cart_item_count = 0, cart_last_updated = now\<rparr>
      | Some c \<Rightarrow> c)"

text \<open>Lines 137--141: a cart of another restaurant is emptied and rescoped.\<close>

definition rescope_cart :: "menu_item \<Rightarrow> cart \<Rightarrow> cart" where
  "rescope_cart mi c =
     (case cart_restaurant c of
        Some r \<Rightarrow> if r \<noteq> mi_restaurant mi
                  then c\<lparr>cart_items := [], cart_restaurant := Some (mi_restaurant mi)\<rparr>
                  else c
      | None \<Rightarrow> c)"

text \<open>
  Lines 143--166: merge into the matching entry (adding the quantity, overwriting the
  instructions when new ones are given) or append a new entry with a fresh id, then
  save.
\<close>

definition merge_or_append :: "db \<Rightarrow> ms \<Rightarrow> oid \<Rightarrow> add_request \<Rightarrow> cart \<Rightarrow> db \<times> cart" where
  "merge_or_append d now uid rq c =
     (let cs = (case ar_customizations rq of None \<Rightarrow> [] | Some cs \<Rightarrow> cs);
          q = nat (ar_quantity rq)
      in (case find_idx (same_line (ar_menu_item rq) cs) (cart_items c) of
            Some i \<Rightarrow>
              let c' = c\<lparr>cart_items := (cart_items c)[i := bump_entry q (ar_instructions rq) (cart_items c ! i)],
                         cart_last_updated := now\<rparr>
              in (d\<lparr>carts := AList.update uid c' (carts d)\<rparr>, c')
          | None \<Rightarrow>
              let (eid, d1) = fresh_oid d;
                  e = \<lparr>ce_id = eid, ce_menu_item = ar_menu_item rq, ce_quantity = q,
                       ce_customizations = cs, ce_instructions = js_or_str (ar_instructions rq) []\<rparr>;
                  c' = c\<lparr>cart_items := cart_items c @ [e], cart_last_updated := now\<rparr>
              in (d1\<lparr>carts := AList.update uid c' (carts d1)\<rparr>, c')))"

definition add_to_cart_entries :: "db \<Rightarrow> ms \<Rightarrow> oid \<Rightarrow> menu_item \<Rightarrow> add_request \<Rightarrow> db \<times> cart" where
  "add_to_cart_entries d now uid mi rq =
     merge_or_append d now uid rq (rescope_cart mi (load_or_new_cart d now uid mi))"

text \<open>
  The whole handler (lines 96--186): request validation, the menu item and its
  restaurant (a missing populated restaurant makes \<open>menuItem.restaurant.isActive\<close>
  throw, answered 500), then the cart update.
\<close>

definition add_to_cart :: "db \<Rightarrow> ms \<Rightarrow> oid \<Rightarrow> add_request \<Rightarrow> db \<times> cart response" where
  "add_to_cart d now uid rq =
     (if ar_quantity rq < 1 then (d, Inl Validation_Failed)
      else case map_of (menu_items d) (ar_menu_item rq) of
        None \<Rightarrow> (d, Inl Menu_Item_Unavailable)
      | Some mi \<Rightarrow>
          if \<not> mi_available mi then (d, Inl Menu_Item_Unavailable)
          else case map_of (restaurants d) (mi_restaurant mi) of
            None \<Rightarrow> (d, Inl Server_Error)
          | Some r \<Rightarrow>
              if \<not> rest_active r \<or> rest_status r \<noteq> R_Approved then (d, Inl Restaurant_Unavailable)
              else (let (d', c) = add_to_cart_entries d now uid mi rq in (d', Inr c)))"

subsection \<open>PUT /api/cart/update/:itemId and DELETE /api/cart/remove/:itemId\<close>

definition entry_index :: "oid \<Rightarrow> cart \<Rightarrow> nat option" where
  "entry_index eid c = find_idx (\<lambda>e. ce_id e = eid) (cart_items c)"

definition update_cart_item :: "db \<Rightarrow> ms \<Rightarrow> oid \<Rightarrow> oid \<Rightarrow> int \<Rightarrow> db \<times> cart response" where
  "update_cart_item d now uid eid qty =
     (if qty < 0 then (d, Inl Validation_Failed)
      else case map_of (carts d) uid of
        None \<Rightarrow> (d, Inl Cart_Not_Found)
      | Some c \<Rightarrow>
          (case entry_index eid c of
             None \<Rightarrow> (d, Inl Entry_Not_Found)
           | Some i \<Rightarrow>
               let items' = (if qty = 0 then splice_at i (cart_items c)
                             else (cart_items c)[i := (cart_items c ! i)\<lparr>ce_quantity := nat qty\<rparr>]);
                   c' = c\<lparr>cart_items := items', cart_last_updated := now\<rparr>
               in (d\<lparr>carts := AList.update uid c' (carts d)\<rparr>, Inr c')))"

definition remove_cart_item :: "db \<Rightarrow> ms \<Rightarrow> oid \<Rightarrow> oid \<Rightarrow> db \<times> cart response" where
  "remove_cart_item d now uid eid =
     (case map_of (carts d) uid of
        None \<Rightarrow> (d, Inl Cart_Not_Found)
      | Some c \<Rightarrow>
          (case entry_index eid c of
             None \<Rightarrow> (d, Inl Entry_Not_Found)
           | Some i \<Rightarrow>
               let c' = c\<lparr>cart_items := splice_at i (cart_items c), cart_last_updated := now\<rparr>
               in (d\<lparr>carts := AList.update uid c' (carts d)\<rparr>, Inr c')))"

subsection \<open>DELETE /api/cart/clear\<close>

definition clear_cart :: "db \<Rightarrow> oid \<Rightarrow> db \<times> unit response" where
  "clear_cart d uid = (d\<lparr>carts := AList.delete uid (carts d)\<rparr>, Inr ())"

subsection \<open>Cart operations as one step function\<close>

datatype cart_op =
    Get_Cart
  | Add_Item add_request
  | Update_Item oid int
  | Remove_Item oid
  | Clear_Cart

fun cart_step :: "db \<Rightarrow> ms \<Rightarrow> oid \<Rightarrow> cart_op \<Rightarrow> db" where
  "cart_step d now uid Get_Cart = fst (get_cart d now uid)"
| "cart_step d now uid (Add_Item rq) = fst (add_to_cart d now uid rq)"
| "cart_step d now uid (Update_Item eid q) = fst (update_cart_item d now uid eid q)"
| "cart_step d now uid (Remove_Item eid) = fst (remove_cart_item d now uid eid)"
| "cart_step d now uid Clear_Cart = fst (clear_cart d uid)"

text \<open>The cart handlers write the cart collection and draw ids from the counter only.\<close>

definition carts_frame :: "db \<Rightarrow> db \<Rightarrow> bool" where
  "carts_frame d d' \<longleftrightarrow>
     users d' = users d \<and> restaurants d' = restaurants d \<and> menu_items d' = menu_items d \<and>
     orders d' = orders d \<and> next_oid d \<le> next_oid d'"

subsection \<open>Well-formed carts\<close>

text \<open>
  What the cart handlers keep true of every stored cart: it is scoped to one
  restaurant and every entry whose menu item still exists belongs to it; entry ids
  are distinct and were drawn from the id supply; no two entries without
  customizations have the same menu item; every quantity is positive (the schema's
  \<open>min: 1\<close>). Entries with customizations are not kept apart: the handler never finds
  one again (see \<open>same_line_iff\<close>), so a repeated request appends another.
\<close>

definition cart_scoped :: "(oid, menu_item) coll \<Rightarrow> cart \<Rightarrow> bool" where
  "cart_scoped m c \<longleftrightarrow>
     (\<exists>r. cart_restaurant c = Some r \<and>
          (\<forall>e\<in>set (cart_items c).
             case map_of m (ce_menu_item e) of None \<Rightarrow> True | Some mi \<Rightarrow> mi_restaurant mi = r))"

definition line_key :: "cart_entry \<Rightarrow> oid \<times> customization list" where
  "line_key e = (ce_menu_item e, ce_customizations e)"

definition plain_items :: "cart_entry list \<Rightarrow> oid list" where
  "plain_items es = map ce_menu_item (filter (\<lambda>e. ce_customizations e = []) es)"

definition cart_wf :: "(oid, menu_item) coll \<Rightarrow> oid \<Rightarrow> cart \<Rightarrow> bool" where
  "cart_wf m next c \<longleftrightarrow>
     cart_scoped m c \<and>
     distinct (map ce_id (cart_items c)) \<and> (\<forall>e\<in>set (cart_items c). ce_id e < next) \<and>
     distinct (plain_items (cart_items c)) \<and>
     (\<forall>e\<in>set (cart_items c). 0 < ce_quantity e)"

definition carts_wf :: "db \<Rightarrow> bool" where
  "carts_wf d \<longleftrightarrow> coll_wf (carts d) \<and> (\<forall>(u, c)\<in>set (carts d). cart_wf (menu_items d) (next_oid d) c)"

subsection \<open>GET: the filter loop against its closed form\<close>

definition entry_live :: "(oid, menu_item) coll \<Rightarrow> cart_entry \<Rightarrow> bool" where
  "entry_live m e \<longleftrightarrow> (case map_of m (ce_menu_item e) of None \<Rightarrow> False | Some mi \<Rightarrow> mi_available mi)"

lemma price_line_Some:
  "price_line m e = Some l \<longleftrightarrow>
     (\<exists>mi. map_of m (ce_menu_item e) = Some mi \<and> mi_available mi \<and>
        l = \<lparr>line_entry = e, line_price = mi_price mi + customization_cost (ce_customizations e),
             line_total = (mi_price mi + customization_cost (ce_customizations e)) * int (ce_quantity e)\<rparr>)"
  by (auto simp: price_line_def item_price_eq Let_def split: option.splits)

lemma price_line_None: "price_line m e = None \<longleftrightarrow> \<not> entry_live m e"
  by (simp add: price_line_def entry_live_def Let_def split: option.splits)

lemma price_line_entry: "price_line m e = Some l \<Longrightarrow> line_entry l = e"
  by (auto simp: price_line_Some)

lemma price_line_live: "price_line m e = Some l \<Longrightarrow> entry_live m e"
  using price_line_None [of m e] by auto

lemma price_line_total:
  assumes "price_line m e = Some l"
  shows "\<exists>mi. map_of m (ce_menu_item e) = Some mi \<and> mi_available mi \<and>
           line_total l = (mi_price mi + customization_cost (ce_customizations e)) * int (ce_quantity e)"
  using assms by (auto simp: price_line_def Let_def item_price_eq split: option.splits if_splits)

lemma cart_lines_eq:
  "cart_lines m s n es =
     (let ls = List.map_filter (price_line m) es
      in (ls, s + (\<Sum>l\<leftarrow>ls. line_total l), n + (\<Sum>l\<leftarrow>ls. ce_quantity (line_entry l))))"
  by (induction es arbitrary: s n) (auto simp: Let_def price_line_entry split: option.splits)

lemma map_filter_price_line:
  "map line_entry (List.map_filter (price_line m) es) = filter (entry_live m) es"
proof (induction es)
  case Nil
  then show ?case by simp
next
  case (Cons e es)
  show ?case
  proof (cases "price_line m e")
    case None
    then have "\<not> entry_live m e" by (simp add: price_line_None)
    with None Cons show ?thesis by simp
  next
    case (Some l)
    then have "line_entry l = e" and "entry_live m e"
      by (rule price_line_entry, rule price_line_live)
    with Some Cons show ?thesis by simp
  qed
qed

lemma set_map_filter_price_line:
  "l \<in> set (List.map_filter (price_line m) es) \<Longrightarrow> price_line m (line_entry l) = Some l"
proof (induction es)
  case Nil
  then show ?case by simp
next
  case (Cons e es)
  show ?case
  proof (cases "price_line m e")
    case None
    with Cons show ?thesis by simp
  next
    case (Some l')
    then have "line_entry l' = e" by (rule price_line_entry)
    with Some Cons show ?thesis by auto
  qed
qed

subsection \<open>Which entries a request matches\<close>

text \<open>A stored customization always serialises with its \<open>_id\<close>, a requested one never:
  an entry is matched only when both lists are empty.\<close>

lemma same_line_iff:
  "same_line mid cs e \<longleftrightarrow> ce_menu_item e = mid \<and> ce_customizations e = [] \<and> cs = []"
  by (cases "ce_customizations e"; cases cs)
     (simp_all add: same_line_def stored_customization_json_def request_customization_json_def)

lemma plain_items_line_key: "plain_items es = map fst (filter (\<lambda>k. snd k = []) (map line_key es))"
  by (induction es) (simp_all add: plain_items_def line_key_def)

lemma plain_items_Nil [simp]: "plain_items [] = []"
  by (simp add: plain_items_def)

lemma plain_items_snoc:
  "plain_items (es @ [e]) = plain_items es @ (if ce_customizations e = [] then [ce_menu_item e] else [])"
  by (simp add: plain_items_def)

lemma subseq_distinct: "subseq xs ys \<Longrightarrow> distinct ys \<Longrightarrow> distinct xs"
  by (induction rule: list_emb.induct) (auto dest: list_emb_set)

lemma subseq_splice_at: "subseq (splice_at i xs) xs"
proof -
  have d: "drop (Suc i) xs = tl (drop i xs)" by (simp add: drop_Suc drop_tl)
  have "subseq (drop (Suc i) xs) (drop i xs)"
    unfolding d by (cases "drop i xs") (simp_all add: list_emb_Cons)
  then have "subseq (take i xs @ drop (Suc i) xs) (take i xs @ drop i xs)"
    by (simp only: subseq_append')
  then show ?thesis by (simp add: splice_at_def)
qed

lemma distinct_plain_items_subseq:
  "subseq xs ys \<Longrightarrow> distinct (plain_items ys) \<Longrightarrow> distinct (plain_items xs)"
  unfolding plain_items_def by (erule subseq_distinct [OF subseq_map [OF subseq_filter]])

subsection \<open>Preservation of the well-formedness\<close>

lemma set_filter_subset_ball: "\<forall>x\<in>set xs. P x \<Longrightarrow> \<forall>x\<in>set (filter Q xs). P x"
  by simp

lemma ball_list_update:
  "\<forall>x\<in>set xs. P x \<Longrightarrow> P y \<Longrightarrow> \<forall>x\<in>set (xs[i := y]). P x"
  using set_update_subset_insert by fastforce

lemma cart_wf_mono: "cart_wf m n c \<Longrightarrow> n \<le> n' \<Longrightarrow> cart_wf m n' c"
  by (auto simp: cart_wf_def)

lemma carts_wf_update:
  assumes "carts_wf d" and "cart_wf (menu_items d) (next_oid d) c'"
  shows "carts_wf (d\<lparr>carts := AList.update uid c' (carts d)\<rparr>)"
  using assms set_alist_update [of uid c' "carts d"]
  by (fastforce simp: carts_wf_def coll_wf_update)

lemma carts_wf_delete: "carts_wf d \<Longrightarrow> carts_wf (d\<lparr>carts := AList.delete uid (carts d)\<rparr>)"
  using set_alist_delete [of uid "carts d"] by (fastforce simp: carts_wf_def coll_wf_delete)

lemma carts_wf_fresh: "carts_wf d \<Longrightarrow> carts_wf (snd (fresh_oid d))"
  by (fastforce simp: carts_wf_def fresh_oid_def intro: cart_wf_mono)

lemma carts_wf_lookup:
  "carts_wf d \<Longrightarrow> map_of (carts d) uid = Some c \<Longrightarrow> cart_wf (menu_items d) (next_oid d) c"
  by (auto simp: carts_wf_def dest: map_of_SomeD)

lemma load_or_new_cart_wf:
  assumes "carts_wf d"
  shows "cart_wf (menu_items d) (next_oid d) (load_or_new_cart d now uid mi) \<and>
         cart_restaurant (load_or_new_cart d now uid mi) \<noteq> None"
proof (cases "map_of (carts d) uid")
  case None
  then show ?thesis by (simp add: load_or_new_cart_def cart_wf_def cart_scoped_def)
next
  case (Some c)
  with assms have "cart_wf (menu_items d) (next_oid d) c" by (rule carts_wf_lookup)
  with Some show ?thesis by (auto simp: load_or_new_cart_def cart_wf_def cart_scoped_def)
qed

lemma rescope_cart_wf:
  assumes "cart_wf m n c"
  shows "cart_wf m n (rescope_cart mi c)"
proof (cases "cart_restaurant c")
  case None
  with assms show ?thesis by (simp add: rescope_cart_def)
next
  case (Some r)
  with assms show ?thesis
    by (cases "r = mi_restaurant mi") (simp_all add: rescope_cart_def cart_wf_def cart_scoped_def)
qed

lemma rescope_cart_restaurant:
  "cart_restaurant c \<noteq> None \<Longrightarrow> cart_restaurant (rescope_cart mi c) = Some (mi_restaurant mi)"
  by (auto simp: rescope_cart_def split: option.splits)

lemma bump_entry_fields [simp]:
  "ce_id (bump_entry q s e) = ce_id e"
  "ce_menu_item (bump_entry q s e) = ce_menu_item e"
  "ce_customizations (bump_entry q s e) = ce_customizations e"
  "ce_quantity (bump_entry q s e) = ce_quantity e + q"
  by (simp_all add: bump_entry_def)

lemma line_key_bump [simp]: "line_key (bump_entry q s e) = line_key e"
  by (simp add: line_key_def)

lemma cart_wf_update_entry:
  assumes wf: "cart_wf m n c" and i: "i < length (cart_items c)"
    and id: "ce_id y = ce_id (cart_items c ! i)" and key: "line_key y = line_key (cart_items c ! i)"
    and q: "0 < ce_quantity y"
  shows "cart_wf m n (c\<lparr>cart_items := (cart_items c)[i := y], cart_last_updated := t\<rparr>)"
proof -
  let ?xs = "cart_items c"
  have mem: "cart_items c ! i \<in> set ?xs" using i by simp
  have mi: "ce_menu_item y = ce_menu_item (cart_items c ! i)"
    using key by (simp add: line_key_def)
  obtain r where r: "cart_restaurant c = Some r"
    and sc: "\<forall>e\<in>set ?xs. case map_of m (ce_menu_item e) of None \<Rightarrow> True | Some mi \<Rightarrow> mi_restaurant mi = r"
    using wf by (auto simp: cart_wf_def cart_scoped_def)
  have "\<forall>e\<in>set (?xs[i := y]). case map_of m (ce_menu_item e) of None \<Rightarrow> True | Some mi \<Rightarrow> mi_restaurant mi = r"
    using sc mem mi by (intro ball_list_update) auto
  moreover have "map ce_id (?xs[i := y]) = map ce_id ?xs"
    using i id by (rule map_update_same_key)
  moreover have "plain_items (?xs[i := y]) = plain_items ?xs"
    using map_update_same_key [OF i key] by (simp add: plain_items_line_key)
  moreover have "\<forall>e\<in>set (?xs[i := y]). ce_id e < n"
    using wf mem id by (intro ball_list_update) (auto simp: cart_wf_def)
  moreover have "\<forall>e\<in>set (?xs[i := y]). 0 < ce_quantity e"
    using wf q by (intro ball_list_update) (auto simp: cart_wf_def)
  ultimately show ?thesis
    using wf r by (simp add: cart_wf_def cart_scoped_def)
qed

lemma cart_wf_bump:
  assumes wf: "cart_wf m n c" and i: "i < length (cart_items c)"
  shows "cart_wf m n (c\<lparr>cart_items := (cart_items c)[i := bump_entry q s (cart_items c ! i)],
                        cart_last_updated := t\<rparr>)"
proof (rule cart_wf_update_entry [OF wf i])
  have "cart_items c ! i \<in> set (cart_items c)" using i by simp
  with wf show "0 < ce_quantity (bump_entry q s (cart_items c ! i))"
    by (simp add: cart_wf_def)
qed simp_all

lemma cart_wf_append:
  assumes wf: "cart_wf m n c" and r: "cart_restaurant c = Some (mi_restaurant mi)"
    and mi: "map_of m (ce_menu_item e) = Some mi"
    and key: "ce_customizations e = [] \<Longrightarrow> ce_menu_item e \<notin> set (plain_items (cart_items c))"
    and eid: "ce_id e = n" and q: "0 < ce_quantity e"
  shows "cart_wf m (Suc n) (c\<lparr>cart_items := cart_items c @ [e], cart_last_updated := t\<rparr>)"
proof -
  have "n \<notin> set (map ce_id (cart_items c))"
    using wf by (auto simp: cart_wf_def)
  with assms show ?thesis
    by (auto simp: cart_wf_def cart_scoped_def plain_items_snoc)
qed

lemma merge_or_append_wf:
  assumes wf: "carts_wf d" and c: "cart_wf (menu_items d) (next_oid d) c"
    and r: "cart_restaurant c = Some (mi_restaurant mi)"
    and mi: "map_of (menu_items d) (ar_menu_item rq) = Some mi"
    and q: "1 \<le> ar_quantity rq"
    and run: "merge_or_append d now uid rq c = (d', c')"
  shows "carts_wf d' \<and> map_of (carts d') uid = Some c'"
proof -
  define cs where "cs = (case ar_customizations rq of None \<Rightarrow> [] | Some cs \<Rightarrow> cs)"
  show ?thesis
  proof (cases "find_idx (same_line (ar_menu_item rq) cs) (cart_items c)")
    case (Some i)
    define c2 where "c2 = c\<lparr>cart_items := (cart_items c)[i := bump_entry (nat (ar_quantity rq))
                             (ar_instructions rq) (cart_items c ! i)], cart_last_updated := now\<rparr>"
    have m: "merge_or_append d now uid rq c = (d\<lparr>carts := AList.update uid c2 (carts d)\<rparr>, c2)"
      using Some by (simp add: merge_or_append_def cs_def [symmetric] c2_def Let_def)
    from run [unfolded m, symmetric] have eq: "d' = d\<lparr>carts := AList.update uid c2 (carts d)\<rparr>" "c' = c2"
      by simp_all
    from Some have "i < length (cart_items c)" by (auto dest: find_idx_SomeD)
    with c have "cart_wf (menu_items d) (next_oid d) c2" unfolding c2_def by (rule cart_wf_bump)
    with wf eq show ?thesis by (simp add: carts_wf_update coll_simps)
  next
    case None
    define e where "e = \<lparr>ce_id = next_oid d, ce_menu_item = ar_menu_item rq, ce_quantity = nat (ar_quantity rq),
                          ce_customizations = cs, ce_instructions = js_or_str (ar_instructions rq) []\<rparr>"
    define c2 where "c2 = c\<lparr>cart_items := cart_items c @ [e], cart_last_updated := now\<rparr>"
    define d1 where "d1 = d\<lparr>next_oid := Suc (next_oid d)\<rparr>"
    have m: "merge_or_append d now uid rq c = (d1\<lparr>carts := AList.update uid c2 (carts d1)\<rparr>, c2)"
      using None by (simp add: merge_or_append_def cs_def [symmetric] e_def [symmetric]
          c2_def d1_def fresh_oid_def Let_def del: find_idx_None)
    from run [unfolded m, symmetric] have eq: "d' = d1\<lparr>carts := AList.update uid c2 (carts d1)\<rparr>" "c' = c2"
      by simp_all
    have "ce_customizations e = [] \<Longrightarrow> ce_menu_item e \<notin> set (plain_items (cart_items c))"
      using None by (auto simp: e_def plain_items_def same_line_iff)
    then have "cart_wf (menu_items d) (Suc (next_oid d)) c2"
      unfolding c2_def using c r mi q by (intro cart_wf_append) (simp_all add: e_def)
    moreover have "carts_wf d1" using carts_wf_fresh [OF wf] by (simp add: fresh_oid_def d1_def)
    ultimately have "carts_wf (d1\<lparr>carts := AList.update uid c2 (carts d1)\<rparr>)"
      by (intro carts_wf_update) (simp_all add: d1_def)
    then show ?thesis using eq by (simp add: coll_simps)
  qed
qed

lemma add_to_cart_entries_wf:
  assumes wf: "carts_wf d" and mi: "map_of (menu_items d) (ar_menu_item rq) = Some mi"
    and q: "1 \<le> ar_quantity rq" and run: "add_to_cart_entries d now uid mi rq = (d', c')"
  shows "carts_wf d' \<and> map_of (carts d') uid = Some c'"
proof -
  let ?c0 = "load_or_new_cart d now uid mi"
  have c0: "cart_wf (menu_items d) (next_oid d) ?c0" "cart_restaurant ?c0 \<noteq> None"
    using load_or_new_cart_wf [OF wf] by auto
  have c1: "cart_wf (menu_items d) (next_oid d) (rescope_cart mi ?c0)"
    using c0(1) by (rule rescope_cart_wf)
  have r1: "cart_restaurant (rescope_cart mi ?c0) = Some (mi_restaurant mi)"
    using c0(2) by (rule rescope_cart_restaurant)
  from run have "merge_or_append d now uid rq (rescope_cart mi ?c0) = (d', c')"
    by (simp add: add_to_cart_entries_def)
  with wf c1 r1 mi q show ?thesis by (rule merge_or_append_wf)
qed

lemma add_to_cart_wf:
  assumes wf: "carts_wf d" and run: "add_to_cart d now uid rq = (d', res)"
  shows "carts_wf d'"
proof (cases "d' = d")
  case True
  with wf show ?thesis by simp
next
  case False
  with run obtain mi c' where q: "1 \<le> ar_quantity rq"
    and mi: "map_of (menu_items d) (ar_menu_item rq) = Some mi"
    and entries: "add_to_cart_entries d now uid mi rq = (d', c')"
    by (auto simp: add_to_cart_def split: if_splits option.splits prod.splits)
  from add_to_cart_entries_wf [OF wf mi q entries] show ?thesis ..
qed

lemma cart_wf_sublist:
  assumes wf: "cart_wf m n c" and r: "cart_restaurant c' = cart_restaurant c"
    and sub: "set (cart_items c') \<subseteq> set (cart_items c)"
    and d1: "distinct (map ce_id (cart_items c'))" and d2: "distinct (plain_items (cart_items c'))"
  shows "cart_wf m n c'"
  using assms by (auto simp: cart_wf_def cart_scoped_def)

lemma cart_wf_splice:
  assumes "cart_wf m n c"
  shows "cart_wf m n (c\<lparr>cart_items := splice_at i (cart_items c), cart_last_updated := t\<rparr>)"
proof (rule cart_wf_sublist [OF assms])
  show "set (cart_items (c\<lparr>cart_items := splice_at i (cart_items c), cart_last_updated := t\<rparr>))
      \<subseteq> set (cart_items c)"
    using set_splice_at_subset [of i "cart_items c"] by simp
qed (use assms subseq_splice_at [of i "cart_items c"] in
      \<open>simp_all add: cart_wf_def map_splice_at distinct_splice_at distinct_plain_items_subseq\<close>)

lemma cart_wf_set_quantity:
  assumes wf: "cart_wf m n c" and i: "i < length (cart_items c)" and q: "0 < q"
  shows "cart_wf m n (c\<lparr>cart_items := (cart_items c)[i := (cart_items c ! i)\<lparr>ce_quantity := q\<rparr>],
                        cart_last_updated := t\<rparr>)"
  using wf i by (rule cart_wf_update_entry) (simp_all add: line_key_def q)

lemma update_cart_item_wf:
  assumes wf: "carts_wf d" and run: "update_cart_item d now uid eid qty = (d', res)"
  shows "carts_wf d'"
proof (cases "d' = d")
  case True
  with wf show ?thesis by simp
next
  case False
  with run obtain c i where c: "map_of (carts d) uid = Some c" and i: "entry_index eid c = Some i"
    and q: "0 \<le> qty"
    and d': "d' = d\<lparr>carts := AList.update uid
               (c\<lparr>cart_items := (if qty = 0 then splice_at i (cart_items c)
                                   else (cart_items c)[i := (cart_items c ! i)\<lparr>ce_quantity := nat qty\<rparr>]),
                   cart_last_updated := now\<rparr>) (carts d)\<rparr>"
    by (auto simp: update_cart_item_def Let_def split: if_splits option.splits)
  have cwf: "cart_wf (menu_items d) (next_oid d) c" using wf c by (rule carts_wf_lookup)
  have len: "i < length (cart_items c)"
    using i by (auto simp: entry_index_def dest: find_idx_SomeD)
  show ?thesis
  proof (cases "qty = 0")
    case True
    with d' wf cwf show ?thesis by (simp add: carts_wf_update cart_wf_splice)
  next
    case False
    with q have "0 < nat qty" by simp
    with d' wf cwf len False show ?thesis by (simp add: carts_wf_update cart_wf_set_quantity)
  qed
qed

lemma remove_cart_item_wf:
  assumes wf: "carts_wf d" and run: "remove_cart_item d now uid eid = (d', res)"
  shows "carts_wf d'"
  using assms carts_wf_lookup [OF wf]
  by (auto simp: remove_cart_item_def Let_def carts_wf_update cart_wf_splice split: option.splits)

lemma get_cart_wf:
  assumes wf: "carts_wf d" and run: "get_cart d now uid = (d', res)"
  shows "carts_wf d'"
proof (cases "map_of (carts d) uid")
  case None
  with run wf show ?thesis by (simp add: get_cart_def)
next
  case (Some c)
  let ?ls = "List.map_filter (price_line (menu_items d)) (cart_items c)"
  let ?s = "\<Sum>l\<leftarrow>?ls. line_total l" and ?n = "\<Sum>l\<leftarrow>?ls. ce_quantity (line_entry l)"
  let ?c' = "c\<lparr>cart_items := map line_entry ?ls, cart_subtotal := ?s, cart_item_count := ?n,
               cart_last_updated := now\<rparr>"
  have cwf: "cart_wf (menu_items d) (next_oid d) c" using wf Some by (rule carts_wf_lookup)
  have items: "map line_entry ?ls = filter (entry_live (menu_items d)) (cart_items c)"
    by (rule map_filter_price_line)
  have "distinct (map ce_id (cart_items c))" and "distinct (plain_items (cart_items c))"
    using cwf by (simp_all add: cart_wf_def)
  then have "cart_wf (menu_items d) (next_oid d) ?c'"
    by (intro cart_wf_sublist [OF cwf])
       (simp_all add: items distinct_map_filter distinct_plain_items_subseq [OF subseq_filter_left])
  then have "carts_wf (d\<lparr>carts := AList.update uid ?c' (carts d)\<rparr>)"
    by (rule carts_wf_update [OF wf])
  moreover have "d' = (if length ?ls \<noteq> length (cart_items c)
                       then d\<lparr>carts := AList.update uid ?c' (carts d)\<rparr> else d)"
    using run Some by (simp add: get_cart_def cart_lines_eq Let_def)
  ultimately show ?thesis using wf by simp
qed

lemma clear_cart_wf: "carts_wf d \<Longrightarrow> carts_wf (fst (clear_cart d uid))"
  by (simp add: clear_cart_def carts_wf_delete)

subsection \<open>Properties of the cart handlers\<close>

text \<open>
  C1. Every cart handler keeps every stored cart well formed: scoped to one restaurant
  whose menu items are the only ones it holds, entry ids distinct and fresh, no two
  entries without customizations for the same menu item, every quantity positive.
\<close>

theorem cart_step_preserves_wf:
  assumes "carts_wf d"
  shows "carts_wf (cart_step d now uid op)"
proof (cases op)
  case Get_Cart
  with assms show ?thesis by (auto intro: get_cart_wf [of d now uid _ _] simp: prod_eq_iff)
next
  case (Add_Item rq)
  with assms show ?thesis by (auto intro: add_to_cart_wf [of d now uid rq _ _] simp: prod_eq_iff)
next
  case (Update_Item eid q)
  with assms show ?thesis by (auto intro: update_cart_item_wf [of d now uid eid q _ _] simp: prod_eq_iff)
next
  case (Remove_Item eid)
  with assms show ?thesis by (auto intro: remove_cart_item_wf [of d now uid eid _ _] simp: prod_eq_iff)
next
  case Clear_Cart
  with assms show ?thesis by (simp add: clear_cart_wf)
qed

definition sample_add_request :: add_request where
  "sample_add_request = \<lparr>ar_menu_item = 21, ar_quantity = 2, ar_customizations = None,
                         ar_instructions = None\<rparr>"

theorem cart_step_preserves_wf_witness:
  "carts_wf sample_db \<and> carts_wf (cart_step sample_db 5 1 (Add_Item sample_add_request))"
proof -
  have wf: "carts_wf sample_db"
    by (simp add: carts_wf_def cart_wf_def cart_scoped_def plain_items_def coll_wf_def sample_db_def)
  show ?thesis by (rule conjI [OF wf cart_step_preserves_wf [OF wf]])
qed

lemma add_to_cart_InrD:
  assumes "add_to_cart d now uid rq = (d', Inr c')"
  obtains mi r where "1 \<le> ar_quantity rq" "map_of (menu_items d) (ar_menu_item rq) = Some mi"
    "mi_available mi" "map_of (restaurants d) (mi_restaurant mi) = Some r"
    "rest_active r" "rest_status r = R_Approved"
    "add_to_cart_entries d now uid mi rq = (d', c')"
  using assms by (auto simp: add_to_cart_def split: if_splits option.splits prod.splits)

text \<open>
  Adding an item of restaurant B to a cart scoped to restaurant A \<open>\<noteq>\<close> B empties
  the cart and rescopes it to B: afterwards it holds exactly the new item.
\<close>

theorem add_to_cart_rescopes:
  assumes c: "map_of (carts d) uid = Some c" and a: "cart_restaurant c = Some a"
    and mi: "map_of (menu_items d) (ar_menu_item rq) = Some mi" and b: "mi_restaurant mi \<noteq> a"
    and run: "add_to_cart d now uid rq = (d', Inr c')"
  shows "cart_restaurant c' = Some (mi_restaurant mi) \<and> map ce_menu_item (cart_items c') = [ar_menu_item rq]
         \<and> map_of (carts d') uid = Some c'"
proof -
  obtain mi' where mi': "map_of (menu_items d) (ar_menu_item rq) = Some mi'"
    and entries: "add_to_cart_entries d now uid mi' rq = (d', c')"
    using run by (rule add_to_cart_InrD)
  from mi mi' have "mi' = mi" by simp
  with entries have entries': "add_to_cart_entries d now uid mi rq = (d', c')" by simp
  have "rescope_cart mi (load_or_new_cart d now uid mi) =
      c\<lparr>cart_items := [], cart_restaurant := Some (mi_restaurant mi)\<rparr>"
    using c a b by (simp add: load_or_new_cart_def rescope_cart_def)
  with entries' show ?thesis
    by (auto simp: add_to_cart_entries_def merge_or_append_def fresh_oid_def Let_def coll_simps)
qed

theorem add_to_cart_rescopes_witness:
  "cart_restaurant (projr (snd (add_to_cart sample_db 5 1 sample_add_request))) = Some 11 \<and>
   map ce_menu_item (cart_items (projr (snd (add_to_cart sample_db 5 1 sample_add_request)))) = [21]"
proof -
  let ?r = "add_to_cart sample_db 5 1 sample_add_request"
  have c: "map_of (carts sample_db) 1 = Some (the (map_of (carts sample_db) 1))"
    and a: "cart_restaurant (the (map_of (carts sample_db) 1)) = Some 10"
    and mi: "map_of (menu_items sample_db) (ar_menu_item sample_add_request) =
             Some (the (map_of (menu_items sample_db) 21))"
    and b: "mi_restaurant (the (map_of (menu_items sample_db) 21)) \<noteq> 10"
    by (simp_all add: sample_db_def sample_add_request_def)
  have run: "?r = (fst ?r, Inr (projr (snd ?r)))"
    by (simp add: add_to_cart_def add_to_cart_entries_def load_or_new_cart_def rescope_cart_def
        merge_or_append_def fresh_oid_def sample_db_def sample_add_request_def sample_restaurant_def Let_def)
  from add_to_cart_rescopes [OF c a mi b run] show ?thesis
    by (simp add: sample_db_def sample_add_request_def)
qed

text \<open>
  Adding a menu item that an entry of the cart (of the item's restaurant) matches, which
  by \<open>same_line_iff\<close> is an entry of that item without customizations requested
  without customizations, adds the quantity to that entry and changes no other entry.
\<close>

theorem add_to_cart_merges:
  assumes c: "map_of (carts d) uid = Some c" and r: "cart_restaurant c = Some (mi_restaurant mi)"
    and mi: "map_of (menu_items d) (ar_menu_item rq) = Some mi"
    and i: "find_idx (same_line (ar_menu_item rq) (case ar_customizations rq of None \<Rightarrow> [] | Some cs \<Rightarrow> cs))
              (cart_items c) = Some i"
    and run: "add_to_cart d now uid rq = (d', Inr c')"
  shows "length (cart_items c') = length (cart_items c) \<and>
         ce_quantity (cart_items c' ! i) = ce_quantity (cart_items c ! i) + nat (ar_quantity rq) \<and>
         (\<forall>j. j \<noteq> i \<longrightarrow> cart_items c' ! j = cart_items c ! j) \<and> map_of (carts d') uid = Some c'"
proof -
  obtain mi' where mi': "map_of (menu_items d) (ar_menu_item rq) = Some mi'"
    and entries: "add_to_cart_entries d now uid mi' rq = (d', c')"
    using run by (rule add_to_cart_InrD)
  from mi mi' have "mi' = mi" by simp
  with entries have entries': "add_to_cart_entries d now uid mi rq = (d', c')" by simp
  have "rescope_cart mi (load_or_new_cart d now uid mi) = c"
    using c r by (simp add: load_or_new_cart_def rescope_cart_def)
  moreover have "i < length (cart_items c)" using i by (auto dest: find_idx_SomeD)
  ultimately show ?thesis using entries' i
    by (auto simp: add_to_cart_entries_def merge_or_append_def Let_def coll_simps simp del: find_idx_None)
qed

definition sample_add_again :: add_request where
  "sample_add_again = \<lparr>ar_menu_item = 20, ar_quantity = 2, ar_customizations = None,
                       ar_instructions = Some ''no onions''\<rparr>"

theorem add_to_cart_merges_witness:
  "length (cart_items (projr (snd (add_to_cart sample_db 5 1 sample_add_again)))) = 1 \<and>
   ce_quantity (cart_items (projr (snd (add_to_cart sample_db 5 1 sample_add_again))) ! 0) = 3"
proof -
  let ?r = "add_to_cart sample_db 5 1 sample_add_again"
  have c: "map_of (carts sample_db) 1 = Some (the (map_of (carts sample_db) 1))"
    and r: "cart_restaurant (the (map_of (carts sample_db) 1)) =
            Some (mi_restaurant (the (map_of (menu_items sample_db) 20)))"
    and mi: "map_of (menu_items sample_db) (ar_menu_item sample_add_again) =
             Some (the (map_of (menu_items sample_db) 20))"
    and i: "find_idx (same_line (ar_menu_item sample_add_again)
              (case ar_customizations sample_add_again of None \<Rightarrow> [] | Some cs \<Rightarrow> cs))
              (cart_items (the (map_of (carts sample_db) 1))) = Some 0"
    by (simp_all add: sample_db_def sample_add_again_def same_line_def)
  have run: "?r = (fst ?r, Inr (projr (snd ?r)))"
    by (simp add: add_to_cart_def add_to_cart_entries_def load_or_new_cart_def rescope_cart_def
        merge_or_append_def same_line_def sample_db_def sample_add_again_def sample_restaurant_def Let_def)
  from add_to_cart_merges [OF c r mi i run] show ?thesis
    by (simp add: sample_db_def sample_add_again_def)
qed

lemma merge_or_append_appends:
  assumes "ar_customizations rq = Some cs" and "cs \<noteq> []"
  shows "merge_or_append d now uid rq c =
           (let e = \<lparr>ce_id = next_oid d, ce_menu_item = ar_menu_item rq, ce_quantity = nat (ar_quantity rq),
                     ce_customizations = cs, ce_instructions = js_or_str (ar_instructions rq) []\<rparr>;
                c' = c\<lparr>cart_items := cart_items c @ [e], cart_last_updated := now\<rparr>
            in (d\<lparr>next_oid := Suc (next_oid d), carts := AList.update uid c' (carts d)\<rparr>, c'))"
proof -
  have "find_idx (same_line (ar_menu_item rq) cs) (cart_items c) = None"
    using assms(2) by (simp add: same_line_iff)
  with assms(1) show ?thesis by (simp add: merge_or_append_def fresh_oid_def Let_def del: find_idx_None)
qed

lemma rescope_cart_same:
  "cart_restaurant c = cart_restaurant (rescope_cart mi c0) \<Longrightarrow> rescope_cart mi c = c"
  by (auto simp: rescope_cart_def split: option.splits if_splits)

text \<open>
  C23. Adding an item with customizations never finds the entry added before with the
  same customizations, since the stored ones serialise with their \<open>_id\<close>: the same
  request sent twice leaves two entries for the same item and customizations, each with
  the request's quantity, instead of one entry with the sum.
\<close>

theorem add_to_cart_duplicates_customized:
  assumes cz: "ar_customizations rq = Some cs" "cs \<noteq> []"
    and run1: "add_to_cart d now uid rq = (d1, Inr c1)"
    and run2: "add_to_cart d1 now' uid rq = (d2, Inr c2)"
  shows "\<exists>xs e1 e2. cart_items c1 = xs @ [e1] \<and> cart_items c2 = xs @ [e1, e2] \<and> ce_id e1 \<noteq> ce_id e2 \<and>
           line_key e1 = (ar_menu_item rq, cs) \<and> line_key e2 = (ar_menu_item rq, cs) \<and>
           ce_quantity e1 = nat (ar_quantity rq) \<and> ce_quantity e2 = nat (ar_quantity rq)"
proof -
  obtain mi where mi: "map_of (menu_items d) (ar_menu_item rq) = Some mi"
    and en1: "add_to_cart_entries d now uid mi rq = (d1, c1)"
    using run1 by (rule add_to_cart_InrD)
  let ?c0 = "rescope_cart mi (load_or_new_cart d now uid mi)"
  from en1 have m1: "merge_or_append d now uid rq ?c0 = (d1, c1)" by (simp add: add_to_cart_entries_def)
  note a1 = m1 [unfolded merge_or_append_appends [OF cz], symmetric]
  have c1: "cart_items c1 = cart_items ?c0 @ [\<lparr>ce_id = next_oid d, ce_menu_item = ar_menu_item rq,
              ce_quantity = nat (ar_quantity rq), ce_customizations = cs,
              ce_instructions = js_or_str (ar_instructions rq) []\<rparr>]"
    and r1: "cart_restaurant c1 = cart_restaurant ?c0"
    and d1: "next_oid d1 = Suc (next_oid d)" "menu_items d1 = menu_items d" "map_of (carts d1) uid = Some c1"
    using a1 by (simp_all add: Let_def coll_simps)
  obtain mi' where mi': "map_of (menu_items d1) (ar_menu_item rq) = Some mi'"
    and en2: "add_to_cart_entries d1 now' uid mi' rq = (d2, c2)"
    using run2 by (rule add_to_cart_InrD)
  from mi mi' d1(2) have "mi' = mi" by simp
  moreover have "rescope_cart mi (load_or_new_cart d1 now' uid mi) = c1"
    using d1(3) rescope_cart_same [OF r1] by (simp add: load_or_new_cart_def)
  ultimately have m2: "merge_or_append d1 now' uid rq c1 = (d2, c2)"
    using en2 by (simp add: add_to_cart_entries_def)
  note a2 = m2 [unfolded merge_or_append_appends [OF cz], symmetric]
  have c2: "cart_items c2 = cart_items c1 @ [\<lparr>ce_id = next_oid d1, ce_menu_item = ar_menu_item rq,
              ce_quantity = nat (ar_quantity rq), ce_customizations = cs,
              ce_instructions = js_or_str (ar_instructions rq) []\<rparr>]"
    using a2 by (simp add: Let_def)
  show ?thesis using c1 c2 d1(1) by (simp add: line_key_def)
qed

theorem add_to_cart_duplicates_customized_witness:
  "let rq = \<lparr>ar_menu_item = 20, ar_quantity = 2,
             ar_customizations = Some [\<lparr>cz_name = ''Size'', selected_options = [\<lparr>so_name = ''Large'', so_price = Some 200\<rparr>]\<rparr>],
             ar_instructions = None\<rparr>;
       (d1, r1) = add_to_cart sample_db 5 1 rq;
       (d2, r2) = add_to_cart d1 6 1 rq
   in length (cart_items (projr r2)) = 3 \<and> ce_menu_item (cart_items (projr r2) ! 1) = 20 \<and>
      line_key (cart_items (projr r2) ! 1) = line_key (cart_items (projr r2) ! 2)"
proof -
  define rq where "rq = \<lparr>ar_menu_item = 20, ar_quantity = 2,
             ar_customizations = Some [\<lparr>cz_name = ''Size'', selected_options = [\<lparr>so_name = ''Large'', so_price = Some 200\<rparr>]\<rparr>],
             ar_instructions = None\<rparr>"
  define cs where "cs = [\<lparr>cz_name = ''Size'', selected_options = [\<lparr>so_name = ''Large'', so_price = Some 200\<rparr>]\<rparr>]"
  let ?r1 = "add_to_cart sample_db 5 1 rq"
  let ?r2 = "add_to_cart (fst ?r1) 6 1 rq"
  have cz: "ar_customizations rq = Some cs" "cs \<noteq> []" by (simp_all add: rq_def cs_def)
  have run1: "?r1 = (fst ?r1, Inr (projr (snd ?r1)))"
    by (simp add: rq_def add_to_cart_def add_to_cart_entries_def load_or_new_cart_def rescope_cart_def
        merge_or_append_def same_line_iff fresh_oid_def sample_db_def sample_restaurant_def Let_def)
  have run2: "?r2 = (fst ?r2, Inr (projr (snd ?r2)))"
    by (simp add: rq_def add_to_cart_def add_to_cart_entries_def load_or_new_cart_def rescope_cart_def
        merge_or_append_def same_line_iff fresh_oid_def sample_db_def sample_restaurant_def Let_def)
  have len: "length (cart_items (projr (snd ?r1))) = 2"
    by (simp add: rq_def add_to_cart_def add_to_cart_entries_def load_or_new_cart_def rescope_cart_def
        merge_or_append_def same_line_iff fresh_oid_def sample_db_def sample_restaurant_def Let_def)
  from add_to_cart_duplicates_customized [OF cz run1 run2] obtain xs e1 e2
    where "cart_items (projr (snd ?r1)) = xs @ [e1]" "cart_items (projr (snd ?r2)) = xs @ [e1, e2]"
      "line_key e1 = (ar_menu_item rq, cs)" "line_key e2 = (ar_menu_item rq, cs)"
    by blast
  moreover have "ar_menu_item rq = 20" by (simp add: rq_def)
  ultimately show ?thesis using len unfolding Let_def rq_def [symmetric]
    by (simp add: split_def line_key_def nth_append)
qed

text \<open>
  C4. GET /api/cart keeps exactly the entries whose menu item exists and is available,
  prices each as (base price + the selected options' prices) \<open>\<times>\<close> quantity, and
  reports the sums of these line totals and quantities.
\<close>

theorem get_cart_totals:
  assumes c: "map_of (carts d) uid = Some c" and run: "get_cart d now uid = (d', Inr v)"
  shows "map line_entry (view_items v) = filter (entry_live (menu_items d)) (cart_items c) \<and>
         view_subtotal v = (\<Sum>l\<leftarrow>view_items v. line_total l) \<and>
         view_count v = (\<Sum>l\<leftarrow>view_items v. ce_quantity (line_entry l)) \<and>
         (\<forall>l\<in>set (view_items v). \<exists>mi. map_of (menu_items d) (ce_menu_item (line_entry l)) = Some mi \<and>
            mi_available mi \<and>
            line_total l = (mi_price mi + customization_cost (ce_customizations (line_entry l))) *
                           int (ce_quantity (line_entry l)))"
proof -
  let ?ls = "List.map_filter (price_line (menu_items d)) (cart_items c)"
  have v: "view_items v = ?ls" "view_subtotal v = (\<Sum>l\<leftarrow>?ls. line_total l)"
    "view_count v = (\<Sum>l\<leftarrow>?ls. ce_quantity (line_entry l))"
    using run c by (auto simp: get_cart_def cart_lines_eq Let_def split: if_splits)
  have "\<forall>l\<in>set ?ls. \<exists>mi. map_of (menu_items d) (ce_menu_item (line_entry l)) = Some mi \<and>
            mi_available mi \<and>
            line_total l = (mi_price mi + customization_cost (ce_customizations (line_entry l))) *
                           int (ce_quantity (line_entry l))"
    using set_map_filter_price_line price_line_total by blast
  with v show ?thesis by (simp add: map_filter_price_line)
qed

theorem get_cart_totals_witness:
  "view_subtotal (projr (snd (get_cart sample_db 5 1))) = 900 \<and>
   view_count (projr (snd (get_cart sample_db 5 1))) = 1"
proof -
  let ?r = "get_cart sample_db 5 1"
  have c: "map_of (carts sample_db) 1 = Some (the (map_of (carts sample_db) 1))"
    by (simp add: sample_db_def)
  have run: "?r = (fst ?r, Inr (projr (snd ?r)))"
    by (simp add: get_cart_def sample_db_def Let_def split: prod.splits)
  from get_cart_totals [OF c run] show ?thesis
    by (simp add: sample_db_def get_cart_def price_line_def item_price_def entry_live_def Let_def)
qed

text \<open>
  In a well-formed cart, setting an existing entry's quantity to 0 removes exactly
  that entry: the cart keeps every other entry id and loses one entry.
\<close>

theorem update_cart_item_zero_removes:
  assumes wf: "carts_wf d" and c: "map_of (carts d) uid = Some c"
    and e: "eid \<in> set (map ce_id (cart_items c))"
    and run: "update_cart_item d now uid eid 0 = (d', r)"
  shows "\<exists>c'. r = Inr c' \<and> map_of (carts d') uid = Some c' \<and>
           set (map ce_id (cart_items c')) = set (map ce_id (cart_items c)) - {eid} \<and>
           length (cart_items c') = length (cart_items c) - 1"
proof -
  have dist: "distinct (map ce_id (cart_items c))"
    using carts_wf_lookup [OF wf c] by (simp add: cart_wf_def)
  obtain i where i: "entry_index eid c = Some i"
    using e by (cases "entry_index eid c") (auto simp: entry_index_def)
  then have len: "i < length (cart_items c)" and at: "ce_id (cart_items c ! i) = eid"
    by (auto simp: entry_index_def dest: find_idx_SomeD)
  let ?c' = "c\<lparr>cart_items := splice_at i (cart_items c), cart_last_updated := now\<rparr>"
  have "update_cart_item d now uid eid 0 = (d\<lparr>carts := AList.update uid ?c' (carts d)\<rparr>, Inr ?c')"
    using c i by (simp add: update_cart_item_def Let_def)
  with run have res: "r = Inr ?c'" "d' = d\<lparr>carts := AList.update uid ?c' (carts d)\<rparr>" by simp_all
  have "set (map ce_id (cart_items ?c')) = set (map ce_id (cart_items c)) - {eid}"
    using set_splice_at_distinct [OF dist, of i] len at by (simp add: map_splice_at)
  with res len show ?thesis by (simp add: coll_simps length_splice_at)
qed

theorem update_cart_item_zero_removes_witness:
  "cart_items (projr (snd (update_cart_item sample_db 5 1 30 0))) = []"
proof -
  let ?r = "update_cart_item sample_db 5 1 30 0"
  have wf: "carts_wf sample_db"
    by (simp add: carts_wf_def cart_wf_def cart_scoped_def plain_items_def coll_wf_def sample_db_def)
  have c: "map_of (carts sample_db) 1 = Some (the (map_of (carts sample_db) 1))"
    and e: "30 \<in> set (map ce_id (cart_items (the (map_of (carts sample_db) 1))))"
    by (simp_all add: sample_db_def)
  have run: "?r = (fst ?r, snd ?r)" by simp
  from update_cart_item_zero_removes [OF wf c e run] show ?thesis
    by (auto simp: sample_db_def)
qed

text \<open>
  C6. POST /api/cart/add succeeds only for a quantity of at least 1 and an existing,
  available menu item whose restaurant exists and is active and approved; every
  rejection is a 400 (or the 500 of a dangling restaurant reference) and writes
  nothing.
\<close>

theorem add_to_cart_guard:
  assumes run: "add_to_cart d now uid rq = (d', res)"
  shows "(case res of
            Inl e \<Rightarrow> d' = d \<and> http_status e \<in> {400, 500}
          | Inr c \<Rightarrow> 1 \<le> ar_quantity rq \<and>
              (\<exists>mi r. map_of (menu_items d) (ar_menu_item rq) = Some mi \<and> mi_available mi \<and>
                      map_of (restaurants d) (mi_restaurant mi) = Some r \<and> rest_active r \<and>
                      rest_status r = R_Approved))"
  using run by (auto simp: add_to_cart_def split: if_splits option.splits prod.splits sum.splits)

definition sample_add_closed :: add_request where
  "sample_add_closed = \<lparr>ar_menu_item = 22, ar_quantity = 1, ar_customizations = None,
                        ar_instructions = None\<rparr>"

theorem add_to_cart_guard_witness:
  "add_to_cart sample_db 5 1 sample_add_closed = (sample_db, Inl Menu_Item_Unavailable) \<and>
   http_status Menu_Item_Unavailable = 400"
proof -
  have run: "add_to_cart sample_db 5 1 sample_add_closed = (sample_db, Inl Menu_Item_Unavailable)"
    by (simp add: add_to_cart_def sample_add_closed_def sample_db_def)
  from add_to_cart_guard [OF run] run show ?thesis by simp
qed

subsection \<open>What the cart handlers leave alone\<close>

lemma carts_frame_refl [simp]: "carts_frame d d"
  by (simp add: carts_frame_def)

lemma merge_or_append_frame: "carts_frame d (fst (merge_or_append d now uid rq c))"
  by (simp add: carts_frame_def merge_or_append_def fresh_oid_def Let_def split: option.splits)

lemma add_to_cart_frame: "carts_frame d (fst (add_to_cart d now uid rq))"
  by (simp add: add_to_cart_def add_to_cart_entries_def merge_or_append_frame case_prod_beta
           split: option.splits)

lemma cart_step_frame: "carts_frame d (cart_step d now uid op)"
proof (cases op)
  case (Add_Item rq)
  then show ?thesis by (simp add: add_to_cart_frame)
qed (simp_all add: carts_frame_def get_cart_def update_cart_item_def remove_cart_item_def
       clear_cart_def Let_def case_prod_beta split: option.splits)

end
