(* ===== verification/Auth.thy ===== *)
theory Auth
  imports Store
begin

text \<open>
  The authentication gate of \<open>src/backend/middleware/auth.js\<close>: \<open>auth\<close> parses the
  \<open>Authorization\<close> header, verifies the bearer token and loads the user;
  \<open>adminAuth\<close> and \<open>restaurantAuth\<close> run \<open>auth\<close> and then check the role. Token
  verification belongs to the \<open>jsonwebtoken\<close> library, so the gate takes the
  verifier as a parameter \<open>verify\<close>: a function from the token text to the decoded
  user id or the kind of failure \<open>jwt.verify\<close> throws.
\<close>

datatype token_result = Token_Ok oid | Token_Expired_Error | Token_Bad

text \<open>The three middleware functions the module exports: \<open>auth\<close>, \<open>restaurantAuth\<close>
  and \<open>adminAuth\<close>.\<close>

datatype gate = Auth_Gate | Restaurant_Gate | Admin_Gate

subsection \<open>String helpers\<close>

definition starts_with :: "string \<Rightarrow> string \<Rightarrow> bool" where
  "starts_with p s \<longleftrightarrow> take (length p) s = p"

text \<open>\<open>s.replace(p, "")\<close> with a string pattern removes its first occurrence.\<close>

fun replace_first :: "string \<Rightarrow> string \<Rightarrow> string" where
  "replace_first p [] = []"
| "replace_first p (c # cs) =
     (if starts_with p (c # cs) then drop (length p) (c # cs) else c # replace_first p cs)"

definition bearer :: string where
  "bearer = ''Bearer ''"

lemma replace_first_prefix:
  "starts_with p s \<Longrightarrow> replace_first p s = drop (length p) s"
  by (cases s) (simp_all add: starts_with_def)

lemma starts_with_append [simp]: "starts_with p (p @ s)"
  by (simp add: starts_with_def)

subsection \<open>The gates\<close>

text \<open>
  \<open>auth\<close> (lines 4--50). \<open>decoded.id\<close> of a verified token is the user id.
  The user is found by id; the code never looks at \<open>isActive\<close>.
\<close>

definition auth :: "(string \<Rightarrow> token_result) \<Rightarrow> db \<Rightarrow> string option \<Rightarrow> (oid \<times> user) response" where
  "auth verify d hdr =
     (case hdr of
        None \<Rightarrow> Inl Header_Missing
      | Some h \<Rightarrow>
          if \<not> starts_with bearer h then Inl Header_Missing
          else (case verify (js_trim (replace_first bearer h)) of
                  Token_Expired_Error \<Rightarrow> Inl Token_Expired
                | Token_Bad \<Rightarrow> Inl Token_Invalid
                | Token_Ok uid \<Rightarrow>
                    (case map_of (users d) uid of
                       None \<Rightarrow> Inl Token_User_Not_Found
                     | Some u \<Rightarrow> Inr (uid, u))))"

text \<open>
  \<open>adminAuth\<close> and \<open>restaurantAuth\<close> (lines 51--89) call \<open>auth\<close> with an empty
  continuation. When \<open>auth\<close> has answered 401, \<open>req.user\<close> is unset, the role test
  throws, and the catch block's second answer fails because the headers are sent:
  the client sees the 401 and the route handler never runs.
\<close>

definition role_gate :: "role list \<Rightarrow> (string \<Rightarrow> token_result) \<Rightarrow> db \<Rightarrow> string option \<Rightarrow>
    (oid \<times> user) response" where
  "role_gate allowed verify d hdr =
     (case auth verify d hdr of
        Inl e \<Rightarrow> Inl e
      | Inr (uid, u) \<Rightarrow> if user_role u \<notin> set allowed then Inl Forbidden else Inr (uid, u))"

definition admin_auth :: "(string \<Rightarrow> token_result) \<Rightarrow> db \<Rightarrow> string option \<Rightarrow> (oid \<times> user) response" where
  "admin_auth = role_gate [Admin]"

definition restaurant_auth :: "(string \<Rightarrow> token_result) \<Rightarrow> db \<Rightarrow> string option \<Rightarrow>
    (oid \<times> user) response" where
  "restaurant_auth = role_gate [Restaurant_Owner, Admin]"

subsection \<open>Properties\<close>

lemma auth_Inl_401:
  "auth verify d hdr = Inl e \<Longrightarrow> http_status e = 401"
  by (auto simp: auth_def split: option.splits if_splits token_result.splits)

lemma auth_Inr_user:
  "auth verify d hdr = Inr (uid, u) \<Longrightarrow> map_of (users d) uid = Some u"
  by (auto simp: auth_def split: option.splits if_splits token_result.splits)

lemma auth_bearer_token:
  "auth verify d (Some (bearer @ tok)) =
     (case verify (js_trim tok) of
        Token_Expired_Error \<Rightarrow> Inl Token_Expired
      | Token_Bad \<Rightarrow> Inl Token_Invalid
      | Token_Ok uid \<Rightarrow>
          (case map_of (users d) uid of None \<Rightarrow> Inl Token_User_Not_Found | Some u \<Rightarrow> Inr (uid, u)))"
  by (simp add: auth_def replace_first_prefix)

lemma role_gate_cases:
  "role_gate allowed verify d hdr = Inl e \<Longrightarrow>
     auth verify d hdr = Inl e \<or>
     (e = Forbidden \<and> (\<exists>uid u. auth verify d hdr = Inr (uid, u) \<and> user_role u \<notin> set allowed))"
  by (auto simp: role_gate_def split: sum.splits if_splits)

lemma role_gate_Inr:
  "role_gate allowed verify d hdr = Inr (uid, u) \<longleftrightarrow>
     auth verify d hdr = Inr (uid, u) \<and> user_role u \<in> set allowed"
  by (auto simp: role_gate_def split: sum.splits)

text \<open>
  The gate admits any stored user whose token verifies, whether or not the account
  is active: \<open>auth\<close> never reads \<open>isActive\<close>, so a deactivated user keeps access.
\<close>

theorem auth_admits_inactive:
  assumes "map_of (users d) uid = Some u" and "verify (js_trim tok) = Token_Ok uid"
  shows "auth verify d (Some (bearer @ tok)) = Inr (uid, u)"
  using assms by (simp add: auth_bearer_token)

theorem auth_admits_inactive_witness:
  "user_active ((sample_user ''zed'' Customer)\<lparr>user_active := False\<rparr>) = False \<and>
   auth (\<lambda>t. if t = ''tok'' then Token_Ok 5 else Token_Bad)
        (sample_db\<lparr>users := [(5, (sample_user ''zed'' Customer)\<lparr>user_active := False\<rparr>)]\<rparr>)
        (Some (bearer @ '' tok''))
     = Inr (5, (sample_user ''zed'' Customer)\<lparr>user_active := False\<rparr>)"
proof -
  have u: "map_of (users (sample_db\<lparr>users := [(5, (sample_user ''zed'' Customer)\<lparr>user_active := False\<rparr>)]\<rparr>)) 5 =
           Some ((sample_user ''zed'' Customer)\<lparr>user_active := False\<rparr>)" by simp
  have v: "(\<lambda>t. if t = ''tok'' then Token_Ok 5 else Token_Bad) (js_trim '' tok'') = Token_Ok 5"
    by (simp add: js_trim_def js_space_def)
  from auth_admits_inactive [where verify = "\<lambda>t. if t = ''tok'' then Token_Ok 5 else Token_Bad"
                               and tok = "'' tok''", OF u v]
  show ?thesis by simp
qed

text \<open>
  The gates' failures follow the 401/403 taxonomy: a request refused by
  \<open>adminAuth\<close> or \<open>restaurantAuth\<close> either failed authentication (401: no or malformed
  header, expired or invalid token, unknown user) or carries a valid identity whose role
  is not allowed (403).
\<close>

theorem role_gate_taxonomy:
  assumes "role_gate allowed verify d hdr = Inl e"
  shows "(http_status e = 401 \<and> auth verify d hdr = Inl e) \<or>
         (e = Forbidden \<and> http_status e = 403 \<and>
          (\<exists>uid u. auth verify d hdr = Inr (uid, u) \<and> map_of (users d) uid = Some u \<and>
                   user_role u \<notin> set allowed))"
  using role_gate_cases [OF assms] auth_Inl_401 auth_Inr_user by fastforce

theorem role_gate_taxonomy_witness:
  "admin_auth (\<lambda>t. Token_Ok 1) sample_db (Some (bearer @ ''t'')) = Inl Forbidden \<and>
   (\<exists>uid u. auth (\<lambda>t. Token_Ok 1) sample_db (Some (bearer @ ''t'')) = Inr (uid, u) \<and>
            map_of (users sample_db) uid = Some u \<and> user_role u \<notin> set [Admin])"
proof -
  have run: "role_gate [Admin] (\<lambda>t. Token_Ok 1) sample_db (Some (bearer @ ''t'')) = Inl Forbidden"
    by (simp add: role_gate_def auth_bearer_token sample_db_def sample_user_def)
  from role_gate_taxonomy [OF run] run show ?thesis by (simp add: admin_auth_def)
qed

end
