(* ===== verification/Orders.thy ===== *)
theory Orders
  imports Pricing
begin

text \<open>
  The order workflow of \<open>src/backend/routes/orders.js\<close> and the save path of
  \<open>src/backend/models/Order.js\<close>. \<open>build_order\<close> is the validation and pricing of
  POST /api/orders (lines 52--136) and writes nothing; \<open>save_order\<close> is Mongoose's
  \<open>save()\<close> of an order document: schema validation first, then the schema's
  \<open>pre('save')\<close> hook (order number, initial timeline entry), then the unique index
  on \<open>orderNumber\<close>, then the write. The status, cancel and rate handlers update one
  stored order and save it through the same path.
\<close>

subsection \<open>Order numbers\<close>

text \<open>\<open>String(n)\<close> for a natural number: its decimal digits.\<close>

fun digits10 :: "nat \<Rightarrow> string" where
  "digits10 n = (if n < 10 then [char_of (48 + n)] else digits10 (n div 10) @ [char_of (48 + n mod 10)])"

declare digits10.simps [simp del]

definition pad_start :: "nat \<Rightarrow> char \<Rightarrow> string \<Rightarrow> string" where
  "pad_start w c s = replicate (w - length s) c @ s"

text \<open>\<open>ORD${Date.now()}${String(count + 1).padStart(4, "0")}\<close> (line 145).\<close>

definition order_number_of :: "ms \<Rightarrow> nat \<Rightarrow> string" where
  "order_number_of now count =
     ''ORD'' @ digits10 now @ pad_start 4 (CHR ''0'') (digits10 (count + 1))"

subsection \<open>Saving an order document\<close>

definition rating_in_range :: "rating \<Rightarrow> bool" where
  "rating_in_range rt \<longleftrightarrow>
     1 \<le> rt_food rt \<and> rt_food rt \<le> 5 \<and> 1 \<le> rt_delivery rt \<and> rt_delivery rt \<le> 5 \<and>
     1 \<le> rt_overall rt \<and> rt_overall rt \<le> 5"

text \<open>
  The schema validators a handler's writes can violate: \<open>orderNumber\<close> and each item's
  \<open>name\<close> are required strings, each item's \<open>quantity\<close> has \<open>min: 1\<close>, and the
  rating scores have \<open>min: 1, max: 5\<close>.
\<close>

definition order_valid :: "order \<Rightarrow> bool" where
  "order_valid od \<longleftrightarrow>
     order_number od \<noteq> [] \<and>
     (\<forall>it\<in>set (o_items od). oi_name it \<noteq> [] \<and> 1 \<le> oi_quantity it) \<and>
     (case o_rating od of None \<Rightarrow> True | Some rt \<Rightarrow> rating_in_range rt)"

text \<open>The \<open>pre('save')\<close> hook (lines 142--160); \<open>count\<close> is \<open>countDocuments()\<close>.\<close>

definition order_pre_save :: "nat \<Rightarrow> ms \<Rightarrow> bool \<Rightarrow> order \<Rightarrow> order" where
  "order_pre_save count now is_new od =
     (let o1 = (if order_number od = [] then od\<lparr>order_number := order_number_of now count\<rparr> else od)
      in if is_new
         then o1\<lparr>o_timeline := o_timeline o1 @
                   [\<lparr>tl_status = o_status o1, tl_time = now, tl_note = ''Order placed''\<rparr>]\<rparr>
         else o1)"

text \<open>
  \<open>doc.save()\<close>: Mongoose runs validation as the first \<open>pre('save')\<close> hook, before
  the schema's own; a new document must also respect the unique index. \<open>None\<close> is
  the rejected save, which the handlers' \<open>catch\<close> blocks answer with 500.
\<close>

definition save_order :: "db \<Rightarrow> ms \<Rightarrow> oid \<Rightarrow> bool \<Rightarrow> order \<Rightarrow> (order \<times> db) option" where
  "save_order d now oid is_new od =
     (if \<not> order_valid od then None
      else let o' = order_pre_save (length (orders d)) now is_new od
           in if is_new \<and> (\<exists>(k, x)\<in>set (orders d). order_number x = order_number o') then None
              else Some (o', d\<lparr>orders := AList.update oid o' (orders d)\<rparr>))"

subsection \<open>POST /api/orders\<close>

record order_req_item =
  ri_menu_item :: oid
  ri_quantity :: int
  ri_customizations :: "customization list option"
  ri_instructions :: "string option"

text \<open>
  \<open>rq_fields_ok\<close> stands for the express-validator checks of the address and contact
  fields (lines 20--25), whose regular expressions belong to the library.
\<close>

record order_request =
  rq_restaurant :: oid
  rq_items :: "order_req_item list"
  rq_type :: "order_type option"
  rq_payment :: payment_method
  rq_fields_ok :: bool

text \<open>The item loop (lines 61--97): the first missing or unavailable item ends the request.\<close>

fun price_order_items :: "(oid, menu_item) coll \<Rightarrow> money \<Rightarrow> order_item list \<Rightarrow> order_req_item list \<Rightarrow>
    (money \<times> order_item list) response" where
  "price_order_items m s acc [] = Inr (s, acc)"
| "price_order_items m s acc (it # its) =
     (case map_of m (ri_menu_item it) of
        None \<Rightarrow> Inl (Item_Unavailable (ri_menu_item it))
      | Some mi \<Rightarrow>
          if \<not> mi_available mi then Inl (Item_Unavailable (ri_menu_item it))
          else let cs = (case ri_customizations it of None \<Rightarrow> [] | Some cs \<Rightarrow> cs);
                   p = item_price (mi_price mi) cs;
                   t = p * ri_quantity it
               in price_order_items m (s + t)
                    (acc @ [\<lparr>oi_menu_item = ri_menu_item it, oi_name = mi_name mi, oi_price = mi_price mi,
                             oi_quantity = ri_quantity it, oi_customizations = cs, oi_item_total = t,
                             oi_instructions = ri_instructions it\<rparr>]) its)"

definition request_type :: "order_request \<Rightarrow> order_type" where
  "request_type rq = (case rq_type rq of None \<Rightarrow> Delivery | Some t \<Rightarrow> t)"

definition delivery_minutes :: "order_type \<Rightarrow> nat" where
  "delivery_minutes t = (if t = Delivery then 45 else 20)"

text \<open>Lines 52--136: restaurant check, item loop, pricing, minimum order, the document.\<close>

definition build_order :: "db \<Rightarrow> ms \<Rightarrow> oid \<Rightarrow> order_request \<Rightarrow> order response" where
  "build_order d now uid rq =
     (case map_of (restaurants d) (rq_restaurant rq) of
        None \<Rightarrow> Inl Restaurant_Unavailable
      | Some r \<Rightarrow>
          if \<not> rest_active r \<or> rest_status r \<noteq> R_Approved then Inl Restaurant_Unavailable
          else case price_order_items (menu_items d) 0 [] (rq_items rq) of
            Inl e \<Rightarrow> Inl e
          | Inr (s, ois) \<Rightarrow>
              let t = request_type rq;
                  fee = order_delivery_fee t r
              in if t = Delivery \<and> s < minimum_order r then Inl (Below_Minimum_Order (minimum_order r))
                 else Inr \<lparr>order_number = [], o_customer = uid, o_restaurant = rq_restaurant rq,
                           o_items = ois,
                           o_pricing = \<lparr>pr_subtotal = s, pr_delivery_fee = fee,
                                        pr_service_fee = service_fee s, pr_tax = sales_tax s,
                                        pr_discount = 0, pr_total = order_total s fee\<rparr>,
                           o_payment = rq_payment rq, o_status = Pending, o_type = t,
                           o_estimated = now + delivery_minutes t * 60000,
                           o_actual_delivery = None, o_cancel_reason = None, o_rating = None,
                           o_timeline = [], o_created = now\<rparr>)"

text \<open>Lines 140--146: the cart is deleted and the restaurant's running totals grow.\<close>

definition finish_order :: "db \<Rightarrow> oid \<Rightarrow> order \<Rightarrow> db" where
  "finish_order d uid od =
     (let d1 = d\<lparr>carts := AList.delete uid (carts d)\<rparr>
      in d1\<lparr>restaurants := coll_modify (o_restaurant od)
               (\<lambda>r. r\<lparr>total_orders := total_orders r + 1,
                      total_revenue := total_revenue r + pr_total (o_pricing od)\<rparr>) (restaurants d1)\<rparr>)"

definition create_order :: "db \<Rightarrow> ms \<Rightarrow> oid \<Rightarrow> order_request \<Rightarrow> db \<times> order response" where
  "create_order d now uid rq =
     (if \<not> rq_fields_ok rq \<or> rq_items rq = [] then (d, Inl Validation_Failed)
      else case build_order d now uid rq of
        Inl e \<Rightarrow> (d, Inl e)
      | Inr od \<Rightarrow>
          (let (oid, d1) = fresh_oid d
           in case save_order d1 now oid True od of
                None \<Rightarrow> (d, Inl Server_Error)
              | Some (o', d2) \<Rightarrow> (finish_order d2 uid o', Inr o')))"

subsection \<open>The item loop\<close>

definition req_customizations :: "order_req_item \<Rightarrow> customization list" where
  "req_customizations it = (case ri_customizations it of None \<Rightarrow> [] | Some cs \<Rightarrow> cs)"

definition item_ok :: "(oid, menu_item) coll \<Rightarrow> order_req_item \<Rightarrow> bool" where
  "item_ok m it \<longleftrightarrow> (case map_of m (ri_menu_item it) of None \<Rightarrow> False | Some mi \<Rightarrow> mi_available mi)"

text \<open>What the loop records for one requested item: the live menu item's name and base price, and the line total (base price + selected options) \<open>\<times>\<close> quantity.\<close>

definition line_priced :: "(oid, menu_item) coll \<Rightarrow> order_req_item \<Rightarrow> order_item \<Rightarrow> bool" where
  "line_priced m it x \<longleftrightarrow>
     (\<exists>mi. map_of m (ri_menu_item it) = Some mi \<and> mi_available mi \<and>
        oi_menu_item x = ri_menu_item it \<and> oi_name x = mi_name mi \<and> oi_price x = mi_price mi \<and>
        oi_quantity x = ri_quantity it \<and> oi_customizations x = req_customizations it \<and>
        oi_item_total x = (mi_price mi + customization_cost (req_customizations it)) * ri_quantity it)"

text \<open>The subtotal the item loop computes, in closed form.\<close>

definition request_subtotal :: "(oid, menu_item) coll \<Rightarrow> order_req_item list \<Rightarrow> money" where
  "request_subtotal m its =
     (\<Sum>it\<leftarrow>its. case map_of m (ri_menu_item it) of
                   None \<Rightarrow> 0
                 | Some mi \<Rightarrow> (mi_price mi + customization_cost (req_customizations it)) * ri_quantity it)"

text \<open>The menu items with their \<open>restaurant\<close> field replaced by \<open>f\<close> of their id.\<close>

definition relabel_items :: "(oid \<Rightarrow> oid) \<Rightarrow> (oid, menu_item) coll \<Rightarrow> (oid, menu_item) coll" where
  "relabel_items f m = map (\<lambda>(k, mi). (k, mi\<lparr>mi_restaurant := f k\<rparr>)) m"

subsection \<open>Sample requests\<close>

text \<open>Item 20 (the burger of restaurant 10) \<open>n\<close> times, for delivery; and a request
  whose second item does not exist.\<close>

definition sample_order_request :: "nat \<Rightarrow> order_request" where
  "sample_order_request n =
     \<lparr>rq_restaurant = 10,
      rq_items = [\<lparr>ri_menu_item = 20, ri_quantity = int n, ri_customizations = None, ri_instructions = None\<rparr>],
      rq_type = Some Delivery, rq_payment = Card, rq_fields_ok = True\<rparr>"

definition sample_mixed_request :: order_request where
  "sample_mixed_request =
     \<lparr>rq_restaurant = 10,
      rq_items = [\<lparr>ri_menu_item = 20, ri_quantity = 2, ri_customizations = None, ri_instructions = None\<rparr>,
                  \<lparr>ri_menu_item = 99, ri_quantity = 1, ri_customizations = None, ri_instructions = None\<rparr>],
      rq_type = Some Delivery, rq_payment = Cash, rq_fields_ok = True\<rparr>"

subsection \<open>Lemmas on the item loop\<close>

lemma price_order_items_Inr:
  "price_order_items m s acc its = Inr (s', ois) \<Longrightarrow>
     \<exists>new. ois = acc @ new \<and> list_all2 (line_priced m) its new \<and> s' = s + (\<Sum>x\<leftarrow>new. oi_item_total x)"
proof (induction its arbitrary: s acc)
  case Nil
  then show ?case by simp
next
  case (Cons it its)
  then obtain mi where mi: "map_of m (ri_menu_item it) = Some mi" "mi_available mi"
    by (auto split: option.splits if_splits)
  let ?x = "\<lparr>oi_menu_item = ri_menu_item it, oi_name = mi_name mi, oi_price = mi_price mi,
             oi_quantity = ri_quantity it, oi_customizations = req_customizations it,
             oi_item_total = (mi_price mi + customization_cost (req_customizations it)) * ri_quantity it,
             oi_instructions = ri_instructions it\<rparr>"
  have "price_order_items m (s + oi_item_total ?x) (acc @ [?x]) its = Inr (s', ois)"
    using Cons.prems mi by (simp add: req_customizations_def item_price_eq Let_def)
  then obtain new where "ois = (acc @ [?x]) @ new" "list_all2 (line_priced m) its new"
    "s' = s + oi_item_total ?x + (\<Sum>x\<leftarrow>new. oi_item_total x)"
    using Cons.IH by blast
  moreover have "line_priced m it ?x" using mi by (simp add: line_priced_def)
  ultimately show ?case by (intro exI [of _ "?x # new"]) (simp add: add.assoc)
qed

lemma price_order_items_Inl:
  "price_order_items m s acc its = Inl e \<longleftrightarrow>
     (\<exists>it. find (\<lambda>it. \<not> item_ok m it) its = Some it \<and> e = Item_Unavailable (ri_menu_item it))"
proof (induction its arbitrary: s acc)
  case Nil
  then show ?case by simp
next
  case (Cons it its)
  then show ?case
    by (auto simp: item_ok_def Let_def split: option.splits)
qed

lemma build_order_InrD:
  assumes "build_order d now uid rq = Inr od"
  obtains r s where "map_of (restaurants d) (rq_restaurant rq) = Some r" "rest_active r"
    "rest_status r = R_Approved" "price_order_items (menu_items d) 0 [] (rq_items rq) = Inr (s, o_items od)"
    "request_type rq = Delivery \<longrightarrow> minimum_order r \<le> s"
    "o_pricing od = \<lparr>pr_subtotal = s, pr_delivery_fee = order_delivery_fee (request_type rq) r,
                     pr_service_fee = service_fee s, pr_tax = sales_tax s, pr_discount = 0,
                     pr_total = order_total s (order_delivery_fee (request_type rq) r)\<rparr>"
    "order_number od = []" "o_status od = Pending" "o_timeline od = []" "o_rating od = None"
    "o_customer od = uid" "o_restaurant od = rq_restaurant rq" "o_type od = request_type rq"
  using assms by (auto simp: build_order_def Let_def not_less split: option.splits if_splits sum.splits)

subsection \<open>Properties of order creation\<close>

text \<open>
  C7. A built order is priced as the specification says: one line per requested item
  with total (base price + selected options) \<open>\<times>\<close> quantity, the subtotal their sum,
  the delivery fee the restaurant's for a delivery and 0 for a pickup, the service fee
  and tax \<open>Math.round(subtotal \<times> 0.05)\<close> and \<open>Math.round(subtotal \<times> 0.08)\<close> whole
  dollars, the total their sum; a delivery order reaches the restaurant's minimum.
\<close>

theorem build_order_pricing:
  assumes run: "build_order d now uid rq = Inr od"
    and r: "map_of (restaurants d) (rq_restaurant rq) = Some r"
  shows "list_all2 (line_priced (menu_items d)) (rq_items rq) (o_items od) \<and>
         pr_subtotal (o_pricing od) = (\<Sum>x\<leftarrow>o_items od. oi_item_total x) \<and>
         pr_delivery_fee (o_pricing od) = (if request_type rq = Delivery then delivery_fee r else 0) \<and>
         pr_service_fee (o_pricing od) = 100 * js_round (5 * pr_subtotal (o_pricing od)) 10000 \<and>
         pr_tax (o_pricing od) = 100 * js_round (8 * pr_subtotal (o_pricing od)) 10000 \<and>
         pr_total (o_pricing od) = pr_subtotal (o_pricing od) + pr_delivery_fee (o_pricing od) +
                                   pr_service_fee (o_pricing od) + pr_tax (o_pricing od) \<and>
         (request_type rq = Delivery \<longrightarrow> minimum_order r \<le> pr_subtotal (o_pricing od)) \<and>
         o_status od = Pending"
proof -
  obtain r' s where r': "map_of (restaurants d) (rq_restaurant rq) = Some r'"
    and loop: "price_order_items (menu_items d) 0 [] (rq_items rq) = Inr (s, o_items od)"
    and minimum: "request_type rq = Delivery \<longrightarrow> minimum_order r' \<le> s"
    and pricing: "o_pricing od = \<lparr>pr_subtotal = s, pr_delivery_fee = order_delivery_fee (request_type rq) r',
                     pr_service_fee = service_fee s, pr_tax = sales_tax s, pr_discount = 0,
                     pr_total = order_total s (order_delivery_fee (request_type rq) r')\<rparr>"
    and status: "o_status od = Pending"
    using run by (rule build_order_InrD)
  from r r' have rr: "r' = r" by simp
  obtain new where "o_items od = new" "list_all2 (line_priced (menu_items d)) (rq_items rq) new"
    "s = (\<Sum>x\<leftarrow>new. oi_item_total x)"
    using price_order_items_Inr [OF loop] by auto
  with rr minimum pricing status show ?thesis
    by (simp add: order_delivery_fee_def service_fee_def sales_tax_def order_total_def)
qed

lemma build_order_sample:
  "build_order sample_db 0 1 (sample_order_request 2) =
     Inr \<lparr>order_number = [], o_customer = 1, o_restaurant = 10,
          o_items = [\<lparr>oi_menu_item = 20, oi_name = ''Burger'', oi_price = 900, oi_quantity = 2,
                      oi_customizations = [], oi_item_total = 1800, oi_instructions = None\<rparr>],
          o_pricing = \<lparr>pr_subtotal = 1800, pr_delivery_fee = 200, pr_service_fee = 100, pr_tax = 100,
                       pr_discount = 0, pr_total = 2200\<rparr>,
          o_payment = Card, o_status = Pending, o_type = Delivery, o_estimated = 2700000,
          o_actual_delivery = None, o_cancel_reason = None, o_rating = None, o_timeline = [],
          o_created = 0\<rparr>"
  by (simp add: build_order_def sample_db_def sample_restaurant_def sample_order_request_def
      request_type_def order_delivery_fee_def service_fee_def sales_tax_def order_total_def
      js_round_def delivery_minutes_def item_price_def Let_def)

theorem build_order_pricing_witness:
  "pr_total (o_pricing (projr (build_order sample_db 0 1 (sample_order_request 2)))) = 2200 \<and>
   pr_service_fee (o_pricing (projr (build_order sample_db 0 1 (sample_order_request 2)))) =
     100 * js_round (5 * 1800) 10000"
proof -
  have r: "map_of (restaurants sample_db) (rq_restaurant (sample_order_request 2)) =
           Some (sample_restaurant 2 200 1000)"
    by (simp add: sample_db_def sample_order_request_def)
  have run: "build_order sample_db 0 1 (sample_order_request 2) =
             Inr (projr (build_order sample_db 0 1 (sample_order_request 2)))"
    unfolding build_order_sample by simp
  from build_order_pricing [OF run r] show ?thesis
    unfolding build_order_sample by simp
qed

text \<open>
  Order validation is all-or-nothing: when some requested item is missing or
  unavailable, POST /api/orders fails with the first such item's id, no matter how
  many valid items precede it, and writes nothing.
\<close>

theorem create_order_first_unavailable:
  assumes ok: "rq_fields_ok rq" "rq_items rq \<noteq> []"
    and r: "map_of (restaurants d) (rq_restaurant rq) = Some r" "rest_active r" "rest_status r = R_Approved"
    and bad: "find (\<lambda>it. \<not> item_ok (menu_items d) it) (rq_items rq) = Some it"
  shows "create_order d now uid rq = (d, Inl (Item_Unavailable (ri_menu_item it)))"
proof -
  have "price_order_items (menu_items d) 0 [] (rq_items rq) = Inl (Item_Unavailable (ri_menu_item it))"
    using bad by (simp add: price_order_items_Inl)
  with ok r show ?thesis by (simp add: create_order_def build_order_def)
qed

theorem create_order_first_unavailable_witness:
  "create_order sample_db 0 1 sample_mixed_request = (sample_db, Inl (Item_Unavailable 99))"
proof -
  have ok: "rq_fields_ok sample_mixed_request" "rq_items sample_mixed_request \<noteq> []"
    by (simp_all add: sample_mixed_request_def)
  have r: "map_of (restaurants sample_db) (rq_restaurant sample_mixed_request) =
             Some (sample_restaurant 2 200 1000)"
    "rest_active (sample_restaurant 2 200 1000)" "rest_status (sample_restaurant 2 200 1000) = R_Approved"
    by (simp_all add: sample_db_def sample_mixed_request_def sample_restaurant_def)
  have bad: "find (\<lambda>it. \<not> item_ok (menu_items sample_db) it) (rq_items sample_mixed_request) =
             Some \<lparr>ri_menu_item = 99, ri_quantity = 1, ri_customizations = None, ri_instructions = None\<rparr>"
    by (simp add: sample_db_def sample_mixed_request_def item_ok_def)
  from create_order_first_unavailable [OF ok r bad] show ?thesis by simp
qed

lemma save_order_unnumbered: "order_number od = [] \<Longrightarrow> save_order d now oid is_new od = None"
  by (simp add: save_order_def order_valid_def)

lemma create_order_built:
  assumes "rq_fields_ok rq" and "rq_items rq \<noteq> []" and built: "build_order d now uid rq = Inr od"
  shows "create_order d now uid rq = (d, Inl Server_Error)"
proof -
  from built have "order_number od = []" by (rule build_order_InrD)
  then have "save_order (snd (fresh_oid d)) now (fst (fresh_oid d)) True od = None"
    by (rule save_order_unnumbered)
  with assms show ?thesis by (simp add: create_order_def fresh_oid_def)
qed

lemma create_order_fails:
  "fst (create_order d now uid rq) = d \<and> isl (snd (create_order d now uid rq))"
proof (cases "\<not> rq_fields_ok rq \<or> rq_items rq = []")
  case True
  then show ?thesis by (simp add: create_order_def)
next
  case False
  show ?thesis
  proof (cases "build_order d now uid rq")
    case (Inl e)
    with False show ?thesis by (simp add: create_order_def)
  next
    case (Inr od)
    with False show ?thesis by (simp add: create_order_built)
  qed
qed

text \<open>
  C9. POST /api/orders never succeeds: the order built by the handler has no
  \<open>orderNumber\<close>, which the schema requires, and Mongoose validates before it runs
  the \<open>pre('save')\<close> hook that would generate the number. Every request is answered
  with an error and nothing is written (no order, the cart kept, the restaurant's totals
  unchanged); a request that passes all of the handler's own checks is answered 500.
\<close>

theorem create_order_never_succeeds:
  "fst (create_order d now uid rq) = d \<and> (\<exists>e. snd (create_order d now uid rq) = Inl e) \<and>
   (rq_fields_ok rq \<and> rq_items rq \<noteq> [] \<and> \<not> isl (build_order d now uid rq) \<longrightarrow>
      snd (create_order d now uid rq) = Inl Server_Error)"
proof -
  have "\<exists>e. snd (create_order d now uid rq) = Inl e"
    using create_order_fails [of d now uid rq] by (cases "snd (create_order d now uid rq)") auto
  moreover have "rq_fields_ok rq \<and> rq_items rq \<noteq> [] \<and> \<not> isl (build_order d now uid rq) \<longrightarrow>
      snd (create_order d now uid rq) = Inl Server_Error"
    by (cases "build_order d now uid rq") (auto simp: create_order_built)
  ultimately show ?thesis using create_order_fails [of d now uid rq] by blast
qed

theorem create_order_never_succeeds_witness:
  "create_order sample_db 0 1 (sample_order_request 2) = (sample_db, Inl Server_Error)"
proof -
  have pre: "rq_fields_ok (sample_order_request 2) \<and> rq_items (sample_order_request 2) \<noteq> [] \<and>
             \<not> isl (build_order sample_db 0 1 (sample_order_request 2))"
    unfolding build_order_sample by (simp add: sample_order_request_def)
  from create_order_never_succeeds [of sample_db 0 1 "sample_order_request 2"] pre
  show ?thesis by (metis prod.collapse)
qed

text \<open>
  C10. A delivery order whose items are all available but whose subtotal (the sum of
  (base price + options) \<open>\<times>\<close> quantity) is below the restaurant's minimum is rejected
  with the minimum in the message, and nothing is written.
\<close>

lemma price_order_items_all_ok:
  "\<forall>it\<in>set its. item_ok m it \<Longrightarrow>
     \<exists>ois. price_order_items m s acc its = Inr (s + request_subtotal m its, ois)"
proof (induction its arbitrary: s acc)
  case Nil
  then show ?case by (simp add: request_subtotal_def)
next
  case (Cons it its)
  then obtain mi where mi: "map_of m (ri_menu_item it) = Some mi" "mi_available mi"
    by (auto simp: item_ok_def split: option.splits)
  let ?t = "(mi_price mi + customization_cost (req_customizations it)) * ri_quantity it"
  let ?x = "\<lparr>oi_menu_item = ri_menu_item it, oi_name = mi_name mi, oi_price = mi_price mi,
             oi_quantity = ri_quantity it, oi_customizations = req_customizations it,
             oi_item_total = ?t, oi_instructions = ri_instructions it\<rparr>"
  have step: "price_order_items m s acc (it # its) = price_order_items m (s + ?t) (acc @ [?x]) its"
    using mi by (simp add: req_customizations_def item_price_eq Let_def)
  from Cons.prems have "\<forall>x\<in>set its. item_ok m x" by simp
  from Cons.IH [OF this, of "s + ?t" "acc @ [?x]"] obtain ois
    where "price_order_items m (s + ?t) (acc @ [?x]) its = Inr (s + ?t + request_subtotal m its, ois)"
    by blast
  with step mi show ?case by (simp add: request_subtotal_def add.assoc)
qed

theorem create_order_below_minimum:
  assumes ok: "rq_fields_ok rq" "rq_items rq \<noteq> []"
    and r: "map_of (restaurants d) (rq_restaurant rq) = Some r" "rest_active r" "rest_status r = R_Approved"
    and items: "\<forall>it\<in>set (rq_items rq). item_ok (menu_items d) it"
    and delivery: "request_type rq = Delivery"
    and low: "request_subtotal (menu_items d) (rq_items rq) < minimum_order r"
  shows "create_order d now uid rq = (d, Inl (Below_Minimum_Order (minimum_order r)))"
proof -
  obtain ois where "price_order_items (menu_items d) 0 [] (rq_items rq) =
                    Inr (request_subtotal (menu_items d) (rq_items rq), ois)"
    using price_order_items_all_ok [OF items, of 0 "[]"] by auto
  with ok r delivery low show ?thesis
    by (simp add: create_order_def build_order_def Let_def)
qed

theorem create_order_below_minimum_witness:
  "create_order sample_db 0 1 (sample_order_request 1) = (sample_db, Inl (Below_Minimum_Order 1000))"
proof -
  have ok: "rq_fields_ok (sample_order_request 1)" "rq_items (sample_order_request 1) \<noteq> []"
    by (simp_all add: sample_order_request_def)
  have r: "map_of (restaurants sample_db) (rq_restaurant (sample_order_request 1)) =
             Some (sample_restaurant 2 200 1000)"
    "rest_active (sample_restaurant 2 200 1000)" "rest_status (sample_restaurant 2 200 1000) = R_Approved"
    by (simp_all add: sample_db_def sample_order_request_def sample_restaurant_def)
  have items: "\<forall>it\<in>set (rq_items (sample_order_request 1)). item_ok (menu_items sample_db) it"
    by (simp add: sample_db_def sample_order_request_def item_ok_def)
  have delivery: "request_type (sample_order_request 1) = Delivery"
    by (simp add: sample_order_request_def request_type_def)
  have low: "request_subtotal (menu_items sample_db) (rq_items (sample_order_request 1)) <
             minimum_order (sample_restaurant 2 200 1000)"
    by (simp add: request_subtotal_def sample_db_def sample_order_request_def sample_restaurant_def
        req_customizations_def)
  from create_order_below_minimum [OF ok r items delivery low] show ?thesis
    by (simp add: sample_restaurant_def)
qed

lemma map_of_relabel_items:
  "map_of (relabel_items f m) k = map_option (\<lambda>mi. mi\<lparr>mi_restaurant := f k\<rparr>) (map_of m k)"
  by (induction m) (auto simp: relabel_items_def)

lemma price_order_items_relabel:
  "price_order_items (relabel_items f m) s acc its = price_order_items m s acc its"
  by (induction its arbitrary: s acc) (simp_all add: map_of_relabel_items Let_def split: option.splits)

text \<open>
  The item loop never compares an item's restaurant with the order's: the order built
  for a request is the same whichever restaurants the menu items belong to. An order for
  one restaurant can list, and charge for, the dishes of another.
\<close>

theorem build_order_ignores_item_restaurant:
  "build_order (d\<lparr>menu_items := relabel_items f (menu_items d)\<rparr>) now uid rq = build_order d now uid rq"
  by (simp add: build_order_def price_order_items_relabel split: option.splits)

end
