(* ===== verification/Order_Lifecycle.thy ===== *)
theory Order_Lifecycle
  imports Orders "HOL-Library.Sublist"
begin

text \<open>
  The handlers of \<open>src/backend/routes/orders.js\<close> that act on a stored order: the
  single-order read (\<open>GET /:id\<close>), the status update of the restaurant owner
  (\<open>PUT /:id/status\<close>), cancellation (\<open>POST /:id/cancel\<close>) and rating
  (\<open>POST /:id/rate\<close>), which also recomputes the restaurant's average rating. Each
  writes the order back through \<open>save_order\<close>, so the schema validation of
  \<open>models/Order.js\<close> applies to every write. \<open>order_step\<close> runs one of the writing
  handlers; \<open>orders_ok\<close> is the invariant of the stored orders and \<open>order_reach\<close>
  the databases the handlers reach.
\<close>

subsection \<open>GET /api/orders/:id\<close>

text \<open>
  Lines 231--270. \<open>order.restaurant._id\<close> (line 247) and \<open>order.customer._id\<close>
  (line 248) throw when the populated document is gone.
\<close>

definition get_order :: "db \<Rightarrow> oid \<Rightarrow> user \<Rightarrow> oid \<Rightarrow> order response" where
  "get_order d uid u oid =
     (case map_of (orders d) oid of
        None \<Rightarrow> Inl Order_Not_Found
      | Some od \<Rightarrow>
          (case map_of (restaurants d) (o_restaurant od) of
             None \<Rightarrow> Inl Server_Error
           | Some r \<Rightarrow>
               (case map_of (users d) (o_customer od) of
                  None \<Rightarrow> Inl Server_Error
                | Some _ \<Rightarrow>
                    if o_customer od \<noteq> uid \<and> rest_owner r \<noteq> uid \<and> user_role u \<noteq> Admin
                    then Inl Forbidden else Inr od)))"

subsection \<open>PUT /api/orders/:id/status\<close>

fun status_name :: "order_status \<Rightarrow> string" where
  "status_name Pending = ''pending''"
| "status_name Confirmed = ''confirmed''"
| "status_name Preparing = ''preparing''"
| "status_name Ready = ''ready''"
| "status_name Picked_Up = ''picked_up''"
| "status_name Out_For_Delivery = ''out_for_delivery''"
| "status_name Delivered = ''delivered''"
| "status_name Cancelled = ''cancelled''"
| "status_name Refunded = ''refunded''"

text \<open>The \<open>isIn\<close> list of the status validator (lines 279--281).\<close>

definition settable_status :: "order_status \<Rightarrow> bool" where
  "settable_status s \<longleftrightarrow>
     s \<in> set [Confirmed, Preparing, Ready, Picked_Up, Out_For_Delivery, Delivered, Cancelled]"

definition set_status :: "ms \<Rightarrow> order_status \<Rightarrow> string option \<Rightarrow> order \<Rightarrow> order" where
  "set_status now s note od =
     od\<lparr>o_status := s,
        o_timeline := o_timeline od @ [\<lparr>tl_status = s, tl_time = now,
                                       tl_note = js_or_str note (''Order '' @ status_name s)\<rparr>],
        o_actual_delivery := (if s = Delivered then Some now else o_actual_delivery od)\<rparr>"

definition update_order_status :: "db \<Rightarrow> ms \<Rightarrow> oid \<Rightarrow> user \<Rightarrow> oid \<Rightarrow> order_status \<Rightarrow> string option \<Rightarrow>
    db \<times> order response" where
  "update_order_status d now uid u oid s note =
     (if \<not> settable_status s then (d, Inl Validation_Failed)
      else case map_of (orders d) oid of
        None \<Rightarrow> (d, Inl Order_Not_Found)
      | Some od \<Rightarrow>
          (case owner_gate d uid u (o_restaurant od) of
             Some e \<Rightarrow> (d, Inl e)
           | None \<Rightarrow>
               (case save_order d now oid False (set_status now s note od) of
                  None \<Rightarrow> (d, Inl Server_Error)
                | Some (od', d') \<Rightarrow> (d', Inr od'))))"

subsection \<open>POST /api/orders/:id/cancel\<close>

definition cancel_fields :: "ms \<Rightarrow> string option \<Rightarrow> order \<Rightarrow> order" where
  "cancel_fields now reason od =
     od\<lparr>o_status := Cancelled,
        o_cancel_reason := Some (js_or_str reason ''Cancelled by user''),
        o_timeline := o_timeline od @ [\<lparr>tl_status = Cancelled, tl_time = now,
                                       tl_note = js_or_str reason ''Order cancelled''\<rparr>]\<rparr>"

text \<open>
  Lines 347--408. The body validator's result is never read. \<open>order.restaurant.owner\<close>
  (line 366) is evaluated before the admin test, so a missing restaurant throws for
  every caller.
\<close>

definition cancel_order :: "db \<Rightarrow> ms \<Rightarrow> oid \<Rightarrow> user \<Rightarrow> oid \<Rightarrow> string option \<Rightarrow> db \<times> order response" where
  "cancel_order d now uid u oid reason =
     (case map_of (orders d) oid of
        None \<Rightarrow> (d, Inl Order_Not_Found)
      | Some od \<Rightarrow>
          (case map_of (restaurants d) (o_restaurant od) of
             None \<Rightarrow> (d, Inl Server_Error)
           | Some r \<Rightarrow>
               if o_customer od \<noteq> uid \<and> rest_owner r \<noteq> uid \<and> user_role u \<noteq> Admin
               then (d, Inl Forbidden)
               else if o_status od \<in> set [Delivered, Cancelled, Refunded] then (d, Inl Cannot_Cancel)
               else (case save_order d now oid False (cancel_fields now reason od) of
                       None \<Rightarrow> (d, Inl Server_Error)
                     | Some (od', d') \<Rightarrow> (d', Inr od'))))"

subsection \<open>POST /api/orders/:id/rate\<close>

record rate_request =
  rr_food :: int
  rr_delivery :: "int option"
  rr_overall :: int
  rr_comment :: "string option"

definition rate_request_valid :: "rate_request \<Rightarrow> bool" where
  "rate_request_valid rr \<longleftrightarrow>
     1 \<le> rr_food rr \<and> rr_food rr \<le> 5 \<and>
     (case rr_delivery rr of None \<Rightarrow> True | Some x \<Rightarrow> 1 \<le> x \<and> x \<le> 5) \<and>
     1 \<le> rr_overall rr \<and> rr_overall rr \<le> 5"

definition new_rating :: "ms \<Rightarrow> rate_request \<Rightarrow> rating" where
  "new_rating now rr =
     \<lparr>rt_food = rr_food rr, rt_delivery = js_or_int (rr_delivery rr) (rr_food rr),
      rt_overall = rr_overall rr, rt_comment = js_or_str (rr_comment rr) [], rt_rated_at = now\<rparr>"

text \<open>\<open>Order.find({restaurant, "rating.ratedAt": {$exists: true}})\<close> (lines 481--484).\<close>

definition rated_orders :: "(oid, order) coll \<Rightarrow> oid \<Rightarrow> order list" where
  "rated_orders os rid = filter (\<lambda>x. o_restaurant x = rid \<and> o_rating x \<noteq> None) (map snd os)"

definition overall_of :: "order \<Rightarrow> int" where
  "overall_of x = (case o_rating x of None \<Rightarrow> 0 | Some rt \<Rightarrow> rt_overall rt)"

text \<open>
  Lines 486--490: the sum by \<open>reduce\<close>, the mean, and \<open>Math.round(mean * 10) / 10\<close>,
  kept in tenths.
\<close>

definition restaurant_rating :: "order list \<Rightarrow> int \<times> nat" where
  "restaurant_rating rated =
     (let total = foldl (\<lambda>acc x. acc + overall_of x) 0 rated
      in (js_round (10 * total) (int (length rated)), length rated))"

definition rate_order :: "db \<Rightarrow> ms \<Rightarrow> oid \<Rightarrow> oid \<Rightarrow> rate_request \<Rightarrow> db \<times> order response" where
  "rate_order d now uid oid rr =
     (if \<not> rate_request_valid rr then (d, Inl Validation_Failed)
      else case map_of (orders d) oid of
        None \<Rightarrow> (d, Inl Order_Not_Found)
      | Some od \<Rightarrow>
          if o_customer od \<noteq> uid then (d, Inl Forbidden)
          else if o_status od \<noteq> Delivered then (d, Inl Not_Delivered)
          else if o_rating od \<noteq> None then (d, Inl Already_Rated)
          else case save_order d now oid False (od\<lparr>o_rating := Some (new_rating now rr)\<rparr>) of
            None \<Rightarrow> (d, Inl Server_Error)
          | Some (od', d1) \<Rightarrow>
              (case map_of (restaurants d1) (o_restaurant od) of
                 None \<Rightarrow> (d1, Inl Server_Error)
               | Some r \<Rightarrow>
                   let (avg, n) = restaurant_rating (rated_orders (orders d1) (o_restaurant od));
                       r' = r\<lparr>rating_average := avg, rating_count := n\<rparr>
                   in if \<not> restaurant_valid r' then (d1, Inl Server_Error)
                      else (d1\<lparr>restaurants := AList.update (o_restaurant od) r' (restaurants d1)\<rparr>, Inr od')))"

subsection \<open>The order handlers as one step function\<close>

datatype order_op =
    Set_Status oid order_status "string option"
  | Cancel_Order oid "string option"
  | Rate_Order oid rate_request

fun order_step :: "db \<Rightarrow> ms \<Rightarrow> oid \<Rightarrow> user \<Rightarrow> order_op \<Rightarrow> db" where
  "order_step d now uid u (Set_Status oid s note) = fst (update_order_status d now uid u oid s note)"
| "order_step d now uid u (Cancel_Order oid reason) = fst (cancel_order d now uid u oid reason)"
| "order_step d now uid u (Rate_Order oid rr) = fst (rate_order d now uid oid rr)"

subsection \<open>Invariant, history and reachable databases\<close>

text \<open>
  \<open>orders_ok\<close>: the stored orders have distinct ids, satisfy the schema validators, and
  none is \<open>refunded\<close> (no handler sets that status). \<open>order_succ od od'\<close>: \<open>od'\<close> is a
  later version of the stored order \<open>od\<close>: the timeline only grew, the number, parties,
  items and pricing are unchanged, and a given rating is kept.
\<close>

definition orders_ok :: "db \<Rightarrow> bool" where
  "orders_ok d \<longleftrightarrow>
     coll_wf (orders d) \<and> (\<forall>(k, od)\<in>set (orders d). order_valid od \<and> o_status od \<noteq> Refunded)"

definition order_succ :: "order \<Rightarrow> order \<Rightarrow> bool" where
  "order_succ od od' \<longleftrightarrow>
     prefix (o_timeline od) (o_timeline od') \<and> order_number od' = order_number od \<and>
     o_customer od' = o_customer od \<and> o_restaurant od' = o_restaurant od \<and>
     o_items od' = o_items od \<and> o_pricing od' = o_pricing od \<and>
     (o_rating od \<noteq> None \<longrightarrow> o_rating od' = o_rating od)"

text \<open>What one handler may do to the order collection: nothing, or replace one stored order by a
  valid, non-refunded later version of it.\<close>

definition order_written :: "db \<Rightarrow> db \<Rightarrow> bool" where
  "order_written d d' \<longleftrightarrow>
     orders d' = orders d \<or>
     (\<exists>oid od od'. map_of (orders d) oid = Some od \<and> order_valid od' \<and> o_status od' \<noteq> Refunded \<and>
        order_succ od od' \<and> orders d' = AList.update oid od' (orders d))"

text \<open>The databases reached from \<open>d\<close> by order creation and the order handlers.\<close>

inductive order_reach :: "db \<Rightarrow> db \<Rightarrow> bool" where
  reach_refl: "order_reach d d"
| reach_step: "order_reach d d' \<Longrightarrow> order_reach d (order_step d' now uid u op)"
| reach_create: "order_reach d d' \<Longrightarrow> order_reach d (fst (create_order d' now uid rq))"

subsection \<open>Sample order\<close>

text \<open>A delivered, unrated order (50) of the customer (1) at restaurant 10: two burgers.\<close>

definition sample_order :: order where
  "sample_order =
     \<lparr>order_number = ''ORD17000000000001'', o_customer = 1, o_restaurant = 10,
      o_items = [\<lparr>oi_menu_item = 20, oi_name = ''Burger'', oi_price = 900, oi_quantity = 2,
                  oi_customizations = [], oi_item_total = 1800, oi_instructions = None\<rparr>],
      o_pricing = \<lparr>pr_subtotal = 1800, pr_delivery_fee = 200, pr_service_fee = 100, pr_tax = 100,
                   pr_discount = 0, pr_total = 2200\<rparr>,
      o_payment = Card, o_status = Delivered, o_type = Delivery, o_estimated = 2700000,
      o_actual_delivery = Some 2000000, o_cancel_reason = None, o_rating = None,
      o_timeline = [\<lparr>tl_status = Pending, tl_time = 0, tl_note = ''Order placed''\<rparr>], o_created = 0\<rparr>"

definition sample_order_db :: db where
  "sample_order_db = sample_db\<lparr>orders := [(50, sample_order)]\<rparr>"

definition sample_rate :: rate_request where
  "sample_rate = \<lparr>rr_food = 4, rr_delivery = None, rr_overall = 4, rr_comment = Some ''Good''\<rparr>"

subsection \<open>Writing a stored order\<close>

lemma save_order_update:
  "save_order d now oid False od =
     (if order_valid od then Some (od, d\<lparr>orders := AList.update oid od (orders d)\<rparr>) else None)"
  by (simp add: save_order_def order_valid_def order_pre_save_def)

lemma order_valid_set_status [simp]: "order_valid (set_status now s note od) = order_valid od"
  by (simp add: order_valid_def set_status_def)

lemma order_valid_cancel_fields [simp]: "order_valid (cancel_fields now reason od) = order_valid od"
  by (simp add: order_valid_def cancel_fields_def)

lemma rating_in_range_new: "rate_request_valid rr \<Longrightarrow> rating_in_range (new_rating now rr)"
  by (auto simp: rate_request_valid_def rating_in_range_def new_rating_def js_or_int_def
           split: option.splits)

lemma order_valid_rated:
  "rate_request_valid rr \<Longrightarrow> o_rating od = None \<Longrightarrow>
     order_valid (od\<lparr>o_rating := Some (new_rating now rr)\<rparr>) = order_valid od"
  by (simp add: order_valid_def rating_in_range_new)

lemma order_succ_refl [simp]: "order_succ od od"
  by (simp add: order_succ_def)

lemma order_succ_trans: "order_succ a b \<Longrightarrow> order_succ b c \<Longrightarrow> order_succ a c"
  by (auto simp: order_succ_def intro: prefix_order.order_trans)

lemma order_succ_set_status: "order_succ od (set_status now s note od)"
  by (simp add: order_succ_def set_status_def)

lemma order_succ_cancel: "order_succ od (cancel_fields now reason od)"
  by (simp add: order_succ_def cancel_fields_def)

lemma order_succ_rate: "o_rating od = None \<Longrightarrow> order_succ od (od\<lparr>o_rating := Some rt\<rparr>)"
  by (simp add: order_succ_def)

lemma order_written_refl [simp]: "order_written d d"
  by (simp add: order_written_def)

lemma order_writtenI:
  "map_of (orders d) oid = Some od \<Longrightarrow> order_valid od' \<Longrightarrow> o_status od' \<noteq> Refunded \<Longrightarrow>
     order_succ od od' \<Longrightarrow> order_written d (d\<lparr>orders := AList.update oid od' (orders d)\<rparr>)"
  by (auto simp: order_written_def)

lemma update_order_status_written:
  "order_written d (fst (update_order_status d now uid u oid s note))"
proof (cases "settable_status s \<and> map_of (orders d) oid \<noteq> None")
  case True
  then obtain od where od: "map_of (orders d) oid = Some od" and s: "s \<noteq> Refunded"
    by (auto simp: settable_status_def)
  have "o_status (set_status now s note od) \<noteq> Refunded"
    using s by (simp add: set_status_def)
  with od show ?thesis
    by (auto simp: update_order_status_def save_order_update order_succ_set_status
             intro: order_writtenI split: option.splits)
qed (auto simp: update_order_status_def)

lemma cancel_order_written:
  "order_written d (fst (cancel_order d now uid u oid reason))"
proof (cases "map_of (orders d) oid")
  case (Some od)
  have "o_status (cancel_fields now reason od) \<noteq> Refunded"
    by (simp add: cancel_fields_def)
  with Some show ?thesis
    by (auto simp: cancel_order_def save_order_update order_succ_cancel
             intro: order_writtenI split: option.splits)
qed (simp add: cancel_order_def)

lemma rate_order_orders:
  "orders (fst (rate_order d now uid oid rr)) = orders d \<or>
   (\<exists>od. map_of (orders d) oid = Some od \<and> rate_request_valid rr \<and> o_status od = Delivered \<and>
         o_rating od = None \<and> o_customer od = uid \<and> order_valid od \<and>
         orders (fst (rate_order d now uid oid rr)) =
           AList.update oid (od\<lparr>o_rating := Some (new_rating now rr)\<rparr>) (orders d))"
  by (auto simp: rate_order_def save_order_update order_valid_rated Let_def
           split: option.splits prod.splits)

lemma rate_order_written:
  "order_written d (fst (rate_order d now uid oid rr))"
proof -
  let ?d' = "fst (rate_order d now uid oid rr)"
  from rate_order_orders [of d now uid oid rr] show ?thesis
  proof
    assume "orders ?d' = orders d"
    then show ?thesis by (simp add: order_written_def)
  next
    assume "\<exists>od. map_of (orders d) oid = Some od \<and> rate_request_valid rr \<and> o_status od = Delivered \<and>
         o_rating od = None \<and> o_customer od = uid \<and> order_valid od \<and>
         orders ?d' = AList.update oid (od\<lparr>o_rating := Some (new_rating now rr)\<rparr>) (orders d)"
    then obtain od where od: "map_of (orders d) oid = Some od" and v: "rate_request_valid rr"
      and st: "o_status od = Delivered" and un: "o_rating od = None" and ok: "order_valid od"
      and upd: "orders ?d' = AList.update oid (od\<lparr>o_rating := Some (new_rating now rr)\<rparr>) (orders d)"
      by blast
    have "order_written d (d\<lparr>orders := orders ?d'\<rparr>)"
      unfolding upd
      by (rule order_writtenI [OF od]) (simp_all add: order_valid_rated [OF v un] ok st order_succ_rate un)
    then show ?thesis by (simp add: order_written_def)
  qed
qed

lemma order_step_written: "order_written d (order_step d now uid u op)"
  by (cases op) (simp_all add: update_order_status_written cancel_order_written rate_order_written)

subsection \<open>The invariant and the history of a stored order\<close>

lemma orders_ok_written:
  assumes ok: "orders_ok d" and w: "order_written d d'"
  shows "orders_ok d'"
proof (cases "orders d' = orders d")
  case True
  with ok show ?thesis by (simp add: orders_ok_def)
next
  case False
  with w obtain oid od od' where v: "order_valid od'" and st: "o_status od' \<noteq> Refunded"
    and upd: "orders d' = AList.update oid od' (orders d)"
    by (auto simp: order_written_def)
  show ?thesis
    using ok v st set_alist_update [of oid od' "orders d"]
    by (auto simp: orders_ok_def upd coll_wf_update)
qed

lemma order_written_history:
  assumes w: "order_written d d'" and k: "map_of (orders d) k = Some od"
  shows "\<exists>od'. map_of (orders d') k = Some od' \<and> order_succ od od'"
proof (cases "orders d' = orders d")
  case True
  with k show ?thesis by auto
next
  case False
  with w obtain oid o0 o1 where o0: "map_of (orders d) oid = Some o0" and s: "order_succ o0 o1"
    and upd: "orders d' = AList.update oid o1 (orders d)"
    by (auto simp: order_written_def)
  show ?thesis
  proof (cases "k = oid")
    case True
    with k o0 s upd show ?thesis by (simp add: map_of_update_same)
  next
    case False
    with k upd show ?thesis by (simp add: map_of_update_other)
  qed
qed

lemma overall_range:
  "orders_ok d \<Longrightarrow> x \<in> set (rated_orders (orders d) rid) \<Longrightarrow> 1 \<le> overall_of x \<and> overall_of x \<le> 5"
  by (auto simp: orders_ok_def rated_orders_def overall_of_def order_valid_def rating_in_range_def)

lemma foldl_overall_bounds:
  assumes "\<forall>x\<in>set xs. 1 \<le> overall_of x \<and> overall_of x \<le> 5"
  shows "a + int (length xs) \<le> foldl (\<lambda>acc x. acc + overall_of x) a xs \<and>
         foldl (\<lambda>acc x. acc + overall_of x) a xs \<le> a + 5 * int (length xs)"
  using assms
proof (induction xs arbitrary: a)
  case (Cons x xs)
  then have "\<forall>x\<in>set xs. 1 \<le> overall_of x \<and> overall_of x \<le> 5" by simp
  from Cons.IH [OF this, of "a + overall_of x"] Cons.prems show ?case by auto
qed simp

lemma restaurant_rating_bounds:
  assumes ne: "rated \<noteq> []" and rng: "\<forall>x\<in>set rated. 1 \<le> overall_of x \<and> overall_of x \<le> 5"
  shows "10 \<le> fst (restaurant_rating rated) \<and> fst (restaurant_rating rated) \<le> 50"
proof -
  define n where "n = int (length rated)"
  define t where "t = foldl (\<lambda>acc x. acc + overall_of x) 0 rated"
  have n: "0 < n" using ne by (simp add: n_def)
  have t: "n \<le> t \<and> t \<le> 5 * n" using foldl_overall_bounds [OF rng, of 0] by (simp add: n_def t_def)
  have "js_round (10 * n) n \<le> js_round (10 * t) n" using n t by (intro js_round_mono) auto
  moreover have "js_round (10 * t) n \<le> js_round (50 * n) n" using n t by (intro js_round_mono) auto
  moreover have "js_round (10 * n) n = 10" "js_round (50 * n) n = 50"
    using n by (simp_all add: js_round_multiple)
  ultimately show ?thesis by (simp add: restaurant_rating_def n_def t_def Let_def)
qed

subsection \<open>Properties of the order handlers\<close>

text \<open>
  C11. Invariant: in every database reached by order creation and the status, cancel and
  rate handlers from one whose stored orders have distinct ids, pass the schema validators
  and are not refunded, this still holds. In particular no handler ever makes an order
  \<open>refunded\<close>, and every stored rating has scores from 1 to 5.
\<close>

theorem reach_orders_ok:
  assumes "order_reach d d'" and "orders_ok d"
  shows "orders_ok d'"
  using assms
  by (induction rule: order_reach.induct)
     (auto intro: orders_ok_written order_step_written simp: create_order_fails)

theorem reach_orders_ok_witness:
  "order_reach sample_order_db
     (order_step sample_order_db 5 2 (sample_user ''bob'' Restaurant_Owner) (Set_Status 50 Preparing None)) \<and>
   orders_ok sample_order_db \<and>
   orders_ok (order_step sample_order_db 5 2 (sample_user ''bob'' Restaurant_Owner) (Set_Status 50 Preparing None))"
proof -
  have r: "order_reach sample_order_db
     (order_step sample_order_db 5 2 (sample_user ''bob'' Restaurant_Owner) (Set_Status 50 Preparing None))"
    by (rule reach_step [OF reach_refl])
  have ok: "orders_ok sample_order_db"
    by (simp add: orders_ok_def sample_order_db_def sample_order_def order_valid_def coll_wf_def)
  from reach_orders_ok [OF r ok] r ok show ?thesis by simp
qed

text \<open>
  C12. History: along any run of the handlers a stored order is never removed; its
  timeline is only extended, its number, customer, restaurant, items and pricing never
  change, and once it has a rating that rating never changes.
\<close>

theorem reach_order_history:
  assumes "order_reach d d'" and "map_of (orders d) k = Some od"
  shows "\<exists>od'. map_of (orders d') k = Some od' \<and> order_succ od od'"
  using assms
proof (induction rule: order_reach.induct)
  case (reach_refl d)
  then show ?case by auto
next
  case (reach_step d d' now uid u op)
  then obtain o1 where "map_of (orders d') k = Some o1" and "order_succ od o1" by blast
  with order_written_history [OF order_step_written] show ?case by (blast intro: order_succ_trans)
next
  case (reach_create d d' now uid rq)
  then show ?case by (simp add: create_order_fails)
qed

theorem reach_order_history_witness:
  "\<exists>od'. map_of (orders (order_step sample_order_db 5 1 (sample_user ''ann'' Customer)
                            (Rate_Order 50 sample_rate))) 50 = Some od' \<and>
         order_succ sample_order od'"
proof -
  have r: "order_reach sample_order_db
     (order_step sample_order_db 5 1 (sample_user ''ann'' Customer) (Rate_Order 50 sample_rate))"
    by (rule reach_step [OF reach_refl])
  have k: "map_of (orders sample_order_db) 50 = Some sample_order"
    by (simp add: sample_order_db_def)
  from reach_order_history [OF r k] show ?thesis .
qed

text \<open>
  A status update by the restaurant's owner (or an admin) to one of the settable
  statuses rewrites the stored order: the new status, a timeline entry with the note or
  \<open>"Order <status>"\<close>, and the delivery time when the status is \<open>delivered\<close>.
  The handler does not look at the current status: a delivered or cancelled order can be
  set back to \<open>preparing\<close>, as the witness shows.
\<close>

theorem update_order_status_effect:
  assumes "map_of (orders d) oid = Some od" and "order_valid od"
    and "owner_gate d uid u (o_restaurant od) = None" and "settable_status s"
  shows "update_order_status d now uid u oid s note =
           (d\<lparr>orders := AList.update oid (set_status now s note od) (orders d)\<rparr>,
            Inr (set_status now s note od))"
  using assms by (simp add: update_order_status_def save_order_update)

theorem update_order_status_effect_witness:
  "o_status sample_order = Delivered \<and>
   update_order_status sample_order_db 5 2 (sample_user ''bob'' Restaurant_Owner) 50 Preparing None =
     (sample_db\<lparr>orders := [(50, set_status 5 Preparing None sample_order)]\<rparr>,
      Inr (set_status 5 Preparing None sample_order)) \<and>
   o_status (set_status 5 Preparing None sample_order) = Preparing"
proof -
  have od: "map_of (orders sample_order_db) 50 = Some sample_order"
    by (simp add: sample_order_db_def)
  have ok: "order_valid sample_order" by (simp add: sample_order_def order_valid_def)
  have g: "owner_gate sample_order_db 2 (sample_user ''bob'' Restaurant_Owner) (o_restaurant sample_order) = None"
    by (simp add: owner_gate_def sample_order_db_def sample_db_def sample_user_def sample_order_def
                  sample_restaurant_def)
  have s: "settable_status Preparing" by (simp add: settable_status_def)
  from update_order_status_effect [OF od ok g s, of 5 None]
  show ?thesis by (simp add: sample_order_db_def sample_order_def set_status_def)
qed

text \<open>
  Only an admin or the owner of the order's restaurant gets a successful status
  update.
\<close>

theorem update_order_status_authorized:
  assumes "snd (update_order_status d now uid u oid s note) = Inr od'"
  shows "user_role u = Admin \<or>
         (\<exists>od r. map_of (orders d) oid = Some od \<and> map_of (restaurants d) (o_restaurant od) = Some r \<and>
                 rest_owner r = uid)"
  using assms
  by (auto simp: update_order_status_def owner_gate_def save_order_update
           split: if_splits option.splits)

theorem update_order_status_authorized_witness:
  "snd (update_order_status sample_order_db 5 2 (sample_user ''bob'' Restaurant_Owner) 50 Preparing None) =
     Inr (set_status 5 Preparing None sample_order) \<and>
   (\<exists>od r. map_of (orders sample_order_db) 50 = Some od \<and>
           map_of (restaurants sample_order_db) (o_restaurant od) = Some r \<and> rest_owner r = 2)"
proof -
  have run: "snd (update_order_status sample_order_db 5 2 (sample_user ''bob'' Restaurant_Owner) 50 Preparing None) =
             Inr (set_status 5 Preparing None sample_order)"
    by (simp add: update_order_status_def owner_gate_def save_order_update settable_status_def
                  sample_order_db_def sample_db_def sample_user_def sample_restaurant_def sample_order_def
                  order_valid_def set_status_def)
  from update_order_status_authorized [OF run] run show ?thesis
    by (simp add: sample_user_def)
qed

text \<open>
  Cancelling an order that is not delivered, cancelled or refunded, by its customer,
  the owner of its restaurant or an admin, sets it \<open>cancelled\<close> with the given reason
  (default \<open>"Cancelled by user"\<close>) and appends a timeline entry.
\<close>

theorem cancel_order_effect:
  assumes "map_of (orders d) oid = Some od" and "order_valid od"
    and "map_of (restaurants d) (o_restaurant od) = Some r"
    and "o_customer od = uid \<or> rest_owner r = uid \<or> user_role u = Admin"
    and "o_status od \<notin> set [Delivered, Cancelled, Refunded]"
  shows "cancel_order d now uid u oid reason =
           (d\<lparr>orders := AList.update oid (cancel_fields now reason od) (orders d)\<rparr>,
            Inr (cancel_fields now reason od))"
  using assms by (auto simp: cancel_order_def save_order_update)

theorem cancel_order_effect_witness:
  "cancel_order (sample_db\<lparr>orders := [(50, sample_order\<lparr>o_status := Confirmed\<rparr>)]\<rparr>) 5 1
      (sample_user ''ann'' Customer) 50 None =
     (sample_db\<lparr>orders := [(50, cancel_fields 5 None (sample_order\<lparr>o_status := Confirmed\<rparr>))]\<rparr>,
      Inr (cancel_fields 5 None (sample_order\<lparr>o_status := Confirmed\<rparr>))) \<and>
   o_cancel_reason (cancel_fields 5 None (sample_order\<lparr>o_status := Confirmed\<rparr>)) = Some ''Cancelled by user''"
proof -
  let ?d = "sample_db\<lparr>orders := [(50, sample_order\<lparr>o_status := Confirmed\<rparr>)]\<rparr>"
  have od: "map_of (orders ?d) 50 = Some (sample_order\<lparr>o_status := Confirmed\<rparr>)" by simp
  have ok: "order_valid (sample_order\<lparr>o_status := Confirmed\<rparr>)"
    by (simp add: sample_order_def order_valid_def)
  have r: "map_of (restaurants ?d) (o_restaurant (sample_order\<lparr>o_status := Confirmed\<rparr>)) =
           Some (sample_restaurant 2 200 1000)"
    by (simp add: sample_db_def sample_order_def)
  have who: "o_customer (sample_order\<lparr>o_status := Confirmed\<rparr>) = 1 \<or>
             rest_owner (sample_restaurant 2 200 1000) = 1 \<or> user_role (sample_user ''ann'' Customer) = Admin"
    by (simp add: sample_order_def)
  have st: "o_status (sample_order\<lparr>o_status := Confirmed\<rparr>) \<notin> set [Delivered, Cancelled, Refunded]"
    by simp
  from cancel_order_effect [OF od ok r who st, of 5 None] show ?thesis
    by (simp add: cancel_fields_def)
qed

text \<open>
  C16. An order that is delivered, cancelled or refunded cannot be cancelled: whoever
  asks, the database is unchanged and the answer is an error; for an authorised caller it
  is the 400 \<open>"Order cannot be cancelled"\<close>.
\<close>

theorem cancel_order_terminal:
  assumes "map_of (orders d) oid = Some od" and "o_status od \<in> set [Delivered, Cancelled, Refunded]"
  shows "(\<exists>e. cancel_order d now uid u oid reason = (d, Inl e)) \<and>
         (\<forall>r. map_of (restaurants d) (o_restaurant od) = Some r \<longrightarrow>
              (o_customer od = uid \<or> rest_owner r = uid \<or> user_role u = Admin) \<longrightarrow>
              cancel_order d now uid u oid reason = (d, Inl Cannot_Cancel))"
  using assms by (auto simp: cancel_order_def split: option.splits)

theorem cancel_order_terminal_witness:
  "cancel_order sample_order_db 5 1 (sample_user ''ann'' Customer) 50 None = (sample_order_db, Inl Cannot_Cancel)"
proof -
  have od: "map_of (orders sample_order_db) 50 = Some sample_order"
    by (simp add: sample_order_db_def)
  have st: "o_status sample_order \<in> set [Delivered, Cancelled, Refunded]"
    by (simp add: sample_order_def)
  have r: "map_of (restaurants sample_order_db) (o_restaurant sample_order) = Some (sample_restaurant 2 200 1000)"
    by (simp add: sample_order_db_def sample_db_def sample_order_def)
  from cancel_order_terminal [OF od st, of 5 1 "sample_user ''ann'' Customer" None] r
  show ?thesis by (simp add: sample_order_def)
qed

text \<open>
  C17. A rating is accepted only from the order's customer, for a delivered order that
  has no rating yet, with scores from 1 to 5; the answer is the order with the new rating
  (delivery score defaulting to the food score). So an order is rated at most once.
\<close>

theorem rate_order_guard:
  assumes "snd (rate_order d now uid oid rr) = Inr od'"
  shows "\<exists>od. map_of (orders d) oid = Some od \<and> o_customer od = uid \<and> o_status od = Delivered \<and>
              o_rating od = None \<and> rate_request_valid rr \<and>
              od' = od\<lparr>o_rating := Some (new_rating now rr)\<rparr>"
  using assms
  by (auto simp: rate_order_def save_order_update Let_def split: if_splits option.splits prod.splits)

lemma rated_orders_member:
  "map_of os oid = Some x \<Longrightarrow> o_restaurant x = rid \<Longrightarrow> o_rating x \<noteq> None \<Longrightarrow>
     x \<in> set (rated_orders os rid)"
  by (force simp: rated_orders_def dest: map_of_SomeD)

lemma rate_order_run:
  fixes now :: ms
  assumes ok: "orders_ok d" and v: "rate_request_valid rr"
    and od: "map_of (orders d) oid = Some od" and cust: "o_customer od = uid"
    and dl: "o_status od = Delivered" and un: "o_rating od = None"
    and r: "map_of (restaurants d) (o_restaurant od) = Some r" and rv: "restaurant_valid r"
  defines "od1 \<equiv> od\<lparr>o_rating := Some (new_rating now rr)\<rparr>"
  defines "d1 \<equiv> d\<lparr>orders := AList.update oid od1 (orders d)\<rparr>"
  defines "rated \<equiv> rated_orders (orders d1) (o_restaurant od)"
  shows "rate_order d now uid oid rr =
           (d1\<lparr>restaurants := AList.update (o_restaurant od)
                 (r\<lparr>rating_average := fst (restaurant_rating rated), rating_count := length rated\<rparr>)
                 (restaurants d)\<rparr>, Inr od1) \<and>
         od1 \<in> set rated \<and> 10 \<le> fst (restaurant_rating rated) \<and> fst (restaurant_rating rated) \<le> 50"
proof -
  have valid1: "order_valid od1"
    using ok od map_of_SomeD [OF od] by (auto simp: od1_def order_valid_rated [OF v un] orders_ok_def)
  have "order_written d d1"
    unfolding d1_def by (rule order_writtenI [OF od valid1]) (simp_all add: od1_def dl order_succ_rate un)
  then have ok1: "orders_ok d1" by (rule orders_ok_written [OF ok])
  have mem: "od1 \<in> set rated"
    unfolding rated_def d1_def by (rule rated_orders_member [where oid = oid]) (simp_all add: map_of_update_same od1_def)
  have "\<forall>x\<in>set rated. 1 \<le> overall_of x \<and> overall_of x \<le> 5"
    unfolding rated_def using overall_range [OF ok1] by blast
  with mem have b: "10 \<le> fst (restaurant_rating rated) \<and> fst (restaurant_rating rated) \<le> 50"
    by (intro restaurant_rating_bounds) auto
  have n: "snd (restaurant_rating rated) = length rated" by (simp add: restaurant_rating_def Let_def)
  have "rate_order d now uid oid rr =
           (d1\<lparr>restaurants := AList.update (o_restaurant od)
                 (r\<lparr>rating_average := fst (restaurant_rating rated), rating_count := length rated\<rparr>)
                 (restaurants d)\<rparr>, Inr od1)"
  proof -
    have rd: "restaurants d1 = restaurants d" by (simp add: d1_def)
    have re: "rated_orders (orders d1) (o_restaurant od) = rated" by (simp add: rated_def)
    have "save_order d now oid False od1 = Some (od1, d1)"
      using valid1 by (simp add: save_order_update d1_def)
    with v od cust dl un show ?thesis
      using r rv b n by (simp add: rate_order_def rd re restaurant_valid_def Let_def case_prod_beta
                              od1_def [symmetric])
  qed
  with mem b show ?thesis by blast
qed

lemma sample_rate_run:
  "snd (rate_order sample_order_db 5 1 50 sample_rate) = Inr (sample_order\<lparr>o_rating := Some (new_rating 5 sample_rate)\<rparr>)"
proof -
  have ok: "orders_ok sample_order_db"
    by (simp add: orders_ok_def sample_order_db_def sample_order_def order_valid_def coll_wf_def)
  have v: "rate_request_valid sample_rate" by (simp add: rate_request_valid_def sample_rate_def)
  have r: "map_of (restaurants sample_order_db) (o_restaurant sample_order) = Some (sample_restaurant 2 200 1000)"
    by (simp add: sample_order_db_def sample_db_def sample_order_def)
  have rv: "restaurant_valid (sample_restaurant 2 200 1000)"
    by (simp add: restaurant_valid_def sample_restaurant_def)
  from rate_order_run [OF ok v _ _ _ _ r rv, of 50 1 5] show ?thesis
    by (simp add: sample_order_db_def sample_order_def)
qed

theorem rate_order_guard_witness:
  "\<exists>od. map_of (orders sample_order_db) 50 = Some od \<and> o_customer od = 1 \<and> o_status od = Delivered \<and>
        o_rating od = None \<and> rate_request_valid sample_rate \<and>
        sample_order\<lparr>o_rating := Some (new_rating 5 sample_rate)\<rparr> = od\<lparr>o_rating := Some (new_rating 5 sample_rate)\<rparr>"
  using rate_order_guard [OF sample_rate_run] .

text \<open>
  C18. Rating a delivered, unrated order of one's own succeeds when the stored orders
  satisfy the invariant and the restaurant document passes its validators: the order gets the rating, and the restaurant's rating becomes the
  mean of the overall scores of all its rated orders (this one included) rounded to one
  decimal, with the count of those orders. The mean lies between 1.0 and 5.0, so the
  restaurant schema's bounds never reject the save.
\<close>

theorem rate_order_recomputes_rating:
  assumes "orders_ok d" and "rate_request_valid rr"
    and "map_of (orders d) oid = Some od" and "o_customer od = uid"
    and "o_status od = Delivered" and "o_rating od = None"
    and "map_of (restaurants d) (o_restaurant od) = Some r" and "restaurant_valid r"
  shows "\<exists>d' r'. rate_order d now uid oid rr = (d', Inr (od\<lparr>o_rating := Some (new_rating now rr)\<rparr>)) \<and>
           map_of (restaurants d') (o_restaurant od) = Some r' \<and>
           rating_average r' = fst (restaurant_rating (rated_orders (orders d') (o_restaurant od))) \<and>
           rating_count r' = length (rated_orders (orders d') (o_restaurant od)) \<and>
           0 < rating_count r' \<and> 10 \<le> rating_average r' \<and> rating_average r' \<le> 50"
proof -
  let ?rated = "rated_orders (orders (d\<lparr>orders := AList.update oid (od\<lparr>o_rating := Some (new_rating now rr)\<rparr>)
                  (orders d)\<rparr>)) (o_restaurant od)"
  from rate_order_run [OF assms, of now]
  have run: "rate_order d now uid oid rr =
      (d\<lparr>orders := AList.update oid (od\<lparr>o_rating := Some (new_rating now rr)\<rparr>) (orders d),
         restaurants := AList.update (o_restaurant od)
           (r\<lparr>rating_average := fst (restaurant_rating ?rated), rating_count := length ?rated\<rparr>)
           (restaurants d)\<rparr>, Inr (od\<lparr>o_rating := Some (new_rating now rr)\<rparr>))"
    and mem: "od\<lparr>o_rating := Some (new_rating now rr)\<rparr> \<in> set ?rated"
    and b: "10 \<le> fst (restaurant_rating ?rated) \<and> fst (restaurant_rating ?rated) \<le> 50"
    by simp_all
  from mem have "0 < length ?rated" by (rule length_pos_if_in_set)
  with run b show ?thesis by (simp add: map_of_update_same)
qed

theorem rate_order_recomputes_rating_witness:
  "\<exists>d' r'. rate_order sample_order_db 5 1 50 sample_rate =
             (d', Inr (sample_order\<lparr>o_rating := Some (new_rating 5 sample_rate)\<rparr>)) \<and>
           map_of (restaurants d') 10 = Some r' \<and>
           rating_average r' = fst (restaurant_rating (rated_orders (orders d') 10)) \<and>
           rating_count r' = length (rated_orders (orders d') 10) \<and>
           0 < rating_count r' \<and> 10 \<le> rating_average r' \<and> rating_average r' \<le> 50"
proof -
  have ok: "orders_ok sample_order_db"
    by (simp add: orders_ok_def sample_order_db_def sample_order_def order_valid_def coll_wf_def)
  have v: "rate_request_valid sample_rate" by (simp add: rate_request_valid_def sample_rate_def)
  have od: "map_of (orders sample_order_db) 50 = Some sample_order" by (simp add: sample_order_db_def)
  have c: "o_customer sample_order = 1" "o_status sample_order = Delivered" "o_rating sample_order = None"
    "o_restaurant sample_order = 10"
    by (simp_all add: sample_order_def)
  have r: "map_of (restaurants sample_order_db) (o_restaurant sample_order) = Some (sample_restaurant 2 200 1000)"
    by (simp add: sample_order_db_def sample_db_def sample_order_def)
  have rv: "restaurant_valid (sample_restaurant 2 200 1000)"
    by (simp add: restaurant_valid_def sample_restaurant_def)
  from rate_order_recomputes_rating [OF ok v od c(1) c(2) c(3) r rv, of 5] show ?thesis
    by (simp only: c(4))
qed

text \<open>
  C19. GET /api/orders/:id answers an order only to its customer, the owner of its
  restaurant, or an admin, and the order answered is the stored one.
\<close>

theorem get_order_authorized:
  assumes "get_order d uid u oid = Inr od"
  shows "map_of (orders d) oid = Some od \<and>
         (o_customer od = uid \<or> user_role u = Admin \<or>
          (\<exists>r. map_of (restaurants d) (o_restaurant od) = Some r \<and> rest_owner r = uid))"
  using assms by (auto simp: get_order_def split: option.splits if_splits)

theorem get_order_authorized_witness:
  "get_order sample_order_db 2 (sample_user ''bob'' Restaurant_Owner) 50 = Inr sample_order \<and>
   get_order sample_order_db 4 (sample_user ''dan'' Restaurant_Owner) 50 = Inl Forbidden \<and>
   (\<exists>r. map_of (restaurants sample_order_db) (o_restaurant sample_order) = Some r \<and> rest_owner r = 2)"
proof -
  have run: "get_order sample_order_db 2 (sample_user ''bob'' Restaurant_Owner) 50 = Inr sample_order"
    by (simp add: get_order_def sample_order_db_def sample_db_def sample_order_def sample_restaurant_def
                  sample_user_def)
  have other: "get_order sample_order_db 4 (sample_user ''dan'' Restaurant_Owner) 50 = Inl Forbidden"
    by (simp add: get_order_def sample_order_db_def sample_db_def sample_order_def sample_restaurant_def
                  sample_user_def)
  from get_order_authorized [OF run] run other show ?thesis
    by (simp add: sample_user_def sample_order_def)
qed

subsection \<open>What the order handlers leave alone\<close>

lemma order_step_frame:
  "menu_items (order_step d now uid u op) = menu_items d \<and> next_oid (order_step d now uid u op) = next_oid d \<and>
   carts (order_step d now uid u op) = carts d \<and> users (order_step d now uid u op) = users d \<and>
   (restaurants (order_step d now uid u op) = restaurants d \<or>
    (\<exists>rid r0 r. map_of (restaurants d) rid = Some r0 \<and> restaurant_valid r \<and>
                restaurants (order_step d now uid u op) = AList.update rid r (restaurants d)))"
proof (cases op)
  case (Set_Status oid s nt)
  then show ?thesis
    by (auto simp: update_order_status_def save_order_update split: option.splits)
next
  case (Cancel_Order oid reason)
  then show ?thesis
    by (auto simp: cancel_order_def save_order_update split: option.splits)
next
  case (Rate_Order oid rr)
  then show ?thesis
    by (auto simp: rate_order_def save_order_update Let_def split: option.splits prod.splits)
qed

subsection \<open>Every stored order can be completed\<close>

text \<open>
  C13. An unrated stored order can always be brought to its end: whatever its status,
  the owner of its restaurant (or an admin) sets it delivered and its customer then rates
  it, so a reachable database holds it delivered with that rating, provided the stored
  orders and the restaurant pass their validators.
\<close>

theorem order_completes:
  assumes ok: "orders_ok d" and od: "map_of (orders d) oid = Some od" and un: "o_rating od = None"
    and g: "owner_gate d uid u (o_restaurant od) = None"
    and r: "map_of (restaurants d) (o_restaurant od) = Some r" and rv: "restaurant_valid r"
    and v: "rate_request_valid rr"
  shows "\<exists>d'. order_reach d d' \<and>
              map_of (orders d') oid = Some ((set_status now Delivered None od)\<lparr>o_rating := Some (new_rating now' rr)\<rparr>)"
proof -
  let ?od1 = "set_status now Delivered None od"
  let ?d1 = "order_step d now uid u (Set_Status oid Delivered None)"
  have valid: "order_valid od" using ok map_of_SomeD [OF od] by (auto simp: orders_ok_def)
  have d1: "?d1 = d\<lparr>orders := AList.update oid ?od1 (orders d)\<rparr>"
    using update_order_status_effect [OF od valid g, of Delivered now None]
    by (simp add: settable_status_def)
  have ok1: "orders_ok ?d1" by (rule orders_ok_written [OF ok order_step_written])
  have od1: "map_of (orders ?d1) oid = Some ?od1" unfolding d1 by (simp add: map_of_update_same)
  have r1: "map_of (restaurants ?d1) (o_restaurant ?od1) = Some r" unfolding d1 using r by (simp add: set_status_def)
  from rate_order_run [OF ok1 v od1 _ _ _ r1 rv, of "o_customer od" now']
  have "map_of (orders (order_step ?d1 now' (o_customer od) u' (Rate_Order oid rr))) oid =
          Some (?od1\<lparr>o_rating := Some (new_rating now' rr)\<rparr>)"
    using un by (simp add: set_status_def map_of_update_same)
  moreover have "order_reach d (order_step ?d1 now' (o_customer od) u' (Rate_Order oid rr))"
    by (intro order_reach.reach_step order_reach.reach_refl)
  ultimately show ?thesis by blast
qed

theorem order_completes_witness:
  "orders_ok sample_order_db \<and> map_of (orders sample_order_db) 50 = Some sample_order \<and> o_rating sample_order = None \<and>
   (\<exists>d'. order_reach sample_order_db d' \<and>
          map_of (orders d') 50 = Some ((set_status 5 Delivered None sample_order)\<lparr>o_rating := Some (new_rating 6 sample_rate)\<rparr>))"
proof -
  have ok: "orders_ok sample_order_db"
    by (simp add: orders_ok_def sample_order_db_def sample_order_def order_valid_def coll_wf_def)
  have od: "map_of (orders sample_order_db) 50 = Some sample_order" by (simp add: sample_order_db_def)
  have un: "o_rating sample_order = None" by (simp add: sample_order_def)
  have g: "owner_gate sample_order_db 2 (sample_user ''bob'' Restaurant_Owner) (o_restaurant sample_order) = None"
    by (simp add: owner_gate_def sample_order_db_def sample_db_def sample_user_def sample_order_def
                  sample_restaurant_def)
  have r: "map_of (restaurants sample_order_db) (o_restaurant sample_order) = Some (sample_restaurant 2 200 1000)"
    by (simp add: sample_order_db_def sample_db_def sample_order_def)
  have rv: "restaurant_valid (sample_restaurant 2 200 1000)"
    by (simp add: restaurant_valid_def sample_restaurant_def)
  have v: "rate_request_valid sample_rate" by (simp add: rate_request_valid_def sample_rate_def)
  from order_completes [OF ok od un g r rv v, where now = 5 and now' = 6] ok od un show ?thesis by blast
qed

end
