(* ===== verification/Paging.thy ===== *)
theory Paging
  imports Store
begin

text \<open>
  The pagination that every listing route of the backend performs with
  \<open>.limit(limit).skip((page - 1) * limit)\<close> and reports as
  \<open>{ current, pages: Math.ceil(total / limit), total, limit }\<close>, shared by the admin
  listings (\<open>routes/admin.js\<close>) and the order listings (\<open>routes/orders.js\<close>), and its
  correctness: for a positive limit the pages partition the listing.
\<close>

subsection \<open>Pagination as MongoDB does it\<close>

text \<open>
  \<open>.limit(limit).skip((page - 1) * limit)\<close> on the integers \<open>parseInt\<close> gives: a
  negative skip is an error (500), \<open>limit(0)\<close> means no limit, and a negative limit
  returns that many documents. \<open>Math.ceil(total / limit)\<close> is not a number for a zero
  limit (\<open>None\<close>, sent as \<open>null\<close>).
\<close>

definition mongo_window :: "int \<Rightarrow> int \<Rightarrow> 'a list \<Rightarrow> 'a list option" where
  "mongo_window page limit xs =
     (let sk = (page - 1) * limit
      in if sk < 0 then None
         else let ys = drop (nat sk) xs in Some (if limit = 0 then ys else take (nat \<bar>limit\<bar>) ys))"

definition page_count :: "int \<Rightarrow> int \<Rightarrow> int option" where
  "page_count n limit = (if limit = 0 then None else Some (- ((- n) div limit)))"

record 'a page =
  pg_items :: "'a list"
  pg_current :: int
  pg_pages :: "int option"
  pg_total :: int
  pg_limit :: int

definition paginate :: "int \<Rightarrow> int \<Rightarrow> 'a list \<Rightarrow> 'a page response" where
  "paginate page limit xs =
     (case mongo_window page limit xs of
        None \<Rightarrow> Inl Server_Error
      | Some ys \<Rightarrow> Inr \<lparr>pg_items = ys, pg_current = page, pg_pages = page_count (int (length xs)) limit,
                        pg_total = int (length xs), pg_limit = limit\<rparr>)"

text \<open>\<open>24 * 60 * 60 * 1000\<close>: one day in milliseconds.\<close>

definition day_ms :: nat where "day_ms = 24 * 60 * 60 * 1000"

subsection \<open>Pagination lemmas\<close>

lemma ceil_div_nat:
  assumes "0 < l"
  shows "- ((- int n) div int l) = int ((n + l - 1) div l)"
proof -
  define k where "k = (n + l - 1) div l"
  have eq: "k * l + (n + l - 1) mod l = n + l - 1" unfolding k_def by (rule div_mult_mod_eq)
  have "(n + l - 1) mod l < l" using assms by simp
  with eq assms have lo: "n \<le> l * k" and hi: "l * k - n < l" by (simp_all add: mult.commute)
  have "(- int n) div int l = - int k"
  proof (rule int_div_pos_eq)
    show "- int n = int l * (- int k) + (int (l * k) - int n)" by simp
    show "0 \<le> int (l * k) - int n" using lo by (simp only: of_nat_le_iff diff_ge_0_iff_ge)
    show "int (l * k) - int n < int l" using lo hi by linarith
  qed
  then show ?thesis by (simp add: k_def)
qed

lemma ceil_div_bound: "0 < (l::nat) \<Longrightarrow> n \<le> (n + l - 1) div l * l"
  using div_mult_mod_eq [of "n + l - 1" l] mod_less_divisor [of l "n + l - 1"] by linarith

lemma mongo_window_pos:
  "1 \<le> p \<Longrightarrow> 0 < l \<Longrightarrow> mongo_window p l xs = Some (take (nat l) (drop (nat ((p - 1) * l)) xs))"
  by (auto simp: mongo_window_def Let_def not_less zero_le_mult_iff)

lemma concat_windows:
  "concat (map (\<lambda>i. take l (drop (i * l) xs)) [0..<k]) = take (k * l) xs"
proof (induction k)
  case (Suc k)
  have "take (k * l + l) xs = take (k * l) xs @ take l (drop (k * l) xs)" by (rule take_add)
  with Suc show ?case by (simp add: add.commute)
qed simp

lemma upto_from_one: "[1..int k] = map (\<lambda>i. int i + 1) [0..<k]"
proof (induction k)
  case (Suc k)
  have "[1..int (Suc k)] = [1..int k] @ [1 + int k]"
    using upto_rec2 [of 1 "1 + int k"] by simp
  with Suc show ?case by simp
qed simp

lemma window_nonempty:
  assumes "0 < l" and "i < (n + l - 1) div l" and "n = length xs"
  shows "take l (drop (i * l) xs) \<noteq> []"
proof -
  have "Suc i * l \<le> (n + l - 1) div l * l" using assms(2) by (intro mult_le_mono1) simp
  also have "\<dots> \<le> n + l - 1" by (metis div_mult_mod_eq le_add1)
  finally have "i * l < n" using assms(1) by simp
  with assms show ?thesis by simp
qed

subsection \<open>The pages partition the listing\<close>

text \<open>
  C28. Pagination loses and repeats nothing: for a positive limit, the listing reports
  \<open>k = \<lceil>total / limit\<rceil>\<close> pages, pages \<open>1..k\<close> each hold between one and
  \<open>limit\<close> documents, and read in order they are exactly the filtered, sorted listing.
\<close>

theorem pages_cover_listing:
  assumes "0 < limit"
  shows "\<exists>k. page_count (int (length xs)) limit = Some k \<and>
             concat (map (\<lambda>p. case mongo_window p limit xs of None \<Rightarrow> [] | Some ys \<Rightarrow> ys) [1..k]) = xs \<and>
             (\<forall>p\<in>set [1..k]. \<exists>ys. mongo_window p limit xs = Some ys \<and> ys \<noteq> [] \<and> length ys \<le> nat limit)"
proof -
  define l where "l = nat limit"
  have l: "0 < l" "limit = int l" using assms by (simp_all add: l_def)
  define k where "k = (length xs + l - 1) div l"
  have pc: "page_count (int (length xs)) limit = Some (int k)"
    using ceil_div_nat [OF l(1)] l(1) by (simp add: page_count_def l(2) k_def)
  have win: "mongo_window (int i + 1) limit xs = Some (take l (drop (i * l) xs))" for i
    using mongo_window_pos [of "int i + 1" limit xs] assms
    by (simp add: l(2) of_nat_mult [symmetric] del: of_nat_mult)
  have "concat (map (\<lambda>p. case mongo_window p limit xs of None \<Rightarrow> [] | Some ys \<Rightarrow> ys) [1..int k]) =
        concat (map (\<lambda>i. take l (drop (i * l) xs)) [0..<k])"
    by (simp add: upto_from_one comp_def win)
  also have "\<dots> = xs" using ceil_div_bound [OF l(1), of "length xs"] by (simp add: concat_windows k_def)
  finally have cover: "concat (map (\<lambda>p. case mongo_window p limit xs of None \<Rightarrow> [] | Some ys \<Rightarrow> ys) [1..int k]) = xs" .
  have pages: "\<forall>p\<in>set [1..int k]. \<exists>ys. mongo_window p limit xs = Some ys \<and> ys \<noteq> [] \<and> length ys \<le> nat limit"
  proof
    fix p assume "p \<in> set [1..int k]"
    then obtain i where i: "i < k" and p: "p = int i + 1" by (auto simp: upto_from_one)
    have "take l (drop (i * l) xs) \<noteq> []" using window_nonempty [OF l(1) _ refl] i by (simp add: k_def)
    then show "\<exists>ys. mongo_window p limit xs = Some ys \<and> ys \<noteq> [] \<and> length ys \<le> nat limit"
      by (simp add: p win l_def)
  qed
  from pc cover pages show ?thesis by blast
qed

theorem pages_cover_listing_witness:
  "0 < (2::int) \<and>
   (\<exists>k. page_count (int (length [1::nat, 2, 3])) 2 = Some k \<and>
        concat (map (\<lambda>p. case mongo_window p 2 [1::nat, 2, 3] of None \<Rightarrow> [] | Some ys \<Rightarrow> ys) [1..k]) = [1, 2, 3] \<and>
        (\<forall>p\<in>set [1..k]. \<exists>ys. mongo_window p 2 [1::nat, 2, 3] = Some ys \<and> ys \<noteq> [] \<and> length ys \<le> nat 2))"
  using pages_cover_listing [of 2 "[1::nat, 2, 3]"] by simp

end
