(* ===== verification/Order_Queries.thy ===== *)
theory Order_Queries
  imports Paging Order_Lifecycle
begin

text \<open>
  The two order listings of \<open>routes/orders.js\<close>: a customer's own orders
  (\<open>GET /api/orders\<close>) and a restaurant's orders (\<open>GET /api/orders/restaurant/:id\<close>),
  both sorted by creation time, newest first, and paginated as in \<open>Paging\<close>. Query
  parameters are strings: an absent \<open>page\<close> or \<open>limit\<close> takes the destructuring
  default, and the \<open>status\<close> filter compares the stored status's name with the text,
  so an unknown status matches nothing.
\<close>

subsection \<open>Query filters\<close>

text \<open>\<open>if (status) query.status = status\<close>: an empty text sets no filter.\<close>

definition status_matches :: "string option \<Rightarrow> order \<Rightarrow> bool" where
  "status_matches s od = (case s of None \<Rightarrow> True | Some x \<Rightarrow> x = [] \<or> status_name (o_status od) = x)"

text \<open>The validators of both routes: \<open>page \<ge> 1\<close>, \<open>1 \<le> limit \<le> 50\<close>, checked on the
  given values; the defaults apply to absent ones.\<close>

definition order_page_args :: "int option \<Rightarrow> int option \<Rightarrow> int \<Rightarrow> (int \<times> int) option" where
  "order_page_args page limit dflt =
     (let p = (case page of None \<Rightarrow> 1 | Some x \<Rightarrow> x); l = (case limit of None \<Rightarrow> dflt | Some x \<Rightarrow> x)
      in if 1 \<le> p \<and> 1 \<le> l \<and> l \<le> 50 then Some (p, l) else None)"

subsection \<open>GET /api/orders (lines 172--228)\<close>

record my_orders_query =
  mq_page :: "int option"
  mq_limit :: "int option"
  mq_status :: "string option"

definition list_my_orders :: "db \<Rightarrow> oid \<Rightarrow> my_orders_query \<Rightarrow> (oid \<times> order) page response" where
  "list_my_orders d uid q =
     (case order_page_args (mq_page q) (mq_limit q) 10 of
        None \<Rightarrow> Inl Validation_Failed
      | Some (p, l) \<Rightarrow>
          paginate p l (rev (filter (\<lambda>(k, od). o_customer od = uid \<and> status_matches (mq_status q) od) (orders d))))"

subsection \<open>GET /api/orders/restaurant/:restaurantId (lines 511--589)\<close>

text \<open>The route is behind \<open>restaurantAuth\<close>; the handler also requires the caller to
  own the restaurant unless they are an admin. \<open>date\<close> selects the day starting at
  the given instant: \<open>createdAt \<ge> date\<close> and \<open>createdAt < date + 1 day\<close>.\<close>

record restaurant_orders_query =
  ro_page :: "int option"
  ro_limit :: "int option"
  ro_status :: "string option"
  ro_day :: "ms option"

definition in_day :: "ms option \<Rightarrow> order \<Rightarrow> bool" where
  "in_day t od = (case t of None \<Rightarrow> True | Some s \<Rightarrow> s \<le> o_created od \<and> o_created od < s + day_ms)"

definition list_restaurant_orders ::
    "db \<Rightarrow> oid \<Rightarrow> user \<Rightarrow> oid \<Rightarrow> restaurant_orders_query \<Rightarrow> (oid \<times> order) page response" where
  "list_restaurant_orders d uid u rid q =
     (case order_page_args (ro_page q) (ro_limit q) 20 of
        None \<Rightarrow> Inl Validation_Failed
      | Some (p, l) \<Rightarrow>
          (case map_of (restaurants d) rid of
             None \<Rightarrow> Inl Restaurant_Not_Found
           | Some r \<Rightarrow>
               if user_role u \<noteq> Admin \<and> rest_owner r \<noteq> uid then Inl Forbidden
               else paginate p l (rev (filter (\<lambda>(k, od). o_restaurant od = rid \<and> status_matches (ro_status q) od \<and>
                                                         in_day (ro_day q) od) (orders d)))))"

subsection \<open>What the listings return\<close>

lemma mongo_window_subset: "mongo_window p l xs = Some ys \<Longrightarrow> set ys \<subseteq> set xs"
  using set_take_subset set_drop_subset
  by (fastforce simp: mongo_window_def Let_def split: if_splits)

lemma paginate_items: "paginate p l xs = Inr pg \<Longrightarrow> set (pg_items pg) \<subseteq> set xs"
  by (auto simp: paginate_def dest!: mongo_window_subset split: option.splits)

lemma list_my_orders_customer:
  assumes "list_my_orders d uid q = Inr pg" and "(k, od) \<in> set (pg_items pg)"
  shows "(k, od) \<in> set (orders d) \<and> o_customer od = uid \<and> status_matches (mq_status q) od"
proof -
  obtain p l where "paginate p l (rev (filter (\<lambda>(k, od). o_customer od = uid \<and> status_matches (mq_status q) od) (orders d))) = Inr pg"
    using assms(1) by (auto simp: list_my_orders_def split: option.splits)
  from paginate_items [OF this] assms(2) show ?thesis by auto
qed

lemma list_restaurant_orders_authorized:
  assumes "list_restaurant_orders d uid u rid q = Inr pg"
  shows "\<exists>r. map_of (restaurants d) rid = Some r \<and> (user_role u = Admin \<or> rest_owner r = uid) \<and>
             (\<forall>(k, od)\<in>set (pg_items pg). (k, od) \<in> set (orders d) \<and> o_restaurant od = rid \<and>
                                         in_day (ro_day q) od)"
proof -
  obtain p l r where r: "map_of (restaurants d) rid = Some r" "user_role u = Admin \<or> rest_owner r = uid"
    and pg: "paginate p l (rev (filter (\<lambda>(k, od). o_restaurant od = rid \<and> status_matches (ro_status q) od \<and>
                                                  in_day (ro_day q) od) (orders d))) = Inr pg"
    using assms by (auto simp: list_restaurant_orders_def split: option.splits if_splits)
  from paginate_items [OF pg] r show ?thesis by fastforce
qed

end
