(* ===== verification/Catalog.thy ===== *)
theory Catalog
  imports Store
begin

text \<open>
  The catalogue: the writing handlers of \<open>src/backend/routes/restaurants.js\<close>
  (register, update, delete, approve) and \<open>src/backend/routes/menu.js\<close> (add, update,
  delete a menu item), with the single-document reads. A request body is a record of
  optional fields: the handlers pass it whole to \<open>new Restaurant({...req.body})\<close>,
  \<open>new MenuItem(req.body)\<close> or \<open>findByIdAndUpdate(id, req.body)\<close>, so every
  modelled field present in the body overrides the stored one. The express-validator
  checks on fields outside the model are one boolean \<open>fields_ok\<close>; the paginated
  listings with text search and geographic filters are not modelled.
\<close>

subsection \<open>Request bodies\<close>

record restaurant_body =
  rb_name :: "string option"
  rb_owner :: "oid option"
  rb_delivery_fee :: "money option"
  rb_minimum_order :: "money option"
  rb_rating_average :: "int option"
  rb_rating_count :: "nat option"
  rb_status :: "restaurant_status option"
  rb_active :: "bool option"
  rb_total_orders :: "int option"
  rb_total_revenue :: "money option"

text \<open>The schema's \<open>trim: true\<close> setter applies to the name on creation and on update.\<close>

definition apply_restaurant_body :: "restaurant_body \<Rightarrow> restaurant \<Rightarrow> restaurant" where
  "apply_restaurant_body b r =
     r\<lparr>rest_name := patched (map_option js_trim (rb_name b)) (rest_name r),
       rest_owner := patched (rb_owner b) (rest_owner r),
       delivery_fee := patched (rb_delivery_fee b) (delivery_fee r),
       minimum_order := patched (rb_minimum_order b) (minimum_order r),
       rating_average := patched (rb_rating_average b) (rating_average r),
       rating_count := patched (rb_rating_count b) (rating_count r),
       rest_status := patched (rb_status b) (rest_status r),
       rest_active := patched (rb_active b) (rest_active r),
       total_orders := patched (rb_total_orders b) (total_orders r),
       total_revenue := patched (rb_total_revenue b) (total_revenue r)\<rparr>"

text \<open>The schema defaults (models/Restaurant.js): status \<open>pending\<close>, active, no rating, no orders.\<close>

definition restaurant_defaults :: restaurant where
  "restaurant_defaults =
     \<lparr>rest_name = [], rest_owner = 0, delivery_fee = 0, minimum_order = 0, rating_average = 0,
      rating_count = 0, rest_status = R_Pending, rest_active = True, total_orders = 0,
      total_revenue = 0\<rparr>"

text \<open>\<open>body("name").trim().isLength({ min: 2, max: 100 })\<close>.\<close>

definition name_ok :: "string option \<Rightarrow> bool" where
  "name_ok n \<longleftrightarrow>
     (case n of None \<Rightarrow> False | Some s \<Rightarrow> 2 \<le> length (js_trim s) \<and> length (js_trim s) \<le> 100)"

subsection \<open>Restaurants (routes/restaurants.js)\<close>

text \<open>\<open>GET /:id\<close>, lines 123--145.\<close>

definition get_restaurant :: "db \<Rightarrow> oid \<Rightarrow> restaurant response" where
  "get_restaurant d rid =
     (case map_of (restaurants d) rid of None \<Rightarrow> Inl Restaurant_Not_Found | Some r \<Rightarrow> Inr r)"

text \<open>
  \<open>POST /\<close>, lines 150--212, behind \<open>auth\<close> only. \<open>Restaurant.findOne({owner})\<close> is the
  first stored restaurant of the caller; the new document is the body spread over the
  schema defaults with the caller as owner.
\<close>

definition register_restaurant :: "db \<Rightarrow> oid \<Rightarrow> restaurant_body \<Rightarrow> bool \<Rightarrow> db \<times> restaurant response" where
  "register_restaurant d uid b fields_ok =
     (if \<not> fields_ok \<or> \<not> name_ok (rb_name b) then (d, Inl Validation_Failed)
      else if find (\<lambda>(k, r). rest_owner r = uid) (restaurants d) \<noteq> None then (d, Inl Already_Registered)
      else let r = (apply_restaurant_body b restaurant_defaults)\<lparr>rest_owner := uid\<rparr>
           in if \<not> restaurant_valid r then (d, Inl Server_Error)
              else let (rid, d1) = fresh_oid d
                   in (d1\<lparr>restaurants := AList.update rid r (restaurants d1)\<rparr>, Inr r))"

text \<open>\<open>PUT /:id\<close>, lines 217--253: \<open>findByIdAndUpdate(id, req.body, {runValidators})\<close>.\<close>

definition update_restaurant :: "db \<Rightarrow> oid \<Rightarrow> user \<Rightarrow> oid \<Rightarrow> restaurant_body \<Rightarrow> db \<times> restaurant response" where
  "update_restaurant d uid u rid b =
     (case map_of (restaurants d) rid of
        None \<Rightarrow> (d, Inl Restaurant_Not_Found)
      | Some r \<Rightarrow>
          if user_role u \<noteq> Admin \<and> rest_owner r \<noteq> uid then (d, Inl Forbidden)
          else let r' = apply_restaurant_body b r
               in if \<not> restaurant_valid r' then (d, Inl Server_Error)
                  else (d\<lparr>restaurants := AList.update rid r' (restaurants d)\<rparr>, Inr r'))"

text \<open>\<open>DELETE /:id\<close>, lines 258--283: the restaurant and then its menu items.\<close>

definition delete_restaurant :: "db \<Rightarrow> oid \<Rightarrow> db \<times> unit response" where
  "delete_restaurant d rid =
     (case map_of (restaurants d) rid of
        None \<Rightarrow> (d, Inl Restaurant_Not_Found)
      | Some _ \<Rightarrow>
          (d\<lparr>restaurants := AList.delete rid (restaurants d),
             menu_items := filter (\<lambda>(k, m). mi_restaurant m \<noteq> rid) (menu_items d)\<rparr>, Inr ()))"

text \<open>\<open>PUT /:id/status\<close>, lines 288--331: the validator admits approved, rejected, suspended.\<close>

definition set_restaurant_status :: "db \<Rightarrow> oid \<Rightarrow> restaurant_status \<Rightarrow> db \<times> restaurant response" where
  "set_restaurant_status d rid s =
     (if s \<notin> set [R_Approved, R_Rejected, R_Suspended] then (d, Inl Validation_Failed)
      else case map_of (restaurants d) rid of
        None \<Rightarrow> (d, Inl Restaurant_Not_Found)
      | Some r \<Rightarrow>
          (d\<lparr>restaurants := AList.update rid (r\<lparr>rest_status := s\<rparr>) (restaurants d)\<rparr>,
           Inr (r\<lparr>rest_status := s\<rparr>)))"

subsection \<open>Menu items (routes/menu.js)\<close>

record menu_body =
  mb_restaurant :: "oid option"
  mb_name :: "string option"
  mb_category :: "string option"
  mb_price :: "money option"
  mb_available :: "bool option"

definition apply_menu_body :: "menu_body \<Rightarrow> menu_item \<Rightarrow> menu_item" where
  "apply_menu_body b m =
     m\<lparr>mi_restaurant := patched (mb_restaurant b) (mi_restaurant m),
       mi_name := patched (map_option js_trim (mb_name b)) (mi_name m),
       mi_category := patched (mb_category b) (mi_category m),
       mi_price := patched (mb_price b) (mi_price m),
       mi_available := patched (mb_available b) (mi_available m)\<rparr>"

definition menu_defaults :: menu_item where
  "menu_defaults = \<lparr>mi_restaurant = 0, mi_name = [], mi_category = [], mi_price = 0, mi_available = True\<rparr>"

text \<open>\<open>GET /:id\<close>, lines 77--99.\<close>

definition get_menu_item :: "db \<Rightarrow> oid \<Rightarrow> menu_item response" where
  "get_menu_item d mid =
     (case map_of (menu_items d) mid of None \<Rightarrow> Inl Menu_Item_Not_Found | Some m \<Rightarrow> Inr m)"

text \<open>The validators of lines 108--116: a restaurant id, a trimmed name of 2 to 100
  characters, a non-empty category, a price that is a number \<open>\<ge> 0\<close>, and the
  unmodelled fields. A category outside the schema's enumeration passes them and fails
  at \<open>save()\<close>.\<close>

definition menu_body_ok :: "menu_body \<Rightarrow> bool \<Rightarrow> bool" where
  "menu_body_ok b fields_ok \<longleftrightarrow>
     fields_ok \<and> mb_restaurant b \<noteq> None \<and> name_ok (mb_name b) \<and>
     mb_category b \<noteq> None \<and> mb_category b \<noteq> Some [] \<and>
     (case mb_price b of None \<Rightarrow> False | Some p \<Rightarrow> 0 \<le> p)"

text \<open>\<open>POST /\<close>, lines 104--163.\<close>

definition add_menu_item :: "db \<Rightarrow> oid \<Rightarrow> user \<Rightarrow> menu_body \<Rightarrow> bool \<Rightarrow> db \<times> menu_item response" where
  "add_menu_item d uid u b fields_ok =
     (if \<not> menu_body_ok b fields_ok then (d, Inl Validation_Failed)
      else case mb_restaurant b of
        None \<Rightarrow> (d, Inl Validation_Failed)
      | Some rid \<Rightarrow>
          (case map_of (restaurants d) rid of
             None \<Rightarrow> (d, Inl Restaurant_Not_Found)
           | Some r \<Rightarrow>
               if user_role u \<noteq> Admin \<and> rest_owner r \<noteq> uid then (d, Inl Forbidden)
               else let m = apply_menu_body b menu_defaults
                    in if \<not> menu_item_valid m then (d, Inl Server_Error)
                       else let (mid, d1) = fresh_oid d
                            in (d1\<lparr>menu_items := AList.update mid m (menu_items d1)\<rparr>, Inr m)))"

text \<open>\<open>PUT /:id\<close>, lines 168--204: the ownership test is on the item's current restaurant.\<close>

definition update_menu_item :: "db \<Rightarrow> oid \<Rightarrow> user \<Rightarrow> oid \<Rightarrow> menu_body \<Rightarrow> db \<times> menu_item response" where
  "update_menu_item d uid u mid b =
     (case map_of (menu_items d) mid of
        None \<Rightarrow> (d, Inl Menu_Item_Not_Found)
      | Some m \<Rightarrow>
          (case owner_gate d uid u (mi_restaurant m) of
             Some e \<Rightarrow> (d, Inl e)
           | None \<Rightarrow>
               let m' = apply_menu_body b m
               in if \<not> menu_item_valid m' then (d, Inl Server_Error)
                  else (d\<lparr>menu_items := AList.update mid m' (menu_items d)\<rparr>, Inr m')))"

text \<open>\<open>DELETE /:id\<close>, lines 209--241.\<close>

definition delete_menu_item :: "db \<Rightarrow> oid \<Rightarrow> user \<Rightarrow> oid \<Rightarrow> db \<times> unit response" where
  "delete_menu_item d uid u mid =
     (case map_of (menu_items d) mid of
        None \<Rightarrow> (d, Inl Menu_Item_Not_Found)
      | Some m \<Rightarrow>
          (case owner_gate d uid u (mi_restaurant m) of
             Some e \<Rightarrow> (d, Inl e)
           | None \<Rightarrow> (d\<lparr>menu_items := AList.delete mid (menu_items d)\<rparr>, Inr ())))"

subsection \<open>The catalogue handlers as one step function\<close>

datatype catalog_op =
    Register_Restaurant restaurant_body bool
  | Update_Restaurant oid restaurant_body
  | Delete_Restaurant oid
  | Set_Restaurant_Status oid restaurant_status
  | Add_Menu_Item menu_body bool
  | Update_Menu_Item oid menu_body
  | Delete_Menu_Item oid

fun catalog_step :: "db \<Rightarrow> oid \<Rightarrow> user \<Rightarrow> catalog_op \<Rightarrow> db" where
  "catalog_step d uid u (Register_Restaurant b ok) = fst (register_restaurant d uid b ok)"
| "catalog_step d uid u (Update_Restaurant rid b) = fst (update_restaurant d uid u rid b)"
| "catalog_step d uid u (Delete_Restaurant rid) = fst (delete_restaurant d rid)"
| "catalog_step d uid u (Set_Restaurant_Status rid s) = fst (set_restaurant_status d rid s)"
| "catalog_step d uid u (Add_Menu_Item b ok) = fst (add_menu_item d uid u b ok)"
| "catalog_step d uid u (Update_Menu_Item mid b) = fst (update_menu_item d uid u mid b)"
| "catalog_step d uid u (Delete_Menu_Item mid) = fst (delete_menu_item d uid u mid)"

text \<open>
  \<open>catalog_ok\<close>: restaurant and menu-item ids are distinct and every stored document
  passes its schema validators. \<open>unique_owners\<close>: no user owns two restaurants, which
  registration checks. Ids are below the counter \<open>next_oid\<close>, so a fresh id is new.
\<close>

definition catalog_ok :: "db \<Rightarrow> bool" where
  "catalog_ok d \<longleftrightarrow>
     coll_wf (restaurants d) \<and> coll_wf (menu_items d) \<and>
     (\<forall>(k, r)\<in>set (restaurants d). k < next_oid d \<and> restaurant_valid r) \<and>
     (\<forall>(k, m)\<in>set (menu_items d). k < next_oid d \<and> menu_item_valid m)"

definition unique_owners :: "db \<Rightarrow> bool" where
  "unique_owners d \<longleftrightarrow> distinct (map (\<lambda>(k, r). rest_owner r) (restaurants d))"

subsection \<open>Sample bodies\<close>

definition no_restaurant_fields :: restaurant_body where
  "no_restaurant_fields =
     \<lparr>rb_name = None, rb_owner = None, rb_delivery_fee = None, rb_minimum_order = None,
      rb_rating_average = None, rb_rating_count = None, rb_status = None, rb_active = None,
      rb_total_orders = None, rb_total_revenue = None\<rparr>"

definition no_menu_fields :: menu_body where
  "no_menu_fields = \<lparr>mb_restaurant = None, mb_name = None, mb_category = None, mb_price = None, mb_available = None\<rparr>"

subsection \<open>The catalogue invariant\<close>

lemma catalog_ok_fresh:
  "catalog_ok d \<Longrightarrow> map_of (restaurants d) (next_oid d) = None \<and> map_of (menu_items d) (next_oid d) = None"
  by (force simp: catalog_ok_def map_of_eq_None_iff)

lemma catalog_ok_stored:
  "catalog_ok d \<Longrightarrow> map_of (restaurants d) k = Some r \<Longrightarrow> k < next_oid d \<and> restaurant_valid r"
  "catalog_ok d \<Longrightarrow> map_of (menu_items d) k = Some m \<Longrightarrow> k < next_oid d \<and> menu_item_valid m"
  by (auto simp: catalog_ok_def dest!: map_of_SomeD)

lemma catalog_ok_frame:
  "catalog_ok d \<Longrightarrow> restaurants d' = restaurants d \<Longrightarrow> menu_items d' = menu_items d \<Longrightarrow>
     next_oid d \<le> next_oid d' \<Longrightarrow> catalog_ok d'"
  by (fastforce simp: catalog_ok_def)

lemma catalog_ok_add_restaurant:
  assumes ok: "catalog_ok d" and v: "restaurant_valid r"
  shows "catalog_ok (d\<lparr>next_oid := Suc (next_oid d),
                       restaurants := AList.update (next_oid d) r (restaurants d)\<rparr>)"
proof -
  have "map_of (restaurants d) (next_oid d) = None" using catalog_ok_fresh [OF ok] by simp
  then have u: "AList.update (next_oid d) r (restaurants d) = restaurants d @ [(next_oid d, r)]"
    by (rule update_absent_append)
  show ?thesis
    using ok v catalog_ok_fresh [OF ok] unfolding u
    by (fastforce simp: catalog_ok_def coll_wf_def map_of_eq_None_iff)
qed

lemma catalog_ok_add_menu_item:
  assumes ok: "catalog_ok d" and v: "menu_item_valid m"
  shows "catalog_ok (d\<lparr>next_oid := Suc (next_oid d),
                       menu_items := AList.update (next_oid d) m (menu_items d)\<rparr>)"
proof -
  have "map_of (menu_items d) (next_oid d) = None" using catalog_ok_fresh [OF ok] by simp
  then have u: "AList.update (next_oid d) m (menu_items d) = menu_items d @ [(next_oid d, m)]"
    by (rule update_absent_append)
  show ?thesis
    using ok v catalog_ok_fresh [OF ok] unfolding u
    by (fastforce simp: catalog_ok_def coll_wf_def map_of_eq_None_iff)
qed

lemma catalog_ok_put_restaurant:
  assumes ok: "catalog_ok d" and k: "map_of (restaurants d) k = Some r0" and v: "restaurant_valid r"
  shows "catalog_ok (d\<lparr>restaurants := AList.update k r (restaurants d)\<rparr>)"
  using ok v catalog_ok_stored(1) [OF ok k] set_alist_update [of k r "restaurants d"]
  by (auto simp: catalog_ok_def coll_wf_update)

lemma catalog_ok_put_menu_item:
  assumes ok: "catalog_ok d" and k: "map_of (menu_items d) k = Some m0" and v: "menu_item_valid m"
  shows "catalog_ok (d\<lparr>menu_items := AList.update k m (menu_items d)\<rparr>)"
  using ok v catalog_ok_stored(2) [OF ok k] set_alist_update [of k m "menu_items d"]
  by (auto simp: catalog_ok_def coll_wf_update)

lemma coll_wf_filter [coll_simps]: "coll_wf c \<Longrightarrow> coll_wf (filter P c)"
  by (simp add: coll_wf_def distinct_map_filter)

lemma catalog_ok_delete_restaurant:
  "catalog_ok d \<Longrightarrow>
     catalog_ok (d\<lparr>restaurants := AList.delete rid (restaurants d),
                  menu_items := filter (\<lambda>(k, m). mi_restaurant m \<noteq> rid) (menu_items d)\<rparr>)"
  using set_alist_delete [of rid "restaurants d"]
  by (auto simp: catalog_ok_def coll_wf_delete coll_wf_filter)

lemma catalog_ok_delete_menu_item:
  "catalog_ok d \<Longrightarrow> catalog_ok (d\<lparr>menu_items := AList.delete mid (menu_items d)\<rparr>)"
  using set_alist_delete [of mid "menu_items d"]
  by (auto simp: catalog_ok_def coll_wf_delete)

lemma register_restaurant_ok: "catalog_ok d \<Longrightarrow> catalog_ok (fst (register_restaurant d uid b ok))"
  by (auto simp: register_restaurant_def fresh_oid_def Let_def intro: catalog_ok_add_restaurant)

lemma update_restaurant_ok: "catalog_ok d \<Longrightarrow> catalog_ok (fst (update_restaurant d uid u rid b))"
  by (auto simp: update_restaurant_def Let_def intro: catalog_ok_put_restaurant split: option.splits)

lemma delete_restaurant_ok: "catalog_ok d \<Longrightarrow> catalog_ok (fst (delete_restaurant d rid))"
  by (auto simp: delete_restaurant_def catalog_ok_delete_restaurant split: option.splits)

lemma set_restaurant_status_ok: "catalog_ok d \<Longrightarrow> catalog_ok (fst (set_restaurant_status d rid s))"
proof (cases "map_of (restaurants d) rid")
  case (Some r)
  moreover assume ok: "catalog_ok d"
  moreover have "restaurant_valid (r\<lparr>rest_status := s\<rparr>)"
    using catalog_ok_stored(1) [OF ok Some] by (simp add: restaurant_valid_def)
  ultimately show ?thesis
    by (auto simp: set_restaurant_status_def intro: catalog_ok_put_restaurant)
qed (simp add: set_restaurant_status_def)

lemma add_menu_item_ok: "catalog_ok d \<Longrightarrow> catalog_ok (fst (add_menu_item d uid u b ok))"
  by (auto simp: add_menu_item_def fresh_oid_def Let_def intro: catalog_ok_add_menu_item
           split: option.splits)

lemma update_menu_item_ok: "catalog_ok d \<Longrightarrow> catalog_ok (fst (update_menu_item d uid u mid b))"
  by (auto simp: update_menu_item_def Let_def intro: catalog_ok_put_menu_item split: option.splits)

lemma delete_menu_item_ok: "catalog_ok d \<Longrightarrow> catalog_ok (fst (delete_menu_item d uid u mid))"
  by (auto simp: delete_menu_item_def catalog_ok_delete_menu_item split: option.splits)

lemma catalog_step_ok: "catalog_ok d \<Longrightarrow> catalog_ok (catalog_step d uid u op)"
  by (cases op)
     (simp_all add: register_restaurant_ok update_restaurant_ok delete_restaurant_ok
        set_restaurant_status_ok add_menu_item_ok update_menu_item_ok delete_menu_item_ok)

lemma catalog_step_frame:
  "orders (catalog_step d uid u op) = orders d \<and> carts (catalog_step d uid u op) = carts d \<and>
   users (catalog_step d uid u op) = users d \<and> next_oid d \<le> next_oid (catalog_step d uid u op)"
  by (cases op)
     (auto simp: register_restaurant_def update_restaurant_def delete_restaurant_def
        set_restaurant_status_def add_menu_item_def update_menu_item_def delete_menu_item_def
        fresh_oid_def Let_def split: option.splits)

lemma map_of_filter_keep:
  "map_of c k = Some v \<Longrightarrow> P (k, v) \<Longrightarrow> map_of (filter P c) k = Some v"
  by (induction c) auto

lemma register_restaurant_InrD:
  "snd (register_restaurant d uid b ok) = Inr r \<Longrightarrow>
     find (\<lambda>(k, r). rest_owner r = uid) (restaurants d) = None \<and> rest_owner r = uid \<and>
     fst (register_restaurant d uid b ok) =
       d\<lparr>next_oid := Suc (next_oid d), restaurants := AList.update (next_oid d) r (restaurants d)\<rparr>"
  by (cases "find (\<lambda>(k, r). rest_owner r = uid) (restaurants d)")
     (auto simp: register_restaurant_def fresh_oid_def Let_def split: if_splits)

subsection \<open>Properties of the catalogue handlers\<close>

text \<open>
  C22. Invariant: every catalogue handler keeps restaurant and menu-item ids distinct and
  below the id counter, and every stored restaurant and menu item valid under its schema.
\<close>

theorem catalog_step_preserves_ok:
  assumes "catalog_ok d"
  shows "catalog_ok (catalog_step d uid u op)"
  using assms by (rule catalog_step_ok)

theorem catalog_step_preserves_ok_witness:
  "catalog_ok sample_db \<and>
   catalog_ok (catalog_step sample_db 2 (sample_user ''bob'' Restaurant_Owner)
                 (Update_Menu_Item 20 (no_menu_fields\<lparr>mb_price := Some 950\<rparr>)))"
proof -
  have ok: "catalog_ok sample_db"
    by (simp add: catalog_ok_def sample_db_def sample_restaurant_def restaurant_valid_def
                  menu_item_valid_def menu_categories_def coll_wf_def)
  from catalog_step_preserves_ok [OF ok, of 2 "sample_user ''bob'' Restaurant_Owner"
          "Update_Menu_Item 20 (no_menu_fields\<lparr>mb_price := Some 950\<rparr>)"] ok
  show ?thesis by blast
qed

text \<open>
  Registration of a valid body by a user who owns no restaurant yet stores the body's
  fields over the schema defaults under a fresh id, with the caller as owner. Every
  modelled field of the body is taken, the status included: a body with
  \<open>status: "approved"\<close> registers an approved restaurant without the admin.
\<close>

theorem register_restaurant_effect:
  assumes "fields_ok" and "name_ok (rb_name b)"
    and "find (\<lambda>(k, r). rest_owner r = uid) (restaurants d) = None"
    and "restaurant_valid ((apply_restaurant_body b restaurant_defaults)\<lparr>rest_owner := uid\<rparr>)"
  shows "register_restaurant d uid b fields_ok =
           (d\<lparr>next_oid := Suc (next_oid d),
              restaurants := AList.update (next_oid d)
                ((apply_restaurant_body b restaurant_defaults)\<lparr>rest_owner := uid\<rparr>) (restaurants d)\<rparr>,
            Inr ((apply_restaurant_body b restaurant_defaults)\<lparr>rest_owner := uid\<rparr>))"
  using assms by (simp add: register_restaurant_def fresh_oid_def Let_def)

theorem register_restaurant_effect_witness:
  "snd (register_restaurant sample_db 5
          (no_restaurant_fields\<lparr>rb_name := Some '' Pizza Place'', rb_status := Some R_Approved\<rparr>) True) =
     Inr ((apply_restaurant_body (no_restaurant_fields\<lparr>rb_name := Some '' Pizza Place'',
                                    rb_status := Some R_Approved\<rparr>) restaurant_defaults)\<lparr>rest_owner := 5\<rparr>) \<and>
   rest_status ((apply_restaurant_body (no_restaurant_fields\<lparr>rb_name := Some '' Pizza Place'',
                                    rb_status := Some R_Approved\<rparr>) restaurant_defaults)\<lparr>rest_owner := 5\<rparr>) = R_Approved"
proof -
  let ?b = "no_restaurant_fields\<lparr>rb_name := Some '' Pizza Place'', rb_status := Some R_Approved\<rparr>"
  have n: "name_ok (rb_name ?b)" by (simp add: name_ok_def js_trim_def js_space_def)
  have f: "find (\<lambda>(k, r). rest_owner r = 5) (restaurants sample_db) = None"
    by (simp add: sample_db_def sample_restaurant_def)
  have v: "restaurant_valid ((apply_restaurant_body ?b restaurant_defaults)\<lparr>rest_owner := 5\<rparr>)"
    by (simp add: restaurant_valid_def apply_restaurant_body_def restaurant_defaults_def
                  no_restaurant_fields_def js_trim_def js_space_def)
  from register_restaurant_effect [OF TrueI n f v] show ?thesis
    by (simp add: apply_restaurant_body_def no_restaurant_fields_def)
qed

text \<open>
  Registration keeps restaurant ownership unique: it refuses a caller who already
  owns a restaurant, and the fresh id never overwrites a stored one.
\<close>

theorem register_preserves_unique_owners:
  assumes ok: "catalog_ok d" and u: "unique_owners d"
  shows "unique_owners (fst (register_restaurant d uid b fields_ok))"
proof (cases "snd (register_restaurant d uid b fields_ok)")
  case (Inl e)
  then have "fst (register_restaurant d uid b fields_ok) = d"
    by (auto simp: register_restaurant_def fresh_oid_def Let_def split: if_splits)
  with u show ?thesis by simp
next
  case (Inr r)
  from register_restaurant_InrD [OF Inr]
  have f: "find (\<lambda>(k, r). rest_owner r = uid) (restaurants d) = None" and o: "rest_owner r = uid"
    and run: "fst (register_restaurant d uid b fields_ok) =
       d\<lparr>next_oid := Suc (next_oid d), restaurants := AList.update (next_oid d) r (restaurants d)\<rparr>"
    by blast+
  have "AList.update (next_oid d) r (restaurants d) = restaurants d @ [(next_oid d, r)]"
    using catalog_ok_fresh [OF ok] by (simp add: update_absent_append)
  moreover have "uid \<notin> set (map (\<lambda>(k, r). rest_owner r) (restaurants d))"
    using f by (auto simp: find_None_iff)
  ultimately show ?thesis using u o run by (simp add: unique_owners_def)
qed

theorem register_preserves_unique_owners_witness:
  "catalog_ok sample_db \<and> unique_owners sample_db \<and>
   unique_owners (fst (register_restaurant sample_db 5
                         (no_restaurant_fields\<lparr>rb_name := Some ''Pizza Place''\<rparr>) True))"
proof -
  have ok: "catalog_ok sample_db"
    by (simp add: catalog_ok_def sample_db_def sample_restaurant_def restaurant_valid_def
                  menu_item_valid_def menu_categories_def coll_wf_def)
  have u: "unique_owners sample_db"
    by (simp add: unique_owners_def sample_db_def sample_restaurant_def)
  from register_preserves_unique_owners [OF ok u] ok u show ?thesis by simp
qed

lemma map_of_shared_image:
  assumes "map_of c a = Some x" and "map_of c b = Some y" and "a \<noteq> b" and "f x = f y"
  shows "\<not> distinct (map (\<lambda>(k, v). f v) c)"
proof
  assume "distinct (map (\<lambda>(k, v). f v) c)"
  then have inj: "inj_on (\<lambda>(k, v). f v) (set c)" by (simp add: distinct_map)
  have ma: "(a, x) \<in> set c" and mb: "(b, y) \<in> set c" using assms(1,2) by (simp_all add: map_of_SomeD)
  have eq: "(\<lambda>(k, v). f v) (a, x) = (\<lambda>(k, v). f v) (b, y)" using assms(4) by simp
  have "(a, x) = (b, y)" by (rule inj_onD [OF inj eq ma mb])
  with assms(3) show False by simp
qed

lemma apply_restaurant_body_owner:
  "apply_restaurant_body (no_restaurant_fields\<lparr>rb_owner := Some v\<rparr>) r = r\<lparr>rest_owner := v\<rparr>"
  by (simp add: apply_restaurant_body_def no_restaurant_fields_def patched_def)

text \<open>
  C25. The update handler does not keep ownership unique: the owner of a restaurant may
  send a body whose \<open>owner\<close> is the owner of another restaurant. The update succeeds,
  stores the restaurant with that owner, and leaves one user owning two restaurants.
\<close>

theorem update_restaurant_reassigns_owner:
  assumes r: "map_of (restaurants d) rid = Some r" and own: "rest_owner r = uid"
    and r': "map_of (restaurants d) rid' = Some r'" and ne: "rid' \<noteq> rid" and v: "restaurant_valid r"
  shows "update_restaurant d uid u rid (no_restaurant_fields\<lparr>rb_owner := Some (rest_owner r')\<rparr>) =
           (d\<lparr>restaurants := AList.update rid (r\<lparr>rest_owner := rest_owner r'\<rparr>) (restaurants d)\<rparr>,
            Inr (r\<lparr>rest_owner := rest_owner r'\<rparr>)) \<and>
         \<not> unique_owners (fst (update_restaurant d uid u rid (no_restaurant_fields\<lparr>rb_owner := Some (rest_owner r')\<rparr>)))"
proof -
  have valid: "restaurant_valid (r\<lparr>rest_owner := rest_owner r'\<rparr>)" using v by (simp add: restaurant_valid_def)
  have upd: "update_restaurant d uid u rid (no_restaurant_fields\<lparr>rb_owner := Some (rest_owner r')\<rparr>) =
           (d\<lparr>restaurants := AList.update rid (r\<lparr>rest_owner := rest_owner r'\<rparr>) (restaurants d)\<rparr>,
            Inr (r\<lparr>rest_owner := rest_owner r'\<rparr>))"
    using r own valid by (simp add: update_restaurant_def apply_restaurant_body_owner Let_def)
  let ?c = "AList.update rid (r\<lparr>rest_owner := rest_owner r'\<rparr>) (restaurants d)"
  have "map_of ?c rid = Some (r\<lparr>rest_owner := rest_owner r'\<rparr>)" by (simp add: coll_simps)
  moreover have "map_of ?c rid' = Some r'" using r' ne by (simp add: coll_simps)
  ultimately have "\<not> distinct (map (\<lambda>(k, v). rest_owner v) ?c)"
    using not_sym [OF ne] by (rule map_of_shared_image [where f = rest_owner]) simp
  with upd show ?thesis by (simp add: unique_owners_def)
qed

theorem update_restaurant_reassigns_owner_witness:
  "\<not> unique_owners (fst (update_restaurant sample_db 2 (sample_user ''bob'' Restaurant_Owner) 10
                          (no_restaurant_fields\<lparr>rb_owner := Some 4\<rparr>)))"
proof -
  have r: "map_of (restaurants sample_db) 10 = Some (sample_restaurant 2 200 1000)"
    and r': "map_of (restaurants sample_db) 11 = Some (sample_restaurant 4 0 0)"
    by (simp_all add: sample_db_def)
  have own: "rest_owner (sample_restaurant 2 200 1000) = 2" and o': "rest_owner (sample_restaurant 4 0 0) = 4"
    and v: "restaurant_valid (sample_restaurant 2 200 1000)"
    by (simp_all add: sample_restaurant_def restaurant_valid_def)
  have ne: "(11::oid) \<noteq> 10" by simp
  have "\<not> unique_owners (fst (update_restaurant sample_db 2 (sample_user ''bob'' Restaurant_Owner) 10
                          (no_restaurant_fields\<lparr>rb_owner := Some (rest_owner (sample_restaurant 4 0 0))\<rparr>)))"
    using conjunct2 [OF update_restaurant_reassigns_owner [OF r own r' ne v]] .
  then show ?thesis by (simp only: o' not_False_eq_True)
qed

text \<open>
  A successful restaurant update comes from an admin or the restaurant's stored owner,
  and stores the body applied to the stored document, which passes the validators.
\<close>

theorem update_restaurant_authorized:
  assumes "snd (update_restaurant d uid u rid b) = Inr r'"
  shows "\<exists>r. map_of (restaurants d) rid = Some r \<and> (user_role u = Admin \<or> rest_owner r = uid) \<and>
             r' = apply_restaurant_body b r \<and> restaurant_valid r' \<and>
             fst (update_restaurant d uid u rid b) = d\<lparr>restaurants := AList.update rid r' (restaurants d)\<rparr>"
  using assms by (auto simp: update_restaurant_def Let_def split: option.splits if_splits)

theorem update_restaurant_authorized_witness:
  "\<exists>r. map_of (restaurants sample_db) 10 = Some r \<and>
       (user_role (sample_user ''bob'' Restaurant_Owner) = Admin \<or> rest_owner r = 2) \<and>
       apply_restaurant_body (no_restaurant_fields\<lparr>rb_delivery_fee := Some 300\<rparr>) (sample_restaurant 2 200 1000) =
         apply_restaurant_body (no_restaurant_fields\<lparr>rb_delivery_fee := Some 300\<rparr>) r \<and>
       restaurant_valid (apply_restaurant_body (no_restaurant_fields\<lparr>rb_delivery_fee := Some 300\<rparr>)
                           (sample_restaurant 2 200 1000)) \<and>
       fst (update_restaurant sample_db 2 (sample_user ''bob'' Restaurant_Owner) 10
              (no_restaurant_fields\<lparr>rb_delivery_fee := Some 300\<rparr>)) =
         sample_db\<lparr>restaurants := AList.update 10
            (apply_restaurant_body (no_restaurant_fields\<lparr>rb_delivery_fee := Some 300\<rparr>)
               (sample_restaurant 2 200 1000)) (restaurants sample_db)\<rparr>"
proof -
  have run: "snd (update_restaurant sample_db 2 (sample_user ''bob'' Restaurant_Owner) 10
                   (no_restaurant_fields\<lparr>rb_delivery_fee := Some 300\<rparr>)) =
             Inr (apply_restaurant_body (no_restaurant_fields\<lparr>rb_delivery_fee := Some 300\<rparr>)
                    (sample_restaurant 2 200 1000))"
    by (simp add: update_restaurant_def sample_db_def sample_restaurant_def sample_user_def
                  apply_restaurant_body_def no_restaurant_fields_def restaurant_valid_def Let_def)
  from update_restaurant_authorized [OF run] show ?thesis by simp
qed

text \<open>
  Deleting a stored restaurant removes it and every menu item that belongs to it,
  keeps every other menu item, and leaves carts and orders as they are (orders of the
  deleted restaurant stay stored).
\<close>

theorem delete_restaurant_cascade:
  assumes "delete_restaurant d rid = (d', Inr ())"
  shows "map_of (restaurants d') rid = None \<and>
         (\<forall>(k, m)\<in>set (menu_items d'). mi_restaurant m \<noteq> rid) \<and>
         (\<forall>k m. map_of (menu_items d) k = Some m \<and> mi_restaurant m \<noteq> rid \<longrightarrow>
                map_of (menu_items d') k = Some m) \<and>
         carts d' = carts d \<and> orders d' = orders d"
  using assms
  by (auto simp: delete_restaurant_def delete_conv map_of_filter_keep split: option.splits)

theorem delete_restaurant_cascade_witness:
  "delete_restaurant sample_db 11 =
     (sample_db\<lparr>restaurants := [(10, sample_restaurant 2 200 1000)],
                menu_items := [(20, \<lparr>mi_restaurant = 10, mi_name = ''Burger'', mi_category = ''Burgers'', mi_price = 900,
                                     mi_available = True\<rparr>)]\<rparr>, Inr ()) \<and>
   map_of [(10, sample_restaurant 2 200 1000)] (11::oid) = None"
proof -
  have run: "delete_restaurant sample_db 11 =
     (sample_db\<lparr>restaurants := [(10, sample_restaurant 2 200 1000)],
                menu_items := [(20, \<lparr>mi_restaurant = 10, mi_name = ''Burger'', mi_category = ''Burgers'', mi_price = 900,
                                     mi_available = True\<rparr>)]\<rparr>, Inr ())"
    by (simp add: delete_restaurant_def sample_db_def)
  from delete_restaurant_cascade [OF run] run show ?thesis by simp
qed

text \<open>
  The admin's status route cannot put a restaurant back to \<open>pending\<close>: that status
  fails validation with nothing written; any other status is stored on an existing
  restaurant, and a missing one is 404.
\<close>

theorem set_restaurant_status_guard:
  "set_restaurant_status d rid R_Pending = (d, Inl Validation_Failed) \<and>
   (s \<noteq> R_Pending \<longrightarrow>
      set_restaurant_status d rid s =
        (case map_of (restaurants d) rid of
           None \<Rightarrow> (d, Inl Restaurant_Not_Found)
         | Some r \<Rightarrow> (d\<lparr>restaurants := AList.update rid (r\<lparr>rest_status := s\<rparr>) (restaurants d)\<rparr>,
                      Inr (r\<lparr>rest_status := s\<rparr>))))"
  by (cases s) (auto simp: set_restaurant_status_def)

theorem set_restaurant_status_guard_witness:
  "set_restaurant_status sample_db 10 R_Pending = (sample_db, Inl Validation_Failed) \<and>
   set_restaurant_status sample_db 10 R_Suspended =
     (sample_db\<lparr>restaurants := AList.update 10 ((sample_restaurant 2 200 1000)\<lparr>rest_status := R_Suspended\<rparr>)
                                 (restaurants sample_db)\<rparr>,
      Inr ((sample_restaurant 2 200 1000)\<lparr>rest_status := R_Suspended\<rparr>))"
proof -
  have r: "map_of (restaurants sample_db) 10 = Some (sample_restaurant 2 200 1000)"
    by (simp add: sample_db_def)
  from set_restaurant_status_guard [of sample_db 10 R_Suspended] r show ?thesis by simp
qed

text \<open>
  A successful menu-item update comes from an admin or the owner of the item's
  current restaurant, and stores the body applied to the item. The restaurant named in
  the body is not checked: the witness moves restaurant 10's burger into restaurant 11,
  which its owner does not own.
\<close>

theorem update_menu_item_authorized:
  assumes "snd (update_menu_item d uid u mid b) = Inr m'"
  shows "\<exists>m. map_of (menu_items d) mid = Some m \<and>
             (user_role u = Admin \<or>
              (\<exists>r. map_of (restaurants d) (mi_restaurant m) = Some r \<and> rest_owner r = uid)) \<and>
             m' = apply_menu_body b m \<and> menu_item_valid m'"
  using assms
  by (auto simp: update_menu_item_def owner_gate_def Let_def split: option.splits if_splits)

theorem update_menu_item_authorized_witness:
  "snd (update_menu_item sample_db 2 (sample_user ''bob'' Restaurant_Owner) 20
          (no_menu_fields\<lparr>mb_restaurant := Some 11\<rparr>)) =
     Inr \<lparr>mi_restaurant = 11, mi_name = ''Burger'', mi_category = ''Burgers'', mi_price = 900, mi_available = True\<rparr> \<and>
   (\<exists>r. map_of (restaurants sample_db) 10 = Some r \<and> rest_owner r = 2) \<and>
   rest_owner (sample_restaurant 4 0 0) \<noteq> 2"
proof -
  have run: "snd (update_menu_item sample_db 2 (sample_user ''bob'' Restaurant_Owner) 20
          (no_menu_fields\<lparr>mb_restaurant := Some 11\<rparr>)) =
     Inr \<lparr>mi_restaurant = 11, mi_name = ''Burger'', mi_category = ''Burgers'', mi_price = 900, mi_available = True\<rparr>"
    by (simp add: update_menu_item_def owner_gate_def sample_db_def sample_restaurant_def sample_user_def
                  apply_menu_body_def no_menu_fields_def menu_item_valid_def menu_categories_def Let_def)
  from update_menu_item_authorized [OF run] run show ?thesis
    by (auto simp: sample_db_def sample_user_def sample_restaurant_def)
qed

end
