(* ===== verification/Menu_Queries.thy ===== *)
theory Menu_Queries
  imports Catalog "HOL-Library.List_Lexorder" "HOL-Library.Char_ord" "HOL-Library.Product_Lexorder"
begin

text \<open>
  The public menu of a restaurant, \<open>GET /api/menu/restaurant/:restaurantId\<close>
  (\<open>routes/menu.js\<close>, lines 12--72): the restaurant's items, filtered by availability
  and category, sorted by category and then name, and grouped into an object keyed by
  category. MongoDB compares strings by their bytes, which for the ASCII names of the
  model is the lexicographic order on characters (\<open>List_Lexorder\<close>, \<open>Char_ord\<close>); a
  stable sort keeps documents with equal keys in insertion order. The \<open>$text\<close> search
  runs on a text index and is not modelled: the query has no search.
\<close>

subsection \<open>The query\<close>

record menu_query =
  mnq_category :: "string option"
  mnq_available :: "string option"

text \<open>\<open>query("available").optional().isBoolean()\<close>: express-validator accepts
  \<open>true\<close>, \<open>false\<close>, \<open>1\<close> and \<open>0\<close>.\<close>

definition menu_query_ok :: "menu_query \<Rightarrow> bool" where
  "menu_query_ok q = (case mnq_available q of None \<Rightarrow> True | Some s \<Rightarrow> s \<in> set [''true'', ''false'', ''1'', ''0''])"

text \<open>Lines 30--41. \<open>available\<close> defaults to the boolean \<open>true\<close>, but the filter is
  added only when the parameter is the text \<open>"true"\<close>: without the parameter the
  unavailable items are listed too.\<close>

definition menu_listed :: "menu_query \<Rightarrow> oid \<Rightarrow> menu_item \<Rightarrow> bool" where
  "menu_listed q rid m \<longleftrightarrow>
     mi_restaurant m = rid \<and>
     (if mnq_available q = Some ''true'' then mi_available m else True) \<and>
     (case mnq_category q of None \<Rightarrow> True | Some c \<Rightarrow> c = [] \<or> mi_category m = c)"

subsection \<open>Sorting and grouping\<close>

text \<open>\<open>.sort({ category: 1, name: 1 })\<close>.\<close>

definition menu_sorted :: "(oid \<times> menu_item) list \<Rightarrow> (oid \<times> menu_item) list" where
  "menu_sorted xs = sort_key (\<lambda>(k, m). (mi_category m, mi_name m)) xs"

text \<open>Lines 50--57: \<open>reduce\<close> into an object keyed by category. The enumeration's
  categories are not integer-like, so the object keeps its keys in insertion order.\<close>

fun group_by_category ::
    "(oid \<times> menu_item) list \<Rightarrow> (string \<times> (oid \<times> menu_item) list) list \<Rightarrow> (string \<times> (oid \<times> menu_item) list) list" where
  "group_by_category [] acc = acc"
| "group_by_category ((k, m) # xs) acc =
     group_by_category xs
       (case map_of acc (mi_category m) of
          None \<Rightarrow> acc @ [(mi_category m, [(k, m)])]
        | Some g \<Rightarrow> AList.update (mi_category m) (g @ [(k, m)]) acc)"

record menu_listing =
  ml_groups :: "(string \<times> (oid \<times> menu_item) list) list"
  ml_total :: nat

definition list_menu :: "db \<Rightarrow> oid \<Rightarrow> menu_query \<Rightarrow> menu_listing response" where
  "list_menu d rid q =
     (if \<not> menu_query_ok q then Inl Validation_Failed
      else let ms = menu_sorted (filter (\<lambda>(k, m). menu_listed q rid m) (menu_items d))
           in Inr \<lparr>ml_groups = group_by_category ms [], ml_total = length ms\<rparr>)"

subsection \<open>The groups partition the sorted items\<close>

definition cat_of :: "oid \<times> menu_item \<Rightarrow> string" where
  "cat_of p = mi_category (snd p)"

lemma group_keys:
  "set (map fst (group_by_category xs acc)) = set (map fst acc) \<union> set (map cat_of xs) \<and>
   (distinct (map fst acc) \<longrightarrow> distinct (map fst (group_by_category xs acc)))"
proof (induction xs arbitrary: acc)
  case (Cons p xs)
  obtain k m where p: "p = (k, m)" by fastforce
  show ?case
  proof (cases "map_of acc (mi_category m)")
    case None
    then have "mi_category m \<notin> set (map fst acc)" by (auto simp: map_of_eq_None_iff)
    with Cons [of "acc @ [(mi_category m, [(k, m)])]"] None show ?thesis by (auto simp: p cat_of_def)
  next
    case (Some g)
    then have "mi_category m \<in> set (map fst acc)" by (metis domI dom_map_of_conv_image_fst set_map)
    with Cons [of "AList.update (mi_category m) (g @ [(k, m)]) acc"] Some
    show ?thesis by (auto simp: p cat_of_def map_fst_update_present)
  qed
qed simp

lemma group_lookup:
  "map_of (group_by_category xs acc) c =
     (case map_of acc c of
        None \<Rightarrow> if c \<in> set (map cat_of xs) then Some (filter (\<lambda>p. cat_of p = c) xs) else None
      | Some g \<Rightarrow> Some (g @ filter (\<lambda>p. cat_of p = c) xs))"
proof (induction xs arbitrary: acc)
  case (Cons p xs)
  obtain k m where p: "p = (k, m)" by fastforce
  show ?case
  proof (cases "map_of acc (mi_category m)")
    case None
    with Cons [of "acc @ [(mi_category m, [(k, m)])]"] show ?thesis
      by (auto simp: p cat_of_def map_of_append split: option.splits)
  next
    case (Some g)
    with Cons [of "AList.update (mi_category m) (g @ [(k, m)]) acc"] show ?thesis
      by (auto simp: p cat_of_def update_conv' split: option.splits)
  qed
qed (simp split: option.splits)

lemma group_member:
  "p \<in> set xs \<Longrightarrow> map_of (group_by_category xs []) (cat_of p) = Some (filter (\<lambda>q. cat_of q = cat_of p) xs)"
  by (simp add: group_lookup)

text \<open>The listing's groups: one per category of a listed item, in the order of first
  appearance, each holding exactly the listed items of its category in sorted order.\<close>

lemma list_menu_groups:
  assumes "list_menu d rid q = Inr ml"
  shows "distinct (map fst (ml_groups ml)) \<and>
         (\<forall>c. map_of (ml_groups ml) c =
                (let ms = menu_sorted (filter (\<lambda>(k, m). menu_listed q rid m) (menu_items d))
                 in if c \<in> set (map cat_of ms) then Some (filter (\<lambda>p. cat_of p = c) ms) else None))"
  using assms group_keys [of _ "[]"] by (auto simp: list_menu_def group_lookup Let_def split: if_splits)

subsection \<open>Unavailable items are listed by default\<close>

text \<open>
  C8. Without the \<open>available\<close> parameter the public menu lists every item of the
  restaurant, unavailable ones included: the total counts them all and each is in the
  group of its category. Only \<open>available=true\<close> hides them, although the handler's
  default says \<open>true\<close>.
\<close>

theorem menu_default_lists_unavailable:
  assumes "(k, m) \<in> set (menu_items d)" and "mi_restaurant m = rid"
  shows "\<exists>ml. list_menu d rid \<lparr>mnq_category = None, mnq_available = None\<rparr> = Inr ml \<and>
              ml_total ml = length (filter (\<lambda>(k, m). mi_restaurant m = rid) (menu_items d)) \<and>
              (\<exists>g. map_of (ml_groups ml) (mi_category m) = Some g \<and> (k, m) \<in> set g)"
proof -
  let ?q = "\<lparr>mnq_category = None, mnq_available = None\<rparr>"
  define ms where "ms = menu_sorted (filter (\<lambda>(k, m). menu_listed ?q rid m) (menu_items d))"
  have f: "filter (\<lambda>(k, m). menu_listed ?q rid m) (menu_items d) = filter (\<lambda>(k, m). mi_restaurant m = rid) (menu_items d)"
    by (simp add: menu_listed_def)
  have l: "list_menu d rid ?q = Inr \<lparr>ml_groups = group_by_category ms [], ml_total = length ms\<rparr>"
    by (simp add: list_menu_def menu_query_ok_def ms_def Let_def)
  have "(k, m) \<in> set ms" using assms by (simp add: ms_def f menu_sorted_def)
  from group_member [OF this] have "map_of (group_by_category ms []) (mi_category m) = Some (filter (\<lambda>q. cat_of q = mi_category m) ms)"
    by (simp add: cat_of_def)
  moreover have "(k, m) \<in> set (filter (\<lambda>q. cat_of q = mi_category m) ms)"
    using \<open>(k, m) \<in> set ms\<close> by (simp add: cat_of_def)
  moreover have "length ms = length (filter (\<lambda>(k, m). mi_restaurant m = rid) (menu_items d))"
    by (simp add: ms_def f menu_sorted_def)
  ultimately show ?thesis using l by auto
qed

theorem menu_default_lists_unavailable_witness:
  "(20, \<lparr>mi_restaurant = 10, mi_name = ''Burger'', mi_category = ''Burgers'', mi_price = 900, mi_available = False\<rparr>)
      \<in> set (menu_items (sample_db\<lparr>menu_items := [(20, \<lparr>mi_restaurant = 10, mi_name = ''Burger'', mi_category = ''Burgers'',
                                                           mi_price = 900, mi_available = False\<rparr>)]\<rparr>)) \<and>
   mi_restaurant \<lparr>mi_restaurant = 10, mi_name = ''Burger'', mi_category = ''Burgers'', mi_price = 900, mi_available = False\<rparr> = 10 \<and>
   (\<exists>ml. list_menu (sample_db\<lparr>menu_items := [(20, \<lparr>mi_restaurant = 10, mi_name = ''Burger'', mi_category = ''Burgers'',
                                                    mi_price = 900, mi_available = False\<rparr>)]\<rparr>) 10
            \<lparr>mnq_category = None, mnq_available = None\<rparr> = Inr ml \<and> ml_total ml = 1)"
  using menu_default_lists_unavailable
    [of 20 "\<lparr>mi_restaurant = 10, mi_name = ''Burger'', mi_category = ''Burgers'', mi_price = 900, mi_available = False\<rparr>"
        "sample_db\<lparr>menu_items := [(20, \<lparr>mi_restaurant = 10, mi_name = ''Burger'', mi_category = ''Burgers'',
                                        mi_price = 900, mi_available = False\<rparr>)]\<rparr>" 10]
  by auto

end
