(* ===== verification/Users.thy ===== *)
theory Users
  imports Store
begin

text \<open>
  Accounts: the handlers of \<open>src/backend/routes/auth.js\<close> (register, login, current
  user, profile update, password change) over the user documents of
  \<open>models/User.js\<close>. \<open>save_user\<close> is \<open>user.save()\<close>: schema validation on the modelled
  fields (the password's length is checked on the plain text, before the
  \<open>pre('save')\<close> hook hashes it), the hook hashing a modified password, and the unique
  email index. Token signing is \<open>jwt.sign\<close> of a library; the handlers answer the user id
  the token would carry. The express-validator checks on email and phone formats are one
  boolean per request.
\<close>

subsection \<open>Saving a user document\<close>

definition user_valid :: "user \<Rightarrow> bool" where
  "user_valid u \<longleftrightarrow>
     user_name u \<noteq> [] \<and> length (user_name u) \<le> 50 \<and> user_email u \<noteq> [] \<and> user_phone u \<noteq> []"

text \<open>\<open>newpw\<close> is the plain text assigned to \<open>password\<close> since the document was loaded,
  if any: \<open>isModified("password")\<close>.\<close>

definition save_user :: "db \<Rightarrow> oid \<Rightarrow> user \<Rightarrow> string option \<Rightarrow> (user \<times> db) option" where
  "save_user d uid u newpw =
     (if \<not> user_valid u \<or> (case newpw of None \<Rightarrow> False | Some p \<Rightarrow> length p < 6) then None
      else let u' = (case newpw of None \<Rightarrow> u | Some p \<Rightarrow> u\<lparr>user_password := Bcrypt p\<rparr>)
           in if list_ex (\<lambda>(k, v). k \<noteq> uid \<and> user_email v = user_email u') (users d) then None
              else Some (u', d\<lparr>users := AList.update uid u' (users d)\<rparr>))"

text \<open>\<open>User.findOne({ email })\<close>.\<close>

definition find_by_email :: "(oid, user) coll \<Rightarrow> string \<Rightarrow> (oid \<times> user) option" where
  "find_by_email us e = find (\<lambda>(k, v). user_email v = e) us"

subsection \<open>POST /api/auth/register (lines 22--91)\<close>

record register_form =
  rg_name :: string
  rg_email :: string
  rg_password :: string
  rg_phone :: string
  rg_role :: "role option"
  rg_fields_ok :: bool

text \<open>Lines 25--29: a trimmed name of 2 to 50 characters, an email, a password of at least 6
  characters, a phone, and a role that is customer or restaurant when given.\<close>

definition register_valid :: "register_form \<Rightarrow> bool" where
  "register_valid f \<longleftrightarrow>
     rg_fields_ok f \<and> rg_email f \<noteq> [] \<and> rg_phone f \<noteq> [] \<and>
     2 \<le> length (js_trim (rg_name f)) \<and> length (js_trim (rg_name f)) \<le> 50 \<and>
     6 \<le> length (rg_password f) \<and> rg_role f \<noteq> Some Admin"

definition new_user :: "register_form \<Rightarrow> user" where
  "new_user f =
     \<lparr>user_name = js_trim (rg_name f), user_email = rg_email f, user_password = Bcrypt (rg_password f),
      user_phone = rg_phone f, user_role = (case rg_role f of None \<Rightarrow> Customer | Some r \<Rightarrow> r),
      user_active = True, user_last_login = None\<rparr>"

definition register_user :: "db \<Rightarrow> register_form \<Rightarrow> db \<times> (oid \<times> user) response" where
  "register_user d f =
     (if \<not> register_valid f then (d, Inl Validation_Failed)
      else if find_by_email (users d) (rg_email f) \<noteq> None then (d, Inl User_Exists)
      else let (uid, d1) = fresh_oid d
           in case save_user d1 uid (new_user f) (Some (rg_password f)) of
                None \<Rightarrow> (d, Inl Server_Error)
              | Some (u, d2) \<Rightarrow> (d2, Inr (uid, u)))"

subsection \<open>POST /api/auth/login (lines 96--174)\<close>

text \<open>\<open>pw\<close> is the body's \<open>password\<close>, \<open>None\<close> when absent; \<open>email_ok\<close> the \<open>isEmail\<close> check.
  The last-login time is saved without touching the password, so it is not hashed again.\<close>

definition login :: "db \<Rightarrow> ms \<Rightarrow> string \<Rightarrow> string option \<Rightarrow> bool \<Rightarrow> db \<times> (oid \<times> user) response" where
  "login d now email pw email_ok =
     (case pw of
        None \<Rightarrow> (d, Inl Validation_Failed)
      | Some p \<Rightarrow>
          if \<not> email_ok then (d, Inl Validation_Failed)
          else case find_by_email (users d) email of
            None \<Rightarrow> (d, Inl Invalid_Credentials)
          | Some (uid, u) \<Rightarrow>
              if \<not> user_active u then (d, Inl Account_Deactivated)
              else if \<not> compare_password p (user_password u) then (d, Inl Invalid_Credentials)
              else case save_user d uid (u\<lparr>user_last_login := Some now\<rparr>) None of
                None \<Rightarrow> (d, Inl Server_Error)
              | Some (u', d') \<Rightarrow> (d', Inr (uid, u')))"

subsection \<open>GET /api/auth/me (lines 179--193)\<close>

definition get_me :: "db \<Rightarrow> oid \<Rightarrow> user option response" where
  "get_me d uid = Inr (map_of (users d) uid)"

subsection \<open>PUT /api/auth/profile (lines 198--252)\<close>

record profile_form =
  pf_name :: "string option"
  pf_phone :: "string option"
  pf_fields_ok :: bool

definition profile_valid :: "profile_form \<Rightarrow> bool" where
  "profile_valid f \<longleftrightarrow>
     pf_fields_ok f \<and>
     (case pf_name f of None \<Rightarrow> True
      | Some n \<Rightarrow> 2 \<le> length (js_trim n) \<and> length (js_trim n) \<le> 50)"

text \<open>Lines 231--232: \<open>if (name) user.name = name\<close>, \<open>if (phone) user.phone = phone\<close>.\<close>

definition apply_profile :: "profile_form \<Rightarrow> user \<Rightarrow> user" where
  "apply_profile f u =
     u\<lparr>user_name := (case pf_name f of Some n \<Rightarrow> if js_trim n \<noteq> [] then js_trim n else user_name u
                                      | None \<Rightarrow> user_name u),
       user_phone := (case pf_phone f of Some p \<Rightarrow> if p \<noteq> [] then p else user_phone u
                                        | None \<Rightarrow> user_phone u)\<rparr>"

definition update_profile :: "db \<Rightarrow> oid \<Rightarrow> profile_form \<Rightarrow> db \<times> user response" where
  "update_profile d uid f =
     (if \<not> profile_valid f then (d, Inl Validation_Failed)
      else case map_of (users d) uid of
        None \<Rightarrow> (d, Inl User_Not_Found)
      | Some u \<Rightarrow>
          (case save_user d uid (apply_profile f u) None of
             None \<Rightarrow> (d, Inl Server_Error)
           | Some (u', d') \<Rightarrow> (d', Inr u')))"

subsection \<open>PUT /api/auth/change-password (lines 257--310)\<close>

definition change_password :: "db \<Rightarrow> oid \<Rightarrow> string option \<Rightarrow> string option \<Rightarrow> db \<times> unit response" where
  "change_password d uid cur new =
     (case (cur, new) of
        (Some c, Some n) \<Rightarrow>
          if length n < 6 then (d, Inl Validation_Failed)
          else (case map_of (users d) uid of
                  None \<Rightarrow> (d, Inl User_Not_Found)
                | Some u \<Rightarrow>
                    if \<not> compare_password c (user_password u) then (d, Inl Wrong_Password)
                    else (case save_user d uid u (Some n) of
                            None \<Rightarrow> (d, Inl Server_Error)
                          | Some (u', d') \<Rightarrow> (d', Inr ())))
      | _ \<Rightarrow> (d, Inl Validation_Failed))"

subsection \<open>The account handlers as one step function\<close>

datatype account_op =
    Register register_form
  | Login string "string option" bool
  | Update_Profile profile_form
  | Change_Password "string option" "string option"

fun account_step :: "db \<Rightarrow> ms \<Rightarrow> oid \<Rightarrow> account_op \<Rightarrow> db" where
  "account_step d now uid (Register f) = fst (register_user d f)"
| "account_step d now uid (Login e p ok) = fst (login d now e p ok)"
| "account_step d now uid (Update_Profile f) = fst (update_profile d uid f)"
| "account_step d now uid (Change_Password c n) = fst (change_password d uid c n)"

text \<open>\<open>users_ok\<close>: user ids distinct and below the counter, emails distinct, every user
  valid.\<close>

definition users_ok :: "db \<Rightarrow> bool" where
  "users_ok d \<longleftrightarrow>
     coll_wf (users d) \<and> distinct (map (\<lambda>(k, v). user_email v) (users d)) \<and>
     list_all (\<lambda>(k, v). k < next_oid d \<and> user_valid v) (users d)"

definition sample_form :: register_form where
  "sample_form =
     \<lparr>rg_name = '' Dan '', rg_email = ''dan@x.io'', rg_password = ''hunter22'', rg_phone = ''555-0199'',
      rg_role = None, rg_fields_ok = True\<rparr>"

subsection \<open>Lemmas on saving and finding users\<close>

lemma save_user_Some:
  "save_user d uid u newpw = Some (u', d') \<longleftrightarrow>
     user_valid u \<and> (case newpw of None \<Rightarrow> True | Some p \<Rightarrow> 6 \<le> length p) \<and>
     u' = (case newpw of None \<Rightarrow> u | Some p \<Rightarrow> u\<lparr>user_password := Bcrypt p\<rparr>) \<and>
     \<not> list_ex (\<lambda>(k, v). k \<noteq> uid \<and> user_email v = user_email u) (users d) \<and>
     d' = d\<lparr>users := AList.update uid u' (users d)\<rparr>"
  by (cases newpw) (auto simp: save_user_def Let_def)

lemma find_by_email_stored:
  assumes "distinct (map (\<lambda>(k, v). user_email v) us)" and "(uid, u) \<in> set us"
  shows "find_by_email us (user_email u) = Some (uid, u)"
  using assms by (induction us) (force simp: find_by_email_def)+

lemma find_by_email_SomeD:
  "find_by_email us e = Some (uid, u) \<Longrightarrow> (uid, u) \<in> set us \<and> user_email u = e"
  unfolding find_by_email_def by (induction us) (auto split: if_splits)

lemma distinct_update_values:
  assumes "distinct (map fst al)" and "distinct (map (\<lambda>(k, v). g v) al)"
    and "\<not> list_ex (\<lambda>(k', v'). k' \<noteq> k \<and> g v' = g v) al"
  shows "distinct (map (\<lambda>(k, v). g v) (AList.update k v al))"
  using assms
proof (induction al)
  case (Cons a al)
  obtain k1 v1 where a: "a = (k1, v1)" by (cases a)
  show ?case
  proof (cases "k1 = k")
    case True
    with Cons.prems a show ?thesis by (force simp: list_ex_iff)
  next
    case False
    have "set (AList.update k v al) \<subseteq> insert (k, v) (set al)" by (rule set_alist_update)
    moreover have "distinct (map (\<lambda>(k, v). g v) (AList.update k v al))"
      using Cons by (simp add: a)
    ultimately show ?thesis using Cons.prems a False by (force simp: list_ex_iff)
  qed
qed simp

lemma users_ok_save:
  assumes ok: "users_ok d" and s: "save_user d uid u newpw = Some (u', d')" and k: "uid < next_oid d"
  shows "users_ok d'"
proof -
  from s have v: "user_valid u'" and e: "user_email u' = user_email u"
    and nx: "\<not> list_ex (\<lambda>(k, v). k \<noteq> uid \<and> user_email v = user_email u) (users d)"
    and d': "d' = d\<lparr>users := AList.update uid u' (users d)\<rparr>"
    by (auto simp: save_user_Some user_valid_def split: option.splits)
  have "distinct (map (\<lambda>(k, v). user_email v) (AList.update uid u' (users d)))"
    using ok nx e by (intro distinct_update_values) (simp_all add: users_ok_def coll_wf_def)
  moreover have "list_all (\<lambda>(k, v). k < next_oid d \<and> user_valid v) (AList.update uid u' (users d))"
    using ok v k set_alist_update [of uid u' "users d"]
    by (fastforce simp: users_ok_def list_all_iff)
  ultimately show ?thesis
    using ok by (simp add: users_ok_def d' coll_wf_update)
qed

lemma users_ok_next:
  "users_ok d \<Longrightarrow> next_oid d \<le> next_oid d' \<Longrightarrow> users d' = users d \<Longrightarrow> users_ok d'"
  by (fastforce simp: users_ok_def list_all_iff)

lemma users_ok_stored:
  assumes "users_ok d" and "(uid, u) \<in> set (users d)"
  shows "uid < next_oid d \<and> user_valid u \<and>
         \<not> list_ex (\<lambda>(k, v). k \<noteq> uid \<and> user_email v = user_email u) (users d)"
proof -
  have inj: "inj_on (\<lambda>(k, v). user_email v) (set (users d))"
    using assms(1) by (simp add: users_ok_def distinct_map)
  have "uid < next_oid d \<and> user_valid u"
    using assms by (auto simp: users_ok_def list_all_iff)
  moreover have "\<not> list_ex (\<lambda>(k, v). k \<noteq> uid \<and> user_email v = user_email u) (users d)"
  proof
    assume "list_ex (\<lambda>(k, v). k \<noteq> uid \<and> user_email v = user_email u) (users d)"
    then obtain k v where kv: "(k, v) \<in> set (users d)" "k \<noteq> uid" "user_email v = user_email u"
      by (auto simp: list_ex_iff)
    from inj_onD [OF inj _ kv(1) assms(2)] kv(3) have "(k, v) = (uid, u)" by simp
    with kv(2) show False by simp
  qed
  ultimately show ?thesis by blast
qed

lemma register_user_ok: "users_ok d \<Longrightarrow> users_ok (fst (register_user d f))"
proof -
  assume ok: "users_ok d"
  let ?d1 = "d\<lparr>next_oid := Suc (next_oid d)\<rparr>"
  have ok1: "users_ok ?d1" using ok by (rule users_ok_next) simp_all
  show ?thesis
  proof (cases "save_user ?d1 (next_oid d) (new_user f) (Some (rg_password f))")
    case None
    then show ?thesis using ok by (simp add: register_user_def fresh_oid_def)
  next
    case (Some p)
    then obtain u d2 where s: "save_user ?d1 (next_oid d) (new_user f) (Some (rg_password f)) = Some (u, d2)"
      by (cases p) auto
    have "users_ok d2" by (rule users_ok_save [OF ok1 s]) simp
    then show ?thesis using ok s by (simp add: register_user_def fresh_oid_def)
  qed
qed

lemma users_ok_saved_stored:
  assumes ok: "users_ok d" and m: "(uid, u) \<in> set (users d)" and s: "save_user d uid u' pw = Some (u'', d')"
  shows "users_ok d'"
  using users_ok_save [OF ok s] users_ok_stored [OF ok m] by blast

lemma login_ok:
  assumes ok: "users_ok d"
  shows "users_ok (fst (login d now e p eok))"
proof (cases "\<exists>uid u u' d'. find_by_email (users d) e = Some (uid, u) \<and>
                save_user d uid (u\<lparr>user_last_login := Some now\<rparr>) None = Some (u', d') \<and>
                fst (login d now e p eok) = d'")
  case True
  then obtain uid u u' d' where f: "find_by_email (users d) e = Some (uid, u)"
    and s: "save_user d uid (u\<lparr>user_last_login := Some now\<rparr>) None = Some (u', d')"
    and r: "fst (login d now e p eok) = d'" by blast
  from find_by_email_SomeD [OF f] have "(uid, u) \<in> set (users d)" by simp
  from users_ok_saved_stored [OF ok this s] r show ?thesis by simp
next
  case False
  then have "fst (login d now e p eok) = d" by (auto simp: login_def split: option.splits)
  with ok show ?thesis by simp
qed

lemma update_profile_ok:
  assumes ok: "users_ok d"
  shows "users_ok (fst (update_profile d uid f))"
proof (cases "\<exists>u u' d'. map_of (users d) uid = Some u \<and>
                save_user d uid (apply_profile f u) None = Some (u', d') \<and>
                fst (update_profile d uid f) = d'")
  case True
  then obtain u u' d' where m: "map_of (users d) uid = Some u"
    and s: "save_user d uid (apply_profile f u) None = Some (u', d')"
    and r: "fst (update_profile d uid f) = d'" by blast
  from users_ok_saved_stored [OF ok map_of_SomeD [OF m] s] r show ?thesis by simp
next
  case False
  then have "fst (update_profile d uid f) = d" by (auto simp: update_profile_def split: option.splits)
  with ok show ?thesis by simp
qed

lemma change_password_ok:
  assumes ok: "users_ok d"
  shows "users_ok (fst (change_password d uid c n))"
proof (cases "\<exists>u pw u' d'. map_of (users d) uid = Some u \<and> n = Some pw \<and>
                save_user d uid u (Some pw) = Some (u', d') \<and> fst (change_password d uid c n) = d'")
  case True
  then obtain u pw u' d' where m: "map_of (users d) uid = Some u"
    and s: "save_user d uid u (Some pw) = Some (u', d')"
    and r: "fst (change_password d uid c n) = d'" by blast
  from users_ok_saved_stored [OF ok map_of_SomeD [OF m] s] r show ?thesis by simp
next
  case False
  then have "fst (change_password d uid c n) = d"
    by (auto simp: change_password_def split: option.splits prod.splits if_splits)
  with ok show ?thesis by simp
qed

lemma account_step_ok: "users_ok d \<Longrightarrow> users_ok (account_step d now uid op)"
  by (cases op) (simp_all add: register_user_ok login_ok update_profile_ok change_password_ok)

lemma login_stored:
  assumes ok: "users_ok d" and m: "(uid, u) \<in> set (users d)" and a: "user_active u"
    and p: "compare_password pw (user_password u)"
  shows "login d now (user_email u) (Some pw) True =
           (d\<lparr>users := AList.update uid (u\<lparr>user_last_login := Some now\<rparr>) (users d)\<rparr>,
            Inr (uid, u\<lparr>user_last_login := Some now\<rparr>))"
proof -
  have f: "find_by_email (users d) (user_email u) = Some (uid, u)"
    using ok m by (intro find_by_email_stored) (simp_all add: users_ok_def)
  from users_ok_stored [OF ok m]
  have "save_user d uid (u\<lparr>user_last_login := Some now\<rparr>) None =
          Some (u\<lparr>user_last_login := Some now\<rparr>,
                d\<lparr>users := AList.update uid (u\<lparr>user_last_login := Some now\<rparr>) (users d)\<rparr>)"
    by (simp add: save_user_Some user_valid_def)
  with f a p show ?thesis by (simp add: login_def)
qed


lemma account_step_frame:
  "orders (account_step d now uid op) = orders d \<and> restaurants (account_step d now uid op) = restaurants d \<and>
   menu_items (account_step d now uid op) = menu_items d \<and> carts (account_step d now uid op) = carts d \<and>
   next_oid d \<le> next_oid (account_step d now uid op)"
  by (cases op)
     (auto simp: register_user_def login_def update_profile_def change_password_def save_user_Some
        fresh_oid_def split: option.splits prod.splits)

lemma new_user_password [simp]:
  "(new_user f)\<lparr>user_password := Bcrypt (rg_password f)\<rparr> = new_user f"
  by (simp add: new_user_def)

lemma register_user_InrD:
  "register_user d f = (d', Inr (uid, u)) \<Longrightarrow>
     u = new_user f \<and> map_of (users d') uid = Some u \<and> uid = next_oid d"
  by (auto simp: register_user_def fresh_oid_def save_user_Some map_of_update_same
           split: if_splits option.splits)

lemma change_password_InrD:
  "change_password d uid (Some c) (Some n) = (d', Inr ()) \<Longrightarrow> map_of (users d) uid = Some u \<Longrightarrow>
     compare_password c (user_password u) \<and>
     d' = d\<lparr>users := AList.update uid (u\<lparr>user_password := Bcrypt n\<rparr>) (users d)\<rparr>"
  by (auto simp: change_password_def save_user_Some split: if_splits option.splits)

lemma users_ok_sample: "users_ok sample_db"
  by (simp add: users_ok_def sample_db_def sample_user_def user_valid_def coll_wf_def)

subsection \<open>Properties of the account handlers\<close>

text \<open>
  C35. Invariant: every account handler keeps user ids distinct and below the counter,
  emails distinct, and every stored user valid.
\<close>

theorem account_step_preserves_ok:
  assumes "users_ok d"
  shows "users_ok (account_step d now uid op)"
  using assms by (rule account_step_ok)

theorem account_step_preserves_ok_witness:
  "users_ok sample_db \<and> users_ok (account_step sample_db 0 0 (Register sample_form))"
  using account_step_preserves_ok [OF users_ok_sample, of 0 0 "Register sample_form"] users_ok_sample
  by blast

text \<open>
  C36. Round trip: right after a successful registration, logging in with the registered
  email and password succeeds for the new account and records the login time.
\<close>

theorem register_then_login:
  assumes ok: "users_ok d" and reg: "register_user d f = (d', Inr (uid, u))"
  shows "login d' now (rg_email f) (Some (rg_password f)) True =
           (d'\<lparr>users := AList.update uid (u\<lparr>user_last_login := Some now\<rparr>) (users d')\<rparr>,
            Inr (uid, u\<lparr>user_last_login := Some now\<rparr>))"
proof -
  have ok': "users_ok d'" using register_user_ok [OF ok, of f] reg by simp
  from register_user_InrD [OF reg] have u: "u = new_user f" and m: "map_of (users d') uid = Some u"
    by blast+
  have "user_active u" "compare_password (rg_password f) (user_password u)" "user_email u = rg_email f"
    using u by (simp_all add: new_user_def)
  with login_stored [OF ok' map_of_SomeD [OF m]] show ?thesis by simp
qed

theorem register_then_login_witness:
  "snd (login (fst (register_user sample_db sample_form)) 7 ''dan@x.io'' (Some ''hunter22'') True) =
     Inr (100, (new_user sample_form)\<lparr>user_last_login := Some 7\<rparr>)"
proof -
  have reg: "register_user sample_db sample_form =
               (fst (register_user sample_db sample_form), Inr (100, new_user sample_form))"
    by (simp add: register_user_def register_valid_def sample_form_def js_trim_def js_space_def
                  find_by_email_def sample_db_def sample_user_def fresh_oid_def save_user_def
                  user_valid_def new_user_def Let_def)
  from register_then_login [OF users_ok_sample reg, of 7] show ?thesis
    by (simp add: sample_form_def)
qed

text \<open>
  Round trip: after a successful password change, login with the new password
  succeeds, and login with the old one fails unless the two are equal.
\<close>

theorem change_password_then_login:
  assumes ok: "users_ok d" and m: "map_of (users d) uid = Some u" and a: "user_active u"
    and ch: "change_password d uid (Some c) (Some n) = (d', Inr ())"
  shows "snd (login d' now (user_email u) (Some n) True) =
           Inr (uid, u\<lparr>user_password := Bcrypt n, user_last_login := Some now\<rparr>) \<and>
         (c \<noteq> n \<longrightarrow> snd (login d' now (user_email u) (Some c) True) = Inl Invalid_Credentials)"
proof -
  from change_password_InrD [OF ch m]
  have d': "d' = d\<lparr>users := AList.update uid (u\<lparr>user_password := Bcrypt n\<rparr>) (users d)\<rparr>" by simp
  have ok': "users_ok d'" using change_password_ok [OF ok, of uid "Some c" "Some n"] ch by simp
  have m': "(uid, u\<lparr>user_password := Bcrypt n\<rparr>) \<in> set (users d')"
    by (rule map_of_SomeD) (simp add: d' map_of_update_same)
  have new: "snd (login d' now (user_email u) (Some n) True) =
               Inr (uid, u\<lparr>user_password := Bcrypt n, user_last_login := Some now\<rparr>)"
    using login_stored [OF ok' m', of n now] a by simp
  have "find_by_email (users d') (user_email u) = Some (uid, u\<lparr>user_password := Bcrypt n\<rparr>)"
    using find_by_email_stored [OF _ m'] ok' by (simp add: users_ok_def)
  then have "c \<noteq> n \<longrightarrow> snd (login d' now (user_email u) (Some c) True) = Inl Invalid_Credentials"
    using a by (simp add: login_def)
  with new show ?thesis by blast
qed

theorem change_password_then_login_witness:
  "snd (login (fst (change_password sample_db 1 (Some ''ann-secret'') (Some ''newpass1''))) 7 ''ann@x.io''
          (Some ''newpass1'') True) =
     Inr (1, (sample_user ''ann'' Customer)\<lparr>user_password := Bcrypt ''newpass1'', user_last_login := Some 7\<rparr>) \<and>
   snd (login (fst (change_password sample_db 1 (Some ''ann-secret'') (Some ''newpass1''))) 7 ''ann@x.io''
          (Some ''ann-secret'') True) = Inl Invalid_Credentials"
proof -
  have m: "map_of (users sample_db) 1 = Some (sample_user ''ann'' Customer)"
    by (simp add: sample_db_def)
  have a: "user_active (sample_user ''ann'' Customer)" by (simp add: sample_user_def)
  have ch: "change_password sample_db 1 (Some ''ann-secret'') (Some ''newpass1'') =
              (fst (change_password sample_db 1 (Some ''ann-secret'') (Some ''newpass1'')), Inr ())"
    by (simp add: change_password_def sample_db_def sample_user_def save_user_def user_valid_def Let_def)
  from change_password_then_login [OF users_ok_sample m a ch, of 7] show ?thesis
    by (simp add: sample_user_def)
qed

text \<open>
  C38. A successful login answers the account found by the email, which is active and
  whose stored hash matches the given password, and records the login time.
\<close>

theorem login_guard:
  assumes "snd (login d now e p eok) = Inr (uid, u')"
  shows "\<exists>u pw. p = Some pw \<and> eok \<and> find_by_email (users d) e = Some (uid, u) \<and> user_active u \<and>
                compare_password pw (user_password u) \<and> u' = u\<lparr>user_last_login := Some now\<rparr>"
  using assms by (auto simp: login_def save_user_Some split: option.splits if_splits)

theorem login_guard_witness:
  "\<exists>u pw. Some ''ann-secret'' = Some pw \<and> find_by_email (users sample_db) ''ann@x.io'' = Some (1, u) \<and>
          user_active u \<and> compare_password pw (user_password u) \<and>
          (sample_user ''ann'' Customer)\<lparr>user_last_login := Some 7\<rparr> = u\<lparr>user_last_login := Some 7\<rparr>"
proof -
  have run: "snd (login sample_db 7 ''ann@x.io'' (Some ''ann-secret'') True) =
               Inr (1, (sample_user ''ann'' Customer)\<lparr>user_last_login := Some 7\<rparr>)"
    by (simp add: login_def find_by_email_def sample_db_def sample_user_def save_user_def user_valid_def
                  Let_def)
  from login_guard [OF run] show ?thesis by blast
qed

text \<open>
  C39. Registration never creates an admin: the role validator admits customer and
  restaurant only. The new account is active and stores the hash of the given password.
\<close>

theorem register_never_admin:
  assumes "snd (register_user d f) = Inr (uid, u)"
  shows "user_role u \<noteq> Admin \<and> user_active u \<and> user_password u = Bcrypt (rg_password f)"
  using assms
  by (auto simp: register_user_def register_valid_def fresh_oid_def save_user_Some new_user_def
           split: if_splits option.splits)

theorem register_never_admin_witness:
  "user_role (new_user sample_form) \<noteq> Admin \<and> user_active (new_user sample_form) \<and>
   user_password (new_user sample_form) = Bcrypt ''hunter22''"
proof -
  have run: "snd (register_user sample_db sample_form) = Inr (100, new_user sample_form)"
    by (simp add: register_user_def register_valid_def sample_form_def js_trim_def js_space_def
                  find_by_email_def sample_db_def sample_user_def fresh_oid_def save_user_def
                  user_valid_def new_user_def Let_def)
  from register_never_admin [OF run] show ?thesis by (simp add: sample_form_def)
qed

text \<open>
  A profile update changes only the name and the phone: the stored password hash,
  the role, the email and the active flag are those of the stored account.
\<close>

theorem update_profile_effect:
  assumes "snd (update_profile d uid f) = Inr u'"
  shows "\<exists>u. map_of (users d) uid = Some u \<and> u' = apply_profile f u \<and>
             user_password u' = user_password u \<and> user_role u' = user_role u \<and>
             user_email u' = user_email u \<and> user_active u' = user_active u"
  using assms
  by (auto simp: update_profile_def save_user_Some apply_profile_def split: if_splits option.splits)

theorem update_profile_effect_witness:
  "snd (update_profile sample_db 2 \<lparr>pf_name = Some ''Robert'', pf_phone = None, pf_fields_ok = True\<rparr>) =
     Inr ((sample_user ''bob'' Restaurant_Owner)\<lparr>user_name := ''Robert''\<rparr>) \<and>
   user_role ((sample_user ''bob'' Restaurant_Owner)\<lparr>user_name := ''Robert''\<rparr>) = Restaurant_Owner"
proof -
  have run: "snd (update_profile sample_db 2 \<lparr>pf_name = Some ''Robert'', pf_phone = None, pf_fields_ok = True\<rparr>) =
               Inr ((sample_user ''bob'' Restaurant_Owner)\<lparr>user_name := ''Robert''\<rparr>)"
    by (simp add: update_profile_def profile_valid_def apply_profile_def js_trim_def js_space_def
                  sample_db_def sample_user_def save_user_def user_valid_def Let_def)
  from update_profile_effect [OF run] run show ?thesis by (auto simp: sample_user_def)
qed

end
