(* ===== verification/Admin.thy ===== *)
theory Admin
  imports Users Catalog Orders Paging
begin

text \<open>
  The admin routes of \<open>src/backend/routes/admin.js\<close>, all behind \<open>adminAuth\<close>: the
  dashboard's overview counts and recent activity, the user and order listings with their
  filters and pagination, activation of a user, approval and rejection of a restaurant,
  the broadcast's recipients and the health check's counters. Collections are kept in
  insertion order, which is creation order, so the default sort \<open>createdAt: -1\<close> is
  the reversed collection; sorting on other fields, the dashboard's date-grouped
  aggregations and the revenue analytics are not modelled.
\<close>

text \<open>The validators of the listing routes: \<open>page \<ge> 1\<close>, \<open>1 \<le> limit \<le> 100\<close>.\<close>

definition page_args_ok :: "int \<Rightarrow> int \<Rightarrow> bool" where
  "page_args_ok page limit \<longleftrightarrow> 1 \<le> page \<and> 1 \<le> limit \<and> limit \<le> 100"

subsection \<open>Case-insensitive search\<close>

text \<open>\<open>{ $regex: search, $options: "i" }\<close> for a search text without regular-expression
  operators: a case-insensitive substring test (ASCII case folding).\<close>

definition lower_char :: "char \<Rightarrow> char" where
  "lower_char c = (let n = of_char c :: nat in if 65 \<le> n \<and> n \<le> 90 then char_of (n + 32) else c)"

fun is_infix :: "string \<Rightarrow> string \<Rightarrow> bool" where
  "is_infix p [] \<longleftrightarrow> p = []"
| "is_infix p (c # cs) \<longleftrightarrow> take (length p) (c # cs) = p \<or> is_infix p cs"

definition matches_ci :: "string \<Rightarrow> string \<Rightarrow> bool" where
  "matches_ci pat s \<longleftrightarrow> is_infix (map lower_char pat) (map lower_char s)"

subsection \<open>GET /api/admin/users (lines 103--168)\<close>

record user_query =
  uq_page :: int
  uq_limit :: int
  uq_role :: "role option"
  uq_search :: "string option"
  uq_active :: "bool option"
  uq_ascending :: bool

text \<open>\<open>.select("-password")\<close>: the listed users without their hash.\<close>

record user_view =
  uv_id :: oid
  uv_name :: string
  uv_email :: string
  uv_phone :: string
  uv_role :: role
  uv_active :: bool

definition user_view_of :: "oid \<times> user \<Rightarrow> user_view" where
  "user_view_of p =
     (case p of (k, u) \<Rightarrow> \<lparr>uv_id = k, uv_name = user_name u, uv_email = user_email u,
                             uv_phone = user_phone u, uv_role = user_role u, uv_active = user_active u\<rparr>)"

definition user_filter :: "user_query \<Rightarrow> user \<Rightarrow> bool" where
  "user_filter q u \<longleftrightarrow>
     (case uq_role q of None \<Rightarrow> True | Some r \<Rightarrow> user_role u = r) \<and>
     (case uq_active q of None \<Rightarrow> True | Some b \<Rightarrow> user_active u = b) \<and>
     (case uq_search q of None \<Rightarrow> True | Some [] \<Rightarrow> True
      | Some s \<Rightarrow> matches_ci s (user_name u) \<or> matches_ci s (user_email u) \<or> matches_ci s (user_phone u))"

definition list_users :: "db \<Rightarrow> user_query \<Rightarrow> user_view page response" where
  "list_users d q =
     (if \<not> page_args_ok (uq_page q) (uq_limit q) then Inl Validation_Failed
      else let us = map user_view_of (filter (\<lambda>(k, u). user_filter q u) (users d))
           in paginate (uq_page q) (uq_limit q) (if uq_ascending q then us else rev us))"

subsection \<open>PUT /api/admin/users/:id/status (lines 173--212)\<close>

definition set_user_active :: "db \<Rightarrow> oid \<Rightarrow> bool \<Rightarrow> db \<times> user_view response" where
  "set_user_active d uid b =
     (case map_of (users d) uid of
        None \<Rightarrow> (d, Inl User_Not_Found)
      | Some u \<Rightarrow>
          (d\<lparr>users := AList.update uid (u\<lparr>user_active := b\<rparr>) (users d)\<rparr>,
           Inr (user_view_of (uid, u\<lparr>user_active := b\<rparr>))))"

subsection \<open>Restaurant applications (lines 217--339)\<close>

definition list_pending_restaurants :: "db \<Rightarrow> int \<Rightarrow> int \<Rightarrow> (oid \<times> restaurant) page response" where
  "list_pending_restaurants d page limit =
     paginate page limit (rev (filter (\<lambda>(k, r). rest_status r = R_Pending) (restaurants d)))"

text \<open>\<open>findByIdAndUpdate(id, { status: "approved" })\<close>; the message validator's result is
  never read.\<close>

definition approve_restaurant :: "db \<Rightarrow> oid \<Rightarrow> db \<times> restaurant response" where
  "approve_restaurant d rid =
     (case map_of (restaurants d) rid of
        None \<Rightarrow> (d, Inl Restaurant_Not_Found)
      | Some r \<Rightarrow>
          (d\<lparr>restaurants := AList.update rid (r\<lparr>rest_status := R_Approved\<rparr>) (restaurants d)\<rparr>,
           Inr (r\<lparr>rest_status := R_Approved\<rparr>)))"

text \<open>\<open>rejectionReason\<close> is not a path of the restaurant schema, so Mongoose's strict mode
  drops it from the update: only the status is written.\<close>

definition reject_restaurant :: "db \<Rightarrow> oid \<Rightarrow> string option \<Rightarrow> db \<times> restaurant response" where
  "reject_restaurant d rid reason =
     (if reason = None \<or> reason = Some [] then (d, Inl Validation_Failed)
      else case map_of (restaurants d) rid of
        None \<Rightarrow> (d, Inl Restaurant_Not_Found)
      | Some r \<Rightarrow>
          (d\<lparr>restaurants := AList.update rid (r\<lparr>rest_status := R_Rejected\<rparr>) (restaurants d)\<rparr>,
           Inr (r\<lparr>rest_status := R_Rejected\<rparr>)))"

subsection \<open>GET /api/admin/orders (lines 344--421)\<close>

record order_query =
  oq_page :: int
  oq_limit :: int
  oq_status :: "order_status option"
  oq_restaurant :: "oid option"
  oq_customer :: "oid option"
  oq_from :: "ms option"
  oq_to :: "ms option"
  oq_ascending :: bool

definition order_filter :: "order_query \<Rightarrow> order \<Rightarrow> bool" where
  "order_filter q od \<longleftrightarrow>
     (case oq_status q of None \<Rightarrow> True | Some s \<Rightarrow> o_status od = s) \<and>
     (case oq_restaurant q of None \<Rightarrow> True | Some r \<Rightarrow> o_restaurant od = r) \<and>
     (case oq_customer q of None \<Rightarrow> True | Some c \<Rightarrow> o_customer od = c) \<and>
     (case oq_from q of None \<Rightarrow> True | Some t \<Rightarrow> t \<le> o_created od) \<and>
     (case oq_to q of None \<Rightarrow> True | Some t \<Rightarrow> o_created od \<le> t)"

definition list_orders_admin :: "db \<Rightarrow> order_query \<Rightarrow> (oid \<times> order) page response" where
  "list_orders_admin d q =
     (if \<not> page_args_ok (oq_page q) (oq_limit q) then Inl Validation_Failed
      else let os = filter (\<lambda>(k, od). order_filter q od) (orders d)
           in paginate (oq_page q) (oq_limit q) (if oq_ascending q then os else rev os))"

subsection \<open>GET /api/admin/dashboard (lines 14--54): overview and recent activity\<close>

record dashboard =
  db_total_users :: nat
  db_total_restaurants :: nat
  db_total_orders :: nat
  db_total_revenue :: money
  db_pending_restaurants :: nat
  db_active_orders :: nat
  db_recent_users :: "oid list"
  db_recent_orders :: "oid list"

definition dashboard :: "db \<Rightarrow> dashboard" where
  "dashboard d =
     \<lparr>db_total_users = length (filter (\<lambda>(k, u). user_role u = Customer) (users d)),
      db_total_restaurants = length (filter (\<lambda>(k, r). rest_status r = R_Approved) (restaurants d)),
      db_total_orders = length (orders d),
      db_total_revenue = sum_list (map (\<lambda>(k, od). pr_total (o_pricing od)) (orders d)),
      db_pending_restaurants = length (filter (\<lambda>(k, r). rest_status r = R_Pending) (restaurants d)),
      db_active_orders = length (filter (\<lambda>(k, od). o_status od \<in> set [Confirmed, Preparing, Ready, Out_For_Delivery])
                                  (orders d)),
      db_recent_users = take 5 (rev (map fst (filter (\<lambda>(k, u). user_role u = Customer) (users d)))),
      db_recent_orders = take 10 (rev (map fst (orders d)))\<rparr>"

subsection \<open>POST /api/admin/broadcast (lines 596--651)\<close>

datatype audience = All_Users | Customers | Restaurants

definition broadcast :: "db \<Rightarrow> string \<Rightarrow> string \<Rightarrow> audience \<Rightarrow> nat response" where
  "broadcast d title msg aud =
     (if title = [] \<or> msg = [] then Inl Validation_Failed
      else Inr (length (filter (\<lambda>(k, u). user_active u \<and>
                                  (case aud of All_Users \<Rightarrow> True
                                   | Customers \<Rightarrow> user_role u = Customer
                                   | Restaurants \<Rightarrow> user_role u = Restaurant_Owner)) (users d))))"

subsection \<open>GET /api/admin/system/health (lines 656--709): the counters\<close>

record health =
  h_orders :: nat
  h_completed :: nat
  h_cancelled :: nat
  h_active_users :: nat

definition health_stats :: "db \<Rightarrow> ms \<Rightarrow> health" where
  "health_stats d now =
     (let recent = filter (\<lambda>(k, od). now - day_ms \<le> o_created od) (orders d)
      in \<lparr>h_orders = length recent,
          h_completed = length (filter (\<lambda>(k, od). o_status od = Delivered) recent),
          h_cancelled = length (filter (\<lambda>(k, od). o_status od = Cancelled) recent),
          h_active_users = length (filter (\<lambda>(k, u). case user_last_login u of None \<Rightarrow> False
                                                    | Some t \<Rightarrow> now - day_ms \<le> t) (users d))\<rparr>)"

subsection \<open>The writing admin handlers as one step function\<close>

datatype admin_op =
    Set_User_Active oid bool
  | Approve_Restaurant oid
  | Reject_Restaurant oid "string option"

fun admin_step :: "db \<Rightarrow> admin_op \<Rightarrow> db" where
  "admin_step d (Set_User_Active uid b) = fst (set_user_active d uid b)"
| "admin_step d (Approve_Restaurant rid) = fst (approve_restaurant d rid)"
| "admin_step d (Reject_Restaurant rid reason) = fst (reject_restaurant d rid reason)"

subsection \<open>The admin writes keep the invariants\<close>

lemma set_user_active_ok:
  assumes ok: "users_ok d"
  shows "users_ok (fst (set_user_active d uid b))"
proof (cases "map_of (users d) uid")
  case (Some u)
  have m: "(uid, u) \<in> set (users d)" by (rule map_of_SomeD [OF Some])
  have s: "save_user d uid (u\<lparr>user_active := b\<rparr>) None =
             Some (u\<lparr>user_active := b\<rparr>, d\<lparr>users := AList.update uid (u\<lparr>user_active := b\<rparr>) (users d)\<rparr>)"
    using users_ok_stored [OF ok m] by (simp add: save_user_Some user_valid_def)
  from users_ok_saved_stored [OF ok m s] Some show ?thesis by (simp add: set_user_active_def)
qed (simp add: set_user_active_def ok)

lemma put_status_ok:
  assumes ok: "catalog_ok d" and k: "map_of (restaurants d) rid = Some r"
  shows "catalog_ok (d\<lparr>restaurants := AList.update rid (r\<lparr>rest_status := st\<rparr>) (restaurants d)\<rparr>)"
proof (rule catalog_ok_put_restaurant [OF ok k])
  show "restaurant_valid (r\<lparr>rest_status := st\<rparr>)"
    using catalog_ok_stored(1) [OF ok k] by (simp add: restaurant_valid_def)
qed

lemma approve_restaurant_ok: "catalog_ok d \<Longrightarrow> catalog_ok (fst (approve_restaurant d rid))"
  by (auto simp: approve_restaurant_def put_status_ok split: option.splits)

lemma reject_restaurant_ok: "catalog_ok d \<Longrightarrow> catalog_ok (fst (reject_restaurant d rid reason))"
  by (auto simp: reject_restaurant_def put_status_ok split: option.splits)

lemma admin_step_frame:
  "orders (admin_step d op) = orders d \<and> menu_items (admin_step d op) = menu_items d \<and>
   next_oid (admin_step d op) = next_oid d \<and>
   (users (admin_step d op) = users d \<or> restaurants (admin_step d op) = restaurants d)"
  by (cases op)
     (auto simp: set_user_active_def approve_restaurant_def reject_restaurant_def split: option.splits)

lemma users_ok_restaurants: "users_ok (d\<lparr>restaurants := rs\<rparr>) = users_ok d"
  by (simp add: users_ok_def)

lemma admin_step_users_ok: "users_ok d \<Longrightarrow> users_ok (admin_step d op)"
proof (cases op)
  case (Set_User_Active uid b)
  moreover assume "users_ok d"
  ultimately show ?thesis by (simp add: set_user_active_ok)
qed (auto simp: approve_restaurant_def reject_restaurant_def users_ok_restaurants split: option.splits)

lemma admin_step_catalog_ok: "catalog_ok d \<Longrightarrow> catalog_ok (admin_step d op)"
proof (cases op)
  case (Set_User_Active uid b)
  moreover assume c: "catalog_ok d"
  ultimately show ?thesis
    by (auto simp: set_user_active_def split: option.splits intro: catalog_ok_frame [OF c])
qed (simp_all add: approve_restaurant_ok reject_restaurant_ok)

end
