(* ===== verification/Analytics.thy ===== *)
theory Analytics
  imports Paging Order_Lifecycle
begin

text \<open>
  The admin analytics of \<open>routes/admin.js\<close>: \<open>GET /analytics/revenue\<close> (lines
  426--515) and \<open>GET /analytics/orders\<close> (lines 520--591). Each is a MongoDB
  aggregation: a \<open>$match\<close> on the creation time (and status), a \<open>$group\<close> that sums
  per key, a \<open>$sort\<close> and sometimes a \<open>$limit\<close>. \<open>$group\<close> is \<open>group_sum\<close>, with
  its groups in order of first appearance; ties of the following \<open>$sort\<close>, which
  MongoDB leaves unspecified, keep that order (a stable sort). Dates are milliseconds
  since the epoch in UTC: the day of \<open>$dateToString "%Y-%m-%d"\<close> is
  \<open>t div day_ms\<close>, \<open>$hour\<close> is \<open>(t div 3600000) mod 24\<close> and \<open>$dayOfWeek\<close> counts
  from Sunday, the epoch being a Thursday. The week and month groupings of the revenue
  route need a calendar and are not modelled; nor is the period's start in local time,
  which is \<open>now - period * day_ms\<close> here.
\<close>

subsection \<open>Grouping with sums\<close>

text \<open>\<open>{ $group: { _id: key, total: { $sum: val }, count: { $sum: 1 } } }\<close>.\<close>

fun group_sum :: "('a \<Rightarrow> 'k) \<Rightarrow> ('a \<Rightarrow> int) \<Rightarrow> 'a list \<Rightarrow> ('k \<times> int \<times> nat) list \<Rightarrow> ('k \<times> int \<times> nat) list" where
  "group_sum key val [] acc = acc"
| "group_sum key val (x # xs) acc =
     group_sum key val xs
       (case map_of acc (key x) of
          None \<Rightarrow> acc @ [(key x, val x, 1)]
        | Some (s, n) \<Rightarrow> AList.update (key x) (s + val x, Suc n) acc)"

definition group_total :: "('k \<times> int \<times> nat) list \<Rightarrow> int" where
  "group_total g = sum_list (map (fst \<circ> snd) g)"

definition group_count :: "('k \<times> int \<times> nat) list \<Rightarrow> nat" where
  "group_count g = sum_list (map (snd \<circ> snd) g)"

text \<open>The orders created since the period's start: \<open>{ createdAt: { $gte: startDate } }\<close>.\<close>

definition orders_since :: "db \<Rightarrow> ms \<Rightarrow> nat \<Rightarrow> order list" where
  "orders_since d now days = filter (\<lambda>od. now - days * day_ms \<le> o_created od) (map snd (orders d))"

subsection \<open>GET /api/admin/analytics/revenue (lines 426--515)\<close>

text \<open>The validators: \<open>period\<close> one of 7, 30, 90, 365 days (default 30). Orders that are
  not cancelled count.\<close>

definition period_days :: "string option \<Rightarrow> nat option" where
  "period_days p =
     (case p of None \<Rightarrow> Some 30
      | Some s \<Rightarrow> if s = ''7'' then Some 7 else if s = ''30'' then Some 30 else if s = ''90'' then Some 90
                  else if s = ''365'' then Some 365 else None)"

definition revenue_orders :: "db \<Rightarrow> ms \<Rightarrow> nat \<Rightarrow> order list" where
  "revenue_orders d now days = filter (\<lambda>od. o_status od \<noteq> Cancelled) (orders_since d now days)"

text \<open>\<open>revenueData\<close> grouped by day, \<open>{ $sort: { _id: 1 } }\<close>.\<close>

definition revenue_by_day :: "db \<Rightarrow> ms \<Rightarrow> nat \<Rightarrow> (nat \<times> int \<times> nat) list" where
  "revenue_by_day d now days =
     sort_key fst (group_sum (\<lambda>od. o_created od div day_ms) (\<lambda>od. pr_total (o_pricing od)) (revenue_orders d now days) [])"

text \<open>The summary of lines 500--504: the sums of the rows, and as average order value the
  mean of the rows' averages, \<open>0\<close> when there is no row (\<open>NaN || 0\<close>).\<close>

record revenue_summary =
  rs_total_revenue :: int
  rs_total_orders :: nat
  rs_average :: rat

definition summarize_revenue :: "('k \<times> int \<times> nat) list \<Rightarrow> revenue_summary" where
  "summarize_revenue rows =
     \<lparr>rs_total_revenue = group_total rows, rs_total_orders = group_count rows,
      rs_average = (if rows = [] then 0
                    else sum_list (map (\<lambda>(k, s, n). of_int s / of_nat n) rows) / of_nat (length rows))\<rparr>"

text \<open>\<open>topRestaurants\<close>: sorted by revenue, descending, limited to ten, then joined with
  the restaurants; \<open>$unwind\<close> drops a row whose restaurant is gone.\<close>

definition top_restaurants :: "db \<Rightarrow> ms \<Rightarrow> nat \<Rightarrow> (string \<times> int \<times> nat) list" where
  "top_restaurants d now days =
     List.map_filter (\<lambda>(rid, s, n). map_option (\<lambda>r. (rest_name r, s, n)) (map_of (restaurants d) rid))
       (take 10 (sort_key (\<lambda>(rid, s, n). - s)
                   (group_sum o_restaurant (\<lambda>od. pr_total (o_pricing od)) (revenue_orders d now days) [])))"

record revenue_report =
  rv_by_day :: "(nat \<times> int \<times> nat) list"
  rv_top :: "(string \<times> int \<times> nat) list"
  rv_summary :: revenue_summary

definition revenue_analytics :: "db \<Rightarrow> ms \<Rightarrow> string option \<Rightarrow> revenue_report response" where
  "revenue_analytics d now p =
     (case period_days p of
        None \<Rightarrow> Inl Validation_Failed
      | Some days \<Rightarrow>
          Inr \<lparr>rv_by_day = revenue_by_day d now days, rv_top = top_restaurants d now days,
               rv_summary = summarize_revenue (revenue_by_day d now days)\<rparr>)"

subsection \<open>GET /api/admin/analytics/orders (lines 520--591)\<close>

definition hour_of :: "ms \<Rightarrow> nat" where
  "hour_of t = (t div 3600000) mod 24"

definition day_of_week :: "ms \<Rightarrow> nat" where
  "day_of_week t = (t div day_ms + 4) mod 7 + 1"

text \<open>\<open>popularItems\<close>: the order lines unwound, grouped by menu item with the first
  name, the quantity and the line totals summed.\<close>

fun group_items :: "order_item list \<Rightarrow> (oid \<times> string \<times> int \<times> int) list \<Rightarrow> (oid \<times> string \<times> int \<times> int) list" where
  "group_items [] acc = acc"
| "group_items (it # its) acc =
     group_items its
       (case map_of acc (oi_menu_item it) of
          None \<Rightarrow> acc @ [(oi_menu_item it, oi_name it, oi_quantity it, oi_item_total it)]
        | Some (nm, q, t) \<Rightarrow> AList.update (oi_menu_item it) (nm, q + oi_quantity it, t + oi_item_total it) acc)"

record order_report =
  or_by_status :: "(order_status \<times> nat) list"
  or_by_hour :: "(nat \<times> nat) list"
  or_by_weekday :: "(nat \<times> nat) list"
  or_popular :: "(oid \<times> string \<times> int \<times> int) list"

definition counts :: "('a \<Rightarrow> 'k) \<Rightarrow> 'a list \<Rightarrow> ('k \<times> nat) list" where
  "counts key xs = map (\<lambda>(k, s, n). (k, n)) (group_sum key (\<lambda>x. 0) xs [])"

text \<open>\<open>period\<close> is not validated here: a value that is not a number makes the start an
  invalid date, and the \<open>$match\<close> on it fails (500). The model takes the parsed days.\<close>

definition order_analytics :: "db \<Rightarrow> ms \<Rightarrow> nat \<Rightarrow> order_report" where
  "order_analytics d now days =
     (let os = orders_since d now days
      in \<lparr>or_by_status = sort_key (\<lambda>(k, n). - int n) (counts o_status os),
          or_by_hour = sort_key fst (counts (\<lambda>od. hour_of (o_created od)) os),
          or_by_weekday = sort_key fst (counts (\<lambda>od. day_of_week (o_created od)) os),
          or_popular = take 10 (sort_key (\<lambda>(k, nm, q, t). - q) (group_items (concat (map o_items os)) []))\<rparr>)"

text \<open>What \<open>$group\<close> is meant to compute, read from the grouped documents one key at a
  time: a key's group exists when a document has that key, and holds the sum of the
  values and the number of the documents with that key.\<close>

definition group_ref :: "('a \<Rightarrow> 'k) \<Rightarrow> ('a \<Rightarrow> int) \<Rightarrow> 'a list \<Rightarrow> 'k \<Rightarrow> (int \<times> nat) option" where
  "group_ref key val xs k =
     (if k \<in> set (map key xs)
      then Some (sum_list (map val (filter (\<lambda>x. key x = k) xs)), length (filter (\<lambda>x. key x = k) xs))
      else None)"

subsection \<open>Grouping keeps the totals\<close>

lemma group_sum_keys:
  "set (map fst (group_sum key val xs acc)) = set (map fst acc) \<union> key ` set xs \<and>
   (distinct (map fst acc) \<longrightarrow> distinct (map fst (group_sum key val xs acc)))"
proof (induction xs arbitrary: acc)
  case (Cons x xs)
  show ?case
  proof (cases "map_of acc (key x)")
    case None
    then have "key x \<notin> set (map fst acc)" by (auto simp: map_of_eq_None_iff)
    with Cons [of "acc @ [(key x, val x, 1)]"] None show ?thesis by auto
  next
    case (Some sn)
    obtain s n where sn: "sn = (s, n)" by fastforce
    have k: "key x \<in> set (map fst acc)" using Some by (metis domI dom_map_of_conv_image_fst set_map)
    have "map fst (AList.update (key x) (s + val x, Suc n) acc) = map fst acc"
      using Some by (simp add: map_fst_update_present)
    with Cons [of "AList.update (key x) (s + val x, Suc n) acc"] Some k sn show ?thesis
      by (simp add: insert_absorb)
  qed
qed simp

lemma sum_update_distinct:
  fixes f :: "'v \<Rightarrow> 'b::comm_monoid_add"
  assumes "distinct (map fst acc)" and "map_of acc k = Some v"
  shows "sum_list (map (f \<circ> snd) (AList.update k v' acc)) + f v = sum_list (map (f \<circ> snd) acc) + f v'"
  using assms
proof (induction acc)
  case (Cons p acc)
  then show ?case by (cases p) (auto simp: ac_simps split: if_splits)
qed simp

text \<open>The groups' sums and counts add up to the sum and the number of the grouped
  documents.\<close>

lemma group_sum_totals:
  "distinct (map fst acc) \<Longrightarrow>
     group_total (group_sum key val xs acc) = group_total acc + sum_list (map val xs) \<and>
     group_count (group_sum key val xs acc) = group_count acc + length xs"
proof (induction xs arbitrary: acc)
  case (Cons x xs)
  show ?case
  proof (cases "map_of acc (key x)")
    case None
    then have "key x \<notin> set (map fst acc)" by (auto simp: map_of_eq_None_iff)
    with Cons.prems have "distinct (map fst (acc @ [(key x, val x, 1)]))" by simp
    with Cons.IH [OF this] None show ?thesis by (simp add: group_total_def group_count_def)
  next
    case (Some sn)
    obtain s n where sn: "sn = (s, n)" by fastforce
    have "map fst (AList.update (key x) (s + val x, Suc n) acc) = map fst acc"
      using Some by (simp add: map_fst_update_present)
    with Cons.prems have d: "distinct (map fst (AList.update (key x) (s + val x, Suc n) acc))" by simp
    have "group_total (AList.update (key x) (s + val x, Suc n) acc) + s = group_total acc + (s + val x)"
      using sum_update_distinct [OF Cons.prems, of "key x" sn fst "(s + val x, Suc n)"] Some sn
      by (simp add: group_total_def)
    moreover have "group_count (AList.update (key x) (s + val x, Suc n) acc) + n = group_count acc + Suc n"
      using sum_update_distinct [OF Cons.prems, of "key x" sn snd "(s + val x, Suc n)"] Some sn
      by (simp add: group_count_def)
    ultimately show ?thesis using Cons.IH [OF d] Some sn by simp
  qed
qed (simp add: group_total_def group_count_def)

lemma sum_list_insort_key: "sum_list (map g (insort_key f x xs)) = g x + sum_list (map g xs)"
  for g :: "'a \<Rightarrow> 'b::comm_monoid_add"
  by (induction xs) (auto simp: ac_simps)

lemma sum_list_sort_key: "sum_list (map g (sort_key f xs)) = sum_list (map g xs)"
  for g :: "'a \<Rightarrow> 'b::comm_monoid_add"
  by (induction xs) (simp_all add: sum_list_insort_key)

text \<open>The revenue summary's totals are the revenue and the number of the orders of the
  period that are not cancelled.\<close>

lemma revenue_summary_totals:
  "rs_total_revenue (summarize_revenue (revenue_by_day d now days)) =
     sum_list (map (\<lambda>od. pr_total (o_pricing od)) (revenue_orders d now days)) \<and>
   rs_total_orders (summarize_revenue (revenue_by_day d now days)) = length (revenue_orders d now days)"
  using group_sum_totals [of "[]" "\<lambda>od. o_created od div day_ms" "\<lambda>od. pr_total (o_pricing od)" "revenue_orders d now days"]
  by (simp add: summarize_revenue_def revenue_by_day_def group_total_def group_count_def sum_list_sort_key)

text \<open>The reported average order value is the mean of the days' averages, not the
  revenue per order: one order of 10.00 on a day and three orders of 1.00 on the next
  report 5.50, while the orders average 3.25.\<close>

lemma average_is_mean_of_daily_means:
  "summarize_revenue [(0::nat, 1000, 1), (1, 300, 3)] =
     \<lparr>rs_total_revenue = 1300, rs_total_orders = 4, rs_average = 550\<rparr> \<and>
   (1300::rat) / 4 \<noteq> 550"
  by (simp add: summarize_revenue_def group_total_def group_count_def)

lemma analytics_bounds:
  "hour_of t < 24 \<and> 1 \<le> day_of_week t \<and> day_of_week t \<le> 7 \<and> length (top_restaurants d now days) \<le> 10"
proof -
  have "length (top_restaurants d now days) \<le> length (take 10 (sort_key (\<lambda>(rid, s, n). - s)
          (group_sum o_restaurant (\<lambda>od. pr_total (o_pricing od)) (revenue_orders d now days) [])))"
    unfolding top_restaurants_def List.map_filter_def length_map by (rule length_filter_le)
  then show ?thesis by (simp add: hour_of_def day_of_week_def)
qed

subsection \<open>The one-pass grouping computes the reference\<close>

lemma group_sum_lookup:
  "map_of (group_sum key val xs acc) k =
     (case map_of acc k of
        None \<Rightarrow> group_ref key val xs k
      | Some (s, n) \<Rightarrow> Some (s + sum_list (map val (filter (\<lambda>x. key x = k) xs)), n + length (filter (\<lambda>x. key x = k) xs)))"
proof (induction xs arbitrary: acc)
  case (Cons x xs)
  show ?case
  proof (cases "map_of acc (key x)")
    case None
    with Cons [of "acc @ [(key x, val x, 1)]"] show ?thesis
      by (auto simp: group_ref_def map_of_append split: option.splits)
  next
    case (Some sn)
    with Cons [of "AList.update (key x) (fst sn + val x, Suc (snd sn)) acc"] show ?thesis
      by (cases sn) (auto simp: group_ref_def update_conv' split: option.splits)
  qed
qed (simp add: group_ref_def split: option.splits)

text \<open>
  The grouping of the analytics, one pass that updates an association list, is
  equivalent to the reference: it holds one group per key, and each key's group is the
  reference's sum and count.
\<close>

lemma group_sum_equiv:
  "map_of (group_sum key val xs []) = group_ref key val xs \<and> distinct (map fst (group_sum key val xs []))"
  using group_sum_lookup [of key val xs "[]"] group_sum_keys [of key val xs "[]"] by (simp add: fun_eq_iff)


subsection \<open>The revenue report\<close>

lemma group_sum_mem:
  assumes "(k, s, n) \<in> set (group_sum key val xs [])"
  shows "s = sum_list (map val (filter (\<lambda>x. key x = k) xs)) \<and> n = length (filter (\<lambda>x. key x = k) xs)"
proof -
  have "map_of (group_sum key val xs []) k = Some (s, n)"
    using assms group_sum_equiv [of key val xs] by (intro map_of_is_SomeI) simp_all
  then show ?thesis using group_sum_equiv [of key val xs] by (simp add: group_ref_def split: if_splits)
qed

lemma set_map_filter_iff: "y \<in> set (List.map_filter f xs) \<longleftrightarrow> (\<exists>x\<in>set xs. f x = Some y)"
  by (induction xs) (auto simp: map_filter_simps split: option.splits)

lemma sorted_wrt_map_filter:
  assumes "sorted_wrt P xs" and "\<And>x y x' y'. f x = Some y \<Longrightarrow> f x' = Some y' \<Longrightarrow> P x x' \<Longrightarrow> Q y y'"
  shows "sorted_wrt Q (List.map_filter f xs)"
  using assms(1)
proof (induction xs)
  case (Cons x xs)
  have "sorted_wrt Q (List.map_filter f xs)" using Cons by simp
  moreover have "Q y y'" if fx: "f x = Some y" and y': "y' \<in> set (List.map_filter f xs)" for y y'
  proof -
    obtain x' where x': "x' \<in> set xs" "f x' = Some y'" using y' by (auto simp: set_map_filter_iff)
    with Cons.prems have "P x x'" by simp
    with x' show ?thesis using assms(2) [OF fx] by blast
  qed
  ultimately show ?case by (cases "f x") (simp_all add: map_filter_simps set_map_filter_iff)
qed (simp add: map_filter_simps)

lemma revenue_orders_eq:
  "revenue_orders d now days =
     filter (\<lambda>od. now - days * day_ms \<le> o_created od \<and> o_status od \<noteq> Cancelled) (map snd (orders d))"
  by (simp add: revenue_orders_def orders_since_def)

lemma top_restaurants_rows:
  assumes "(nm, s, n) \<in> set (top_restaurants d now days)"
  shows "\<exists>rid r. map_of (restaurants d) rid = Some r \<and> nm = rest_name r \<and>
           (rid, s, n) \<in> set (group_sum o_restaurant (\<lambda>od. pr_total (o_pricing od)) (revenue_orders d now days) [])"
  using assms by (fastforce simp: top_restaurants_def set_map_filter_iff dest!: in_set_takeD split: prod.splits)

lemma top_restaurants_sorted:
  "sorted_wrt (\<lambda>a b. fst (snd b) \<le> fst (snd a)) (top_restaurants d now days)"
proof -
  let ?g = "group_sum o_restaurant (\<lambda>od. pr_total (o_pricing od)) (revenue_orders d now days) []"
  have "sorted (map (\<lambda>(rid, s, n). - s) (sort_key (\<lambda>(rid, s, n). - s) ?g))" by (rule sorted_sort_key)
  then have "sorted_wrt (\<lambda>a b. fst (snd b) \<le> fst (snd a)) (sort_key (\<lambda>(rid, s, n). - s) ?g)"
    by (simp add: sorted_map split_def)
  then have "sorted_wrt (\<lambda>a b. fst (snd b) \<le> fst (snd a)) (take 10 (sort_key (\<lambda>(rid, s, n). - s) ?g))"
    by (rule sorted_wrt_take)
  then show ?thesis unfolding top_restaurants_def
    by (rule sorted_wrt_map_filter) (auto split: prod.splits)
qed

text \<open>
  C15. \<open>GET /analytics/revenue\<close> with a valid period: the summary's revenue and order
  count are the sum of the totals and the number of the orders created in the period
  that are not cancelled; the top list holds at most ten rows, by revenue descending,
  each naming a stored restaurant with the revenue and the number of its counted orders.
\<close>

theorem revenue_report:
  assumes p: "period_days p = Some days"
  shows "let os = filter (\<lambda>od. now - days * day_ms \<le> o_created od \<and> o_status od \<noteq> Cancelled) (map snd (orders d))
         in \<exists>rep. revenue_analytics d now p = Inr rep \<and>
              rs_total_revenue (rv_summary rep) = (\<Sum>od\<leftarrow>os. pr_total (o_pricing od)) \<and>
              rs_total_orders (rv_summary rep) = length os \<and>
              length (rv_top rep) \<le> 10 \<and>
              sorted_wrt (\<lambda>a b. fst (snd b) \<le> fst (snd a)) (rv_top rep) \<and>
              (\<forall>(nm, s, n)\<in>set (rv_top rep). \<exists>rid r. map_of (restaurants d) rid = Some r \<and> nm = rest_name r \<and>
                 s = (\<Sum>od\<leftarrow>filter (\<lambda>od. o_restaurant od = rid) os. pr_total (o_pricing od)) \<and>
                 n = length (filter (\<lambda>od. o_restaurant od = rid) os))"
proof -
  have rows: "\<exists>rid r. map_of (restaurants d) rid = Some r \<and> nm = rest_name r \<and>
                 s = (\<Sum>od\<leftarrow>filter (\<lambda>od. o_restaurant od = rid) (revenue_orders d now days). pr_total (o_pricing od)) \<and>
                 n = length (filter (\<lambda>od. o_restaurant od = rid) (revenue_orders d now days))"
    if top: "(nm, s, n) \<in> set (top_restaurants d now days)" for nm s n
  proof -
    obtain rid r where "map_of (restaurants d) rid = Some r" "nm = rest_name r"
      and mem: "(rid, s, n) \<in> set (group_sum o_restaurant (\<lambda>od. pr_total (o_pricing od)) (revenue_orders d now days) [])"
      using top_restaurants_rows [OF top] by blast
    with group_sum_mem [OF mem] show ?thesis by blast
  qed
  show ?thesis
    using p revenue_summary_totals [of d now days] analytics_bounds [of 0 d now days]
      top_restaurants_sorted [of d now days] rows
    by (auto simp: revenue_analytics_def revenue_orders_eq Let_def)
qed

theorem revenue_report_witness:
  "period_days None = Some 30 \<and> revenue_analytics sample_db 0 None \<noteq> Inl Validation_Failed"
proof -
  have p: "period_days None = Some 30" by (simp add: period_days_def)
  from revenue_report [OF p, of 0 sample_db] p show ?thesis by (auto simp: Let_def)
qed

end
