(* ===== verification/CartSlice.thy ===== *)
theory CartSlice
  imports Prelude "HOL-Library.Mapping"
begin

text \<open>
  The browser's cart (frontend/src/store/slices/cartSlice.ts): the Redux slice state,
  its reducers and the asynchronous thunks' fulfilled and rejected cases, with the
  \<open>localStorage\<close> key \<open>cart\<close> that the reducers write and the initial state reads.
  Prices and quantities are JavaScript numbers; they are integers here (amounts in
  cents, as in the backend model), so floating-point rounding of the totals is not
  modelled. \<open>JSON.stringify\<close> followed by \<open>JSON.parse\<close> is the identity on the cart
  entries (an \<open>undefined\<close> instruction is dropped and read back as absent).
\<close>

subsection \<open>State (lines 5--25)\<close>

record fe_menu_item =
  fm_id :: string
  fm_restaurant :: string
  fm_price :: money

record fe_cart_item =
  ci_menu_item :: fe_menu_item
  ci_quantity :: int
  ci_instructions :: "string option"

record cart_state =
  cs_items :: "fe_cart_item list"
  cs_total_amount :: money
  cs_total_items :: int
  cs_restaurant :: "string option"
  cs_loading :: bool
  cs_error :: "string option"
  cs_address :: string
  cs_instructions :: string

text \<open>The \<open>cart\<close> key of \<open>localStorage\<close>: \<open>None\<close> once removed.\<close>

type_synonym local_cart = "fe_cart_item list option"

record fe_store =
  fs_cart :: cart_state
  fs_local :: local_cart

text \<open>The initial state reads the stored entries back but starts with zero totals and no
  restaurant.\<close>

definition initial_state :: "local_cart \<Rightarrow> cart_state" where
  "initial_state ls =
     \<lparr>cs_items = (case ls of None \<Rightarrow> [] | Some xs \<Rightarrow> xs), cs_total_amount = 0, cs_total_items = 0,
      cs_restaurant = None, cs_loading = False, cs_error = None, cs_address = [], cs_instructions = []\<rparr>"

definition load_store :: "local_cart \<Rightarrow> fe_store" where
  "load_store ls = \<lparr>fs_cart = initial_state ls, fs_local = ls\<rparr>"

subsection \<open>Totals (lines 27--32)\<close>

definition item_id :: "fe_cart_item \<Rightarrow> string" where
  "item_id it = fm_id (ci_menu_item it)"

definition item_restaurant :: "fe_cart_item \<Rightarrow> string" where
  "item_restaurant it = fm_restaurant (ci_menu_item it)"

definition line_amount :: "fe_cart_item \<Rightarrow> money" where
  "line_amount it = fm_price (ci_menu_item it) * ci_quantity it"

definition calculate_totals :: "fe_cart_item list \<Rightarrow> int \<times> money" where
  "calculate_totals xs =
     (foldl (\<lambda>s it. s + ci_quantity it) 0 xs, foldl (\<lambda>s it. s + fm_price (ci_menu_item it) * ci_quantity it) 0 xs)"

text \<open>\<open>state.totalAmount = totals.totalAmount; state.totalItems = totals.totalItems\<close>.\<close>

definition with_totals :: "cart_state \<Rightarrow> cart_state" where
  "with_totals s =
     (case calculate_totals (cs_items s) of (n, a) \<Rightarrow> s\<lparr>cs_total_amount := a, cs_total_items := n\<rparr>)"

text \<open>The reducers end with \<open>localStorage.setItem("cart", JSON.stringify(state.items))\<close>.\<close>

definition persist :: "cart_state \<Rightarrow> fe_store" where
  "persist s = \<lparr>fs_cart = s, fs_local = Some (cs_items s)\<rparr>"

subsection \<open>The reducers (lines 110--203)\<close>

text \<open>Lines 117--123: a different restaurant empties the cart; no restaurant adopts the
  item's.\<close>

definition rescope :: "cart_state \<Rightarrow> string \<Rightarrow> cart_state" where
  "rescope s r =
     (if js_truthy_str (cs_restaurant s) \<and> cs_restaurant s \<noteq> Some r
      then s\<lparr>cs_items := [], cs_restaurant := Some r\<rparr>
      else if \<not> js_truthy_str (cs_restaurant s) then s\<lparr>cs_restaurant := Some r\<rparr>
      else s)"

text \<open>Lines 125--138: the first entry of the same menu item (customizations are not
  compared) gets the quantity added and a non-empty instruction; otherwise the item is
  pushed.\<close>

definition merge_item :: "fe_cart_item list \<Rightarrow> fe_menu_item \<Rightarrow> int \<Rightarrow> string option \<Rightarrow> fe_cart_item list" where
  "merge_item xs mi q nt =
     (case find_idx (\<lambda>it. item_id it = fm_id mi) xs of
        None \<Rightarrow> xs @ [\<lparr>ci_menu_item = mi, ci_quantity = q, ci_instructions = nt\<rparr>]
      | Some i \<Rightarrow> xs[i := (xs ! i)\<lparr>ci_quantity := ci_quantity (xs ! i) + q,
                     ci_instructions := (if js_truthy_str nt then nt else ci_instructions (xs ! i))\<rparr>])"

definition add_to_cart_reducer :: "fe_store \<Rightarrow> fe_menu_item \<Rightarrow> int \<Rightarrow> string option \<Rightarrow> fe_store" where
  "add_to_cart_reducer st mi q nt =
     (let s = rescope (fs_cart st) (fm_restaurant mi)
      in persist (with_totals (s\<lparr>cs_items := merge_item (cs_items s) mi q nt\<rparr>)))"

text \<open>\<open>if (state.items.length === 0) state.restaurantId = null\<close>.\<close>

definition drop_if_empty :: "cart_state \<Rightarrow> cart_state" where
  "drop_if_empty s = (if cs_items s = [] then s\<lparr>cs_restaurant := None\<rparr> else s)"

definition remove_from_cart :: "fe_store \<Rightarrow> string \<Rightarrow> fe_store" where
  "remove_from_cart st mid =
     (let s = fs_cart st
      in persist (with_totals (drop_if_empty (s\<lparr>cs_items := filter (\<lambda>it. item_id it \<noteq> mid) (cs_items s)\<rparr>))))"

definition set_quantity :: "fe_cart_item list \<Rightarrow> string \<Rightarrow> int \<Rightarrow> fe_cart_item list" where
  "set_quantity xs mid q =
     (case find_idx (\<lambda>it. item_id it = mid) xs of
        None \<Rightarrow> xs
      | Some i \<Rightarrow> if q \<le> 0 then filter (\<lambda>it. item_id it \<noteq> mid) xs
                 else xs[i := (xs ! i)\<lparr>ci_quantity := q\<rparr>])"

definition update_quantity :: "fe_store \<Rightarrow> string \<Rightarrow> int \<Rightarrow> fe_store" where
  "update_quantity st mid q =
     (let s = fs_cart st
      in persist (with_totals (drop_if_empty (s\<lparr>cs_items := set_quantity (cs_items s) mid q\<rparr>))))"

text \<open>\<open>clearCart\<close> (lines 184--190), and \<open>clearCartServer.fulfilled\<close> (lines 235--241),
  which does the same.\<close>

definition clear_cart_reducer :: "fe_store \<Rightarrow> fe_store" where
  "clear_cart_reducer st =
     \<lparr>fs_cart = (fs_cart st)\<lparr>cs_items := [], cs_total_amount := 0, cs_total_items := 0,
                              cs_restaurant := None\<rparr>,
      fs_local = None\<rparr>"

subsection \<open>The thunks' results (lines 204--242)\<close>

text \<open>\<open>syncCartWithServer.fulfilled\<close> stores the returned entries without touching
  \<open>restaurantId\<close>.\<close>

definition sync_fulfilled :: "fe_store \<Rightarrow> fe_cart_item list \<Rightarrow> fe_store" where
  "sync_fulfilled st xs = persist (with_totals ((fs_cart st)\<lparr>cs_loading := False, cs_items := xs\<rparr>))"

definition fetch_fulfilled :: "fe_store \<Rightarrow> fe_cart_item list \<Rightarrow> fe_store" where
  "fetch_fulfilled st xs =
     (let s = with_totals ((fs_cart st)\<lparr>cs_items := xs\<rparr>)
      in persist (if xs \<noteq> [] then s\<lparr>cs_restaurant := Some (item_restaurant (hd xs))\<rparr> else s))"

datatype cart_action =
    Add_To_Cart fe_menu_item int "string option"
  | Remove_From_Cart string
  | Update_Quantity string int
  | Clear_Cart
  | Set_Delivery_Address string
  | Set_Special_Instructions string
  | Clear_Error
  | Sync_Pending
  | Sync_Fulfilled "fe_cart_item list"
  | Sync_Rejected string
  | Fetch_Fulfilled "fe_cart_item list"
  | Clear_Server_Fulfilled

fun cart_reducer :: "fe_store \<Rightarrow> cart_action \<Rightarrow> fe_store" where
  "cart_reducer st (Add_To_Cart mi q nt) = add_to_cart_reducer st mi q nt"
| "cart_reducer st (Remove_From_Cart mid) = remove_from_cart st mid"
| "cart_reducer st (Update_Quantity mid q) = update_quantity st mid q"
| "cart_reducer st Clear_Cart = clear_cart_reducer st"
| "cart_reducer st (Set_Delivery_Address a) = st\<lparr>fs_cart := (fs_cart st)\<lparr>cs_address := a\<rparr>\<rparr>"
| "cart_reducer st (Set_Special_Instructions a) = st\<lparr>fs_cart := (fs_cart st)\<lparr>cs_instructions := a\<rparr>\<rparr>"
| "cart_reducer st Clear_Error = st\<lparr>fs_cart := (fs_cart st)\<lparr>cs_error := None\<rparr>\<rparr>"
| "cart_reducer st Sync_Pending = st\<lparr>fs_cart := (fs_cart st)\<lparr>cs_loading := True, cs_error := None\<rparr>\<rparr>"
| "cart_reducer st (Sync_Fulfilled xs) = sync_fulfilled st xs"
| "cart_reducer st (Sync_Rejected e) = st\<lparr>fs_cart := (fs_cart st)\<lparr>cs_loading := False, cs_error := Some e\<rparr>\<rparr>"
| "cart_reducer st (Fetch_Fulfilled xs) = fetch_fulfilled st xs"
| "cart_reducer st Clear_Server_Fulfilled = clear_cart_reducer st"

subsection \<open>What the cart promises: one restaurant, a quantity per menu item\<close>

text \<open>
  The abstract cart is the restaurant it is scoped to and a finite map from menu-item id
  to quantity. Adding merges into the map (after emptying it for another restaurant),
  removing deletes the key, updating sets or deletes it, and an empty map drops the
  restaurant.
\<close>

type_synonym abs_cart = "string option \<times> (string, int) mapping"

definition qty_alist :: "fe_cart_item list \<Rightarrow> (string \<times> int) list" where
  "qty_alist xs = map (\<lambda>it. (item_id it, ci_quantity it)) xs"

definition abs_cart :: "cart_state \<Rightarrow> abs_cart" where
  "abs_cart s = (cs_restaurant s, Mapping.of_alist (qty_alist (cs_items s)))"

definition abs_add :: "string option \<Rightarrow> (string, int) mapping \<Rightarrow> fe_menu_item \<Rightarrow> int \<Rightarrow> abs_cart" where
  "abs_add r m mi q =
     (let m0 = (if r = Some (fm_restaurant mi) then m else Mapping.empty)
      in (Some (fm_restaurant mi),
          Mapping.update (fm_id mi) (case Mapping.lookup m0 (fm_id mi) of None \<Rightarrow> q | Some k \<Rightarrow> k + q) m0))"

definition abs_settle :: "string option \<Rightarrow> (string, int) mapping \<Rightarrow> abs_cart" where
  "abs_settle r m = (if Mapping.is_empty m then None else r, m)"

fun abs_step :: "abs_cart \<Rightarrow> cart_action \<Rightarrow> abs_cart" where
  "abs_step (r, m) (Add_To_Cart mi q nt) = abs_add r m mi q"
| "abs_step (r, m) (Remove_From_Cart mid) = abs_settle r (Mapping.delete mid m)"
| "abs_step (r, m) (Update_Quantity mid q) =
     abs_settle r (case Mapping.lookup m mid of None \<Rightarrow> m
                   | Some _ \<Rightarrow> if q \<le> 0 then Mapping.delete mid m else Mapping.update mid q m)"
| "abs_step (r, m) Clear_Cart = (None, Mapping.empty)"
| "abs_step (r, m) Clear_Server_Fulfilled = (None, Mapping.empty)"
| "abs_step (r, m) (Sync_Fulfilled xs) = (r, Mapping.of_alist (qty_alist xs))"
| "abs_step (r, m) (Fetch_Fulfilled xs) =
     (if xs = [] then r else Some (item_restaurant (hd xs)), Mapping.of_alist (qty_alist xs))"
| "abs_step a _ = a"

subsection \<open>The slice invariant\<close>

definition totals_ok :: "cart_state \<Rightarrow> bool" where
  "totals_ok s \<longleftrightarrow>
     cs_total_items s = sum_list (map ci_quantity (cs_items s)) \<and>
     cs_total_amount s = sum_list (map line_amount (cs_items s))"

definition scoped :: "cart_state \<Rightarrow> bool" where
  "scoped s \<longleftrightarrow>
     distinct (map item_id (cs_items s)) \<and>
     list_all (\<lambda>it. cs_restaurant s = Some (item_restaurant it)) (cs_items s) \<and>
     (case cs_restaurant s of None \<Rightarrow> True | Some r \<Rightarrow> r \<noteq> [])"

definition persisted :: "fe_store \<Rightarrow> bool" where
  "persisted st \<longleftrightarrow>
     fs_local st = Some (cs_items (fs_cart st)) \<or> (fs_local st = None \<and> cs_items (fs_cart st) = [])"

definition slice_ok :: "fe_store \<Rightarrow> bool" where
  "slice_ok st \<longleftrightarrow> totals_ok (fs_cart st) \<and> scoped (fs_cart st) \<and> persisted st"

text \<open>
  The actions the running application dispatches: a menu item always names its
  restaurant (a MongoDB id), and a fetched cart is the backend's, scoped to one
  restaurant with one entry per menu item. \<open>syncCartWithServer\<close> posts to
  \<open>/api/cart/sync\<close>, which the backend does not define; the request is answered 404 and
  only the rejected case is ever dispatched.
\<close>

fun action_ok :: "cart_action \<Rightarrow> bool" where
  "action_ok (Add_To_Cart mi q nt) \<longleftrightarrow> fm_restaurant mi \<noteq> []"
| "action_ok (Sync_Fulfilled xs) \<longleftrightarrow> False"
| "action_ok (Fetch_Fulfilled xs) \<longleftrightarrow>
     distinct (map item_id xs) \<and> list_all (\<lambda>it. item_restaurant it = item_restaurant (hd xs)) xs \<and>
     (xs \<noteq> [] \<longrightarrow> item_restaurant (hd xs) \<noteq> [])"
| "action_ok _ \<longleftrightarrow> True"

subsection \<open>Totals: \<open>reduce\<close> is the sum\<close>

lemma foldl_plus_sum: "foldl (\<lambda>s x. s + f x) a xs = a + sum_list (map f xs)"
  for a :: "'a::comm_monoid_add"
  by (induction xs arbitrary: a) (simp_all add: add.assoc)

lemma with_totals_sum:
  "with_totals s = s\<lparr>cs_total_amount := sum_list (map line_amount (cs_items s)),
                     cs_total_items := sum_list (map ci_quantity (cs_items s))\<rparr>"
  by (simp add: with_totals_def calculate_totals_def foldl_plus_sum line_amount_def [abs_def])

lemma with_totals_keys [simp]:
  "cs_items (with_totals s) = cs_items s" "cs_restaurant (with_totals s) = cs_restaurant s"
  by (simp_all add: with_totals_sum)

lemma slice_ok_persist [simp]: "slice_ok (persist (with_totals s)) \<longleftrightarrow> scoped s"
  by (simp add: slice_ok_def persist_def persisted_def totals_ok_def scoped_def with_totals_sum)

lemma abs_cart_with_totals [simp]: "abs_cart (with_totals s) = abs_cart s"
  by (simp add: abs_cart_def with_totals_sum)

subsection \<open>Entry lists: what the reducers do to ids, restaurants and quantities\<close>

lemma item_keys_upd [simp]:
  "item_id (it\<lparr>ci_quantity := a\<rparr>) = item_id it"
  "item_id (it\<lparr>ci_instructions := b\<rparr>) = item_id it"
  "item_restaurant (it\<lparr>ci_quantity := a\<rparr>) = item_restaurant it"
  "item_restaurant (it\<lparr>ci_instructions := b\<rparr>) = item_restaurant it"
  by (simp_all add: item_id_def item_restaurant_def)

lemma map_of_append_new: "k \<notin> set (map fst ps) \<Longrightarrow> map_of (ps @ [(k, v)]) = (map_of ps)(k \<mapsto> v)"
  by (induction ps) (auto simp: fun_upd_twist)

lemma map_of_update_distinct:
  "distinct (map fst ps) \<Longrightarrow> i < length ps \<Longrightarrow> map_of (ps[i := (fst (ps ! i), v)]) = (map_of ps)(fst (ps ! i) \<mapsto> v)"
proof (induction ps arbitrary: i)
  case (Cons p ps)
  show ?case
  proof (cases i)
    case (Suc j)
    with Cons.prems have j: "j < length ps" by simp
    then have "fst (ps ! j) \<in> set (map fst ps)" by (metis length_map nth_map nth_mem)
    moreover have "fst p \<notin> set (map fst ps)" using Cons.prems(1) by (metis distinct.simps(2) list.simps(9))
    ultimately have "fst p \<noteq> fst (ps ! j)" by metis
    with Cons Suc j show ?thesis by (auto simp: fun_eq_iff)
  qed (simp add: fun_eq_iff)
qed simp

lemma qty_alist_ids: "map fst (qty_alist xs) = map item_id xs"
  by (simp add: qty_alist_def)

lemma map_of_qty_filter:
  "map_of (qty_alist (filter (\<lambda>it. item_id it \<noteq> mid) xs)) = (map_of (qty_alist xs))(mid := None)"
  by (induction xs) (auto simp: qty_alist_def fun_upd_twist)

lemma qty_alist_nth: "i < length xs \<Longrightarrow> qty_alist xs ! i = (item_id (xs ! i), ci_quantity (xs ! i))"
  by (simp add: qty_alist_def)

lemma map_of_qty_update:
  assumes d: "distinct (map item_id xs)" and i: "i < length xs" and y: "item_id y = item_id (xs ! i)"
  shows "map_of (qty_alist (xs[i := y])) = (map_of (qty_alist xs))(item_id (xs ! i) \<mapsto> ci_quantity y)"
proof -
  have l: "i < length (qty_alist xs)" using i by (simp add: qty_alist_def)
  have "distinct (map fst (qty_alist xs))" using d by (simp add: qty_alist_ids)
  from map_of_update_distinct [OF this l, of "ci_quantity y"]
  have "map_of ((qty_alist xs)[i := (item_id (xs ! i), ci_quantity y)]) =
          (map_of (qty_alist xs))(item_id (xs ! i) \<mapsto> ci_quantity y)"
    using i by (simp add: qty_alist_nth)
  moreover have "qty_alist (xs[i := y]) = (qty_alist xs)[i := (item_id (xs ! i), ci_quantity y)]"
    using y by (simp add: qty_alist_def map_update)
  ultimately show ?thesis by simp
qed

lemma map_of_qty_nth:
  assumes d: "distinct (map item_id xs)" and i: "i < length xs"
  shows "map_of (qty_alist xs) (item_id (xs ! i)) = Some (ci_quantity (xs ! i))"
proof -
  have "qty_alist xs ! i \<in> set (qty_alist xs)" using i by (simp add: qty_alist_def)
  then have "(item_id (xs ! i), ci_quantity (xs ! i)) \<in> set (qty_alist xs)" using i by (simp add: qty_alist_nth)
  moreover have "distinct (map fst (qty_alist xs))" using d by (simp add: qty_alist_ids)
  ultimately show ?thesis by simp
qed

lemma find_idx_item:
  assumes "find_idx (\<lambda>it. item_id it = k) xs = Some i"
  shows "i < length xs" "item_id (xs ! i) = k"
  using find_idx_SomeD [OF assms] by simp_all

lemma merge_item_keys:
  "map item_id (merge_item xs mi q nt) =
     (if fm_id mi \<in> set (map item_id xs) then map item_id xs else map item_id xs @ [fm_id mi]) \<and>
   map item_restaurant (merge_item xs mi q nt) =
     (if fm_id mi \<in> set (map item_id xs) then map item_restaurant xs else map item_restaurant xs @ [fm_restaurant mi])"
proof (cases "find_idx (\<lambda>it. item_id it = fm_id mi) xs")
  case None
  then have "fm_id mi \<notin> set (map item_id xs)" by auto
  moreover have "merge_item xs mi q nt = xs @ [\<lparr>ci_menu_item = mi, ci_quantity = q, ci_instructions = nt\<rparr>]"
    by (simp add: merge_item_def None)
  ultimately show ?thesis by (simp add: item_id_def item_restaurant_def)
next
  case (Some i)
  note i = find_idx_item [OF Some]
  then have "fm_id mi \<in> set (map item_id xs)" by (metis length_map nth_map nth_mem)
  moreover have "merge_item xs mi q nt = xs[i := (xs ! i)\<lparr>ci_quantity := ci_quantity (xs ! i) + q,
                   ci_instructions := (if js_truthy_str nt then nt else ci_instructions (xs ! i))\<rparr>]"
    by (simp add: merge_item_def Some)
  ultimately show ?thesis using i by (simp add: map_update_same_key item_id_def item_restaurant_def)
qed

lemma merge_item_qty:
  assumes d: "distinct (map item_id xs)"
  shows "map_of (qty_alist (merge_item xs mi q nt)) =
           (map_of (qty_alist xs))(fm_id mi \<mapsto> (case map_of (qty_alist xs) (fm_id mi) of None \<Rightarrow> q | Some k \<Rightarrow> k + q))"
proof (cases "find_idx (\<lambda>it. item_id it = fm_id mi) xs")
  case None
  then have n: "fm_id mi \<notin> set (map fst (qty_alist xs))" by (auto simp: qty_alist_ids)
  then have "map_of (qty_alist xs) (fm_id mi) = None" by (simp add: map_of_eq_None_iff)
  moreover have "merge_item xs mi q nt = xs @ [\<lparr>ci_menu_item = mi, ci_quantity = q, ci_instructions = nt\<rparr>]"
    by (simp add: merge_item_def None)
  moreover have "qty_alist (xs @ [\<lparr>ci_menu_item = mi, ci_quantity = q, ci_instructions = nt\<rparr>]) =
                   qty_alist xs @ [(fm_id mi, q)]"
    by (simp add: qty_alist_def item_id_def)
  ultimately show ?thesis using n by (simp del: map_of_append add: map_of_append_new)
next
  case (Some i)
  note i = find_idx_item [OF Some]
  have "merge_item xs mi q nt = xs[i := (xs ! i)\<lparr>ci_quantity := ci_quantity (xs ! i) + q,
                   ci_instructions := (if js_truthy_str nt then nt else ci_instructions (xs ! i))\<rparr>]"
    by (simp add: merge_item_def Some)
  then show ?thesis
    using i map_of_qty_nth [OF d i(1)] by (simp add: map_of_qty_update [OF d i(1)] item_id_def)
qed

lemma set_quantity_keys:
  "set_quantity xs mid q = filter (\<lambda>it. item_id it \<noteq> mid) xs \<or>
   (map item_id (set_quantity xs mid q) = map item_id xs \<and>
    map item_restaurant (set_quantity xs mid q) = map item_restaurant xs)"
proof (cases "find_idx (\<lambda>it. item_id it = mid) xs")
  case (Some i)
  note i = find_idx_item [OF Some]
  have "set_quantity xs mid q =
          (if q \<le> 0 then filter (\<lambda>it. item_id it \<noteq> mid) xs else xs[i := (xs ! i)\<lparr>ci_quantity := q\<rparr>])"
    by (simp add: set_quantity_def Some)
  then show ?thesis using i by (simp add: map_update_same_key item_id_def item_restaurant_def)
next
  case None
  show ?thesis unfolding set_quantity_def None by simp
qed

lemma set_quantity_qty:
  assumes d: "distinct (map item_id xs)"
  shows "map_of (qty_alist (set_quantity xs mid q)) =
           (case map_of (qty_alist xs) mid of None \<Rightarrow> map_of (qty_alist xs)
            | Some _ \<Rightarrow> if q \<le> 0 then (map_of (qty_alist xs))(mid := None)
                        else (map_of (qty_alist xs))(mid \<mapsto> q))"
proof (cases "find_idx (\<lambda>it. item_id it = mid) xs")
  case None
  then have "mid \<notin> set (map fst (qty_alist xs))" by (auto simp: qty_alist_ids)
  then have "map_of (qty_alist xs) mid = None" by (simp add: map_of_eq_None_iff)
  then show ?thesis unfolding set_quantity_def None by simp
next
  case (Some i)
  note i = find_idx_item [OF Some]
  have "set_quantity xs mid q =
          (if q \<le> 0 then filter (\<lambda>it. item_id it \<noteq> mid) xs else xs[i := (xs ! i)\<lparr>ci_quantity := q\<rparr>])"
    by (simp add: set_quantity_def Some)
  then show ?thesis
    using i map_of_qty_nth [OF d i(1)]
    by (simp add: map_of_qty_filter map_of_qty_update [OF d i(1)])
qed

subsection \<open>The reducers keep the invariant\<close>

lemma scoped_iff:
  "scoped s \<longleftrightarrow>
     distinct (map item_id (cs_items s)) \<and>
     set (map item_restaurant (cs_items s)) \<subseteq> {r. cs_restaurant s = Some r} \<and>
     (case cs_restaurant s of None \<Rightarrow> True | Some r \<Rightarrow> r \<noteq> [])"
  by (auto simp: scoped_def list_all_iff)

lemma scoped_keys:
  assumes "scoped s" and a: "map item_id xs = map item_id (cs_items s)"
    and b: "map item_restaurant xs = map item_restaurant (cs_items s)"
  shows "scoped (drop_if_empty (s\<lparr>cs_items := xs\<rparr>))"
proof -
  have "set (map item_restaurant xs) = set (map item_restaurant (cs_items s))" by (simp only: b)
  with assms(1) a show ?thesis by (auto simp: scoped_iff drop_if_empty_def)
qed

lemma scoped_filter: "scoped s \<Longrightarrow> scoped (drop_if_empty (s\<lparr>cs_items := filter P (cs_items s)\<rparr>))"
  by (auto simp: scoped_def drop_if_empty_def list_all_iff distinct_map_filter)

lemma rescope_scoped:
  assumes "scoped s"
  shows "cs_restaurant (rescope s r) = Some r \<and>
         cs_items (rescope s r) = (if cs_restaurant s = Some r then cs_items s else [])"
proof (cases "cs_restaurant s")
  case None
  with assms have "cs_items s = []" by (cases "cs_items s") (simp_all add: scoped_def)
  with None show ?thesis by (simp add: rescope_def js_truthy_str_def)
next
  case (Some x)
  with assms have "x \<noteq> []" by (simp add: scoped_def)
  with Some show ?thesis by (simp add: rescope_def js_truthy_str_def)
qed

lemma add_to_cart_scoped:
  assumes ok: "scoped s" and r: "fm_restaurant mi \<noteq> []"
  shows "scoped ((rescope s (fm_restaurant mi))\<lparr>cs_items := merge_item (cs_items (rescope s (fm_restaurant mi))) mi q nt\<rparr>)"
proof -
  define ys where "ys = cs_items (rescope s (fm_restaurant mi))"
  have rs: "cs_restaurant (rescope s (fm_restaurant mi)) = Some (fm_restaurant mi)"
    using rescope_scoped [OF ok] by simp
  have "distinct (map item_id ys) \<and> set (map item_restaurant ys) \<subseteq> {fm_restaurant mi}"
    using rescope_scoped [OF ok, of "fm_restaurant mi"] ok by (auto simp: ys_def scoped_iff)
  then have "distinct (map item_id (merge_item ys mi q nt)) \<and>
             set (map item_restaurant (merge_item ys mi q nt)) \<subseteq> {fm_restaurant mi}"
    using merge_item_keys [of ys mi q nt] by auto
  then show ?thesis using rs r by (simp add: scoped_iff ys_def)
qed

lemma slice_ok_fields [simp]:
  "slice_ok (st\<lparr>fs_cart := (fs_cart st)\<lparr>cs_address := a\<rparr>\<rparr>) = slice_ok st"
  "slice_ok (st\<lparr>fs_cart := (fs_cart st)\<lparr>cs_instructions := a\<rparr>\<rparr>) = slice_ok st"
  "slice_ok (st\<lparr>fs_cart := (fs_cart st)\<lparr>cs_error := e\<rparr>\<rparr>) = slice_ok st"
  "slice_ok (st\<lparr>fs_cart := (fs_cart st)\<lparr>cs_loading := b, cs_error := e\<rparr>\<rparr>) = slice_ok st"
  by (simp_all add: slice_ok_def totals_ok_def scoped_def persisted_def)

lemma cart_reducer_ok:
  assumes ok: "slice_ok st" and a: "action_ok a"
  shows "slice_ok (cart_reducer st a)"
proof -
  from ok have sc: "scoped (fs_cart st)" by (simp add: slice_ok_def)
  show ?thesis
  proof (cases a)
    case (Add_To_Cart mi q nt)
    with a add_to_cart_scoped [OF sc] show ?thesis by (simp add: add_to_cart_reducer_def Let_def)
  next
    case (Remove_From_Cart mid)
    with scoped_filter [OF sc] show ?thesis by (simp add: remove_from_cart_def Let_def)
  next
    case (Update_Quantity mid q)
    have "scoped (drop_if_empty ((fs_cart st)\<lparr>cs_items := set_quantity (cs_items (fs_cart st)) mid q\<rparr>))"
      using set_quantity_keys [of "cs_items (fs_cart st)" mid q] scoped_filter [OF sc] scoped_keys [OF sc]
      by auto
    with Update_Quantity show ?thesis by (simp add: update_quantity_def Let_def)
  next
    case (Fetch_Fulfilled xs)
    have "fetch_fulfilled st xs =
            persist (with_totals (if xs \<noteq> [] then (fs_cart st)\<lparr>cs_items := xs, cs_restaurant := Some (item_restaurant (hd xs))\<rparr>
                                  else (fs_cart st)\<lparr>cs_items := xs\<rparr>))"
      by (cases "fs_cart st") (simp add: fetch_fulfilled_def with_totals_sum)
    with Fetch_Fulfilled a sc show ?thesis by (cases xs) (auto simp: scoped_def list_all_iff)
  qed (use a ok in \<open>simp_all add: clear_cart_reducer_def slice_ok_def totals_ok_def scoped_def persisted_def\<close>)
qed

subsection \<open>The reducers implement the abstract cart\<close>

lemma abs_of_filter:
  "Mapping.of_alist (qty_alist (filter (\<lambda>it. item_id it \<noteq> mid) xs)) = Mapping.delete mid (Mapping.of_alist (qty_alist xs))"
proof (rule mapping_eqI)
  fix k show "Mapping.lookup (Mapping.of_alist (qty_alist (filter (\<lambda>it. item_id it \<noteq> mid) xs))) k =
              Mapping.lookup (Mapping.delete mid (Mapping.of_alist (qty_alist xs))) k"
    by (cases "k = mid") (simp_all add: lookup_of_alist map_of_qty_filter)
qed

lemma abs_is_empty: "Mapping.is_empty (Mapping.of_alist (qty_alist xs)) \<longleftrightarrow> xs = []"
  by (simp add: Mapping.is_empty_def qty_alist_def)

lemma abs_of_Nil: "Mapping.of_alist (qty_alist []) = Mapping.empty"
  by (simp add: qty_alist_def Mapping.of_alist_def)

lemma abs_of_merge:
  "distinct (map item_id xs) \<Longrightarrow>
   Mapping.of_alist (qty_alist (merge_item xs mi q nt)) =
     Mapping.update (fm_id mi)
       (case Mapping.lookup (Mapping.of_alist (qty_alist xs)) (fm_id mi) of None \<Rightarrow> q | Some k \<Rightarrow> k + q)
       (Mapping.of_alist (qty_alist xs))"
  by (rule mapping_eqI) (simp add: lookup_of_alist merge_item_qty lookup_update')

lemma abs_of_set_quantity:
  assumes "distinct (map item_id xs)"
  shows "Mapping.of_alist (qty_alist (set_quantity xs mid q)) =
           (case Mapping.lookup (Mapping.of_alist (qty_alist xs)) mid of None \<Rightarrow> Mapping.of_alist (qty_alist xs)
            | Some _ \<Rightarrow> if q \<le> 0 then Mapping.delete mid (Mapping.of_alist (qty_alist xs))
                        else Mapping.update mid q (Mapping.of_alist (qty_alist xs)))"
proof (rule mapping_eqI)
  fix k show "Mapping.lookup (Mapping.of_alist (qty_alist (set_quantity xs mid q))) k =
      Mapping.lookup (case Mapping.lookup (Mapping.of_alist (qty_alist xs)) mid of None \<Rightarrow> Mapping.of_alist (qty_alist xs)
            | Some _ \<Rightarrow> if q \<le> 0 then Mapping.delete mid (Mapping.of_alist (qty_alist xs))
                        else Mapping.update mid q (Mapping.of_alist (qty_alist xs))) k"
    by (cases "k = mid")
       (simp_all add: lookup_of_alist set_quantity_qty [OF assms] lookup_update' split: option.splits)
qed

lemma abs_settle_drop:
  "abs_cart (drop_if_empty (s\<lparr>cs_items := xs\<rparr>)) = abs_settle (cs_restaurant s) (Mapping.of_alist (qty_alist xs))"
  by (simp add: abs_cart_def abs_settle_def drop_if_empty_def abs_is_empty)

lemma abs_add_to_cart:
  assumes "scoped (fs_cart st)"
  shows "abs_cart (fs_cart (add_to_cart_reducer st mi q nt)) =
           abs_add (cs_restaurant (fs_cart st)) (Mapping.of_alist (qty_alist (cs_items (fs_cart st)))) mi q"
proof -
  define s where "s = fs_cart st"
  define ys where "ys = cs_items (rescope s (fm_restaurant mi))"
  note rs = rescope_scoped [OF assms [folded s_def], of "fm_restaurant mi"]
  have d: "distinct (map item_id ys)" using rs assms by (auto simp: ys_def s_def scoped_def)
  have m0: "Mapping.of_alist (qty_alist ys) =
              (if cs_restaurant s = Some (fm_restaurant mi) then Mapping.of_alist (qty_alist (cs_items s)) else Mapping.empty)"
    using rs by (simp add: ys_def abs_of_Nil)
  have "fs_cart (add_to_cart_reducer st mi q nt) = with_totals ((rescope s (fm_restaurant mi))\<lparr>cs_items := merge_item ys mi q nt\<rparr>)"
    by (simp add: add_to_cart_reducer_def persist_def s_def ys_def Let_def)
  then have "abs_cart (fs_cart (add_to_cart_reducer st mi q nt)) =
               (Some (fm_restaurant mi), Mapping.of_alist (qty_alist (merge_item ys mi q nt)))"
    using rs by (simp add: abs_cart_def)
  also have "\<dots> = abs_add (cs_restaurant s) (Mapping.of_alist (qty_alist (cs_items s))) mi q"
    by (simp add: abs_of_merge [OF d] m0 abs_add_def Let_def)
  finally show ?thesis by (simp add: s_def)
qed

lemma cart_reducer_refines_step:
  assumes ok: "slice_ok st" and a: "action_ok a"
  shows "abs_cart (fs_cart (cart_reducer st a)) = abs_step (abs_cart (fs_cart st)) a"
proof -
  from ok have sc: "scoped (fs_cart st)" by (simp add: slice_ok_def)
  then have d: "distinct (map item_id (cs_items (fs_cart st)))" by (simp add: scoped_def)
  show ?thesis
  proof (cases a)
    case (Add_To_Cart mi q nt)
    then show ?thesis by (simp add: abs_add_to_cart [OF sc]) (simp add: abs_cart_def)
  next
    case (Remove_From_Cart mid)
    then show ?thesis
      by (simp add: remove_from_cart_def persist_def Let_def abs_settle_drop abs_of_filter) (simp add: abs_cart_def)
  next
    case (Update_Quantity mid q)
    then show ?thesis
      by (simp add: update_quantity_def persist_def Let_def abs_settle_drop abs_of_set_quantity [OF d])
         (simp add: abs_cart_def)
  next
    case (Fetch_Fulfilled xs)
    then show ?thesis by (simp add: fetch_fulfilled_def persist_def abs_cart_def Let_def)
  next
    case (Sync_Fulfilled xs)
    then show ?thesis by (simp add: sync_fulfilled_def persist_def abs_cart_def)
  qed (simp_all add: clear_cart_reducer_def abs_cart_def abs_of_Nil)
qed

lemma slice_ok_fresh: "slice_ok (load_store None)"
  by (simp add: slice_ok_def load_store_def initial_state_def totals_ok_def scoped_def persisted_def)

lemma cart_run_inv:
  "slice_ok st \<Longrightarrow> list_all action_ok as \<Longrightarrow>
     slice_ok (foldl cart_reducer st as) \<and>
     abs_cart (fs_cart (foldl cart_reducer st as)) = foldl abs_step (abs_cart (fs_cart st)) as"
proof (induction as arbitrary: st)
  case (Cons a as)
  then have "slice_ok (cart_reducer st a)" by (simp add: cart_reducer_ok)
  with Cons show ?case by (simp add: cart_reducer_refines_step)
qed simp

subsection \<open>Properties of the browser cart\<close>

text \<open>
  C14. Starting from a browser with no stored cart, every sequence of the actions the
  application dispatches keeps the slice consistent: the totals are the sums of the
  entries, there is one entry per menu item, every entry belongs to the cart's
  restaurant, and \<open>localStorage\<close> holds exactly the entries.
\<close>

theorem cart_run_ok:
  assumes "list_all action_ok as"
  shows "slice_ok (foldl cart_reducer (load_store None) as)"
  using cart_run_inv [OF slice_ok_fresh assms] by simp

theorem cart_run_ok_witness:
  "list_all action_ok
     [Add_To_Cart \<lparr>fm_id = ''m1'', fm_restaurant = ''r1'', fm_price = 500\<rparr> 2 None,
      Add_To_Cart \<lparr>fm_id = ''m2'', fm_restaurant = ''r2'', fm_price = 300\<rparr> 1 (Some ''no onions''),
      Update_Quantity ''m2'' 0, Clear_Error] \<and>
   slice_ok (foldl cart_reducer (load_store None)
     [Add_To_Cart \<lparr>fm_id = ''m1'', fm_restaurant = ''r1'', fm_price = 500\<rparr> 2 None,
      Add_To_Cart \<lparr>fm_id = ''m2'', fm_restaurant = ''r2'', fm_price = 300\<rparr> 1 (Some ''no onions''),
      Update_Quantity ''m2'' 0, Clear_Error])"
  using cart_run_ok [of "[Add_To_Cart \<lparr>fm_id = ''m1'', fm_restaurant = ''r1'', fm_price = 500\<rparr> 2 None,
      Add_To_Cart \<lparr>fm_id = ''m2'', fm_restaurant = ''r2'', fm_price = 300\<rparr> 1 (Some ''no onions''),
      Update_Quantity ''m2'' 0, Clear_Error]"] by simp

text \<open>
  C21. The reducers implement the abstract cart: after any sequence of dispatched
  actions from an empty browser, the slice's restaurant and its quantity per menu item
  are exactly what the abstract operations (merge, delete, set, clear, scoped to one
  restaurant) compute from the same sequence.
\<close>

theorem cart_run_refines:
  assumes "list_all action_ok as"
  shows "abs_cart (fs_cart (foldl cart_reducer (load_store None) as)) = foldl abs_step (None, Mapping.empty) as"
proof -
  have "abs_cart (fs_cart (load_store None)) = (None, Mapping.empty)"
    by (simp add: abs_cart_def load_store_def initial_state_def abs_of_Nil)
  with cart_run_inv [OF slice_ok_fresh assms] show ?thesis by simp
qed

theorem cart_run_refines_witness:
  "list_all action_ok
     [Add_To_Cart \<lparr>fm_id = ''m1'', fm_restaurant = ''r1'', fm_price = 500\<rparr> 2 None,
      Add_To_Cart \<lparr>fm_id = ''m1'', fm_restaurant = ''r1'', fm_price = 500\<rparr> 3 None,
      Remove_From_Cart ''m2''] \<and>
   abs_cart (fs_cart (foldl cart_reducer (load_store None)
     [Add_To_Cart \<lparr>fm_id = ''m1'', fm_restaurant = ''r1'', fm_price = 500\<rparr> 2 None,
      Add_To_Cart \<lparr>fm_id = ''m1'', fm_restaurant = ''r1'', fm_price = 500\<rparr> 3 None,
      Remove_From_Cart ''m2''])) =
   foldl abs_step (None, Mapping.empty)
     [Add_To_Cart \<lparr>fm_id = ''m1'', fm_restaurant = ''r1'', fm_price = 500\<rparr> 2 None,
      Add_To_Cart \<lparr>fm_id = ''m1'', fm_restaurant = ''r1'', fm_price = 500\<rparr> 3 None,
      Remove_From_Cart ''m2'']"
  using cart_run_refines [of "[Add_To_Cart \<lparr>fm_id = ''m1'', fm_restaurant = ''r1'', fm_price = 500\<rparr> 2 None,
      Add_To_Cart \<lparr>fm_id = ''m1'', fm_restaurant = ''r1'', fm_price = 500\<rparr> 3 None,
      Remove_From_Cart ''m2'']"] by simp

text \<open>
  C26. A page reload breaks the cart's scope. The initial state reads the stored entries
  but sets no restaurant and zero totals, so it is not a consistent slice; adding an item
  of another restaurant then adopts that restaurant without emptying the cart, and the
  cart holds entries of both restaurants.
\<close>

theorem reload_mixes_restaurants:
  assumes ne: "xs \<noteq> []" and one: "list_all (\<lambda>it. item_restaurant it = r) xs" and other: "fm_restaurant mi \<noteq> r"
  shows "\<not> slice_ok (load_store (Some xs)) \<and>
         cs_restaurant (fs_cart (add_to_cart_reducer (load_store (Some xs)) mi q nt)) = Some (fm_restaurant mi) \<and>
         r \<in> set (map item_restaurant (cs_items (fs_cart (add_to_cart_reducer (load_store (Some xs)) mi q nt)))) \<and>
         \<not> slice_ok (add_to_cart_reducer (load_store (Some xs)) mi q nt)"
proof -
  have r: "r \<in> set (map item_restaurant xs)" using ne one by (cases xs) simp_all
  have s0: "rescope (initial_state (Some xs)) (fm_restaurant mi) =
              (initial_state (Some xs))\<lparr>cs_restaurant := Some (fm_restaurant mi)\<rparr>"
    by (simp add: rescope_def initial_state_def js_truthy_str_def)
  have st: "fs_cart (add_to_cart_reducer (load_store (Some xs)) mi q nt) =
              with_totals ((initial_state (Some xs))\<lparr>cs_restaurant := Some (fm_restaurant mi),
                                                     cs_items := merge_item xs mi q nt\<rparr>)"
    by (simp add: add_to_cart_reducer_def load_store_def persist_def s0) (simp add: initial_state_def)
  have in_merge: "r \<in> set (map item_restaurant (merge_item xs mi q nt))"
    using merge_item_keys [of xs mi q nt] r by auto
  have "\<not> slice_ok (load_store (Some xs))"
    using ne by (cases xs) (simp_all add: slice_ok_def scoped_def load_store_def initial_state_def)
  moreover have "\<not> slice_ok (add_to_cart_reducer (load_store (Some xs)) mi q nt)"
    using in_merge other by (auto simp: slice_ok_def scoped_iff st initial_state_def)
  ultimately show ?thesis using st in_merge by (simp add: initial_state_def)
qed

theorem reload_mixes_restaurants_witness:
  "[\<lparr>ci_menu_item = \<lparr>fm_id = ''m1'', fm_restaurant = ''r1'', fm_price = 500\<rparr>, ci_quantity = 2, ci_instructions = None\<rparr>] \<noteq> [] \<and>
   list_all (\<lambda>it. item_restaurant it = ''r1'')
     [\<lparr>ci_menu_item = \<lparr>fm_id = ''m1'', fm_restaurant = ''r1'', fm_price = 500\<rparr>, ci_quantity = 2, ci_instructions = None\<rparr>] \<and>
   fm_restaurant \<lparr>fm_id = ''m7'', fm_restaurant = ''r2'', fm_price = 900\<rparr> \<noteq> ''r1'' \<and>
   \<not> slice_ok (add_to_cart_reducer (load_store (Some
       [\<lparr>ci_menu_item = \<lparr>fm_id = ''m1'', fm_restaurant = ''r1'', fm_price = 500\<rparr>, ci_quantity = 2, ci_instructions = None\<rparr>]))
       \<lparr>fm_id = ''m7'', fm_restaurant = ''r2'', fm_price = 900\<rparr> 1 None)"
  using reload_mixes_restaurants
    [of "[\<lparr>ci_menu_item = \<lparr>fm_id = ''m1'', fm_restaurant = ''r1'', fm_price = 500\<rparr>, ci_quantity = 2, ci_instructions = None\<rparr>]"
        "''r1''" "\<lparr>fm_id = ''m7'', fm_restaurant = ''r2'', fm_price = 900\<rparr>" 1 None]
  by (simp add: item_restaurant_def)

end
