(* ===== verification/CatalogSlices.thy ===== *)
theory CatalogSlices
  imports CartSlice
begin

text \<open>
  The browser's catalogue state: the Redux slices
  \<open>frontend/src/store/slices/menuSlice.ts\<close> (the menu of the restaurant on screen) and
  \<open>restaurantSlice.ts\<close> (the restaurant list, the restaurant on screen and the list
  filters), with every reducer and every thunk result case. Menu items are the client's
  \<open>fe_menu_item\<close> of \<open>CartSlice\<close>.
\<close>

subsection \<open>menuSlice.ts: state (lines 5--19)\<close>

record menu_state =
  ms_items :: "fe_menu_item list"
  ms_categories :: "string list"
  ms_loading :: bool
  ms_error :: "string option"
  ms_restaurant :: "string option"

definition menu_initial :: menu_state where
  "menu_initial = \<lparr>ms_items = [], ms_categories = [], ms_loading = False, ms_error = None, ms_restaurant = None\<rparr>"

subsection \<open>menuSlice.ts: reducers (lines 91--151)\<close>

datatype menu_action =
    Clear_Menu
  | Clear_Menu_Error
  | Menu_Fetch_Pending
  | Menu_Fetch_Fulfilled "fe_menu_item list" string
  | Menu_Fetch_Rejected string
  | Categories_Fulfilled "string list"
  | Item_Create_Pending
  | Item_Create_Fulfilled fe_menu_item
  | Item_Create_Rejected string
  | Item_Update_Fulfilled fe_menu_item
  | Item_Delete_Fulfilled string

fun menu_reducer :: "menu_state \<Rightarrow> menu_action \<Rightarrow> menu_state" where
  "menu_reducer s Clear_Menu = s\<lparr>ms_items := [], ms_categories := [], ms_restaurant := None\<rparr>"
| "menu_reducer s Clear_Menu_Error = s\<lparr>ms_error := None\<rparr>"
| "menu_reducer s Menu_Fetch_Pending = s\<lparr>ms_loading := True, ms_error := None\<rparr>"
| "menu_reducer s (Menu_Fetch_Fulfilled xs rid) =
     s\<lparr>ms_loading := False, ms_items := xs, ms_restaurant := Some rid, ms_error := None\<rparr>"
| "menu_reducer s (Menu_Fetch_Rejected e) = s\<lparr>ms_loading := False, ms_error := Some e\<rparr>"
| "menu_reducer s (Categories_Fulfilled cs) = s\<lparr>ms_categories := cs\<rparr>"
| "menu_reducer s Item_Create_Pending = s\<lparr>ms_loading := True, ms_error := None\<rparr>"
| "menu_reducer s (Item_Create_Fulfilled m) = s\<lparr>ms_loading := False, ms_items := ms_items s @ [m], ms_error := None\<rparr>"
| "menu_reducer s (Item_Create_Rejected e) = s\<lparr>ms_loading := False, ms_error := Some e\<rparr>"
| "menu_reducer s (Item_Update_Fulfilled m) = s\<lparr>ms_items := replace_first fm_id m (ms_items s)\<rparr>"
| "menu_reducer s (Item_Delete_Fulfilled mid) = s\<lparr>ms_items := filter (\<lambda>m. fm_id m \<noteq> mid) (ms_items s)\<rparr>"

subsection \<open>restaurantSlice.ts: state (lines 5--41)\<close>

record fe_restaurant =
  fr_id :: string
  fr_name :: string
  fr_owner :: string
  fr_status :: string

record restaurant_filters =
  rf_cuisine :: string
  rf_rating :: int
  rf_price_range :: string
  rf_search :: string

record list_pagination =
  lp_page :: int
  lp_limit :: int
  lp_total :: int
  lp_total_pages :: int

record restaurant_state =
  rs_restaurants :: "fe_restaurant list"
  rs_current :: "fe_restaurant option"
  rs_loading :: bool
  rs_error :: "string option"
  rs_filters :: restaurant_filters
  rs_pagination :: list_pagination

definition no_filters :: restaurant_filters where
  "no_filters = \<lparr>rf_cuisine = [], rf_rating = 0, rf_price_range = [], rf_search = []\<rparr>"

text \<open>The "safe default" of lines 35--40, 154 and 161.\<close>

definition default_pagination :: list_pagination where
  "default_pagination = \<lparr>lp_page = 1, lp_limit = 12, lp_total = 0, lp_total_pages = 1\<rparr>"

definition restaurant_initial :: restaurant_state where
  "restaurant_initial =
     \<lparr>rs_restaurants = [], rs_current = None, rs_loading = False, rs_error = None,
      rs_filters = no_filters, rs_pagination = default_pagination\<rparr>"

subsection \<open>restaurantSlice.ts: reducers (lines 121--202)\<close>

text \<open>\<open>setFilters\<close>: \<open>{ ...state.filters, ...action.payload }\<close> with a partial payload.\<close>

record filters_patch =
  fp_cuisine :: "string option"
  fp_rating :: "int option"
  fp_price_range :: "string option"
  fp_search :: "string option"

definition set_filters :: "restaurant_filters \<Rightarrow> filters_patch \<Rightarrow> restaurant_filters" where
  "set_filters f p =
     \<lparr>rf_cuisine = patched (fp_cuisine p) (rf_cuisine f), rf_rating = patched (fp_rating p) (rf_rating f),
      rf_price_range = patched (fp_price_range p) (rf_price_range f), rf_search = patched (fp_search p) (rf_search f)\<rparr>"

text \<open>\<open>fetchRestaurants\<close> returns \<open>response.data.data\<close>; the reducer reads its
  \<open>restaurants\<close> and \<open>pagination\<close> fields, each possibly absent.\<close>

record restaurants_payload =
  rp_restaurants :: "fe_restaurant list option"
  rp_pagination :: "list_pagination option"

definition fetch_restaurants_fulfilled :: "restaurant_state \<Rightarrow> restaurants_payload option \<Rightarrow> restaurant_state" where
  "fetch_restaurants_fulfilled s p =
     s\<lparr>rs_loading := False,
       rs_restaurants := (case p of None \<Rightarrow> [] | Some x \<Rightarrow> patched (rp_restaurants x) []),
       rs_pagination := (case p of None \<Rightarrow> default_pagination | Some x \<Rightarrow> patched (rp_pagination x) default_pagination),
       rs_error := None\<rparr>"

definition update_restaurant_fulfilled :: "restaurant_state \<Rightarrow> fe_restaurant \<Rightarrow> restaurant_state" where
  "update_restaurant_fulfilled s r =
     s\<lparr>rs_restaurants := replace_first fr_id r (rs_restaurants s),
       rs_current := (case rs_current s of
                        Some c \<Rightarrow> if fr_id c = fr_id r then Some r else Some c
                      | None \<Rightarrow> None)\<rparr>"

datatype restaurant_action =
    Set_Filters filters_patch
  | Clear_Filters
  | Set_Current_Restaurant "fe_restaurant option"
  | Clear_Restaurant_Error
  | Restaurants_Pending
  | Restaurants_Fulfilled "restaurants_payload option"
  | Restaurants_Rejected string
  | Restaurant_Pending
  | Restaurant_Fulfilled fe_restaurant
  | Restaurant_Rejected string
  | Register_Restaurant_Pending
  | Register_Restaurant_Fulfilled fe_restaurant
  | Register_Restaurant_Rejected string
  | Update_Restaurant_Fulfilled fe_restaurant

fun restaurant_reducer :: "restaurant_state \<Rightarrow> restaurant_action \<Rightarrow> restaurant_state" where
  "restaurant_reducer s (Set_Filters p) = s\<lparr>rs_filters := set_filters (rs_filters s) p\<rparr>"
| "restaurant_reducer s Clear_Filters = s\<lparr>rs_filters := no_filters\<rparr>"
| "restaurant_reducer s (Set_Current_Restaurant r) = s\<lparr>rs_current := r\<rparr>"
| "restaurant_reducer s Clear_Restaurant_Error = s\<lparr>rs_error := None\<rparr>"
| "restaurant_reducer s Restaurants_Pending = s\<lparr>rs_loading := True, rs_error := None\<rparr>"
| "restaurant_reducer s (Restaurants_Fulfilled p) = fetch_restaurants_fulfilled s p"
| "restaurant_reducer s (Restaurants_Rejected e) =
     s\<lparr>rs_loading := False, rs_error := Some e, rs_restaurants := [], rs_pagination := default_pagination\<rparr>"
| "restaurant_reducer s Restaurant_Pending = s\<lparr>rs_loading := True, rs_error := None\<rparr>"
| "restaurant_reducer s (Restaurant_Fulfilled r) = s\<lparr>rs_loading := False, rs_current := Some r, rs_error := None\<rparr>"
| "restaurant_reducer s (Restaurant_Rejected e) = s\<lparr>rs_loading := False, rs_error := Some e\<rparr>"
| "restaurant_reducer s Register_Restaurant_Pending = s\<lparr>rs_loading := True, rs_error := None\<rparr>"
| "restaurant_reducer s (Register_Restaurant_Fulfilled r) =
     s\<lparr>rs_loading := False, rs_restaurants := rs_restaurants s @ [r], rs_error := None\<rparr>"
| "restaurant_reducer s (Register_Restaurant_Rejected e) = s\<lparr>rs_loading := False, rs_error := Some e\<rparr>"
| "restaurant_reducer s (Update_Restaurant_Fulfilled r) = update_restaurant_fulfilled s r"

subsection \<open>The menu on screen belongs to one restaurant\<close>

definition menu_scoped :: "menu_state \<Rightarrow> bool" where
  "menu_scoped s \<longleftrightarrow> list_all (\<lambda>m. ms_restaurant s = Some (fm_restaurant m)) (ms_items s)"

text \<open>The results the backend sends for the restaurant on screen: a fetched menu of that
  restaurant, and created or updated items that stay in it.\<close>

fun menu_action_for :: "string option \<Rightarrow> menu_action \<Rightarrow> bool" where
  "menu_action_for r (Menu_Fetch_Fulfilled xs rid) \<longleftrightarrow> list_all (\<lambda>m. fm_restaurant m = rid) xs"
| "menu_action_for r (Item_Create_Fulfilled m) \<longleftrightarrow> r = Some (fm_restaurant m)"
| "menu_action_for r (Item_Update_Fulfilled m) \<longleftrightarrow> r = Some (fm_restaurant m)"
| "menu_action_for r _ \<longleftrightarrow> True"

lemma menu_reducer_scoped:
  "menu_scoped s \<Longrightarrow> menu_action_for (ms_restaurant s) a \<Longrightarrow> menu_scoped (menu_reducer s a)"
proof (cases a)
  case (Item_Update_Fulfilled m)
  moreover assume "menu_scoped s" "menu_action_for (ms_restaurant s) a"
  moreover have "set (replace_first fm_id m xs) \<subseteq> insert m (set xs)" for xs :: "fe_menu_item list"
    by (auto simp: replace_first_def split: option.splits dest: set_update_subset_insert [THEN subsetD])
  ultimately show ?thesis by (fastforce simp: menu_scoped_def list_all_iff)
qed (auto simp: menu_scoped_def list_all_iff)

text \<open>An update that moves an item to another restaurant, which \<open>PUT /api/menu/:id\<close>
  accepts, leaves the moved item on the screen of its old restaurant.\<close>

lemma menu_update_moves_item:
  assumes "menu_scoped s" and "m \<in> set (ms_items s)" and "fm_restaurant m' \<noteq> fm_restaurant m"
    and "fm_id m' = fm_id m" and "distinct (map fm_id (ms_items s))"
  shows "\<not> menu_scoped (menu_reducer s (Item_Update_Fulfilled m'))"
proof -
  have "m' \<in> set (replace_first fm_id m' (ms_items s))"
    using assms(2,4,5) by (auto simp: replace_first_map image_iff intro!: bexI [of _ m])
  moreover have "ms_restaurant s = Some (fm_restaurant m)" using assms(1,2) by (simp add: menu_scoped_def list_all_iff)
  ultimately show ?thesis using assms(3) unfolding menu_scoped_def list_all_iff by force
qed

subsection \<open>The restaurant list and the backend's response\<close>

text \<open>\<open>GET /api/restaurants\<close> sends the restaurants as \<open>data\<close> itself, an array, with
  the pagination beside it (\<open>routes/restaurants.js\<close>, lines 100--109): the payload has
  neither field, and the list on screen is always empty.\<close>

lemma fetch_restaurants_array_payload:
  "rs_restaurants (restaurant_reducer s (Restaurants_Fulfilled (Some \<lparr>rp_restaurants = None, rp_pagination = None\<rparr>))) = [] \<and>
   rs_pagination (restaurant_reducer s (Restaurants_Fulfilled (Some \<lparr>rp_restaurants = None, rp_pagination = None\<rparr>))) =
     default_pagination"
  by (simp add: fetch_restaurants_fulfilled_def)

lemma set_filters_patch:
  "set_filters f \<lparr>fp_cuisine = None, fp_rating = None, fp_price_range = None, fp_search = None\<rparr> = f \<and>
   set_filters (set_filters f p) p = set_filters f p"
  by (simp add: set_filters_def patched_def split: option.splits)

end
