(* ===== verification/AuthSlice.thy ===== *)
theory AuthSlice
  imports Prelude
begin

text \<open>
  The browser's session (frontend/src/store/slices/authSlice.ts): the Redux auth state,
  its reducers and the pending, fulfilled and rejected cases of its four thunks, with the
  \<open>localStorage\<close> keys \<open>token\<close> and \<open>user\<close> that the thunks write and the initial
  state reads. A thunk's successful run writes \<open>localStorage\<close> before its fulfilled
  action reaches the reducer; the model performs both in the fulfilled step.
  \<open>JSON.stringify\<close> followed by \<open>JSON.parse\<close> is the identity on the user.
\<close>

subsection \<open>State (lines 5--19)\<close>

record fe_user =
  fu_id :: string
  fu_name :: string
  fu_email :: string
  fu_role :: string
  fu_phone :: "string option"
  fu_address :: "string option"
  fu_created :: string

record auth_state =
  as_user :: "fe_user option"
  as_token :: "string option"
  as_loading :: bool
  as_error :: "string option"
  as_authenticated :: bool

text \<open>The \<open>token\<close> and \<open>user\<close> keys of \<open>localStorage\<close>; \<open>None\<close> when absent.\<close>

record auth_local =
  al_token :: "string option"
  al_user :: "fe_user option"

record auth_store =
  au_state :: auth_state
  au_local :: auth_local

text \<open>\<open>isAuthenticated: !!localStorage.getItem("token")\<close>.\<close>

definition auth_initial :: "auth_local \<Rightarrow> auth_state" where
  "auth_initial l =
     \<lparr>as_user = al_user l, as_token = al_token l, as_loading = False, as_error = None,
      as_authenticated = js_truthy_str (al_token l)\<rparr>"

definition auth_load :: "auth_local \<Rightarrow> auth_store" where
  "auth_load l = \<lparr>au_state = auth_initial l, au_local = l\<rparr>"

subsection \<open>The thunks' results and the reducers (lines 22--184)\<close>

text \<open>\<open>loginUser\<close> and \<open>registerUser\<close> (lines 22--59) store the token and the user,
  then \<open>fulfilled\<close> (lines 127--133, 144--150) signs the state in.\<close>

definition session_fulfilled :: "auth_store \<Rightarrow> fe_user \<Rightarrow> string \<Rightarrow> auth_store" where
  "session_fulfilled st u t =
     \<lparr>au_state = (au_state st)\<lparr>as_loading := False, as_user := Some u, as_token := Some t,
                               as_authenticated := True, as_error := None\<rparr>,
      au_local = \<lparr>al_token = Some t, al_user = Some u\<rparr>\<rparr>"

text \<open>\<open>loginUser.rejected\<close> and \<open>registerUser.rejected\<close> (lines 134--138, 151--155): the
  flag drops, the token and user stay, in the state and in \<open>localStorage\<close>.\<close>

definition session_rejected :: "auth_store \<Rightarrow> string \<Rightarrow> auth_store" where
  "session_rejected st e =
     st\<lparr>au_state := (au_state st)\<lparr>as_loading := False, as_error := Some e, as_authenticated := False\<rparr>\<rparr>"

text \<open>\<open>updateProfile\<close> (lines 61--80) stores the returned user, then \<open>fulfilled\<close>
  (lines 161--165) shows it.\<close>

definition profile_fulfilled :: "auth_store \<Rightarrow> fe_user \<Rightarrow> auth_store" where
  "profile_fulfilled st u =
     \<lparr>au_state = (au_state st)\<lparr>as_loading := False, as_user := Some u, as_error := None\<rparr>,
      au_local = (au_local st)\<lparr>al_user := Some u\<rparr>\<rparr>"

text \<open>\<open>logout\<close> (lines 104--111).\<close>

definition logout :: "auth_store \<Rightarrow> auth_store" where
  "logout st =
     \<lparr>au_state = (au_state st)\<lparr>as_user := None, as_token := None, as_authenticated := False,
                               as_error := None\<rparr>,
      au_local = \<lparr>al_token = None, al_user = None\<rparr>\<rparr>"

text \<open>\<open>setUser\<close> (lines 115--118).\<close>

definition set_user :: "auth_store \<Rightarrow> fe_user \<Rightarrow> auth_store" where
  "set_user st u =
     \<lparr>au_state = (au_state st)\<lparr>as_user := Some u\<rparr>, au_local = (au_local st)\<lparr>al_user := Some u\<rparr>\<rparr>"

text \<open>A pending thunk: \<open>isLoading = true, error = null\<close>; a rejected or fulfilled one that
  only reports: \<open>isLoading = false\<close> and the error.\<close>

definition auth_pending :: "auth_store \<Rightarrow> auth_store" where
  "auth_pending st = st\<lparr>au_state := (au_state st)\<lparr>as_loading := True, as_error := None\<rparr>\<rparr>"

definition auth_settled :: "auth_store \<Rightarrow> string option \<Rightarrow> auth_store" where
  "auth_settled st e = st\<lparr>au_state := (au_state st)\<lparr>as_loading := False, as_error := e\<rparr>\<rparr>"

datatype auth_action =
    Logout
  | Clear_Auth_Error
  | Set_User fe_user
  | Login_Pending
  | Login_Fulfilled fe_user string
  | Login_Rejected string
  | Register_Pending
  | Register_Fulfilled fe_user string
  | Register_Rejected string
  | Profile_Pending
  | Profile_Fulfilled fe_user
  | Profile_Rejected string
  | Password_Pending
  | Password_Fulfilled
  | Password_Rejected string

fun auth_reducer :: "auth_store \<Rightarrow> auth_action \<Rightarrow> auth_store" where
  "auth_reducer st Logout = logout st"
| "auth_reducer st Clear_Auth_Error = st\<lparr>au_state := (au_state st)\<lparr>as_error := None\<rparr>\<rparr>"
| "auth_reducer st (Set_User u) = set_user st u"
| "auth_reducer st Login_Pending = auth_pending st"
| "auth_reducer st (Login_Fulfilled u t) = session_fulfilled st u t"
| "auth_reducer st (Login_Rejected e) = session_rejected st e"
| "auth_reducer st Register_Pending = auth_pending st"
| "auth_reducer st (Register_Fulfilled u t) = session_fulfilled st u t"
| "auth_reducer st (Register_Rejected e) = session_rejected st e"
| "auth_reducer st Profile_Pending = auth_pending st"
| "auth_reducer st (Profile_Fulfilled u) = profile_fulfilled st u"
| "auth_reducer st (Profile_Rejected e) = auth_settled st (Some e)"
| "auth_reducer st Password_Pending = auth_pending st"
| "auth_reducer st Password_Fulfilled = auth_settled st None"
| "auth_reducer st (Password_Rejected e) = auth_settled st (Some e)"

subsection \<open>The session survives a reload; the flag does not\<close>

text \<open>The state's user and token are those \<open>localStorage\<close> holds, so a reload restores
  them.\<close>

definition auth_synced :: "auth_store \<Rightarrow> bool" where
  "auth_synced st \<longleftrightarrow> as_user (au_state st) = al_user (au_local st) \<and> as_token (au_state st) = al_token (au_local st)"

text \<open>The backend's tokens are non-empty JWTs.\<close>

fun auth_action_ok :: "auth_action \<Rightarrow> bool" where
  "auth_action_ok (Login_Fulfilled u t) \<longleftrightarrow> t \<noteq> []"
| "auth_action_ok (Register_Fulfilled u t) \<longleftrightarrow> t \<noteq> []"
| "auth_action_ok _ \<longleftrightarrow> True"

lemma auth_synced_load: "auth_synced (auth_load l)"
  by (simp add: auth_synced_def auth_load_def auth_initial_def)

lemma auth_reducer_synced: "auth_synced st \<Longrightarrow> auth_synced (auth_reducer st a)"
  by (cases a)
     (simp_all add: auth_synced_def logout_def set_user_def auth_pending_def session_fulfilled_def
                    session_rejected_def profile_fulfilled_def auth_settled_def)

lemma auth_run_synced: "auth_synced st \<Longrightarrow> auth_synced (foldl auth_reducer st as)"
  by (induction as arbitrary: st) (simp_all add: auth_reducer_synced)

text \<open>After any run the reloaded session has the same user and token, and it is signed in
  exactly when it holds a token.\<close>

lemma auth_reload:
  assumes "auth_synced st"
  shows "as_user (auth_initial (au_local st)) = as_user (au_state st) \<and>
         as_token (auth_initial (au_local st)) = as_token (au_state st) \<and>
         as_authenticated (auth_initial (au_local st)) = js_truthy_str (as_token (au_state st))"
  using assms by (simp add: auth_synced_def auth_initial_def)

text \<open>The flag agrees with the token until a login or registration is rejected while a
  session is open: then the page shows the user signed out while the token stays, and a
  reload signs them back in.\<close>

lemma auth_flag_consistent:
  "as_authenticated (au_state st) = js_truthy_str (as_token (au_state st)) \<Longrightarrow> auth_action_ok a \<Longrightarrow>
     (\<forall>e. a \<noteq> Login_Rejected e \<and> a \<noteq> Register_Rejected e) \<Longrightarrow>
     as_authenticated (au_state (auth_reducer st a)) = js_truthy_str (as_token (au_state (auth_reducer st a)))"
  by (cases a)
     (simp_all add: logout_def set_user_def auth_pending_def session_fulfilled_def
                    profile_fulfilled_def auth_settled_def js_truthy_str_def)

text \<open>
  A failed login while signed in signs the page out but not the browser: after any
  history, a successful login followed by a rejected one leaves the state unauthenticated
  with the token still held, in the state and in \<open>localStorage\<close>, so the next reload
  is signed in again.
\<close>

theorem failed_login_survives_reload:
  assumes "t \<noteq> []"
  shows "\<not> as_authenticated (au_state (foldl auth_reducer (auth_load l) (hs @ [Login_Fulfilled u t, Login_Rejected e]))) \<and>
         as_token (au_state (foldl auth_reducer (auth_load l) (hs @ [Login_Fulfilled u t, Login_Rejected e]))) = Some t \<and>
         al_token (au_local (foldl auth_reducer (auth_load l) (hs @ [Login_Fulfilled u t, Login_Rejected e]))) = Some t \<and>
         as_authenticated (auth_initial (au_local (foldl auth_reducer (auth_load l) (hs @ [Login_Fulfilled u t, Login_Rejected e]))))"
  using assms by (simp add: session_fulfilled_def session_rejected_def auth_initial_def js_truthy_str_def)

theorem failed_login_survives_reload_witness:
  "''eyJhbGciOi'' \<noteq> [] \<and>
   as_authenticated (auth_initial (au_local (foldl auth_reducer (auth_load \<lparr>al_token = None, al_user = None\<rparr>)
     [Logout, Login_Fulfilled \<lparr>fu_id = ''u1'', fu_name = ''Ann'', fu_email = ''ann@x.io'', fu_role = ''customer'',
                              fu_phone = None, fu_address = None, fu_created = ''2024-01-01''\<rparr> ''eyJhbGciOi'',
      Login_Rejected ''Invalid credentials''])))"
  using failed_login_survives_reload [of "''eyJhbGciOi''" "\<lparr>al_token = None, al_user = None\<rparr>" "[Logout]"
    "\<lparr>fu_id = ''u1'', fu_name = ''Ann'', fu_email = ''ann@x.io'', fu_role = ''customer'',
       fu_phone = None, fu_address = None, fu_created = ''2024-01-01''\<rparr>" "''Invalid credentials''"]
  by simp

end
