(* ===== verification/OrderSlice.thy ===== *)
theory OrderSlice
  imports Prelude
begin

text \<open>
  The browser's order list (frontend/src/store/slices/orderSlice.ts): the Redux state,
  its reducers and the results of its thunks. The reducers read only an order's
  \<open>_id\<close>; the rest of an order is carried along unchanged.
\<close>

subsection \<open>State (lines 5--29)\<close>

record fe_order =
  fo_id :: string
  fo_status :: string
  fo_total :: money

record order_pagination =
  op_page :: int
  op_limit :: int
  op_total :: int
  op_total_pages :: int

record order_state =
  os_orders :: "fe_order list"
  os_current :: "fe_order option"
  os_loading :: bool
  os_error :: "string option"
  os_pagination :: order_pagination

definition order_initial :: order_state where
  "order_initial =
     \<lparr>os_orders = [], os_current = None, os_loading = False, os_error = None,
      os_pagination = \<lparr>op_page = 1, op_limit = 10, op_total = 0, op_total_pages = 0\<rparr>\<rparr>"

subsection \<open>Reducers (lines 112--194)\<close>

text \<open>\<open>updateOrderStatus.fulfilled\<close> and \<open>cancelOrder.fulfilled\<close>: the first order with
  the payload's id is replaced (\<open>findIndex\<close>, then assignment), and so is the current
  order when it has that id.\<close>

definition replace_order :: "order_state \<Rightarrow> fe_order \<Rightarrow> order_state" where
  "replace_order s o' =
     s\<lparr>os_orders := replace_first fo_id o' (os_orders s),
       os_current := (case os_current s of
                        Some c \<Rightarrow> if fo_id c = fo_id o' then Some o' else Some c
                      | None \<Rightarrow> None)\<rparr>"

definition order_pending :: "order_state \<Rightarrow> order_state" where
  "order_pending s = s\<lparr>os_loading := True, os_error := None\<rparr>"

definition order_rejected :: "order_state \<Rightarrow> string \<Rightarrow> order_state" where
  "order_rejected s e = s\<lparr>os_loading := False, os_error := Some e\<rparr>"

datatype order_action =
    Set_Current_Order "fe_order option"
  | Clear_Order_Error
  | Clear_Orders
  | Create_Pending
  | Create_Fulfilled fe_order
  | Create_Rejected string
  | Fetch_Orders_Pending
  | Fetch_Orders_Fulfilled "fe_order list" order_pagination
  | Fetch_Orders_Rejected string
  | Fetch_Order_Pending
  | Fetch_Order_Fulfilled fe_order
  | Fetch_Order_Rejected string
  | Status_Fulfilled fe_order
  | Cancel_Fulfilled fe_order

fun order_reducer :: "order_state \<Rightarrow> order_action \<Rightarrow> order_state" where
  "order_reducer s (Set_Current_Order c) = s\<lparr>os_current := c\<rparr>"
| "order_reducer s Clear_Order_Error = s\<lparr>os_error := None\<rparr>"
| "order_reducer s Clear_Orders = s\<lparr>os_orders := [], os_current := None\<rparr>"
| "order_reducer s Create_Pending = order_pending s"
| "order_reducer s (Create_Fulfilled o') =
     s\<lparr>os_loading := False, os_orders := o' # os_orders s, os_current := Some o', os_error := None\<rparr>"
| "order_reducer s (Create_Rejected e) = order_rejected s e"
| "order_reducer s Fetch_Orders_Pending = order_pending s"
| "order_reducer s (Fetch_Orders_Fulfilled xs pg) =
     s\<lparr>os_loading := False, os_orders := xs, os_pagination := pg, os_error := None\<rparr>"
| "order_reducer s (Fetch_Orders_Rejected e) = order_rejected s e"
| "order_reducer s Fetch_Order_Pending = order_pending s"
| "order_reducer s (Fetch_Order_Fulfilled o') = s\<lparr>os_loading := False, os_current := Some o', os_error := None\<rparr>"
| "order_reducer s (Fetch_Order_Rejected e) = order_rejected s e"
| "order_reducer s (Status_Fulfilled o') = replace_order s o'"
| "order_reducer s (Cancel_Fulfilled o') = replace_order s o'"

subsection \<open>The in-place replacement is a map over the list\<close>

text \<open>With one entry per order id, a status or cancellation result replaces every order
  with its id, keeps the ids, and leaves the list unchanged when the order is not in it.\<close>

lemma replace_order_map:
  "distinct (map fo_id (os_orders s)) \<Longrightarrow>
     os_orders (replace_order s o') = map (\<lambda>x. if fo_id x = fo_id o' then o' else x) (os_orders s)"
  by (simp add: replace_order_def replace_first_map)

lemma replace_order_ids: "map fo_id (os_orders (replace_order s o')) = map fo_id (os_orders s)"
  by (simp add: replace_order_def)

end
