(* ===== verification/AdminSlice.thy ===== *)
theory AdminSlice
  imports CatalogSlices OrderSlice AuthSlice
begin

text \<open>
  The browser's administration state (frontend/src/store/slices/adminSlice.ts): the
  Redux state, its two reducers and the pending, fulfilled and rejected cases of its
  nine thunks. Restaurants, orders and users are the client's records of
  \<open>CatalogSlices\<close>, \<open>OrderSlice\<close> and \<open>AuthSlice\<close>; the requests the thunks send are
  modelled with the other clients' requests in \<open>Api_Client\<close>.
\<close>

subsection \<open>State (lines 5--44)\<close>

record admin_stats =
  st_total_restaurants :: int
  st_total_orders :: int
  st_total_users :: int
  st_total_revenue :: money
  st_pending_restaurants :: int
  st_active_orders :: int
  st_monthly_revenue :: money
  st_monthly_orders :: int

record admin_state =
  ad_stats :: "admin_stats option"
  ad_pending :: "fe_restaurant list"
  ad_recent :: "fe_order list"
  ad_users :: "fe_user list"
  ad_loading :: bool
  ad_error :: "string option"
  ad_pagination :: list_pagination

definition admin_initial :: admin_state where
  "admin_initial =
     \<lparr>ad_stats = None, ad_pending = [], ad_recent = [], ad_users = [], ad_loading = False, ad_error = None,
      ad_pagination = \<lparr>lp_page = 1, lp_limit = 10, lp_total = 0, lp_total_pages = 0\<rparr>\<rparr>"

subsection \<open>Reducers (lines 190--295)\<close>

definition admin_pending :: "admin_state \<Rightarrow> admin_state" where
  "admin_pending s = s\<lparr>ad_loading := True, ad_error := None\<rparr>"

definition admin_rejected :: "admin_state \<Rightarrow> string \<Rightarrow> admin_state" where
  "admin_rejected s e = s\<lparr>ad_loading := False, ad_error := Some e\<rparr>"

text \<open>Only the thunks with a \<open>pending\<close> or \<open>rejected\<close> case in the builder have one here;
  the others' pending and rejected actions leave the state unchanged.\<close>

datatype admin_action =
    Admin_Clear_Error
  | Clear_Admin_Data
  | Stats_Pending
  | Stats_Fulfilled admin_stats
  | Stats_Rejected string
  | Pending_Pending
  | Pending_Fulfilled "fe_restaurant list"
  | Pending_Rejected string
  | Approve_Fulfilled fe_restaurant
  | Reject_Fulfilled fe_restaurant
  | Suspend_Fulfilled fe_restaurant
  | Recent_Fulfilled "fe_order list"
  | All_Orders_Pending
  | All_Orders_Fulfilled "fe_order list" list_pagination
  | All_Orders_Rejected string
  | Users_Pending
  | Users_Fulfilled "fe_user list" list_pagination
  | Users_Rejected string
  | User_Status_Fulfilled fe_user
  | Delete_User_Fulfilled string
  | Admin_Unhandled

fun admin_reducer :: "admin_state \<Rightarrow> admin_action \<Rightarrow> admin_state" where
  "admin_reducer s Admin_Clear_Error = s\<lparr>ad_error := None\<rparr>"
| "admin_reducer s Clear_Admin_Data = s\<lparr>ad_stats := None, ad_pending := [], ad_recent := [], ad_users := []\<rparr>"
| "admin_reducer s Stats_Pending = admin_pending s"
| "admin_reducer s (Stats_Fulfilled x) = s\<lparr>ad_loading := False, ad_stats := Some x, ad_error := None\<rparr>"
| "admin_reducer s (Stats_Rejected e) = admin_rejected s e"
| "admin_reducer s Pending_Pending = admin_pending s"
| "admin_reducer s (Pending_Fulfilled rs) = s\<lparr>ad_loading := False, ad_pending := rs, ad_error := None\<rparr>"
| "admin_reducer s (Pending_Rejected e) = admin_rejected s e"
| "admin_reducer s (Approve_Fulfilled r) = s\<lparr>ad_pending := filter (\<lambda>x. fr_id x \<noteq> fr_id r) (ad_pending s)\<rparr>"
| "admin_reducer s (Reject_Fulfilled r) = s\<lparr>ad_pending := filter (\<lambda>x. fr_id x \<noteq> fr_id r) (ad_pending s)\<rparr>"
| "admin_reducer s (Suspend_Fulfilled r) = s\<lparr>ad_pending := replace_first fr_id r (ad_pending s)\<rparr>"
| "admin_reducer s (Recent_Fulfilled os) = s\<lparr>ad_recent := os\<rparr>"
| "admin_reducer s All_Orders_Pending = admin_pending s"
| "admin_reducer s (All_Orders_Fulfilled os pg) =
     s\<lparr>ad_loading := False, ad_recent := os, ad_pagination := pg, ad_error := None\<rparr>"
| "admin_reducer s (All_Orders_Rejected e) = admin_rejected s e"
| "admin_reducer s Users_Pending = admin_pending s"
| "admin_reducer s (Users_Fulfilled us pg) = s\<lparr>ad_loading := False, ad_users := us, ad_pagination := pg, ad_error := None\<rparr>"
| "admin_reducer s (Users_Rejected e) = admin_rejected s e"
| "admin_reducer s (User_Status_Fulfilled u) = s\<lparr>ad_users := replace_first fu_id u (ad_users s)\<rparr>"
| "admin_reducer s (Delete_User_Fulfilled uid) = s\<lparr>ad_users := filter (\<lambda>u. fu_id u \<noteq> uid) (ad_users s)\<rparr>"
| "admin_reducer s Admin_Unhandled = s"

subsection \<open>The lists keep one entry per id\<close>

text \<open>The lists the admin screen shows hold one entry per id when the server sends them
  so: no reducer duplicates an entry.\<close>

definition admin_lists_distinct :: "admin_state \<Rightarrow> bool" where
  "admin_lists_distinct s \<longleftrightarrow>
     distinct (map fr_id (ad_pending s)) \<and> distinct (map fo_id (ad_recent s)) \<and> distinct (map fu_id (ad_users s))"

fun admin_payload_distinct :: "admin_action \<Rightarrow> bool" where
  "admin_payload_distinct (Pending_Fulfilled rs) = distinct (map fr_id rs)"
| "admin_payload_distinct (Recent_Fulfilled os) = distinct (map fo_id os)"
| "admin_payload_distinct (All_Orders_Fulfilled os pg) = distinct (map fo_id os)"
| "admin_payload_distinct (Users_Fulfilled us pg) = distinct (map fu_id us)"
| "admin_payload_distinct _ = True"

lemma admin_reducer_distinct:
  "admin_lists_distinct s \<Longrightarrow> admin_payload_distinct a \<Longrightarrow> admin_lists_distinct (admin_reducer s a)"
  by (cases a) (simp_all add: admin_lists_distinct_def admin_pending_def admin_rejected_def distinct_map_filter)

lemma admin_run_distinct:
  "admin_lists_distinct s \<Longrightarrow> \<forall>a\<in>set as. admin_payload_distinct a \<Longrightarrow> admin_lists_distinct (foldl admin_reducer s as)"
  by (induction as arbitrary: s) (simp_all add: admin_reducer_distinct)

text \<open>A suspension puts the suspended restaurant in the pending list in place
  of the pending one.\<close>

lemma suspend_keeps_in_pending:
  "distinct (map fr_id (ad_pending s)) \<Longrightarrow> x \<in> set (ad_pending s) \<Longrightarrow> fr_id x = fr_id r \<Longrightarrow>
     r \<in> set (ad_pending (admin_reducer s (Suspend_Fulfilled r)))"
  by (auto simp: replace_first_map)

end
