(* ===== verification/Http_Routes.thy ===== *)
theory Http_Routes
  imports Auth
begin

text \<open>
  The HTTP surface of the backend: the route table of every Express router under
  \<open>src/backend/routes\<close> and the way Express picks the handler of a request. Each route
  is its method, its path pattern, the middleware gate in front of it and the body
  fields its express-validator chain requires: a validator without \<open>.optional()\<close>
  (\<open>isMongoId\<close>, \<open>isInt\<close>, \<open>isArray\<close>, \<open>notEmpty\<close>, \<open>isEmail\<close>, \<open>isIn\<close>,
  \<open>isBoolean\<close>, \<open>exists\<close>, \<open>isLength\<close> with a positive minimum, ...) fails on a missing
  field, so a request without one of these fields is answered 400 whatever its other
  values. The optional validators and the query validators are not part of the route;
  the handler models check them.

  A router tries its routes in declaration order and the first whose method and path
  match handles the request; a request no route matches falls through to the 404 of the
  application. A path is the list of its segments: the frontend builds its URLs from
  literals and object ids, which hold no \<open>/\<close>. A path parameter \<open>:name\<close> matches one
  non-empty segment. The routers are
  mounted under \<open>/api/<file name>\<close> (\<open>api_mounts\<close>): the server file that mounts them
  is not part of the repository, and the frontend's base URL \<open>/api\<close> and paths assume
  these mounts.
\<close>

datatype http_method = GET | POST | PUT | DELETE

datatype seg = Lit string | Param string

text \<open>A field of a JSON body by its path of keys, \<open>address.street\<close> as
  \<open>[''address'', ''street'']\<close>.\<close>

type_synonym json_path = "string list"

record route =
  rt_method :: http_method
  rt_path :: "seg list"
  rt_gate :: "gate option"
  rt_requires :: "json_path list"

subsection \<open>routes/auth.js\<close>

definition auth_register_route :: route where
  "auth_register_route = \<lparr>rt_method = POST, rt_path = [Lit ''register''], rt_gate = None,
    rt_requires = [[''name''], [''email''], [''password''], [''phone'']]\<rparr>"

definition auth_login_route :: route where
  "auth_login_route = \<lparr>rt_method = POST, rt_path = [Lit ''login''], rt_gate = None,
    rt_requires = [[''email''], [''password'']]\<rparr>"

definition auth_me_route :: route where
  "auth_me_route = \<lparr>rt_method = GET, rt_path = [Lit ''me''], rt_gate = Some Auth_Gate,
    rt_requires = []\<rparr>"

definition auth_profile_route :: route where
  "auth_profile_route = \<lparr>rt_method = PUT, rt_path = [Lit ''profile''], rt_gate = Some Auth_Gate,
    rt_requires = []\<rparr>"

definition auth_change_password_route :: route where
  "auth_change_password_route = \<lparr>rt_method = PUT, rt_path = [Lit ''change-password''], rt_gate = Some Auth_Gate,
    rt_requires = [[''currentPassword''], [''newPassword'']]\<rparr>"

definition auth_logout_route :: route where
  "auth_logout_route = \<lparr>rt_method = POST, rt_path = [Lit ''logout''], rt_gate = Some Auth_Gate,
    rt_requires = []\<rparr>"

text \<open>The router, its routes in declaration order.\<close>

definition auth_router :: "route list" where
  "auth_router = [auth_register_route, auth_login_route, auth_me_route, auth_profile_route, auth_change_password_route, auth_logout_route]"

subsection \<open>routes/cart.js\<close>

definition cart_get_route :: route where
  "cart_get_route = \<lparr>rt_method = GET, rt_path = [], rt_gate = Some Auth_Gate,
    rt_requires = []\<rparr>"

definition cart_add_route :: route where
  "cart_add_route = \<lparr>rt_method = POST, rt_path = [Lit ''add''], rt_gate = Some Auth_Gate,
    rt_requires = [[''menuItem''], [''quantity'']]\<rparr>"

definition cart_update_route :: route where
  "cart_update_route = \<lparr>rt_method = PUT, rt_path = [Lit ''update'', Param ''itemId''], rt_gate = Some Auth_Gate,
    rt_requires = [[''quantity'']]\<rparr>"

definition cart_remove_route :: route where
  "cart_remove_route = \<lparr>rt_method = DELETE, rt_path = [Lit ''remove'', Param ''itemId''], rt_gate = Some Auth_Gate,
    rt_requires = []\<rparr>"

definition cart_clear_route :: route where
  "cart_clear_route = \<lparr>rt_method = DELETE, rt_path = [Lit ''clear''], rt_gate = Some Auth_Gate,
    rt_requires = []\<rparr>"

text \<open>The router, its routes in declaration order.\<close>

definition cart_router :: "route list" where
  "cart_router = [cart_get_route, cart_add_route, cart_update_route, cart_remove_route, cart_clear_route]"

subsection \<open>routes/menu.js\<close>

definition menu_restaurant_route :: route where
  "menu_restaurant_route = \<lparr>rt_method = GET, rt_path = [Lit ''restaurant'', Param ''restaurantId''], rt_gate = None,
    rt_requires = []\<rparr>"

definition menu_item_route :: route where
  "menu_item_route = \<lparr>rt_method = GET, rt_path = [Param ''id''], rt_gate = None,
    rt_requires = []\<rparr>"

definition menu_create_route :: route where
  "menu_create_route = \<lparr>rt_method = POST, rt_path = [], rt_gate = Some Restaurant_Gate,
    rt_requires = [[''restaurant''], [''name''], [''description''], [''category''], [''price''], [''images'']]\<rparr>"

definition menu_update_route :: route where
  "menu_update_route = \<lparr>rt_method = PUT, rt_path = [Param ''id''], rt_gate = Some Restaurant_Gate,
    rt_requires = []\<rparr>"

definition menu_delete_route :: route where
  "menu_delete_route = \<lparr>rt_method = DELETE, rt_path = [Param ''id''], rt_gate = Some Restaurant_Gate,
    rt_requires = []\<rparr>"

definition menu_categories_route :: route where
  "menu_categories_route = \<lparr>rt_method = GET, rt_path = [Lit ''categories'', Lit ''list''], rt_gate = None,
    rt_requires = []\<rparr>"

text \<open>The router, its routes in declaration order.\<close>

definition menu_router :: "route list" where
  "menu_router = [menu_restaurant_route, menu_item_route, menu_create_route, menu_update_route, menu_delete_route, menu_categories_route]"

subsection \<open>routes/orders.js\<close>

definition orders_create_route :: route where
  "orders_create_route = \<lparr>rt_method = POST, rt_path = [], rt_gate = Some Auth_Gate,
    rt_requires = [[''restaurant''], [''items''], [''deliveryAddress'', ''street''], [''deliveryAddress'', ''city''], [''deliveryAddress'', ''state''], [''deliveryAddress'', ''zipCode''], [''contactInfo'', ''phone''], [''contactInfo'', ''email''], [''paymentInfo'', ''method'']]\<rparr>"

definition orders_list_route :: route where
  "orders_list_route = \<lparr>rt_method = GET, rt_path = [], rt_gate = Some Auth_Gate,
    rt_requires = []\<rparr>"

definition orders_get_route :: route where
  "orders_get_route = \<lparr>rt_method = GET, rt_path = [Param ''id''], rt_gate = Some Auth_Gate,
    rt_requires = []\<rparr>"

definition orders_status_route :: route where
  "orders_status_route = \<lparr>rt_method = PUT, rt_path = [Param ''id'', Lit ''status''], rt_gate = Some Restaurant_Gate,
    rt_requires = [[''status'']]\<rparr>"

definition orders_cancel_route :: route where
  "orders_cancel_route = \<lparr>rt_method = POST, rt_path = [Param ''id'', Lit ''cancel''], rt_gate = Some Auth_Gate,
    rt_requires = []\<rparr>"

definition orders_rate_route :: route where
  "orders_rate_route = \<lparr>rt_method = POST, rt_path = [Param ''id'', Lit ''rate''], rt_gate = Some Auth_Gate,
    rt_requires = [[''food''], [''overall'']]\<rparr>"

definition orders_restaurant_route :: route where
  "orders_restaurant_route = \<lparr>rt_method = GET, rt_path = [Lit ''restaurant'', Param ''restaurantId''], rt_gate = Some Restaurant_Gate,
    rt_requires = []\<rparr>"

text \<open>The router, its routes in declaration order.\<close>

definition orders_router :: "route list" where
  "orders_router = [orders_create_route, orders_list_route, orders_get_route, orders_status_route, orders_cancel_route, orders_rate_route, orders_restaurant_route]"

subsection \<open>routes/restaurants.js\<close>

definition restaurants_list_route :: route where
  "restaurants_list_route = \<lparr>rt_method = GET, rt_path = [], rt_gate = None,
    rt_requires = []\<rparr>"

definition restaurants_get_route :: route where
  "restaurants_get_route = \<lparr>rt_method = GET, rt_path = [Param ''id''], rt_gate = None,
    rt_requires = []\<rparr>"

definition restaurants_create_route :: route where
  "restaurants_create_route = \<lparr>rt_method = POST, rt_path = [], rt_gate = Some Auth_Gate,
    rt_requires = [[''name''], [''email''], [''phone''], [''description''], [''cuisine''], [''address'', ''street''], [''address'', ''city''], [''address'', ''state''], [''address'', ''zipCode''], [''address'', ''coordinates'', ''lat''], [''address'', ''coordinates'', ''lng''], [''images'', ''logo''], [''businessInfo'', ''licenseNumber''], [''businessInfo'', ''taxId'']]\<rparr>"

definition restaurants_update_route :: route where
  "restaurants_update_route = \<lparr>rt_method = PUT, rt_path = [Param ''id''], rt_gate = Some Restaurant_Gate,
    rt_requires = []\<rparr>"

definition restaurants_delete_route :: route where
  "restaurants_delete_route = \<lparr>rt_method = DELETE, rt_path = [Param ''id''], rt_gate = Some Admin_Gate,
    rt_requires = []\<rparr>"

definition restaurants_status_route :: route where
  "restaurants_status_route = \<lparr>rt_method = PUT, rt_path = [Param ''id'', Lit ''status''], rt_gate = Some Admin_Gate,
    rt_requires = [[''status'']]\<rparr>"

text \<open>The router, its routes in declaration order.\<close>

definition restaurants_router :: "route list" where
  "restaurants_router = [restaurants_list_route, restaurants_get_route, restaurants_create_route, restaurants_update_route, restaurants_delete_route, restaurants_status_route]"

subsection \<open>routes/admin.js\<close>

definition admin_dashboard_route :: route where
  "admin_dashboard_route = \<lparr>rt_method = GET, rt_path = [Lit ''dashboard''], rt_gate = Some Admin_Gate,
    rt_requires = []\<rparr>"

definition admin_users_route :: route where
  "admin_users_route = \<lparr>rt_method = GET, rt_path = [Lit ''users''], rt_gate = Some Admin_Gate,
    rt_requires = []\<rparr>"

definition admin_user_status_route :: route where
  "admin_user_status_route = \<lparr>rt_method = PUT, rt_path = [Lit ''users'', Param ''id'', Lit ''status''], rt_gate = Some Admin_Gate,
    rt_requires = [[''isActive'']]\<rparr>"

definition admin_pending_route :: route where
  "admin_pending_route = \<lparr>rt_method = GET, rt_path = [Lit ''restaurants'', Lit ''pending''], rt_gate = Some Admin_Gate,
    rt_requires = []\<rparr>"

definition admin_approve_route :: route where
  "admin_approve_route = \<lparr>rt_method = PUT, rt_path = [Lit ''restaurants'', Param ''id'', Lit ''approve''], rt_gate = Some Admin_Gate,
    rt_requires = []\<rparr>"

definition admin_reject_route :: route where
  "admin_reject_route = \<lparr>rt_method = PUT, rt_path = [Lit ''restaurants'', Param ''id'', Lit ''reject''], rt_gate = Some Admin_Gate,
    rt_requires = [[''reason'']]\<rparr>"

definition admin_orders_route :: route where
  "admin_orders_route = \<lparr>rt_method = GET, rt_path = [Lit ''orders''], rt_gate = Some Admin_Gate,
    rt_requires = []\<rparr>"

definition admin_revenue_route :: route where
  "admin_revenue_route = \<lparr>rt_method = GET, rt_path = [Lit ''analytics'', Lit ''revenue''], rt_gate = Some Admin_Gate,
    rt_requires = []\<rparr>"

definition admin_order_analytics_route :: route where
  "admin_order_analytics_route = \<lparr>rt_method = GET, rt_path = [Lit ''analytics'', Lit ''orders''], rt_gate = Some Admin_Gate,
    rt_requires = []\<rparr>"

definition admin_broadcast_route :: route where
  "admin_broadcast_route = \<lparr>rt_method = POST, rt_path = [Lit ''broadcast''], rt_gate = Some Admin_Gate,
    rt_requires = [[''title''], [''message''], [''userType'']]\<rparr>"

definition admin_health_route :: route where
  "admin_health_route = \<lparr>rt_method = GET, rt_path = [Lit ''system'', Lit ''health''], rt_gate = Some Admin_Gate,
    rt_requires = []\<rparr>"

text \<open>The router, its routes in declaration order.\<close>

definition admin_router :: "route list" where
  "admin_router = [admin_dashboard_route, admin_users_route, admin_user_status_route, admin_pending_route, admin_approve_route, admin_reject_route, admin_orders_route, admin_revenue_route, admin_order_analytics_route, admin_broadcast_route, admin_health_route]"

subsection \<open>routes/contact.js\<close>

definition contact_route :: route where
  "contact_route = \<lparr>rt_method = POST, rt_path = [], rt_gate = None,
    rt_requires = [[''name''], [''email''], [''subject''], [''message'']]\<rparr>"

text \<open>The router, its routes in declaration order.\<close>

definition contact_router :: "route list" where
  "contact_router = [contact_route]"

subsection \<open>Mounting and matching\<close>

definition api_mounts :: "(string \<times> route list) list" where
  "api_mounts =
     [(''auth'', auth_router), (''restaurants'', restaurants_router), (''menu'', menu_router),
      (''orders'', orders_router), (''cart'', cart_router), (''admin'', admin_router),
      (''contact'', contact_router)]"

fun seg_match :: "seg list \<Rightarrow> string list \<Rightarrow> bool" where
  "seg_match [] [] = True"
| "seg_match (Lit l # ps) (s # ss) = (l = s \<and> seg_match ps ss)"
| "seg_match (Param n # ps) (s # ss) = (s \<noteq> [] \<and> seg_match ps ss)"
| "seg_match _ _ = False"

definition route_for :: "http_method \<Rightarrow> string list \<Rightarrow> route option" where
  "route_for m p =
     (case p of
        [] \<Rightarrow> None
      | r # rest \<Rightarrow>
          (case map_of api_mounts r of
             None \<Rightarrow> None
           | Some rs \<Rightarrow> find (\<lambda>rt. rt_method rt = m \<and> seg_match (rt_path rt) rest) rs))"

subsection \<open>Path matching\<close>

lemma seg_match_length: "seg_match ps ss \<Longrightarrow> length ps = length ss"
  by (induction ps ss rule: seg_match.induct) auto

text \<open>The route chosen for a request is one of its router's routes with the request's
  method, and no earlier route of that router matches it.\<close>

lemma route_for_SomeD:
  assumes "route_for m (r # rest) = Some rt"
  shows "\<exists>rs. map_of api_mounts r = Some rs \<and> rt \<in> set rs \<and> rt_method rt = m \<and> seg_match (rt_path rt) rest \<and>
              (\<exists>i < length rs. rs ! i = rt \<and> (\<forall>j < i. \<not> (rt_method (rs ! j) = m \<and> seg_match (rt_path (rs ! j)) rest)))"
  using assms by (auto simp: route_for_def find_Some_iff split: option.splits)

end
