(* ===== verification/Api_Client.thy ===== *)
theory Api_Client
  imports AdminSlice Http_Routes Users Order_Lifecycle
begin

text \<open>
  The browser's side of the HTTP API: the request each thunk of the Redux slices sends
  (method, the segments of its URL after the base \<open>/api\<close>, query parameters and the
  fields of the JSON body; the template \<open>`/orders/${id}/status`\<close> is the path
  \<open>[''orders'', id, ''status'']\<close>), the interceptors of \<open>frontend/src/services/api.ts\<close>, and the composition of
  the requests with the backend's route table of \<open>Http_Routes\<close>. \<open>JSON.stringify\<close>
  leaves out a field whose value is \<open>undefined\<close>, so an optional argument that is not
  given is not a field of the body. Identifiers are the MongoDB object ids the backend
  returns: non-empty and without \<open>/\<close>.
\<close>

subsection \<open>Requests\<close>

record request =
  rq_method :: http_method
  rq_path :: "string list"
  rq_query :: "(string \<times> string) list"
  rq_body :: "json_path list"

definition http_req :: "http_method \<Rightarrow> string list \<Rightarrow> json_path list \<Rightarrow> request" where
  "http_req m p b = \<lparr>rq_method = m, rq_path = p, rq_query = [], rq_body = b\<rparr>"

definition with_params :: "(string \<times> string) list \<Rightarrow> request \<Rightarrow> request" where
  "with_params ps q = q\<lparr>rq_query := ps\<rparr>"

definition opt_field :: "string \<Rightarrow> 'a option \<Rightarrow> json_path list" where
  "opt_field k v = (case v of None \<Rightarrow> [] | Some _ \<Rightarrow> [[k]])"

subsection \<open>cartSlice.ts thunks (lines 35--105)\<close>

datatype cart_call =
    Call_Sync_Cart
  | Call_Fetch_Cart
  | Call_Add_To_Cart string int "string option"
  | Call_Remove_From_Cart string
  | Call_Clear_Cart

fun cart_thunk_request :: "cart_call \<Rightarrow> request" where
  "cart_thunk_request Call_Sync_Cart = http_req POST [''cart'', ''sync''] [[''items'']]"
| "cart_thunk_request Call_Fetch_Cart = http_req GET [''cart''] []"
| "cart_thunk_request (Call_Add_To_Cart mid q si) =
     http_req POST [''cart'', ''add''] ([[''menuItemId''], [''quantity'']] @ opt_field ''specialInstructions'' si)"
| "cart_thunk_request (Call_Remove_From_Cart mid) = http_req DELETE [''cart'', ''remove'', mid] []"
| "cart_thunk_request Call_Clear_Cart = http_req DELETE [''cart'', ''clear''] []"

subsection \<open>menuSlice.ts thunks (lines 22--89)\<close>

text \<open>\<open>createMenuItem\<close> sends its argument: six required fields and the optional
  ingredients and allergens; \<open>updateMenuItem\<close> sends a partial item, given here by its
  fields.\<close>

datatype menu_call =
    Call_Fetch_Menu_Items string
  | Call_Fetch_Menu_Categories string
  | Call_Create_Menu_Item "string list option" "string list option"
  | Call_Update_Menu_Item string "json_path list"
  | Call_Delete_Menu_Item string

fun menu_thunk_request :: "menu_call \<Rightarrow> request" where
  "menu_thunk_request (Call_Fetch_Menu_Items rid) = http_req GET [''menu'', ''restaurant'', rid] []"
| "menu_thunk_request (Call_Fetch_Menu_Categories rid) = http_req GET [''menu'', ''restaurant'', rid, ''categories''] []"
| "menu_thunk_request (Call_Create_Menu_Item ing alg) =
     http_req POST [''menu'']
       ([[''restaurant''], [''name''], [''description''], [''price''], [''category''], [''image'']] @
        opt_field ''ingredients'' ing @ opt_field ''allergens'' alg)"
| "menu_thunk_request (Call_Update_Menu_Item i fs) = http_req PUT [''menu'', i] fs"
| "menu_thunk_request (Call_Delete_Menu_Item i) = http_req DELETE [''menu'', i] []"

subsection \<open>orderSlice.ts thunks (lines 32--110)\<close>

datatype order_call =
    Call_Create_Order "string option"
  | Call_Fetch_Orders "(string \<times> string) list"
  | Call_Fetch_Order_By_Id string
  | Call_Update_Order_Status string string
  | Call_Cancel_Order string

fun order_thunk_request :: "order_call \<Rightarrow> request" where
  "order_thunk_request (Call_Create_Order si) =
     http_req POST [''orders'']
       ([[''restaurantId''], [''items''], [''deliveryAddress'']] @ opt_field ''specialInstructions'' si)"
| "order_thunk_request (Call_Fetch_Orders ps) = with_params ps (http_req GET [''orders''] [])"
| "order_thunk_request (Call_Fetch_Order_By_Id i) = http_req GET [''orders'', i] []"
| "order_thunk_request (Call_Update_Order_Status i st) = http_req PUT [''orders'', i, ''status''] [[''status'']]"
| "order_thunk_request (Call_Cancel_Order i) = http_req PUT [''orders'', i, ''cancel''] []"

subsection \<open>restaurantSlice.ts thunks (lines 44--119)\<close>

datatype restaurant_call =
    Call_Fetch_Restaurants "(string \<times> string) list"
  | Call_Fetch_Restaurant_By_Id string
  | Call_Register_Restaurant
  | Call_Update_Restaurant string "json_path list"

fun restaurant_thunk_request :: "restaurant_call \<Rightarrow> request" where
  "restaurant_thunk_request (Call_Fetch_Restaurants ps) = with_params ps (http_req GET [''restaurants''] [])"
| "restaurant_thunk_request (Call_Fetch_Restaurant_By_Id i) = http_req GET [''restaurants'', i] []"
| "restaurant_thunk_request Call_Register_Restaurant =
     http_req POST [''restaurants'', ''register'']
       [[''name''], [''description''], [''cuisine''], [''address''], [''phone''], [''email''], [''image''],
        [''businessLicense''], [''taxId''], [''bankAccount'']]"
| "restaurant_thunk_request (Call_Update_Restaurant i fs) = http_req PUT [''restaurants'', i] fs"

subsection \<open>authSlice.ts thunks (lines 22--98)\<close>

text \<open>\<open>registerUser\<close> takes an optional phone and role; \<open>updateProfile\<close> an optional
  name, phone and address.\<close>

datatype auth_call =
    Call_Login
  | Call_Register "string option" "string option"
  | Call_Update_Profile "string option" "string option" "string option"
  | Call_Change_Password

fun auth_thunk_request :: "auth_call \<Rightarrow> request" where
  "auth_thunk_request Call_Login = http_req POST [''auth'', ''login''] [[''email''], [''password'']]"
| "auth_thunk_request (Call_Register ph rl) =
     http_req POST [''auth'', ''register'']
       ([[''name''], [''email''], [''password'']] @ opt_field ''phone'' ph @ opt_field ''role'' rl)"
| "auth_thunk_request (Call_Update_Profile n ph a) =
     http_req PUT [''auth'', ''profile''] (opt_field ''name'' n @ opt_field ''phone'' ph @ opt_field ''address'' a)"
| "auth_thunk_request Call_Change_Password =
     http_req PUT [''auth'', ''change-password''] [[''currentPassword''], [''newPassword'']]"

subsection \<open>adminSlice.ts thunks (lines 47--188)\<close>

datatype admin_call =
    Call_Admin_Stats
  | Call_Pending_Restaurants
  | Call_Approve_Restaurant string
  | Call_Reject_Restaurant string
  | Call_Suspend_Restaurant string
  | Call_Recent_Orders
  | Call_All_Orders "(string \<times> string) list"
  | Call_Users "(string \<times> string) list"
  | Call_Update_User_Status string
  | Call_Delete_User string

fun admin_thunk_request :: "admin_call \<Rightarrow> request" where
  "admin_thunk_request Call_Admin_Stats = http_req GET [''admin'', ''stats''] []"
| "admin_thunk_request Call_Pending_Restaurants = http_req GET [''admin'', ''restaurants'', ''pending''] []"
| "admin_thunk_request (Call_Approve_Restaurant i) = http_req PUT [''admin'', ''restaurants'', i, ''approve''] []"
| "admin_thunk_request (Call_Reject_Restaurant i) = http_req PUT [''admin'', ''restaurants'', i, ''reject''] [[''reason'']]"
| "admin_thunk_request (Call_Suspend_Restaurant i) = http_req PUT [''admin'', ''restaurants'', i, ''suspend''] [[''reason'']]"
| "admin_thunk_request Call_Recent_Orders = http_req GET [''admin'', ''orders'', ''recent''] []"
| "admin_thunk_request (Call_All_Orders ps) = with_params ps (http_req GET [''admin'', ''orders''] [])"
| "admin_thunk_request (Call_Users ps) = with_params ps (http_req GET [''admin'', ''users''] [])"
| "admin_thunk_request (Call_Update_User_Status i) = http_req PUT [''admin'', ''users'', i, ''status''] [[''status'']]"
| "admin_thunk_request (Call_Delete_User i) = http_req DELETE [''admin'', ''users'', i] []"

subsection \<open>What the backend does with a request\<close>

text \<open>A request either matches no route (404), or reaches a route whose validators find
  required fields missing (400 once the gate lets it through), or reaches its handler.\<close>

datatype outcome = No_Route | Missing_Fields "json_path list" | Routed route

definition api_outcome :: "request \<Rightarrow> outcome" where
  "api_outcome q =
     (case route_for (rq_method q) (rq_path q) of
        None \<Rightarrow> No_Route
      | Some rt \<Rightarrow>
          (let miss = filter (\<lambda>p. p \<notin> set (rq_body q)) (rt_requires rt)
           in if miss = [] then Routed rt else Missing_Fields miss))"


subsection \<open>The interceptors of services/api.ts\<close>

text \<open>The request interceptor (lines 12--21) sends \<open>Authorization: Bearer <token>\<close> when
  \<open>localStorage\<close> holds a non-empty token.\<close>

definition auth_header :: "auth_local \<Rightarrow> string option" where
  "auth_header l = (case al_token l of Some t \<Rightarrow> if t \<noteq> [] then Some (bearer @ t) else None | None \<Rightarrow> None)"

text \<open>The response interceptor (lines 24--37): a 401 answer removes the token and the user
  from \<open>localStorage\<close> and sends the browser to \<open>/\<close>, a new page load whose state is read
  from \<open>localStorage\<close>; the rejected action of the thunk reaches the reducer before the
  navigation. Any other error only rejects the thunk.\<close>

definition response_error :: "nat \<Rightarrow> auth_store \<Rightarrow> auth_store" where
  "response_error n st = (if n = 401 then st\<lparr>au_local := \<lparr>al_token = None, al_user = None\<rparr>\<rparr> else st)"

definition refused :: "nat \<Rightarrow> auth_action \<Rightarrow> auth_store \<Rightarrow> auth_store" where
  "refused n a st =
     (let st' = auth_reducer (response_error n st) a in if n = 401 then auth_load (au_local st') else st')"

subsection \<open>The order statuses the client declares\<close>

text \<open>The \<open>status\<close> of the client's \<open>Order\<close> type (types/index.ts line 62); the same
  six values type the \<open>status\<close> argument of \<open>updateOrderStatus\<close> (orderSlice.ts
  lines 88--91).\<close>

definition fe_order_statuses :: "string list" where
  "fe_order_statuses = [''pending'', ''confirmed'', ''preparing'', ''out_for_delivery'', ''delivered'', ''cancelled'']"

subsection \<open>Which requests the backend serves\<close>

lemma opt_field_member [simp]: "p \<in> set (opt_field k v) \<longleftrightarrow> p = [k] \<and> v \<noteq> None"
  by (cases v) (simp_all add: opt_field_def)

lemmas route_table = api_mounts_def
  auth_router_def cart_router_def menu_router_def orders_router_def restaurants_router_def 
  admin_router_def contact_router_def auth_register_route_def auth_login_route_def 
  auth_me_route_def auth_profile_route_def auth_change_password_route_def auth_logout_route_def 
  cart_get_route_def cart_add_route_def cart_update_route_def cart_remove_route_def 
  cart_clear_route_def menu_restaurant_route_def menu_item_route_def menu_create_route_def 
  menu_update_route_def menu_delete_route_def menu_categories_route_def orders_create_route_def 
  orders_list_route_def orders_get_route_def orders_status_route_def orders_cancel_route_def 
  orders_rate_route_def orders_restaurant_route_def restaurants_list_route_def 
  restaurants_get_route_def restaurants_create_route_def restaurants_update_route_def 
  restaurants_delete_route_def restaurants_status_route_def admin_dashboard_route_def 
  admin_users_route_def admin_user_status_route_def admin_pending_route_def 
  admin_approve_route_def admin_reject_route_def admin_orders_route_def admin_revenue_route_def 
  admin_order_analytics_route_def admin_broadcast_route_def admin_health_route_def 
  contact_route_def 

lemmas request_defs = api_outcome_def http_req_def with_params_def

text \<open>The header the browser sends is the one the backend's \<open>auth\<close> reads: a stored
  token reaches the verifier as it was stored, and without one the gate answers 401.\<close>

lemma auth_of_client_header:
  "auth verify d (auth_header l) =
     (case al_token l of
        Some t \<Rightarrow>
          if t = [] then Inl Header_Missing
          else (case verify (js_trim t) of
                  Token_Expired_Error \<Rightarrow> Inl Token_Expired
                | Token_Bad \<Rightarrow> Inl Token_Invalid
                | Token_Ok uid \<Rightarrow>
                    (case map_of (users d) uid of None \<Rightarrow> Inl Token_User_Not_Found | Some u \<Rightarrow> Inr (uid, u)))
      | None \<Rightarrow> Inl Header_Missing)"
  by (simp add: auth_header_def auth_bearer_token split: option.splits) (simp add: auth_def)

text \<open>
  C2. Eight of the requests the frontend sends match no backend route and are
  answered 404, whatever their arguments: syncing the cart, the menu categories of a
  restaurant, cancelling an order (sent with PUT, the route is POST), registering a
  restaurant (sent to \<open>/restaurants/register\<close>, the route is \<open>POST /restaurants\<close>), and
  the admin statistics, suspension, recent orders and user deletion.
\<close>

theorem client_requests_without_route:
  "api_outcome (cart_thunk_request Call_Sync_Cart) = No_Route \<and>
   api_outcome (menu_thunk_request (Call_Fetch_Menu_Categories r)) = No_Route \<and>
   api_outcome (order_thunk_request (Call_Cancel_Order i)) = No_Route \<and>
   api_outcome (restaurant_thunk_request Call_Register_Restaurant) = No_Route \<and>
   api_outcome (admin_thunk_request Call_Admin_Stats) = No_Route \<and>
   api_outcome (admin_thunk_request (Call_Suspend_Restaurant j)) = No_Route \<and>
   api_outcome (admin_thunk_request Call_Recent_Orders) = No_Route \<and>
   api_outcome (admin_thunk_request (Call_Delete_User u)) = No_Route"
  by (simp add: request_defs route_for_def route_table)

text \<open>
  C3. Five requests reach their route without a field its validators require, so
  they are refused with 400 whatever the values sent: adding to the cart sends
  \<open>menuItemId\<close> for \<open>menuItem\<close>, creating a menu item sends \<open>image\<close> for \<open>images\<close>,
  placing an order sends \<open>restaurantId\<close> and a text address for \<open>restaurant\<close>, the
  address fields, the contact and the payment method, changing a user's status sends
  \<open>status\<close> for \<open>isActive\<close>, and registering without a phone omits the phone the
  route requires.
\<close>

theorem client_requests_missing_fields:
  assumes "u \<noteq> []"
  shows "api_outcome (cart_thunk_request (Call_Add_To_Cart m q si)) = Missing_Fields [[''menuItem'']] \<and>
         api_outcome (menu_thunk_request (Call_Create_Menu_Item ing alg)) = Missing_Fields [[''images'']] \<and>
         api_outcome (order_thunk_request (Call_Create_Order si')) =
           Missing_Fields [[''restaurant''], [''deliveryAddress'', ''street''], [''deliveryAddress'', ''city''],
                           [''deliveryAddress'', ''state''], [''deliveryAddress'', ''zipCode''],
                           [''contactInfo'', ''phone''], [''contactInfo'', ''email''], [''paymentInfo'', ''method'']] \<and>
         api_outcome (admin_thunk_request (Call_Update_User_Status u)) = Missing_Fields [[''isActive'']] \<and>
         api_outcome (auth_thunk_request (Call_Register None rl)) = Missing_Fields [[''phone'']]"
  using assms by (simp add: request_defs route_for_def route_table)

text \<open>
  C37. The other requests of the slices reach the route they are meant for, with
  every field its validators require.
\<close>

theorem client_requests_routed:
  assumes "i \<noteq> []"
  shows "api_outcome (cart_thunk_request Call_Fetch_Cart) = Routed cart_get_route \<and>
         api_outcome (cart_thunk_request (Call_Remove_From_Cart i)) = Routed cart_remove_route \<and>
         api_outcome (cart_thunk_request Call_Clear_Cart) = Routed cart_clear_route \<and>
         api_outcome (menu_thunk_request (Call_Fetch_Menu_Items i)) = Routed menu_restaurant_route \<and>
         api_outcome (menu_thunk_request (Call_Update_Menu_Item i fs)) = Routed menu_update_route \<and>
         api_outcome (menu_thunk_request (Call_Delete_Menu_Item i)) = Routed menu_delete_route \<and>
         api_outcome (order_thunk_request (Call_Fetch_Orders ps)) = Routed orders_list_route \<and>
         api_outcome (order_thunk_request (Call_Fetch_Order_By_Id i)) = Routed orders_get_route \<and>
         api_outcome (order_thunk_request (Call_Update_Order_Status i st)) = Routed orders_status_route \<and>
         api_outcome (restaurant_thunk_request (Call_Fetch_Restaurants ps)) = Routed restaurants_list_route \<and>
         api_outcome (restaurant_thunk_request (Call_Fetch_Restaurant_By_Id i)) = Routed restaurants_get_route \<and>
         api_outcome (restaurant_thunk_request (Call_Update_Restaurant i fs)) = Routed restaurants_update_route \<and>
         api_outcome (auth_thunk_request Call_Login) = Routed auth_login_route \<and>
         api_outcome (auth_thunk_request (Call_Register (Some ph) rl)) = Routed auth_register_route \<and>
         api_outcome (auth_thunk_request (Call_Update_Profile n ph' a)) = Routed auth_profile_route \<and>
         api_outcome (auth_thunk_request Call_Change_Password) = Routed auth_change_password_route \<and>
         api_outcome (admin_thunk_request Call_Pending_Restaurants) = Routed admin_pending_route \<and>
         api_outcome (admin_thunk_request (Call_Approve_Restaurant i)) = Routed admin_approve_route \<and>
         api_outcome (admin_thunk_request (Call_Reject_Restaurant i)) = Routed admin_reject_route \<and>
         api_outcome (admin_thunk_request (Call_All_Orders ps)) = Routed admin_orders_route \<and>
         api_outcome (admin_thunk_request (Call_Users ps)) = Routed admin_users_route"
  using assms by (simp add: request_defs route_for_def route_table)

text \<open>
  C5. Signing in with a wrong password, an unknown email or a deactivated account
  is answered 401, which the response interceptor takes for an expired session: it clears
  the storage and reloads the page, so the error the login thunk put in the state is
  gone and the user sees a fresh, signed-out page instead of the reason. Only a refusal
  by the validators (400) keeps the message.
\<close>

theorem refused_login_session:
  assumes "snd (login d now e pw ok) = Inl err" and "err \<noteq> Server_Error"
  shows "(pw \<noteq> None \<and> ok \<longrightarrow>
            http_status err = 401 \<and>
            refused (http_status err) (Login_Rejected m) st = auth_load \<lparr>al_token = None, al_user = None\<rparr> \<and>
            as_error (au_state (refused (http_status err) (Login_Rejected m) st)) = None) \<and>
         (pw = None \<or> \<not> ok \<longrightarrow>
            as_error (au_state (refused (http_status err) (Login_Rejected m) st)) = Some m)"
  using assms
  by (auto simp: login_def refused_def response_error_def session_rejected_def auth_initial_def auth_load_def
           split: option.splits if_splits prod.splits)

text \<open>
  The client's order type knows six of the nine statuses the server stores:
  an order that is ready, picked up or refunded has a status outside the type. Of the
  statuses its \<open>updateOrderStatus\<close> may send, the server's validator refuses
  \<open>pending\<close>, and the client can never ask for \<open>ready\<close> or \<open>picked_up\<close>.
\<close>

theorem order_status_types:
  "(\<forall>s. (status_name s \<in> set fe_order_statuses) = (s \<notin> {Ready, Picked_Up, Refunded})) \<and>
   (\<forall>s. (settable_status s \<and> status_name s \<in> set fe_order_statuses) = (settable_status s \<and> s \<notin> {Ready, Picked_Up})) \<and>
   ''pending'' \<in> set fe_order_statuses \<and> \<not> settable_status Pending"
proof (intro conjI allI)
  fix s show "(status_name s \<in> set fe_order_statuses) = (s \<notin> {Ready, Picked_Up, Refunded})"
    by (cases s) (simp_all add: fe_order_statuses_def)
next
  fix s show "(settable_status s \<and> status_name s \<in> set fe_order_statuses) = (settable_status s \<and> s \<notin> {Ready, Picked_Up})"
    by (cases s) (simp_all add: fe_order_statuses_def settable_status_def)
qed (simp_all add: fe_order_statuses_def settable_status_def)

theorem client_requests_missing_fields_witness:
  "''64b7f0c2a1e4d3b2a1c0f9e8'' \<noteq> [] \<and>
   api_outcome (admin_thunk_request (Call_Update_User_Status ''64b7f0c2a1e4d3b2a1c0f9e8'')) = Missing_Fields [[''isActive'']] \<and>
   api_outcome (cart_thunk_request (Call_Add_To_Cart ''64b7f0c2a1e4d3b2a1c0f9e8'' 1 None)) = Missing_Fields [[''menuItem'']]"
  using client_requests_missing_fields [where u = "''64b7f0c2a1e4d3b2a1c0f9e8''" and m = "''64b7f0c2a1e4d3b2a1c0f9e8''"
                                        and q = 1 and si = None]
  by simp

theorem client_requests_routed_witness:
  "''64b7f0c2a1e4d3b2a1c0f9e8'' \<noteq> [] \<and>
   api_outcome (order_thunk_request (Call_Update_Order_Status ''64b7f0c2a1e4d3b2a1c0f9e8'' ''delivered'')) = Routed orders_status_route \<and>
   api_outcome (admin_thunk_request (Call_Approve_Restaurant ''64b7f0c2a1e4d3b2a1c0f9e8'')) = Routed admin_approve_route"
  using client_requests_routed [where i = "''64b7f0c2a1e4d3b2a1c0f9e8''" and st = "''delivered''"]
  by simp

theorem refused_login_session_witness:
  "snd (login sample_db 0 ''nobody@x.io'' (Some ''secret1'') True) = Inl Invalid_Credentials \<and>
   Invalid_Credentials \<noteq> Server_Error \<and>
   as_error (au_state (refused (http_status Invalid_Credentials) (Login_Rejected ''Invalid credentials'')
                         (auth_load \<lparr>al_token = None, al_user = None\<rparr>))) = None"
proof -
  have l: "snd (login sample_db 0 ''nobody@x.io'' (Some ''secret1'') True) = Inl Invalid_Credentials"
    by (simp add: login_def find_by_email_def sample_db_def sample_user_def)
  from refused_login_session [OF l, where m = "''Invalid credentials''" and st = "auth_load \<lparr>al_token = None, al_user = None\<rparr>"]
  show ?thesis using l by (simp add: auth_load_def auth_initial_def)
qed

end
