(* ===== verification/Contact.thy ===== *)
theory Contact
  imports Store "HOL-Library.While_Combinator"
begin

text \<open>
  The contact form, \<open>POST /api/contact\<close> (\<open>routes/contact.js\<close>): the validators, the
  two e-mails the handler sends through nodemailer, one to the administrator and one
  confirmation to the sender, and the answers. The mail transport is a parameter
  \<open>deliver\<close> telling whether \<open>sendMail\<close> succeeds for a mail; the mails sent are
  an outbox. The checks that express-validator takes from the validator library
  (\<open>isEmail\<close>, \<open>normalizeEmail\<close>, \<open>isMobilePhone\<close>) are parameters too. The HTML
  bodies are the template literals without the indentation between the tags.
\<close>

subsection \<open>message.replace(/\n/g, "<br>")\<close>

text \<open>
  A replacement with a global regular expression (lines 60 and 80) runs the ECMAScript
  loop of \<open>RegExp.prototype[@@replace]\<close>: from \<open>lastIndex\<close>, find the next match, copy
  the text before it and the replacement, and continue after the match, until no match
  is left; then copy the rest. \<open>/\n/\<close> matches one newline character.
\<close>

definition newline :: char where
  "newline = CHR 0x0A"

definition next_match :: "string \<Rightarrow> nat \<Rightarrow> nat option" where
  "next_match s i = find (\<lambda>j. s ! j = newline) [i..<length s]"

definition replace_step :: "string \<Rightarrow> nat \<times> string \<Rightarrow> nat \<times> string" where
  "replace_step s st =
     (case st of (i, acc) \<Rightarrow>
        case next_match s i of
          None \<Rightarrow> (i, acc)
        | Some j \<Rightarrow> (Suc j, acc @ take (j - i) (drop i s) @ ''<br>''))"

definition replace_newlines :: "string \<Rightarrow> string option" where
  "replace_newlines s =
     map_option (\<lambda>(i, acc). acc @ drop i s)
       (while_option (\<lambda>(i, acc). next_match s i \<noteq> None) (replace_step s) (0, []))"

text \<open>The result the replacement is meant to have: every newline becomes \<open><br>\<close>.\<close>

definition br_lines :: "string \<Rightarrow> string" where
  "br_lines s = concat (map (\<lambda>c. if c = newline then ''<br>'' else [c]) s)"

subsection \<open>The request\<close>

record contact_body =
  cb_name :: "string option"
  cb_email :: "string option"
  cb_subject :: "string option"
  cb_message :: "string option"
  cb_phone :: "string option"

record validator_lib =
  is_email :: "string \<Rightarrow> bool"
  normalize_email :: "string \<Rightarrow> string"
  is_mobile_phone :: "string \<Rightarrow> bool"

text \<open>express-validator reads an absent field as the empty text.\<close>

definition field_text :: "string option \<Rightarrow> string" where
  "field_text v = (case v of None \<Rightarrow> [] | Some s \<Rightarrow> s)"

text \<open>\<open>body(f).trim().isLength({min, max})\<close>.\<close>

definition trimmed_len_ok :: "nat \<Rightarrow> nat \<Rightarrow> string option \<Rightarrow> bool" where
  "trimmed_len_ok lo hi v = (let n = length (js_trim (field_text v)) in lo \<le> n \<and> n \<le> hi)"

text \<open>The validator chain of lines 23--38.\<close>

definition contact_valid :: "validator_lib \<Rightarrow> contact_body \<Rightarrow> bool" where
  "contact_valid lib b \<longleftrightarrow>
     trimmed_len_ok 2 100 (cb_name b) \<and>
     (case cb_email b of None \<Rightarrow> False | Some e \<Rightarrow> is_email lib e) \<and>
     trimmed_len_ok 5 200 (cb_subject b) \<and>
     trimmed_len_ok 10 1000 (cb_message b) \<and>
     (case cb_phone b of None \<Rightarrow> True | Some p \<Rightarrow> is_mobile_phone lib p)"

text \<open>The sanitizers write back into \<open>req.body\<close>: the handler reads the trimmed name,
  subject and message and the normalised e-mail.\<close>

record contact_form =
  cf_name :: string
  cf_email :: string
  cf_subject :: string
  cf_message :: string
  cf_phone :: "string option"

definition sanitize :: "validator_lib \<Rightarrow> contact_body \<Rightarrow> contact_form" where
  "sanitize lib b =
     \<lparr>cf_name = js_trim (field_text (cb_name b)), cf_email = normalize_email lib (field_text (cb_email b)),
      cf_subject = js_trim (field_text (cb_subject b)), cf_message = js_trim (field_text (cb_message b)),
      cf_phone = cb_phone b\<rparr>"

subsection \<open>The mails (lines 52--89)\<close>

record mail =
  ml_from :: string
  ml_to :: string
  ml_subject :: string
  ml_html :: string
  ml_reply_to :: "string option"

record mail_env =
  env_email_user :: string
  env_admin_email :: string

definition admin_html :: "contact_form \<Rightarrow> string \<Rightarrow> string" where
  "admin_html f msg =
     ''<h2>New Contact Form Submission</h2><p><strong>Name:</strong> '' @ cf_name f @ ''</p>'' @
     ''<p><strong>Email:</strong> '' @ cf_email f @ ''</p>'' @
     (if js_truthy_str (cf_phone f) then ''<p><strong>Phone:</strong> '' @ field_text (cf_phone f) @ ''</p>'' else []) @
     ''<p><strong>Subject:</strong> '' @ cf_subject f @ ''</p><p><strong>Message:</strong></p>'' @
     ''<p>'' @ msg @ ''</p><hr><p><small>Sent from Food Delivery Platform Contact Form</small></p>''"

definition confirmation_html :: "contact_form \<Rightarrow> string \<Rightarrow> string" where
  "confirmation_html f msg =
     ''<h2>Thank you for contacting us!</h2><p>Dear '' @ cf_name f @ '',</p>'' @
     ''<p>We have received your message and will get back to you as soon as possible.</p>'' @
     ''<p><strong>Your message:</strong></p><p>'' @ msg @ ''</p><p>Best regards,<br>Food Delivery Team</p>''"

definition admin_mail :: "mail_env \<Rightarrow> contact_form \<Rightarrow> string \<Rightarrow> mail" where
  "admin_mail env f msg =
     \<lparr>ml_from = env_email_user env, ml_to = env_admin_email env, ml_subject = ''Contact Form: '' @ cf_subject f,
      ml_html = admin_html f msg, ml_reply_to = Some (cf_email f)\<rparr>"

definition confirmation_mail :: "mail_env \<Rightarrow> contact_form \<Rightarrow> string \<Rightarrow> mail" where
  "confirmation_mail env f msg =
     \<lparr>ml_from = env_email_user env, ml_to = cf_email f, ml_subject = ''Thank you for contacting us'',
      ml_html = confirmation_html f msg, ml_reply_to = None\<rparr>"

subsection \<open>The handler (lines 39--102)\<close>

text \<open>Each \<open>await transporter.sendMail\<close> either delivers its mail or throws; a throw
  anywhere is answered 500.\<close>

definition send_contact ::
    "validator_lib \<Rightarrow> mail_env \<Rightarrow> (mail \<Rightarrow> bool) \<Rightarrow> mail list \<Rightarrow> contact_body \<Rightarrow> mail list \<times> unit response" where
  "send_contact lib env deliver outbox b =
     (if \<not> contact_valid lib b then (outbox, Inl Validation_Failed)
      else let f = sanitize lib b
           in case replace_newlines (cf_message f) of
                None \<Rightarrow> (outbox, Inl Server_Error)
              | Some msg \<Rightarrow>
                  let m1 = admin_mail env f msg; m2 = confirmation_mail env f msg
                  in if \<not> deliver m1 then (outbox, Inl Server_Error)
                     else if \<not> deliver m2 then (outbox @ [m1], Inl Server_Error)
                     else (outbox @ [m1, m2], Inr ()))"

subsection \<open>The replacement loop ends and replaces every newline\<close>

lemma next_match_Some:
  assumes "next_match s i = Some j"
  shows "i \<le> j \<and> j < length s \<and> s ! j = newline \<and> (\<forall>k. i \<le> k \<and> k < j \<longrightarrow> s ! k \<noteq> newline)"
proof -
  from assms obtain n where n: "n < length s - i" "j = i + n" "s ! j = newline"
    and before: "\<forall>l<n. s ! (i + l) \<noteq> newline"
    by (auto simp: next_match_def find_Some_iff)
  have "s ! k \<noteq> newline" if "i \<le> k" "k < j" for k
    using before [rule_format, of "k - i"] that n(2) by simp
  with n show ?thesis by auto
qed

lemma next_match_None: "next_match s i = None \<longleftrightarrow> newline \<notin> set (drop i s)"
proof -
  have "newline \<in> set (drop i s) \<longleftrightarrow> (\<exists>k. i \<le> k \<and> k < length s \<and> s ! k = newline)"
  proof
    assume "newline \<in> set (drop i s)"
    then obtain n where "n < length s - i" "s ! (i + n) = newline" by (auto simp: in_set_conv_nth)
    then show "\<exists>k. i \<le> k \<and> k < length s \<and> s ! k = newline" by (intro exI [of _ "i + n"]) auto
  next
    assume "\<exists>k. i \<le> k \<and> k < length s \<and> s ! k = newline"
    then obtain k where "i \<le> k" "k < length s" "s ! k = newline" by blast
    then show "newline \<in> set (drop i s)" unfolding in_set_conv_nth
      by (intro exI [of _ "k - i"]) auto
  qed
  then show ?thesis by (auto simp: next_match_def find_None_iff)
qed

lemma br_lines_append [simp]: "br_lines (xs @ ys) = br_lines xs @ br_lines ys"
  by (simp add: br_lines_def)

lemma br_lines_newline [simp]: "br_lines [newline] = ''<br>''"
  by (simp add: br_lines_def)

lemma br_lines_Nil [simp]: "br_lines [] = []"
  by (simp add: br_lines_def)

lemma br_lines_plain: "newline \<notin> set xs \<Longrightarrow> br_lines xs = xs"
  by (induction xs) (auto simp: br_lines_def)

text \<open>The text a match skips: before the match at \<open>j\<close>, from \<open>i\<close>, there is no newline.\<close>

lemma take_upto_match:
  assumes "next_match s i = Some j"
  shows "take (Suc j) s = take i s @ take (j - i) (drop i s) @ [newline] \<and> newline \<notin> set (take (j - i) (drop i s))"
proof -
  from next_match_Some [OF assms] have m: "i \<le> j" "j < length s" "s ! j = newline"
    and gap: "\<forall>k. i \<le> k \<and> k < j \<longrightarrow> s ! k \<noteq> newline" by auto
  have "take (Suc j) s = take j s @ [s ! j]" using m by (simp add: take_Suc_conv_app_nth)
  moreover have "take j s = take i s @ take (j - i) (drop i s)" using m
    by (metis le_add_diff_inverse take_add)
  moreover have "newline \<notin> set (take (j - i) (drop i s))"
    using gap m by (auto simp: in_set_conv_nth)
  ultimately show ?thesis using m by simp
qed

lemma replace_loop_halts:
  "\<exists>st. while_option (\<lambda>(i, acc). next_match s i \<noteq> None) (replace_step s) (0, []) = Some st"
proof (rule measure_while_option_Some [where P = "\<lambda>(i, acc). i \<le> length s" and f = "\<lambda>(i, acc). length s - i"])
  fix st :: "nat \<times> string"
  assume "case st of (i, acc) \<Rightarrow> i \<le> length s" and "case st of (i, acc) \<Rightarrow> next_match s i \<noteq> None"
  then obtain i acc j where st: "st = (i, acc)" and j: "next_match s i = Some j" by auto
  with next_match_Some [OF j] show "(case replace_step s st of (i, acc) \<Rightarrow> i \<le> length s) \<and>
      (case replace_step s st of (i, acc) \<Rightarrow> length s - i) < (case st of (i, acc) \<Rightarrow> length s - i)"
    by (auto simp: replace_step_def)
qed simp

lemma replace_step_inv:
  assumes "next_match s i = Some j" and "acc = br_lines (take i s)"
  shows "case replace_step s (i, acc) of (i', acc') \<Rightarrow> i' \<le> length s \<and> acc' = br_lines (take i' s)"
proof -
  from take_upto_match [OF assms(1)] have t: "take (Suc j) s = take i s @ take (j - i) (drop i s) @ [newline]"
    and plain: "newline \<notin> set (take (j - i) (drop i s))" by auto
  have "br_lines (take (Suc j) s) = acc @ take (j - i) (drop i s) @ ''<br>''"
    unfolding t using plain assms(2) by (simp add: br_lines_plain)
  moreover have "Suc j \<le> length s" using next_match_Some [OF assms(1)] by simp
  ultimately show ?thesis using assms(1) by (simp add: replace_step_def)
qed

lemma replace_loop_result:
  assumes "while_option (\<lambda>(i, acc). next_match s i \<noteq> None) (replace_step s) (0, []) = Some (i, acc)"
  shows "acc @ drop i s = br_lines s"
proof -
  let ?I = "\<lambda>(i, acc). i \<le> length s \<and> acc = br_lines (take i s)"
  have "?I (i, acc)"
  proof (rule while_option_rule [OF _ assms])
    fix st :: "nat \<times> string"
    assume "?I st" and "case st of (i, acc) \<Rightarrow> next_match s i \<noteq> None"
    then obtain i' acc' j where "st = (i', acc')" "next_match s i' = Some j" "acc' = br_lines (take i' s)" by auto
    then show "?I (replace_step s st)" using replace_step_inv by simp
  qed simp
  moreover have "next_match s i = None" using while_option_stop [OF assms] by simp
  ultimately have "acc = br_lines (take i s)" "drop i s = br_lines (drop i s)"
    by (simp_all add: next_match_None br_lines_plain)
  then show ?thesis by (metis append_take_drop_id br_lines_append)
qed

lemma replace_newlines_result: "replace_newlines s = Some (br_lines s)"
proof -
  from replace_loop_halts obtain st where "while_option (\<lambda>(i, acc). next_match s i \<noteq> None) (replace_step s) (0, []) = Some st" ..
  moreover obtain i acc where "st = (i, acc)" by fastforce
  ultimately have w: "while_option (\<lambda>(i, acc). next_match s i \<noteq> None) (replace_step s) (0, []) = Some (i, acc)" by simp
  show ?thesis unfolding replace_newlines_def w using replace_loop_result [OF w] by simp
qed

subsection \<open>What the handler sends\<close>

lemma send_contact_valid:
  assumes "contact_valid lib b"
  shows "send_contact lib env deliver outbox b =
           (let f = sanitize lib b; m1 = admin_mail env f (br_lines (cf_message f));
                m2 = confirmation_mail env f (br_lines (cf_message f))
            in if \<not> deliver m1 then (outbox, Inl Server_Error)
               else if \<not> deliver m2 then (outbox @ [m1], Inl Server_Error)
               else (outbox @ [m1, m2], Inr ()))"
  using assms by (simp add: send_contact_def replace_newlines_result Let_def)

text \<open>
  The global replacement loop always ends: for every message the loop reaches a
  position after which no newline is left.
\<close>

theorem replace_newlines_terminates: "\<exists>r. replace_newlines s = Some r"
  using replace_loop_halts by (auto simp: replace_newlines_def)

text \<open>
  C40. A valid form whose mails are both delivered is answered 200 and sends the
  administrator the sender's name, address, subject and message, and the sender a
  confirmation, in this order; the texts are interpolated as they were typed, without
  HTML escaping, every newline of the message turned into \<open><br>\<close>.
\<close>

theorem contact_sends_both:
  assumes "contact_valid lib b"
      and "\<forall>m. deliver m"
  shows "send_contact lib env deliver outbox b =
           (outbox @ [admin_mail env (sanitize lib b) (br_lines (cf_message (sanitize lib b))),
                      confirmation_mail env (sanitize lib b) (br_lines (cf_message (sanitize lib b)))], Inr ()) \<and>
         (\<exists>pre post. ml_html (admin_mail env (sanitize lib b) (br_lines (cf_message (sanitize lib b)))) =
                       pre @ br_lines (js_trim (field_text (cb_message b))) @ post)"
proof -
  let ?f = "sanitize lib b"
  have "admin_html ?f (br_lines (cf_message ?f)) =
          (''<h2>New Contact Form Submission</h2><p><strong>Name:</strong> '' @ cf_name ?f @ ''</p>'' @
           ''<p><strong>Email:</strong> '' @ cf_email ?f @ ''</p>'' @
           (if js_truthy_str (cf_phone ?f) then ''<p><strong>Phone:</strong> '' @ field_text (cf_phone ?f) @ ''</p>'' else []) @
           ''<p><strong>Subject:</strong> '' @ cf_subject ?f @ ''</p><p><strong>Message:</strong></p><p>'') @
          br_lines (js_trim (field_text (cb_message b))) @
          ''</p><hr><p><small>Sent from Food Delivery Platform Contact Form</small></p>''"
    by (simp add: admin_html_def sanitize_def)
  then have "\<exists>pre post. admin_html ?f (br_lines (cf_message ?f)) = pre @ br_lines (js_trim (field_text (cb_message b))) @ post"
    by blast
  then show ?thesis using assms by (simp add: send_contact_valid admin_mail_def Let_def)
qed

text \<open>
  C27. The two mails are not one transaction: when the administrator's mail goes
  out and the confirmation fails, the sender is told that the message could not be sent
  (500) although the administrator has it, and sending the form again delivers it to the
  administrator a second time.
\<close>

theorem contact_partial_failure:
  assumes "contact_valid lib b"
      and "deliver (admin_mail env (sanitize lib b) (br_lines (cf_message (sanitize lib b))))"
      and "\<not> deliver (confirmation_mail env (sanitize lib b) (br_lines (cf_message (sanitize lib b))))"
  shows "send_contact lib env deliver outbox b =
           (outbox @ [admin_mail env (sanitize lib b) (br_lines (cf_message (sanitize lib b)))], Inl Server_Error) \<and>
         fst (send_contact lib env deliver (fst (send_contact lib env deliver outbox b)) b) =
           outbox @ [admin_mail env (sanitize lib b) (br_lines (cf_message (sanitize lib b))),
                     admin_mail env (sanitize lib b) (br_lines (cf_message (sanitize lib b)))]"
  using assms by (simp add: send_contact_valid Let_def)

subsection \<open>Witnesses\<close>

definition sample_lib :: validator_lib where
  "sample_lib = \<lparr>is_email = (\<lambda>e. CHR ''@'' \<in> set e), normalize_email = id, is_mobile_phone = (\<lambda>p. p \<noteq> [])\<rparr>"

definition sample_env :: mail_env where
  "sample_env = \<lparr>env_email_user = ''noreply@dineflow.io'', env_admin_email = ''admin@dineflow.io''\<rparr>"

definition sample_contact :: contact_body where
  "sample_contact =
     \<lparr>cb_name = Some ''Ann'', cb_email = Some ''ann@x.io'', cb_subject = Some ''Late delivery'',
      cb_message = Some (''My order came late.'' @ [newline] @ ''<b>Twice</b>''), cb_phone = None\<rparr>"

theorem contact_sends_both_witness:
  "contact_valid sample_lib sample_contact \<and>
   snd (send_contact sample_lib sample_env (\<lambda>m. True) [] sample_contact) = Inr () \<and>
   length (fst (send_contact sample_lib sample_env (\<lambda>m. True) [] sample_contact)) = 2"
proof -
  have v: "contact_valid sample_lib sample_contact"
    by (simp add: contact_valid_def sample_lib_def sample_contact_def trimmed_len_ok_def field_text_def
                  js_trim_def js_space_def newline_def)
  show ?thesis using contact_sends_both [OF v, of "\<lambda>m. True" sample_env "[]"] v by simp
qed

theorem contact_partial_failure_witness:
  "contact_valid sample_lib sample_contact \<and>
   snd (send_contact sample_lib sample_env (\<lambda>m. ml_to m = ''admin@dineflow.io'') [] sample_contact) = Inl Server_Error \<and>
   length (fst (send_contact sample_lib sample_env (\<lambda>m. ml_to m = ''admin@dineflow.io'')
                  (fst (send_contact sample_lib sample_env (\<lambda>m. ml_to m = ''admin@dineflow.io'') [] sample_contact))
                  sample_contact)) = 2"
proof -
  have v: "contact_valid sample_lib sample_contact"
    by (simp add: contact_valid_def sample_lib_def sample_contact_def trimmed_len_ok_def field_text_def
                  js_trim_def js_space_def newline_def)
  have a: "(\<lambda>m. ml_to m = ''admin@dineflow.io'')
             (admin_mail sample_env (sanitize sample_lib sample_contact) (br_lines (cf_message (sanitize sample_lib sample_contact))))"
    by (simp add: admin_mail_def sample_env_def)
  have c: "\<not> (\<lambda>m. ml_to m = ''admin@dineflow.io'')
             (confirmation_mail sample_env (sanitize sample_lib sample_contact) (br_lines (cf_message (sanitize sample_lib sample_contact))))"
    by (simp add: confirmation_mail_def sanitize_def sample_lib_def sample_contact_def field_text_def)
  note p = contact_partial_failure [OF v a c, of "[]"]
  have e1: "send_contact sample_lib sample_env (\<lambda>m. ml_to m = ''admin@dineflow.io'') [] sample_contact =
              ([admin_mail sample_env (sanitize sample_lib sample_contact) (br_lines (cf_message (sanitize sample_lib sample_contact)))],
               Inl Server_Error)"
    using conjunct1 [OF p] by simp
  have e2: "fst (send_contact sample_lib sample_env (\<lambda>m. ml_to m = ''admin@dineflow.io'')
                  (fst (send_contact sample_lib sample_env (\<lambda>m. ml_to m = ''admin@dineflow.io'') [] sample_contact))
                  sample_contact) =
              [admin_mail sample_env (sanitize sample_lib sample_contact) (br_lines (cf_message (sanitize sample_lib sample_contact))),
               admin_mail sample_env (sanitize sample_lib sample_contact) (br_lines (cf_message (sanitize sample_lib sample_contact)))]"
    using conjunct2 [OF p] by simp
  show ?thesis using v e2 by (simp add: e1)
qed

end
