(* ===== verification/Ui_Components.thy ===== *)
theory Ui_Components
  imports Api_Client
begin

text \<open>
  The React components whose handlers carry logic: the restaurant registration wizard
  (\<open>pages/RegisterRestaurantPage.tsx\<close>), the sign-in and sign-up dialog
  (\<open>components/auth-modal.tsx\<close>), the header that opens it
  (\<open>components/header.tsx\<close>), the filter sidebar (\<open>components/filter-sidebar.tsx\<close>)
  and the restaurant grid (\<open>components/restaurant-grid.tsx\<close>). A component's local state
  (\<open>useState\<close>) is a record, a user interaction is an event, and a handler returns the new
  state with the thunk calls it dispatches. An event is possible only when the element it
  acts on is rendered. The markup and the styling are not modelled.
\<close>

subsection \<open>The registration wizard (RegisterRestaurantPage.tsx)\<close>

text \<open>\<open>formData\<close> (lines 16--28) as an association list from the field names.\<close>

definition wizard_fields :: "string list" where
  "wizard_fields =
     [''restaurantName'', ''ownerName'', ''email'', ''phone'', ''address'', ''cuisine'', ''description'',
      ''businessLicense'', ''taxId'', ''bankAccount'', ''routingNumber'']"

record wizard =
  wz_step :: nat
  wz_form :: "(string \<times> string) list"

definition wizard_initial :: wizard where
  "wizard_initial = \<lparr>wz_step = 1, wz_form = map (\<lambda>f. (f, [])) wizard_fields\<rparr>"

text \<open>\<open>handleInputChange\<close> (lines 30--32): \<open>{ ...prev, [field]: value }\<close>.\<close>

definition handle_input :: "string \<Rightarrow> string \<Rightarrow> wizard \<Rightarrow> wizard" where
  "handle_input f v w = w\<lparr>wz_form := AList.update f v (wz_form w)\<rparr>"

text \<open>\<open>nextStep\<close> and \<open>prevStep\<close> (lines 34--40).\<close>

definition next_step :: "wizard \<Rightarrow> wizard" where
  "next_step w = (if wz_step w < 3 then w\<lparr>wz_step := wz_step w + 1\<rparr> else w)"

definition prev_step :: "wizard \<Rightarrow> wizard" where
  "prev_step w = (if wz_step w > 1 then w\<lparr>wz_step := wz_step w - 1\<rparr> else w)"

text \<open>The inputs and buttons each step renders (lines 88--287): the restaurant details with
  a button to continue; the business information with back and continue; the payment
  details with back and the submit button.\<close>

definition step_inputs :: "nat \<Rightarrow> string list" where
  "step_inputs n =
     (if n = 1 then [''restaurantName'', ''ownerName'', ''email'', ''phone'', ''address'', ''cuisine'', ''description'']
      else if n = 2 then [''businessLicense'', ''taxId'']
      else if n = 3 then [''bankAccount'', ''routingNumber''] else [])"

datatype wizard_button = Continue | Back | Complete_Registration

definition step_buttons :: "nat \<Rightarrow> wizard_button list" where
  "step_buttons n =
     (if n = 1 then [Continue] else if n = 2 then [Back, Continue]
      else if n = 3 then [Back, Complete_Registration] else [])"

datatype wizard_event = Typed string string | Pressed wizard_button

fun wizard_enabled :: "wizard \<Rightarrow> wizard_event \<Rightarrow> bool" where
  "wizard_enabled w (Typed f v) \<longleftrightarrow> f \<in> set (step_inputs (wz_step w))"
| "wizard_enabled w (Pressed b) \<longleftrightarrow> b \<in> set (step_buttons (wz_step w))"

text \<open>\<open>handleSubmit\<close> (lines 42--46) prevents the browser's submission and logs the form;
  it dispatches nothing.\<close>

fun wizard_handle :: "wizard \<Rightarrow> wizard_event \<Rightarrow> wizard \<times> restaurant_call list" where
  "wizard_handle w (Typed f v) = (handle_input f v w, [])"
| "wizard_handle w (Pressed Continue) = (next_step w, [])"
| "wizard_handle w (Pressed Back) = (prev_step w, [])"
| "wizard_handle w (Pressed Complete_Registration) = (w, [])"

inductive wizard_reach :: "wizard \<Rightarrow> bool" where
  wizard_start: "wizard_reach wizard_initial"
| wizard_next: "wizard_reach w \<Longrightarrow> wizard_enabled w e \<Longrightarrow> wizard_reach (fst (wizard_handle w e))"

text \<open>A sequence of interactions, each on an element that is rendered at its time.\<close>

fun wizard_run :: "wizard \<Rightarrow> wizard_event list \<Rightarrow> wizard option" where
  "wizard_run w [] = Some w"
| "wizard_run w (e # es) = (if wizard_enabled w e then wizard_run (fst (wizard_handle w e)) es else None)"

definition wizard_ok :: "wizard \<Rightarrow> bool" where
  "wizard_ok w \<longleftrightarrow> 1 \<le> wz_step w \<and> wz_step w \<le> 3 \<and> map fst (wz_form w) = wizard_fields"

subsection \<open>The sign-in and sign-up dialog (auth-modal.tsx)\<close>

datatype modal_mode = Sign_In | Sign_Up

record modal_form =
  mf_email :: string
  mf_password :: string
  mf_name :: string
  mf_phone :: string
  mf_address :: string

definition modal_empty :: modal_form where
  "modal_empty = \<lparr>mf_email = [], mf_password = [], mf_name = [], mf_phone = [], mf_address = []\<rparr>"

text \<open>\<open>handleInputChange\<close> (lines 77--79) on the five fields of \<open>formData\<close>.\<close>

definition modal_input :: "string \<Rightarrow> string \<Rightarrow> modal_form \<Rightarrow> modal_form" where
  "modal_input f v m =
     (if f = ''email'' then m\<lparr>mf_email := v\<rparr> else if f = ''password'' then m\<lparr>mf_password := v\<rparr>
      else if f = ''name'' then m\<lparr>mf_name := v\<rparr> else if f = ''phone'' then m\<lparr>mf_phone := v\<rparr>
      else if f = ''address'' then m\<lparr>mf_address := v\<rparr> else m)"

text \<open>The inputs marked \<open>required\<close> (lines 100--193): the browser submits the form only
  when they are filled: email and password, and for a sign-up also name, phone and
  address.\<close>

definition modal_can_submit :: "modal_mode \<Rightarrow> modal_form \<Rightarrow> bool" where
  "modal_can_submit md m \<longleftrightarrow>
     mf_email m \<noteq> [] \<and> mf_password m \<noteq> [] \<and>
     (md = Sign_Up \<longrightarrow> mf_name m \<noteq> [] \<and> mf_phone m \<noteq> [] \<and> mf_address m \<noteq> [])"

text \<open>\<open>handleSubmit\<close> (lines 54--75): \<open>loginUser({email, password})\<close>, or
  \<open>registerUser({name, email, password, phone, role: "customer"})\<close>; the address typed
  in the dialog is not part of the request.\<close>

definition modal_submit :: "modal_mode \<Rightarrow> modal_form \<Rightarrow> auth_call" where
  "modal_submit md m = (case md of Sign_In \<Rightarrow> Call_Login | Sign_Up \<Rightarrow> Call_Register (Some (mf_phone m)) (Some ''customer''))"

text \<open>The registration body the dialog sends, as the register route reads it; \<open>ok\<close> is
  the outcome of the route's format validators (\<open>isEmail\<close>, \<open>isMobilePhone\<close>).\<close>

definition modal_register_form :: "modal_form \<Rightarrow> bool \<Rightarrow> register_form" where
  "modal_register_form m ok =
     \<lparr>rg_name = mf_name m, rg_email = mf_email m, rg_password = mf_password m, rg_phone = mf_phone m,
      rg_role = Some Customer, rg_fields_ok = ok\<rparr>"

subsection \<open>The header (header.tsx)\<close>

text \<open>The dialog's state (lines 13--14) and the buttons the header renders (lines 80--160):
  logout for a signed-in page, sign-in and sign-up otherwise.\<close>

record header_state =
  hd_modal_open :: bool
  hd_mode :: modal_mode

datatype header_button = Sign_In_Button | Sign_Up_Button | Logout_Button

definition header_buttons :: "bool \<Rightarrow> header_button list" where
  "header_buttons authenticated = (if authenticated then [Logout_Button] else [Sign_In_Button, Sign_Up_Button])"

text \<open>\<open>openSignIn\<close>, \<open>openSignUp\<close> and \<open>handleLogout\<close> (lines 21--34).\<close>

fun header_click :: "header_state \<Rightarrow> header_button \<Rightarrow> header_state \<times> auth_action list" where
  "header_click h Sign_In_Button = (h\<lparr>hd_mode := Sign_In, hd_modal_open := True\<rparr>, [])"
| "header_click h Sign_Up_Button = (h\<lparr>hd_mode := Sign_Up, hd_modal_open := True\<rparr>, [])"
| "header_click h Logout_Button = (h, [Logout])"

subsection \<open>The filter sidebar (filter-sidebar.tsx)\<close>

record sidebar =
  sb_cuisines :: "string list"
  sb_rating :: string
  sb_price :: string

text \<open>\<open>toggleCuisine\<close> (lines 74--78) and \<open>clearFilters\<close> (lines 80--84). The selections stay
  in the component: no handler dispatches \<open>setFilters\<close>, so the restaurant list never sees
  them.\<close>

definition toggle_cuisine :: "string \<Rightarrow> sidebar \<Rightarrow> sidebar" where
  "toggle_cuisine c s =
     s\<lparr>sb_cuisines := (if c \<in> set (sb_cuisines s) then filter (\<lambda>x. x \<noteq> c) (sb_cuisines s) else sb_cuisines s @ [c])\<rparr>"

definition clear_sidebar :: "sidebar \<Rightarrow> sidebar" where
  "clear_sidebar s = \<lparr>sb_cuisines = [], sb_rating = [], sb_price = []\<rparr>"

text \<open>The summary of active filters is shown when a filter is selected (line 176).\<close>

definition sidebar_active :: "sidebar \<Rightarrow> bool" where
  "sidebar_active s \<longleftrightarrow> sb_cuisines s \<noteq> [] \<or> sb_rating s \<noteq> [] \<or> sb_price s \<noteq> []"

subsection \<open>The restaurant grid (restaurant-grid.tsx)\<close>

text \<open>The first load and "Try Again" fetch page 1 (lines 19--21, 64); \<open>handleLoadMore\<close>
  (lines 34--44) asks for the next page with the stored filters while the page is below
  the page count. The filters are spread into the query; axios sends every defined value.\<close>

definition grid_first_page :: restaurant_call where
  "grid_first_page = Call_Fetch_Restaurants [(''page'', ''1''), (''limit'', ''12'')]"

text \<open>\<open>handleSortChange\<close> (lines 23--32) fetches page 1 again, with \<open>rating: 4.0\<close>
  (sent as \<open>4\<close>) when sorting by rating; the chosen sort is not sent.\<close>

definition grid_sort_change :: "string \<Rightarrow> restaurant_call" where
  "grid_sort_change sort_by =
     Call_Fetch_Restaurants ([(''page'', ''1''), (''limit'', ''12'')] @ (if sort_by = ''rating'' then [(''rating'', ''4'')] else []))"

definition filter_params :: "restaurant_filters \<Rightarrow> (string \<times> string) list" where
  "filter_params f =
     [(''cuisine'', rf_cuisine f), (''rating'', digits10 (nat (rf_rating f))),
      (''priceRange'', rf_price_range f), (''search'', rf_search f)]"

definition grid_load_more :: "restaurant_state \<Rightarrow> restaurant_call option" where
  "grid_load_more s =
     (if lp_page (rs_pagination s) < lp_total_pages (rs_pagination s)
      then Some (Call_Fetch_Restaurants
                  ([(''page'', digits10 (nat (lp_page (rs_pagination s) + 1))), (''limit'', ''12'')] @
                   filter_params (rs_filters s)))
      else None)"

subsection \<open>The wizard stays on its three steps and always reaches its submit button\<close>

lemma step_inputs_fields: "f \<in> set (step_inputs n) \<Longrightarrow> f \<in> set wizard_fields"
  by (auto simp: step_inputs_def wizard_fields_def split: if_splits)

lemma wizard_handle_ok: "wizard_ok w \<Longrightarrow> wizard_enabled w e \<Longrightarrow> wizard_ok (fst (wizard_handle w e))"
proof (cases e)
  case (Typed f v)
  assume ok: "wizard_ok w" and en: "wizard_enabled w e"
  then have "f \<in> set (map fst (wz_form w))" using Typed step_inputs_fields by (simp add: wizard_ok_def)
  then have "map_of (wz_form w) f \<noteq> None" by (simp add: map_of_eq_None_iff)
  then show ?thesis using ok Typed by (simp add: wizard_ok_def handle_input_def map_fst_update_present)
next
  case (Pressed b)
  assume "wizard_ok w" and "wizard_enabled w e"
  then show ?thesis using Pressed
    by (cases b) (auto simp: wizard_ok_def next_step_def prev_step_def step_buttons_def split: if_splits)
qed

lemma wizard_reach_ok: "wizard_reach w \<Longrightarrow> wizard_ok w"
proof (induction rule: wizard_reach.induct)
  case wizard_start
  show ?case by (simp add: wizard_ok_def wizard_initial_def comp_def)
next
  case (wizard_next w e)
  show ?case by (rule wizard_handle_ok [OF wizard_next.IH wizard_next.hyps(2)])
qed

lemma wizard_run_reach: "wizard_reach w \<Longrightarrow> wizard_run w es = Some w' \<Longrightarrow> wizard_reach w'"
  by (induction es arbitrary: w) (auto intro: wizard_reach.wizard_next split: if_splits)

text \<open>C24. From every reachable state, at most two presses of the continue button lead to the
  last step, where the submit button is rendered; pressing it changes nothing and
  dispatches nothing, so the registration never reaches the backend.\<close>

theorem wizard_submit_reachable:
  assumes "wizard_reach w"
  shows "\<exists>w'. wizard_run w (replicate (3 - wz_step w) (Pressed Continue)) = Some w' \<and>
              wizard_reach w' \<and> wz_form w' = wz_form w \<and>
              wizard_enabled w' (Pressed Complete_Registration) \<and>
              wizard_handle w' (Pressed Complete_Registration) = (w', [])"
proof -
  from wizard_reach_ok [OF assms] have s: "1 \<le> wz_step w" "wz_step w \<le> 3" by (auto simp: wizard_ok_def)
  then consider "wz_step w = 1" | "wz_step w = 2" | "wz_step w = 3" by linarith
  then have "\<exists>w'. wizard_run w (replicate (3 - wz_step w) (Pressed Continue)) = Some w' \<and>
               wz_form w' = wz_form w \<and> wz_step w' = 3"
    by cases (simp_all add: numeral_eq_Suc step_buttons_def next_step_def)
  then obtain w' where r: "wizard_run w (replicate (3 - wz_step w) (Pressed Continue)) = Some w'"
    and f: "wz_form w' = wz_form w" and st: "wz_step w' = 3" by blast
  have "wizard_reach w'" by (rule wizard_run_reach [OF assms r])
  with r f st show ?thesis by (simp add: step_buttons_def)
qed

subsection \<open>The dialog's sign-up reaches the register route\<close>

lemma modal_signup_routed:
  "modal_can_submit Sign_Up m \<Longrightarrow>
     api_outcome (auth_thunk_request (modal_submit Sign_Up m)) = Routed auth_register_route"
  by (simp add: modal_submit_def request_defs route_for_def route_table)

text \<open>An account created from the dialog is a customer with the name, e-mail and phone
  typed there; the address typed in the dialog is stored nowhere.\<close>

lemma modal_signup_account:
  assumes "snd (register_user d (modal_register_form m ok)) = Inr (uid, u)"
  shows "user_role u = Customer \<and> user_email u = mf_email m \<and> user_phone u = mf_phone m \<and>
         user_name u = js_trim (mf_name m)"
  using assms
  by (auto simp: register_user_def modal_register_form_def save_user_def new_user_def Let_def
           split: if_splits option.splits prod.splits)

text \<open>The header offers the dialog only to a signed-out page, so a login is dispatched
  only from a signed-out page.\<close>

lemma header_sign_in_signed_out: "b \<in> set (header_buttons a) \<Longrightarrow> b \<noteq> Logout_Button \<Longrightarrow> \<not> a"
  by (auto simp: header_buttons_def split: if_splits)

subsection \<open>The sidebar's selections\<close>

lemma toggle_cuisine_twice:
  assumes "c \<notin> set (sb_cuisines s)"
  shows "toggle_cuisine c (toggle_cuisine c s) = s"
proof -
  have "filter (\<lambda>x. x \<noteq> c) (sb_cuisines s) = sb_cuisines s" using assms by (simp add: filter_id_conv) blast
  then show ?thesis using assms by (simp add: toggle_cuisine_def)
qed

lemma clear_sidebar_inactive: "\<not> sidebar_active (clear_sidebar s)"
  by (simp add: sidebar_active_def clear_sidebar_def)

subsection \<open>Loading more restaurants replaces the shown ones\<close>

text \<open>"Load more" asks for the next page only below the page count, and the reducer then
  replaces the list by the next page's restaurants: the restaurants shown before are no
  longer in the grid unless the next page repeats them.\<close>

lemma grid_load_more_replaces:
  assumes "grid_load_more s = Some c"
  shows "lp_page (rs_pagination s) < lp_total_pages (rs_pagination s) \<and>
         rs_restaurants (restaurant_reducer s (Restaurants_Fulfilled (Some p))) = patched (rp_restaurants p) []"
  using assms by (simp add: grid_load_more_def fetch_restaurants_fulfilled_def split: if_splits)

theorem wizard_submit_reachable_witness:
  "wizard_run wizard_initial [Pressed Continue, Pressed Continue] =
     Some (wizard_initial\<lparr>wz_step := 3\<rparr>) \<and>
   wizard_handle (wizard_initial\<lparr>wz_step := 3\<rparr>) (Pressed Complete_Registration) =
     (wizard_initial\<lparr>wz_step := 3\<rparr>, [])"
proof -
  from wizard_submit_reachable [OF wizard_reach.wizard_start]
  obtain w' where r: "wizard_run wizard_initial (replicate (3 - wz_step wizard_initial) (Pressed Continue)) = Some w'"
    and f: "wz_form w' = wz_form wizard_initial"
    and h: "wizard_handle w' (Pressed Complete_Registration) = (w', [])" by blast
  have s: "wz_step wizard_initial = 1" by (simp add: wizard_initial_def)
  have "w' = wizard_initial\<lparr>wz_step := 3\<rparr>"
    using r by (simp add: s numeral_eq_Suc wizard_initial_def step_buttons_def next_step_def)
  with r h show ?thesis by (simp add: s numeral_eq_Suc)
qed

end
