(* ===== verification/Services.thy ===== *)
theory Services
  imports Api_Client
begin

text \<open>
  The request functions of \<open>frontend/src/services/*Service.ts\<close>. No component or slice
  imports them (the slices call the axios instance directly), but they are the client's
  second description of the API. Each service call is the request it sends, built as in
  \<open>Api_Client\<close>; the lemmas compare them with the slices' requests and with the backend's
  routes.
\<close>

subsection \<open>adminService.ts (lines 15--113)\<close>

datatype admin_svc =
    Svc_Get_Stats
  | Svc_Get_Pending
  | Svc_Approve string
  | Svc_Reject string
  | Svc_Suspend string
  | Svc_Get_Recent
  | Svc_Get_All_Orders "(string \<times> string) list"
  | Svc_Get_Users "(string \<times> string) list"
  | Svc_User_Status string
  | Svc_Delete_User string
  | Svc_Send_Notification
  | Svc_Export string string

fun admin_service_request :: "admin_svc \<Rightarrow> request" where
  "admin_service_request Svc_Get_Stats = http_req GET [''admin'', ''stats''] []"
| "admin_service_request Svc_Get_Pending = http_req GET [''admin'', ''restaurants'', ''pending''] []"
| "admin_service_request (Svc_Approve i) = http_req PUT [''admin'', ''restaurants'', i, ''approve''] []"
| "admin_service_request (Svc_Reject i) = http_req PUT [''admin'', ''restaurants'', i, ''reject''] [[''reason'']]"
| "admin_service_request (Svc_Suspend i) = http_req PUT [''admin'', ''restaurants'', i, ''suspend''] [[''reason'']]"
| "admin_service_request Svc_Get_Recent = http_req GET [''admin'', ''orders'', ''recent''] []"
| "admin_service_request (Svc_Get_All_Orders ps) = with_params ps (http_req GET [''admin'', ''orders''] [])"
| "admin_service_request (Svc_Get_Users ps) = with_params ps (http_req GET [''admin'', ''users''] [])"
| "admin_service_request (Svc_User_Status i) = http_req PUT [''admin'', ''users'', i, ''status''] [[''status'']]"
| "admin_service_request (Svc_Delete_User i) = http_req DELETE [''admin'', ''users'', i] []"
| "admin_service_request Svc_Send_Notification =
     http_req POST [''admin'', ''notifications''] [[''type''], [''recipients''], [''subject''], [''message'']]"
| "admin_service_request (Svc_Export t fmt) = with_params [(''format'', fmt)] (http_req GET [''admin'', ''export'', t] [])"

subsection \<open>orderService.ts (lines 4--51)\<close>

datatype order_svc =
    Svc_Create_Order "string option"
  | Svc_Get_Orders "(string \<times> string) list"
  | Svc_Get_Order string
  | Svc_Update_Order_Status string
  | Svc_Cancel_Order string
  | Svc_Track_Order string

fun order_service_request :: "order_svc \<Rightarrow> request" where
  "order_service_request (Svc_Create_Order si) =
     http_req POST [''orders''] ([[''restaurantId''], [''items''], [''deliveryAddress'']] @ opt_field ''specialInstructions'' si)"
| "order_service_request (Svc_Get_Orders ps) = with_params ps (http_req GET [''orders''] [])"
| "order_service_request (Svc_Get_Order i) = http_req GET [''orders'', i] []"
| "order_service_request (Svc_Update_Order_Status i) = http_req PUT [''orders'', i, ''status''] [[''status'']]"
| "order_service_request (Svc_Cancel_Order i) = http_req PUT [''orders'', i, ''cancel''] []"
| "order_service_request (Svc_Track_Order i) = http_req GET [''orders'', i, ''track''] []"

subsection \<open>restaurantService.ts (lines 4--83)\<close>

datatype restaurant_svc =
    Svc_Get_Restaurants "(string \<times> string) list"
  | Svc_Get_Restaurant string
  | Svc_Register_Restaurant
  | Svc_Update_Restaurant string "json_path list"
  | Svc_Get_Menu_Items string
  | Svc_Get_Menu_Categories string
  | Svc_Create_Menu_Item "string list option" "string list option"
  | Svc_Update_Menu_Item string "json_path list"
  | Svc_Delete_Menu_Item string

fun restaurant_service_request :: "restaurant_svc \<Rightarrow> request" where
  "restaurant_service_request (Svc_Get_Restaurants ps) = with_params ps (http_req GET [''restaurants''] [])"
| "restaurant_service_request (Svc_Get_Restaurant i) = http_req GET [''restaurants'', i] []"
| "restaurant_service_request Svc_Register_Restaurant =
     http_req POST [''restaurants'', ''register'']
       [[''name''], [''description''], [''cuisine''], [''address''], [''phone''], [''email''], [''image''],
        [''businessLicense''], [''taxId''], [''bankAccount'']]"
| "restaurant_service_request (Svc_Update_Restaurant i fs) = http_req PUT [''restaurants'', i] fs"
| "restaurant_service_request (Svc_Get_Menu_Items rid) = http_req GET [''menu'', ''restaurant'', rid] []"
| "restaurant_service_request (Svc_Get_Menu_Categories rid) = http_req GET [''menu'', ''restaurant'', rid, ''categories''] []"
| "restaurant_service_request (Svc_Create_Menu_Item ing alg) =
     http_req POST [''menu'']
       ([[''restaurant''], [''name''], [''description''], [''price''], [''category''], [''image'']] @
        opt_field ''ingredients'' ing @ opt_field ''allergens'' alg)"
| "restaurant_service_request (Svc_Update_Menu_Item i fs) = http_req PUT [''menu'', i] fs"
| "restaurant_service_request (Svc_Delete_Menu_Item i) = http_req DELETE [''menu'', i] []"

subsection \<open>cartService.ts (lines 4--40)\<close>

datatype cart_svc =
    Svc_Get_Cart
  | Svc_Add_To_Cart string int "string option"
  | Svc_Update_Cart_Item string int
  | Svc_Remove_From_Cart string
  | Svc_Clear_Cart
  | Svc_Sync_Cart

fun cart_service_request :: "cart_svc \<Rightarrow> request" where
  "cart_service_request Svc_Get_Cart = http_req GET [''cart''] []"
| "cart_service_request (Svc_Add_To_Cart mid q si) =
     http_req POST [''cart'', ''add''] ([[''menuItemId''], [''quantity'']] @ opt_field ''specialInstructions'' si)"
| "cart_service_request (Svc_Update_Cart_Item mid q) = http_req PUT [''cart'', ''update'', mid] [[''quantity'']]"
| "cart_service_request (Svc_Remove_From_Cart mid) = http_req DELETE [''cart'', ''remove'', mid] []"
| "cart_service_request Svc_Clear_Cart = http_req DELETE [''cart'', ''clear''] []"
| "cart_service_request Svc_Sync_Cart = http_req POST [''cart'', ''sync''] [[''items'']]"

subsection \<open>authService.ts (lines 4--47)\<close>

datatype auth_svc =
    Svc_Login
  | Svc_Register "string option" "string option"
  | Svc_Get_Profile
  | Svc_Update_Profile "string option" "string option" "string option"
  | Svc_Change_Password

fun auth_service_request :: "auth_svc \<Rightarrow> request" where
  "auth_service_request Svc_Login = http_req POST [''auth'', ''login''] [[''email''], [''password'']]"
| "auth_service_request (Svc_Register ph rl) =
     http_req POST [''auth'', ''register'']
       ([[''name''], [''email''], [''password'']] @ opt_field ''phone'' ph @ opt_field ''role'' rl)"
| "auth_service_request Svc_Get_Profile = http_req GET [''auth'', ''profile''] []"
| "auth_service_request (Svc_Update_Profile n ph a) =
     http_req PUT [''auth'', ''profile''] (opt_field ''name'' n @ opt_field ''phone'' ph @ opt_field ''address'' a)"
| "auth_service_request Svc_Change_Password =
     http_req PUT [''auth'', ''change-password''] [[''currentPassword''], [''newPassword'']]"

text \<open>\<open>authService.logout\<close> (lines 43--46) only empties \<open>localStorage\<close>.\<close>

definition auth_service_logout :: "auth_local \<Rightarrow> auth_local" where
  "auth_service_logout l = \<lparr>al_token = None, al_user = None\<rparr>"

subsection \<open>contactService.ts (lines 11--50)\<close>

datatype contact_svc =
    Svc_Submit_Contact
  | Svc_Get_Messages "(string \<times> string) list"
  | Svc_Mark_Read string
  | Svc_Reply string

fun contact_service_request :: "contact_svc \<Rightarrow> request" where
  "contact_service_request Svc_Submit_Contact =
     http_req POST [''contact''] [[''name''], [''email''], [''subject''], [''message'']]"
| "contact_service_request (Svc_Get_Messages ps) = with_params ps (http_req GET [''admin'', ''contact''] [])"
| "contact_service_request (Svc_Mark_Read i) = http_req PUT [''admin'', ''contact'', i, ''read''] []"
| "contact_service_request (Svc_Reply i) = http_req POST [''admin'', ''contact'', i, ''reply''] [[''reply'']]"

subsection \<open>The services send what the slices send\<close>

text \<open>Every service call that has a thunk counterpart sends the same request, so the
  routing results of \<open>Api_Client\<close> hold for the services as well.\<close>

lemma services_agree_with_slices:
  "admin_service_request Svc_Get_Stats = admin_thunk_request Call_Admin_Stats \<and>
   admin_service_request Svc_Get_Pending = admin_thunk_request Call_Pending_Restaurants \<and>
   admin_service_request (Svc_Approve i) = admin_thunk_request (Call_Approve_Restaurant i) \<and>
   admin_service_request (Svc_Reject i) = admin_thunk_request (Call_Reject_Restaurant i) \<and>
   admin_service_request (Svc_Suspend i) = admin_thunk_request (Call_Suspend_Restaurant i) \<and>
   admin_service_request Svc_Get_Recent = admin_thunk_request Call_Recent_Orders \<and>
   admin_service_request (Svc_Get_All_Orders ps) = admin_thunk_request (Call_All_Orders ps) \<and>
   admin_service_request (Svc_Get_Users ps) = admin_thunk_request (Call_Users ps) \<and>
   admin_service_request (Svc_User_Status i) = admin_thunk_request (Call_Update_User_Status i) \<and>
   admin_service_request (Svc_Delete_User i) = admin_thunk_request (Call_Delete_User i) \<and>
   order_service_request (Svc_Create_Order si) = order_thunk_request (Call_Create_Order si) \<and>
   order_service_request (Svc_Get_Orders ps) = order_thunk_request (Call_Fetch_Orders ps) \<and>
   order_service_request (Svc_Get_Order i) = order_thunk_request (Call_Fetch_Order_By_Id i) \<and>
   order_service_request (Svc_Update_Order_Status i) = order_thunk_request (Call_Update_Order_Status i st) \<and>
   order_service_request (Svc_Cancel_Order i) = order_thunk_request (Call_Cancel_Order i) \<and>
   restaurant_service_request (Svc_Get_Restaurants ps) = restaurant_thunk_request (Call_Fetch_Restaurants ps) \<and>
   restaurant_service_request (Svc_Get_Restaurant i) = restaurant_thunk_request (Call_Fetch_Restaurant_By_Id i) \<and>
   restaurant_service_request Svc_Register_Restaurant = restaurant_thunk_request Call_Register_Restaurant \<and>
   restaurant_service_request (Svc_Update_Restaurant i fs) = restaurant_thunk_request (Call_Update_Restaurant i fs) \<and>
   restaurant_service_request (Svc_Get_Menu_Items i) = menu_thunk_request (Call_Fetch_Menu_Items i) \<and>
   restaurant_service_request (Svc_Get_Menu_Categories i) = menu_thunk_request (Call_Fetch_Menu_Categories i) \<and>
   restaurant_service_request (Svc_Create_Menu_Item ing alg) = menu_thunk_request (Call_Create_Menu_Item ing alg) \<and>
   restaurant_service_request (Svc_Update_Menu_Item i fs) = menu_thunk_request (Call_Update_Menu_Item i fs) \<and>
   restaurant_service_request (Svc_Delete_Menu_Item i) = menu_thunk_request (Call_Delete_Menu_Item i) \<and>
   cart_service_request Svc_Get_Cart = cart_thunk_request Call_Fetch_Cart \<and>
   cart_service_request (Svc_Add_To_Cart mid q si) = cart_thunk_request (Call_Add_To_Cart mid q si) \<and>
   cart_service_request (Svc_Remove_From_Cart mid) = cart_thunk_request (Call_Remove_From_Cart mid) \<and>
   cart_service_request Svc_Clear_Cart = cart_thunk_request Call_Clear_Cart \<and>
   cart_service_request Svc_Sync_Cart = cart_thunk_request Call_Sync_Cart \<and>
   auth_service_request Svc_Login = auth_thunk_request Call_Login \<and>
   auth_service_request (Svc_Register ph rl) = auth_thunk_request (Call_Register ph rl) \<and>
   auth_service_request (Svc_Update_Profile n ph a) = auth_thunk_request (Call_Update_Profile n ph a) \<and>
   auth_service_request Svc_Change_Password = auth_thunk_request Call_Change_Password"
  by simp

text \<open>The calls the services have beyond the slices: updating a cart line and the
  contact form reach their routes; the profile read, order tracking, notifications, the
  data export and the three contact-message calls have no route. (An order id is an
  object id, never the word \<open>restaurant\<close>, which would make \<open>/orders/restaurant/track\<close>
  a restaurant's order list.)\<close>

lemma services_only_outcomes:
  assumes "i \<noteq> []" and "i \<noteq> ''restaurant''"
  shows "api_outcome (cart_service_request (Svc_Update_Cart_Item i q)) = Routed cart_update_route \<and>
         api_outcome (contact_service_request Svc_Submit_Contact) = Routed contact_route \<and>
         api_outcome (auth_service_request Svc_Get_Profile) = No_Route \<and>
         api_outcome (order_service_request (Svc_Track_Order i)) = No_Route \<and>
         api_outcome (admin_service_request Svc_Send_Notification) = No_Route \<and>
         api_outcome (admin_service_request (Svc_Export t fmt)) = No_Route \<and>
         api_outcome (contact_service_request (Svc_Get_Messages ps)) = No_Route \<and>
         api_outcome (contact_service_request (Svc_Mark_Read j)) = No_Route \<and>
         api_outcome (contact_service_request (Svc_Reply j)) = No_Route"
  using assms by (simp add: request_defs route_for_def route_table)

end
