(* ===== verification/Validation.thy ===== *)
theory Validation
  imports Contact Users
begin

text \<open>
  The shared validator chains of \<open>backend/middleware/validation.js\<close> and
  \<open>backend/utils/validation.js\<close>. No route uses them: every route declares its own chain
  (modelled with its handler), so these chains are compared with the routes' chains. A
  body is a lookup from field names to texts; a chain is the list of its checks, each with
  the message of its \<open>withMessage\<close>; without \<open>bail()\<close> every failing check of a chain
  reports its message. The checks express-validator takes from the validator library
  are the parameters of \<open>validator_lib\<close> (\<open>Contact\<close>) and \<open>number_lib\<close>.
\<close>

type_synonym body = "string \<Rightarrow> string option"

record number_lib =
  parse_int :: "string \<Rightarrow> int option"
  is_float_min :: "string \<Rightarrow> bool"

text \<open>The text of a field as the checks read it (absent: empty) and after \<open>.trim()\<close>.\<close>

definition field :: "body \<Rightarrow> string \<Rightarrow> string" where
  "field b f = field_text (b f)"

definition trimmed_length_between :: "nat \<Rightarrow> nat \<Rightarrow> body \<Rightarrow> string \<Rightarrow> bool" where
  "trimmed_length_between lo hi b f = (let n = length (js_trim (field b f)) in lo \<le> n \<and> n \<le> hi)"

definition optional_check :: "(string \<Rightarrow> bool) \<Rightarrow> body \<Rightarrow> string \<Rightarrow> bool" where
  "optional_check p b f = (case b f of None \<Rightarrow> True | Some v \<Rightarrow> p v)"

definition int_at_least :: "number_lib \<Rightarrow> int \<Rightarrow> string \<Rightarrow> bool" where
  "int_at_least nl lo s = (case parse_int nl s of None \<Rightarrow> False | Some n \<Rightarrow> lo \<le> n)"

definition int_between :: "number_lib \<Rightarrow> int \<Rightarrow> int \<Rightarrow> string \<Rightarrow> bool" where
  "int_between nl lo hi s = (case parse_int nl s of None \<Rightarrow> False | Some n \<Rightarrow> lo \<le> n \<and> n \<le> hi)"

text \<open>\<open>/^(?=.*[a-z])(?=.*[A-Z])(?=.*\d)/\<close>: a lower-case letter, an upper-case letter and a
  digit somewhere in the text.\<close>

definition in_range :: "char \<Rightarrow> char \<Rightarrow> char \<Rightarrow> bool" where
  "in_range lo hi c \<longleftrightarrow> of_char lo \<le> (of_char c :: nat) \<and> of_char c \<le> (of_char hi :: nat)"

definition password_pattern :: "string \<Rightarrow> bool" where
  "password_pattern p \<longleftrightarrow>
     (\<exists>c\<in>set p. in_range CHR ''a'' CHR ''z'' c) \<and> (\<exists>c\<in>set p. in_range CHR ''A'' CHR ''Z'' c) \<and>
     (\<exists>c\<in>set p. in_range CHR ''0'' CHR ''9'' c)"

subsection \<open>handleValidationErrors (lines 4--11)\<close>

text \<open>The messages of the failing checks joined by \<open>". "\<close> become an \<open>AppError\<close> with status
  400; without a failure the request goes on.\<close>

definition handle_validation_errors :: "(bool \<times> string) list \<Rightarrow> string option" where
  "handle_validation_errors checks =
     (let msgs = map snd (filter (\<lambda>(ok, m). \<not> ok) checks)
      in if msgs = [] then None else Some (foldr (\<lambda>m acc. if acc = [] then m else m @ ''. '' @ acc) msgs []))"

subsection \<open>The chains of middleware/validation.js\<close>

definition validate_user_registration :: "validator_lib \<Rightarrow> body \<Rightarrow> (bool \<times> string) list" where
  "validate_user_registration lib b =
     [(trimmed_length_between 2 50 b ''name'', ''Name must be between 2 and 50 characters''),
      (is_email lib (field b ''email''), ''Please provide a valid email''),
      (6 \<le> length (field b ''password''), ''Password must be at least 6 characters long''),
      (password_pattern (field b ''password''),
       ''Password must contain at least one uppercase letter, one lowercase letter, and one number''),
      (optional_check (is_mobile_phone lib) b ''phone'', ''Please provide a valid phone number'')]"

definition validate_user_login :: "validator_lib \<Rightarrow> body \<Rightarrow> (bool \<times> string) list" where
  "validate_user_login lib b =
     [(is_email lib (field b ''email''), ''Please provide a valid email''),
      (field b ''password'' \<noteq> [], ''Password is required'')]"

definition validate_menu_item :: "number_lib \<Rightarrow> body \<Rightarrow> (bool \<times> string) list" where
  "validate_menu_item nl b =
     [(trimmed_length_between 2 100 b ''name'', ''Item name must be between 2 and 100 characters''),
      (trimmed_length_between 10 300 b ''description'', ''Description must be between 10 and 300 characters''),
      (is_float_min nl (field b ''price''), ''Price must be a positive number''),
      (js_trim (field b ''category'') \<noteq> [], ''Category is required''),
      (int_between nl 1 120 (field b ''preparationTime''), ''Preparation time must be between 1 and 120 minutes'')]"

definition validate_contact_form :: "validator_lib \<Rightarrow> body \<Rightarrow> (bool \<times> string) list" where
  "validate_contact_form lib b =
     [(trimmed_length_between 2 50 b ''name'', ''Name must be between 2 and 50 characters''),
      (is_email lib (field b ''email''), ''Please provide a valid email''),
      (trimmed_length_between 5 100 b ''subject'', ''Subject must be between 5 and 100 characters''),
      (trimmed_length_between 10 1000 b ''message'', ''Message must be between 10 and 1000 characters'')]"

definition validate_pagination :: "number_lib \<Rightarrow> body \<Rightarrow> (bool \<times> string) list" where
  "validate_pagination nl q =
     [(optional_check (int_at_least nl 1) q ''page'', ''Page must be a positive integer''),
      (optional_check (int_between nl 1 100) q ''limit'', ''Limit must be between 1 and 100'')]"

definition validate_object_id :: "(string \<Rightarrow> bool) \<Rightarrow> body \<Rightarrow> (bool \<times> string) list" where
  "validate_object_id is_mongo_id p = [(is_mongo_id (field p ''id''), ''Invalid ID format'')]"

subsection \<open>The chains of utils/validation.js\<close>

definition user_validation_register :: "validator_lib \<Rightarrow> body \<Rightarrow> (bool \<times> string) list" where
  "user_validation_register lib b =
     [(trimmed_length_between 2 50 b ''name'', ''Name must be between 2 and 50 characters''),
      (is_email lib (field b ''email''), ''Please enter a valid email''),
      (6 \<le> length (field b ''password''), ''Password must be at least 6 characters''),
      (is_mobile_phone lib (field b ''phone''), ''Please enter a valid phone number''),
      (optional_check (\<lambda>r. r \<in> set [''customer'', ''restaurant'']) b ''role'', ''Invalid role'')]"

definition user_validation_login :: "validator_lib \<Rightarrow> body \<Rightarrow> (bool \<times> string) list" where
  "user_validation_login lib b =
     [(is_email lib (field b ''email''), ''Please enter a valid email''),
      (b ''password'' \<noteq> None, ''Password is required'')]"

definition user_validation_update_profile :: "validator_lib \<Rightarrow> body \<Rightarrow> (bool \<times> string) list" where
  "user_validation_update_profile lib b =
     [(optional_check (\<lambda>n. let k = length (js_trim n) in 2 \<le> k \<and> k \<le> 50) b ''name'',
       ''Name must be between 2 and 50 characters''),
      (optional_check (is_mobile_phone lib) b ''phone'', ''Please enter a valid phone number'')]"

definition user_validation_change_password :: "body \<Rightarrow> (bool \<times> string) list" where
  "user_validation_change_password b =
     [(b ''currentPassword'' \<noteq> None, ''Current password is required''),
      (6 \<le> length (field b ''newPassword''), ''New password must be at least 6 characters'')]"

subsection \<open>handleValidationErrors passes exactly the bodies every check accepts\<close>

lemma handle_validation_errors_None:
  "handle_validation_errors cs = None \<longleftrightarrow> (\<forall>c\<in>set cs. fst c)"
  by (force simp: handle_validation_errors_def Let_def filter_empty_conv)

subsection \<open>The shared chains and the routes' chains disagree\<close>

text \<open>The contact route accepts names up to 100 and subjects up to 200 characters, the
  shared contact chain 50 and 100; the registration route asks a password of 6
  characters, the shared chain also a lower-case letter, an upper-case letter and a
  digit.\<close>

lemma contact_chains_differ:
  assumes "is_email lib ''ann@x.io''"
  defines "b \<equiv> (\<lambda>f. if f = ''name'' then Some (replicate 60 (CHR ''a'')) else if f = ''email'' then Some ''ann@x.io''
                      else if f = ''subject'' then Some ''Late delivery'' else if f = ''message'' then Some ''My order came late.''
                      else None)"
  shows "contact_valid lib \<lparr>cb_name = b ''name'', cb_email = b ''email'', cb_subject = b ''subject'',
                            cb_message = b ''message'', cb_phone = b ''phone''\<rparr> \<and>
         handle_validation_errors (validate_contact_form lib b) = Some ''Name must be between 2 and 50 characters''"
  using assms
  by (simp add: contact_valid_def trimmed_len_ok_def field_text_def handle_validation_errors_def
                validate_contact_form_def trimmed_length_between_def field_def js_trim_def js_space_def)

lemma registration_chains_differ:
  "register_valid \<lparr>rg_name = ''Ann'', rg_email = ''ann@x.io'', rg_password = ''secret'', rg_phone = ''5550100'',
                   rg_role = None, rg_fields_ok = True\<rparr> \<and>
   \<not> password_pattern ''secret''"
  by (simp add: register_valid_def password_pattern_def in_range_def js_trim_def js_space_def)

end
