(* ===== verification/Admin_Script.thy ===== *)
theory Admin_Script
  imports Users
begin

text \<open>
  The set-up script \<open>backend/scripts/createAdmin.js\<close>: it connects to the database,
  stops when a user with \<open>ADMIN_EMAIL\<close> exists, and otherwise saves an active admin with
  \<open>ADMIN_PASSWORD\<close> through the User document's save (validators, hashing hook, unique
  email). The environment variables are texts; the outcome is the process exit code.
  It is the only code that creates an admin: registration never does
  (\<open>Users.register_never_admin\<close>).
\<close>

text \<open>The document of lines 20--28; the plain password is assigned and hashed by the
  pre-save hook. \<open>isVerified\<close> is not a field of the model.\<close>

definition admin_user :: "string \<Rightarrow> string \<Rightarrow> user" where
  "admin_user email pw =
     \<lparr>user_name = ''Admin'', user_email = email, user_password = Bcrypt pw, user_phone = ''+1234567890'',
      user_role = Admin, user_active = True, user_last_login = None\<rparr>"

text \<open>\<open>createAdmin\<close> (lines 6--40): a failed connection or save goes to the \<open>catch\<close>
  and exits with 1; an existing admin email exits with 0 and writes nothing.\<close>

definition create_admin :: "db \<Rightarrow> bool \<Rightarrow> string \<Rightarrow> string \<Rightarrow> db \<times> nat" where
  "create_admin d is_connected email pw =
     (if \<not> is_connected then (d, 1)
      else if find_by_email (users d) email \<noteq> None then (d, 0)
      else let (uid, d1) = fresh_oid d
           in case save_user d1 uid (admin_user email pw) (Some pw) of
                None \<Rightarrow> (d, 1)
              | Some (u', d') \<Rightarrow> (d', 0))"

lemma create_admin_ok:
  assumes "users_ok d"
  shows "users_ok (fst (create_admin d c e p))"
proof -
  have k: "next_oid d < next_oid (d\<lparr>next_oid := Suc (next_oid d)\<rparr>)" by simp
  have ok1: "users_ok (d\<lparr>next_oid := Suc (next_oid d)\<rparr>)"
    using users_ok_next [OF assms] by simp
  show ?thesis
    using users_ok_save [OF ok1 _ k]
    by (auto simp: create_admin_def fresh_oid_def assms split: option.splits)
qed

text \<open>When no user has the email and the password has 6 characters, the script stores
  an active admin under a fresh id and exits with 0, and logging in with the same
  email and password then succeeds as that admin.\<close>

lemma create_admin_effect:
  assumes "find_by_email (users d) e = None" and "e \<noteq> []" and "6 \<le> length p"
  shows "create_admin d True e p =
           (d\<lparr>next_oid := Suc (next_oid d), users := AList.update (next_oid d) (admin_user e p) (users d)\<rparr>, 0)"
proof -
  have "\<not> list_ex (\<lambda>(k, v). k \<noteq> next_oid d \<and> user_email v = e) (users d)"
    using assms(1) by (auto simp: find_by_email_def list_ex_iff find_None_iff)
  then show ?thesis
    using assms by (simp add: create_admin_def fresh_oid_def save_user_def user_valid_def admin_user_def Let_def)
qed

lemma create_admin_then_login:
  assumes ok: "users_ok d" and n: "find_by_email (users d) e = None" and e: "e \<noteq> []" and p: "6 \<le> length p"
  shows "\<exists>d''. login (fst (create_admin d True e p)) now e (Some p) True =
                 (d'', Inr (next_oid d, (admin_user e p)\<lparr>user_last_login := Some now\<rparr>)) \<and>
               snd (create_admin d True e p) = 0"
proof -
  let ?d = "fst (create_admin d True e p)"
  have c: "create_admin d True e p =
             (d\<lparr>next_oid := Suc (next_oid d), users := AList.update (next_oid d) (admin_user e p) (users d)\<rparr>, 0)"
    by (rule create_admin_effect [OF n e p])
  have ok': "users_ok ?d" using create_admin_ok [OF ok, of True e p] .
  have m: "(next_oid d, admin_user e p) \<in> set (users ?d)"
    by (rule map_of_SomeD) (simp add: c update_conv')
  have "compare_password p (user_password (admin_user e p))" "user_active (admin_user e p)"
    by (simp_all add: admin_user_def)
  from login_stored [OF ok' m this(2) this(1), of now] show ?thesis
    by (simp add: c admin_user_def)
qed

end
