(* ===== verification/Email_Templates.thy ===== *)
theory Email_Templates
  imports Contact
begin

text \<open>
  The mail bodies of \<open>backend/utils/emailTemplates.js\<close>: template literals over the
  restaurant's name, the admin's message or reason, and an order's number, restaurant,
  delivery estimate and total (given as the texts \<open>String(..)\<close> makes of them). A
  template literal is its lines, each followed by a newline, after the newline that
  opens it. Characters are the bytes of the UTF-8 encoding the mail carries. No route
  calls these templates.
\<close>

definition html_lines :: "string list \<Rightarrow> string" where
  "html_lines ls = newline # concat (map (\<lambda>l. l @ [newline]) ls)"

definition party_popper :: string where
  "party_popper = map char_of [240, 159, 142, 137 :: nat]"

definition apostrophe :: char where
  "apostrophe = CHR 0x27"

definition approval_email_template :: "string \<Rightarrow> string \<Rightarrow> string" where
  "approval_email_template restaurant_name message = html_lines
     [''  <div style=\"font-family: Arial, sans-serif; max-width: 600px; margin: 0 auto;\">'',
      ''    <h2 style=\"color: #10b981;\">'' @ party_popper @ '' Restaurant Application Approved!</h2>'',
      ''    <p>Congratulations! Your restaurant <strong>'' @ restaurant_name @
        ''</strong> has been approved and is now live on our platform.</p>'',
      ''    '' @ (if message \<noteq> [] then ''<p><strong>Message from admin:</strong> '' @ message @ ''</p>'' else []),
      ''    <p>You can now:</p>'',
      ''    <ul>'',
      ''      <li>Add and manage your menu items</li>'',
      ''      <li>Receive and process orders</li>'',
      ''      <li>Update your restaurant information</li>'',
      ''      <li>View analytics and reports</li>'',
      ''    </ul>'',
      ''    <p>Welcome to our food delivery platform!</p>'',
      ''    <p>Best regards,<br>Food Delivery Team</p>'',
      ''  </div>'']"

definition rejection_email_template :: "string \<Rightarrow> string \<Rightarrow> string" where
  "rejection_email_template restaurant_name reason = html_lines
     [''  <div style=\"font-family: Arial, sans-serif; max-width: 600px; margin: 0 auto;\">'',
      ''    <h2 style=\"color: #ef4444;\">Restaurant Application Status</h2>'',
      ''    <p>Thank you for your interest in joining our platform. Unfortunately, we cannot approve your restaurant <strong>'' @
        restaurant_name @ ''</strong> at this time.</p>'',
      ''    <p><strong>Reason:</strong> '' @ reason @ ''</p>'',
      ''    <p>If you believe this is an error or would like to reapply after addressing the concerns, please contact our support team.</p>'',
      ''    <p>Best regards,<br>Food Delivery Team</p>'',
      ''  </div>'']"

definition order_confirmation_template :: "string \<Rightarrow> string \<Rightarrow> string \<Rightarrow> string \<Rightarrow> string" where
  "order_confirmation_template onum restaurant_name estimated tot = html_lines
     [''  <div style=\"font-family: Arial, sans-serif; max-width: 600px; margin: 0 auto;\">'',
      ''    <h2 style=\"color: #10b981;\">Order Confirmed!</h2>'',
      ''    <p>Your order <strong>#'' @ onum @ ''</strong> has been confirmed.</p>'',
      ''    <p><strong>Restaurant:</strong> '' @ restaurant_name @ ''</p>'',
      ''    <p><strong>Estimated Delivery:</strong> '' @ estimated @ ''</p>'',
      ''    <p><strong>Total:</strong> $'' @ tot @ ''</p>'',
      ''    <p>We'' @ [apostrophe] @ ''ll keep you updated on your order status.</p>'',
      ''    <p>Thank you for choosing our platform!</p>'',
      ''  </div>'']"

end
