(* ===== verification/Restaurant_Listing.thy ===== *)
theory Restaurant_Listing
  imports Menu_Queries Order_Queries Ui_Components
begin

text \<open>
  The public restaurant listing \<open>GET /api/restaurants\<close> (\<open>routes/restaurants.js\<close>,
  lines 12--116): the query validators, the filter on approved active restaurants with
  the optional cuisine, rating and text-search conditions, the geographic condition,
  the four sort orders and the pagination. The stored document's fields the rest of
  the model does not keep (the \<open>cuisine\<close> array, \<open>estimatedDeliveryTime\<close>) and
  MongoDB's \<open>$text\<close> match on the text index (lines 140--141 of
  \<open>models/Restaurant.js\<close>) are the parameters of \<open>listing_lib\<close>; \<open>parseInt\<close> and
  \<open>parseFloat\<close> with the \<open>isInt\<close>/\<open>isFloat\<close> checks are those of \<open>query_lib\<close>.
  MongoDB does not fix the order of documents with equal sort keys; the model keeps
  insertion order (creation order) among them.
\<close>

record query_lib =
  ql_int :: "string \<Rightarrow> int option"
  ql_float :: "string \<Rightarrow> rat option"

record listing_lib =
  ll_cuisine :: "oid \<Rightarrow> string list"
  ll_delivery_time :: "oid \<Rightarrow> string"
  ll_text_match :: "string \<Rightarrow> oid \<Rightarrow> bool"

text \<open>The query string: every parameter is an optional text.\<close>

record restaurant_query =
  rlq_page :: "string option"
  rlq_limit :: "string option"
  rlq_cuisine :: "string option"
  rlq_rating :: "string option"
  rlq_search :: "string option"
  rlq_lat :: "string option"
  rlq_lng :: "string option"
  rlq_radius :: "string option"
  rlq_sort_by :: "string option"
  rlq_sort_order :: "string option"

subsection \<open>The validators (lines 14--23)\<close>

definition opt_valid :: "(string \<Rightarrow> bool) \<Rightarrow> string option \<Rightarrow> bool" where
  "opt_valid p v = (case v of None \<Rightarrow> True | Some s \<Rightarrow> p s)"

definition int_in :: "query_lib \<Rightarrow> int \<Rightarrow> int option \<Rightarrow> string \<Rightarrow> bool" where
  "int_in ql lo hi s =
     (case ql_int ql s of None \<Rightarrow> False | Some n \<Rightarrow> lo \<le> n \<and> (case hi of None \<Rightarrow> True | Some h \<Rightarrow> n \<le> h))"

definition float_in :: "query_lib \<Rightarrow> rat option \<Rightarrow> rat option \<Rightarrow> string \<Rightarrow> bool" where
  "float_in ql lo hi s =
     (case ql_float ql s of None \<Rightarrow> False
      | Some x \<Rightarrow> (case lo of None \<Rightarrow> True | Some l \<Rightarrow> l \<le> x) \<and> (case hi of None \<Rightarrow> True | Some h \<Rightarrow> x \<le> h))"

definition listing_query_ok :: "query_lib \<Rightarrow> restaurant_query \<Rightarrow> bool" where
  "listing_query_ok ql q \<longleftrightarrow>
     opt_valid (int_in ql 1 None) (rlq_page q) \<and> opt_valid (int_in ql 1 (Some 50)) (rlq_limit q) \<and>
     opt_valid (float_in ql (Some 0) (Some 5)) (rlq_rating q) \<and>
     opt_valid (float_in ql None None) (rlq_lat q) \<and> opt_valid (float_in ql None None) (rlq_lng q) \<and>
     opt_valid (float_in ql (Some 0) None) (rlq_radius q)"

subsection \<open>The filter (lines 49--77)\<close>

text \<open>A query parameter is truthy when it is present and not empty.\<close>

definition truthy :: "string option \<Rightarrow> bool" where
  "truthy v \<longleftrightarrow> v \<noteq> None \<and> v \<noteq> Some []"

text \<open>\<open>{ status: "approved", isActive: true }\<close>, then \<open>cuisine: { $in: [cuisine] }\<close>,
  \<open>"rating.average": { $gte: parseFloat(rating) }\<close> (the average is kept in tenths)
  and \<open>$text: { $search: search }\<close>, each only for a truthy parameter.\<close>

definition listing_filter :: "query_lib \<Rightarrow> listing_lib \<Rightarrow> restaurant_query \<Rightarrow> oid \<Rightarrow> restaurant \<Rightarrow> bool" where
  "listing_filter ql ll q k r \<longleftrightarrow>
     rest_status r = R_Approved \<and> rest_active r \<and>
     (truthy (rlq_cuisine q) \<longrightarrow> the (rlq_cuisine q) \<in> set (ll_cuisine ll k)) \<and>
     (truthy (rlq_rating q) \<longrightarrow>
        (case ql_float ql (the (rlq_rating q)) of None \<Rightarrow> False
         | Some x \<Rightarrow> x \<le> of_int (rating_average r) / 10)) \<and>
     (truthy (rlq_search q) \<longrightarrow> ll_text_match ll (the (rlq_search q)) k)"

subsection \<open>The sort (lines 79--89)\<close>

text \<open>\<open>sortBy\<close> defaults to \<open>"rating.average"\<close>, which is none of the three names the
  handler tests, so the default order is \<open>createdAt: -1\<close>, newest first. An order is
  ascending only for \<open>sortOrder = "asc"\<close>.\<close>

definition order_by :: "string option \<Rightarrow> ('k \<Rightarrow> 'v::linorder) \<Rightarrow> 'k list \<Rightarrow> 'k list" where
  "order_by so f xs = (if so = Some ''asc'' then sort_key f xs else rev (sort_key f (rev xs)))"

definition listing_sort ::
    "listing_lib \<Rightarrow> restaurant_query \<Rightarrow> (oid \<times> restaurant) list \<Rightarrow> (oid \<times> restaurant) list" where
  "listing_sort ll q xs =
     (let sb = (case rlq_sort_by q of None \<Rightarrow> ''rating.average'' | Some s \<Rightarrow> s)
      in if sb = ''rating'' then order_by (rlq_sort_order q) (\<lambda>(k, r). rating_average r) xs
         else if sb = ''name'' then order_by (rlq_sort_order q) (\<lambda>(k, r). rest_name r) xs
         else if sb = ''deliveryTime'' then order_by (rlq_sort_order q) (\<lambda>(k, r). ll_delivery_time ll k) xs
         else rev xs)"

subsection \<open>The handler (lines 24--116)\<close>

text \<open>A failed validator answers 400. With both \<open>lat\<close> and \<open>lng\<close> the query holds a
  \<open>$near\<close> condition; \<open>find\<close> accepts it, but \<open>countDocuments\<close> runs the query as an
  aggregation \<open>$match\<close>, where MongoDB refuses \<open>$near\<close>, so the handler's
  \<open>catch\<close> answers 500. Otherwise the page of the sorted filtered restaurants is
  returned with \<open>Math.ceil(total / limit)\<close> pages.\<close>

definition listing_page :: "query_lib \<Rightarrow> restaurant_query \<Rightarrow> int" where
  "listing_page ql q = (case rlq_page q of None \<Rightarrow> 1 | Some s \<Rightarrow> the (ql_int ql s))"

definition listing_limit :: "query_lib \<Rightarrow> restaurant_query \<Rightarrow> int" where
  "listing_limit ql q = (case rlq_limit q of None \<Rightarrow> 12 | Some s \<Rightarrow> the (ql_int ql s))"

definition list_restaurants ::
    "query_lib \<Rightarrow> listing_lib \<Rightarrow> db \<Rightarrow> restaurant_query \<Rightarrow> (oid \<times> restaurant) page response" where
  "list_restaurants ql ll d q =
     (if \<not> listing_query_ok ql q then Inl Validation_Failed
      else if truthy (rlq_lat q) \<and> truthy (rlq_lng q) then Inl Server_Error
      else paginate (listing_page ql q) (listing_limit ql q)
             (listing_sort ll q (filter (\<lambda>(k, r). listing_filter ql ll q k r) (restaurants d))))"

subsection \<open>GET /api/menu/categories/list (menu.js lines 246--259)\<close>

text \<open>\<open>MenuItem.distinct("category")\<close> over every stored item, then the array's
  \<open>sort()\<close>, which orders texts by code unit: the lexicographic order on characters.\<close>

definition list_categories :: "db \<Rightarrow> string list response" where
  "list_categories d = Inr (sort (remdups (map (\<lambda>(k, m). mi_category m) (menu_items d))))"

subsection \<open>The client's requests\<close>

text \<open>Express parses the query string of a client request into \<open>req.query\<close>; the
  client's parameters have distinct names, so each is looked up by name. \<open>priceRange\<close>,
  which the client's filters carry, is not a parameter of the route.\<close>

definition query_of :: "(string \<times> string) list \<Rightarrow> restaurant_query" where
  "query_of ps =
     \<lparr>rlq_page = map_of ps ''page'', rlq_limit = map_of ps ''limit'', rlq_cuisine = map_of ps ''cuisine'',
      rlq_rating = map_of ps ''rating'', rlq_search = map_of ps ''search'', rlq_lat = map_of ps ''lat'',
      rlq_lng = map_of ps ''lng'', rlq_radius = map_of ps ''radius'', rlq_sort_by = map_of ps ''sortBy'',
      rlq_sort_order = map_of ps ''sortOrder''\<rparr>"

text \<open>A query sorted by rating, descending by default, on the sample data.\<close>

definition sample_query_lib :: query_lib where
  "sample_query_lib = \<lparr>ql_int = (\<lambda>s. None), ql_float = (\<lambda>s. None)\<rparr>"

definition sample_listing_lib :: listing_lib where
  "sample_listing_lib = \<lparr>ll_cuisine = (\<lambda>k. []), ll_delivery_time = (\<lambda>k. []), ll_text_match = (\<lambda>s k. False)\<rparr>"

definition sample_listing_query :: restaurant_query where
  "sample_listing_query =
     \<lparr>rlq_page = None, rlq_limit = None, rlq_cuisine = None, rlq_rating = None, rlq_search = None,
      rlq_lat = None, rlq_lng = None, rlq_radius = None, rlq_sort_by = Some ''rating'', rlq_sort_order = None\<rparr>"

subsection \<open>What the listing returns\<close>

lemma listing_sort_perm: "set (listing_sort ll q xs) = set xs \<and> length (listing_sort ll q xs) = length xs"
  by (simp add: listing_sort_def order_by_def Let_def)

lemma listing_args:
  assumes "listing_query_ok ql q"
  shows "1 \<le> listing_page ql q \<and> 1 \<le> listing_limit ql q \<and> listing_limit ql q \<le> 50"
  using assms
  by (auto simp: listing_query_ok_def listing_page_def listing_limit_def opt_valid_def int_in_def
           split: option.splits)

lemma paginate_pos:
  assumes "1 \<le> p" and "1 \<le> l"
  shows "paginate p l ys = Inr \<lparr>pg_items = take (nat l) (drop (nat ((p - 1) * l)) ys), pg_current = p,
                                pg_pages = page_count (int (length ys)) l, pg_total = int (length ys), pg_limit = l\<rparr>"
  using assms by (simp add: paginate_def mongo_window_pos)

lemma sublist_sorted_wrt: "sublist xs ys \<Longrightarrow> sorted_wrt P ys \<Longrightarrow> sorted_wrt P xs"
  by (auto simp: sublist_def sorted_wrt_append)

lemma sublist_map_of: "sublist xs ys \<Longrightarrow> sublist (map f xs) (map f ys)"
  unfolding sublist_def by (metis map_append)

lemma sublist_window: "sublist (take n (drop m ys)) ys"
proof -
  have "ys = take m ys @ take n (drop m ys) @ drop n (drop m ys)"
    by (metis append_take_drop_id)
  then show ?thesis unfolding sublist_def by blast
qed

lemma sorted_rating_asc:
  "sorted (map f (sort_key f xs))"
  by (rule sorted_sort_key)

lemma sorted_rating_desc:
  "sorted_wrt (\<ge>) (map f (rev (sort_key f (rev xs))))"
  by (simp add: rev_map [symmetric] sorted_wrt_rev)

lemma list_restaurants_Inr:
  fixes ll :: listing_lib and d :: db
  assumes "listing_query_ok ql q" and "\<not> (truthy (rlq_lat q) \<and> truthy (rlq_lng q))"
  defines "ys \<equiv> listing_sort ll q (filter (\<lambda>(k, r). listing_filter ql ll q k r) (restaurants d))"
  shows "list_restaurants ql ll d q =
           Inr \<lparr>pg_items = take (nat (listing_limit ql q)) (drop (nat ((listing_page ql q - 1) * listing_limit ql q)) ys),
                pg_current = listing_page ql q, pg_pages = page_count (int (length ys)) (listing_limit ql q),
                pg_total = int (length ys), pg_limit = listing_limit ql q\<rparr>"
  using assms listing_args [OF assms(1)] by (simp add: list_restaurants_def paginate_pos)

text \<open>
  C32. The restaurant listing answers 400 for a query its validators refuse, 500 for
  every query with both \<open>lat\<close> and \<open>lng\<close>, and otherwise a page of at most 50
  restaurants, each stored, approved, active and matching the cuisine, rating and search
  parameters, with the number of all matches as total. Without \<open>sortBy\<close> the page is a
  run of the matches in reverse creation order (newest first, not by rating); with
  \<open>sortBy=rating\<close> it is ordered by rating average, ascending only for
  \<open>sortOrder=asc\<close>.
\<close>

theorem list_restaurants_result:
  "(\<not> listing_query_ok ql q \<longrightarrow> list_restaurants ql ll d q = Inl Validation_Failed) \<and>
   (listing_query_ok ql q \<and> truthy (rlq_lat q) \<and> truthy (rlq_lng q) \<longrightarrow>
      list_restaurants ql ll d q = Inl Server_Error) \<and>
   (listing_query_ok ql q \<and> \<not> (truthy (rlq_lat q) \<and> truthy (rlq_lng q)) \<longrightarrow>
      (\<exists>pg. list_restaurants ql ll d q = Inr pg \<and>
         pg_total pg = int (length (filter (\<lambda>(k, r). listing_filter ql ll q k r) (restaurants d))) \<and>
         set (pg_items pg) \<subseteq> {(k, r). (k, r) \<in> set (restaurants d) \<and> listing_filter ql ll q k r} \<and>
         length (pg_items pg) \<le> 50 \<and>
         (rlq_sort_by q = None \<longrightarrow>
            sublist (pg_items pg) (rev (filter (\<lambda>(k, r). listing_filter ql ll q k r) (restaurants d)))) \<and>
         (rlq_sort_by q = Some ''rating'' \<and> rlq_sort_order q = Some ''asc'' \<longrightarrow>
            sorted (map (\<lambda>(k, r). rating_average r) (pg_items pg))) \<and>
         (rlq_sort_by q = Some ''rating'' \<and> rlq_sort_order q \<noteq> Some ''asc'' \<longrightarrow>
            sorted_wrt (\<ge>) (map (\<lambda>(k, r). rating_average r) (pg_items pg)))))"
proof (intro conjI impI)
  show "\<not> listing_query_ok ql q \<Longrightarrow> list_restaurants ql ll d q = Inl Validation_Failed"
    by (simp add: list_restaurants_def)
  show "listing_query_ok ql q \<and> truthy (rlq_lat q) \<and> truthy (rlq_lng q) \<Longrightarrow>
          list_restaurants ql ll d q = Inl Server_Error"
    by (simp add: list_restaurants_def)
next
  assume a: "listing_query_ok ql q \<and> \<not> (truthy (rlq_lat q) \<and> truthy (rlq_lng q))"
  let ?xs = "filter (\<lambda>(k, r). listing_filter ql ll q k r) (restaurants d)"
  let ?ys = "listing_sort ll q ?xs"
  let ?l = "listing_limit ql q" and ?m = "nat ((listing_page ql q - 1) * listing_limit ql q)"
  let ?w = "take (nat ?l) (drop ?m ?ys)"
  have r: "list_restaurants ql ll d q =
             Inr \<lparr>pg_items = ?w, pg_current = listing_page ql q, pg_pages = page_count (int (length ?ys)) ?l,
                  pg_total = int (length ?ys), pg_limit = ?l\<rparr>"
    using a by (intro list_restaurants_Inr) simp_all
  have args: "1 \<le> listing_page ql q \<and> 1 \<le> ?l \<and> ?l \<le> 50" using a listing_args by blast
  have sub: "sublist ?w ?ys" by (rule sublist_window)
  have items: "set ?w \<subseteq> set ?xs"
  proof -
    have "set ?w \<subseteq> set (drop ?m ?ys)" by (rule set_take_subset)
    also have "\<dots> \<subseteq> set ?ys" by (rule set_drop_subset)
    finally show ?thesis by (simp add: listing_sort_perm)
  qed
  have len: "length ?w \<le> 50"
  proof -
    have "length ?w \<le> nat ?l" by simp
    moreover have "nat ?l \<le> 50" using args by (simp add: nat_le_iff)
    ultimately show ?thesis by linarith
  qed
  have dflt: "rlq_sort_by q = None \<Longrightarrow> ?ys = rev ?xs" by (simp add: listing_sort_def)
  have asc: "rlq_sort_by q = Some ''rating'' \<and> rlq_sort_order q = Some ''asc'' \<Longrightarrow>
               sorted (map (\<lambda>(k, r). rating_average r) ?w)"
    by (rule sublist_sorted_wrt [OF sublist_map_of [OF sub]])
       (simp add: listing_sort_def order_by_def sorted_rating_asc)
  have desc: "rlq_sort_by q = Some ''rating'' \<and> rlq_sort_order q \<noteq> Some ''asc'' \<Longrightarrow>
               sorted_wrt (\<ge>) (map (\<lambda>(k, r). rating_average r) ?w)"
    by (rule sublist_sorted_wrt [OF sublist_map_of [OF sub]])
       (simp add: listing_sort_def order_by_def sorted_rating_desc)
  let ?pg = "\<lparr>pg_items = ?w, pg_current = listing_page ql q, pg_pages = page_count (int (length ?ys)) ?l,
              pg_total = int (length ?ys), pg_limit = ?l\<rparr>"
  have tot: "int (length ?ys) = int (length ?xs)" by (simp add: listing_sort_perm)
  have mem: "set ?w \<subseteq> {(k, r). (k, r) \<in> set (restaurants d) \<and> listing_filter ql ll q k r}"
    using items by auto
  have dflt': "rlq_sort_by q = None \<Longrightarrow> sublist ?w (rev ?xs)" using sub dflt by simp
  show "\<exists>pg. list_restaurants ql ll d q = Inr pg \<and>
         pg_total pg = int (length ?xs) \<and>
         set (pg_items pg) \<subseteq> {(k, r). (k, r) \<in> set (restaurants d) \<and> listing_filter ql ll q k r} \<and>
         length (pg_items pg) \<le> 50 \<and>
         (rlq_sort_by q = None \<longrightarrow> sublist (pg_items pg) (rev ?xs)) \<and>
         (rlq_sort_by q = Some ''rating'' \<and> rlq_sort_order q = Some ''asc'' \<longrightarrow>
            sorted (map (\<lambda>(k, r). rating_average r) (pg_items pg))) \<and>
         (rlq_sort_by q = Some ''rating'' \<and> rlq_sort_order q \<noteq> Some ''asc'' \<longrightarrow>
            sorted_wrt (\<ge>) (map (\<lambda>(k, r). rating_average r) (pg_items pg)))"
  proof (rule exI [of _ ?pg], intro conjI impI)
  qed (simp_all only: page.simps r tot mem len dflt' asc desc simp_thms)
qed


theorem list_restaurants_result_witness:
  "\<exists>pg. list_restaurants sample_query_lib sample_listing_lib sample_db sample_listing_query = Inr pg \<and>
        length (pg_items pg) \<le> 50 \<and> sorted_wrt (\<ge>) (map (\<lambda>(k, r). rating_average r) (pg_items pg))"
proof -
  have ok: "listing_query_ok sample_query_lib sample_listing_query"
    by (simp add: listing_query_ok_def opt_valid_def sample_listing_query_def)
  have ng: "\<not> (truthy (rlq_lat sample_listing_query) \<and> truthy (rlq_lng sample_listing_query))"
    by (simp add: truthy_def sample_listing_query_def)
  have r: "rlq_sort_by sample_listing_query = Some ''rating'' \<and> rlq_sort_order sample_listing_query \<noteq> Some ''asc''"
    by (simp add: sample_listing_query_def)
  from list_restaurants_result [of sample_query_lib sample_listing_query sample_listing_lib sample_db] ok ng r
  show ?thesis by blast
qed

text \<open>The category list is sorted, without repetitions, and holds the category of
  every stored item, also of unavailable items and of items of restaurants that are not
  approved.\<close>

lemma list_categories_result:
  "list_categories d = Inr cs \<Longrightarrow>
     sorted cs \<and> distinct cs \<and> set cs = {mi_category m |k m. (k, m) \<in> set (menu_items d)}"
  by (force simp: list_categories_def image_iff)

text \<open>The grid's first load (\<open>restaurant-grid.tsx\<close>, lines 19--21) shows the twelve
  newest approved active restaurants: the client never sends \<open>sortBy\<close>, and the
  route's default sorts by creation time.\<close>

lemma grid_first_page_newest:
  assumes "grid_first_page = Call_Fetch_Restaurants ps"
    and "ql_int ql ''1'' = Some 1" and "ql_int ql ''12'' = Some 12"
  shows "\<exists>pg. list_restaurants ql ll d (query_of ps) = Inr pg \<and>
           pg_items pg = take 12 (rev (filter (\<lambda>(k, r). rest_status r = R_Approved \<and> rest_active r) (restaurants d)))"
proof -
  have ps: "ps = [(''page'', ''1''), (''limit'', ''12'')]" using assms(1) by (simp add: grid_first_page_def)
  have ok: "listing_query_ok ql (query_of ps)"
    using assms(2,3) by (simp add: ps query_of_def listing_query_ok_def opt_valid_def int_in_def)
  have ng: "\<not> (truthy (rlq_lat (query_of ps)) \<and> truthy (rlq_lng (query_of ps)))"
    by (simp add: ps query_of_def truthy_def)
  have f: "(\<lambda>(k, r). listing_filter ql ll (query_of ps) k r) = (\<lambda>(k, r). rest_status r = R_Approved \<and> rest_active r)"
    by (simp add: ps query_of_def listing_filter_def truthy_def)
  have pl: "listing_page ql (query_of ps) = 1" "listing_limit ql (query_of ps) = 12"
    using assms(2,3) by (simp_all add: ps query_of_def listing_page_def listing_limit_def)
  have so: "listing_sort ll (query_of ps) xs = rev xs" for xs
    by (simp add: ps query_of_def listing_sort_def)
  show ?thesis
    using list_restaurants_Inr [OF ok ng, of ll d] by (simp add: f pl so)
qed

end
