(* ===== verification/Sessions.thy ===== *)
theory Sessions
  imports Users Auth
begin

text \<open>
  The session token: \<open>generateToken\<close> of \<open>routes/auth.js\<close> (lines 12--16) signs the
  claims \<open>{ id: userId }\<close> with \<open>expiresIn: "7d"\<close>, which \<open>jsonwebtoken\<close> turns into
  \<open>iat\<close> (the issue time in whole seconds) and \<open>exp = iat + 604800\<close>. On the way
  back, \<open>jwt.verify\<close> refuses a token whose signature does not check (the decoding
  function \<open>decode\<close>, a parameter, gives no claims) and throws
  \<open>TokenExpiredError\<close> when the current time in whole seconds has reached \<open>exp\<close>.
  \<open>POST /api/auth/logout\<close> (lines 315--320) only answers; the token stays valid.
\<close>

record jwt_claims =
  jc_id :: oid
  jc_iat :: nat
  jc_exp :: nat

definition week_seconds :: nat where
  "week_seconds = 7 * 24 * 60 * 60"

definition generate_token :: "oid \<Rightarrow> ms \<Rightarrow> jwt_claims" where
  "generate_token uid now = \<lparr>jc_id = uid, jc_iat = now div 1000, jc_exp = now div 1000 + week_seconds\<rparr>"

text \<open>The expiry test of \<open>jsonwebtoken\<close>'s \<open>verify\<close>: \<open>clockTimestamp >= exp\<close>.\<close>

definition jwt_verify_claims :: "jwt_claims \<Rightarrow> ms \<Rightarrow> token_result" where
  "jwt_verify_claims c now = (if jc_exp c \<le> now div 1000 then Token_Expired_Error else Token_Ok (jc_id c))"

definition jwt_verifier :: "(string \<Rightarrow> jwt_claims option) \<Rightarrow> ms \<Rightarrow> string \<Rightarrow> token_result" where
  "jwt_verifier decode now t = (case decode t of None \<Rightarrow> Token_Bad | Some c \<Rightarrow> jwt_verify_claims c now)"

definition logout_user :: "db \<Rightarrow> db \<times> unit response" where
  "logout_user d = (d, Inr ())"

subsection \<open>How long a token admits its user\<close>

lemma auth_generated_token:
  assumes "decode t = Some (generate_token uid now)" and "js_trim t = t"
  shows "auth (jwt_verifier decode now') d (Some (bearer @ t)) =
           (if now div 1000 + week_seconds \<le> now' div 1000 then Inl Token_Expired
            else case map_of (users d) uid of None \<Rightarrow> Inl Token_User_Not_Found | Some u \<Rightarrow> Inr (uid, u))"
  using assms
  by (simp add: auth_bearer_token jwt_verifier_def jwt_verify_claims_def generate_token_def)

text \<open>
  C20. A token issued to a stored user at time \<open>now\<close> admits that user, active or
  not, at every time \<open>now'\<close> before the same second of the seventh day after, and is
  refused as expired (401) from then on; logging out changes nothing on the server, so
  the token admits its user after the logout as before.
\<close>

theorem session_token_lifetime:
  assumes "decode t = Some (generate_token uid now)" and "js_trim t = t"
    and "map_of (users d) uid = Some u"
  shows "(now' div 1000 < now div 1000 + week_seconds \<longrightarrow>
            auth (jwt_verifier decode now') d (Some (bearer @ t)) = Inr (uid, u) \<and>
            auth (jwt_verifier decode now') (fst (logout_user d)) (Some (bearer @ t)) = Inr (uid, u)) \<and>
         (now div 1000 + week_seconds \<le> now' div 1000 \<longrightarrow>
            auth (jwt_verifier decode now') d (Some (bearer @ t)) = Inl Token_Expired)"
  using auth_generated_token [of decode t uid now now' d] assms
  by (simp add: logout_user_def)

theorem session_token_lifetime_witness:
  "user_active ((sample_user ''zed'' Customer)\<lparr>user_active := False\<rparr>) = False \<and>
   auth (jwt_verifier (\<lambda>s. if s = ''tok'' then Some (generate_token 5 0) else None) 604799999)
        (fst (logout_user (sample_db\<lparr>users := [(5, (sample_user ''zed'' Customer)\<lparr>user_active := False\<rparr>)]\<rparr>)))
        (Some (bearer @ ''tok''))
     = Inr (5, (sample_user ''zed'' Customer)\<lparr>user_active := False\<rparr>) \<and>
   auth (jwt_verifier (\<lambda>s. if s = ''tok'' then Some (generate_token 5 0) else None) 604800000)
        (sample_db\<lparr>users := [(5, (sample_user ''zed'' Customer)\<lparr>user_active := False\<rparr>)]\<rparr>)
        (Some (bearer @ ''tok''))
     = Inl Token_Expired"
proof -
  let ?d = "sample_db\<lparr>users := [(5, (sample_user ''zed'' Customer)\<lparr>user_active := False\<rparr>)]\<rparr>"
  let ?dec = "\<lambda>s. if s = ''tok'' then Some (generate_token 5 0) else None"
  have dec: "?dec ''tok'' = Some (generate_token 5 0)" by simp
  have tr: "js_trim ''tok'' = ''tok''" by (simp add: js_trim_def js_space_def)
  have u: "map_of (users ?d) 5 = Some ((sample_user ''zed'' Customer)\<lparr>user_active := False\<rparr>)" by simp
  have a: "604799999 div 1000 < 0 div 1000 + week_seconds" by (simp add: week_seconds_def)
  have b: "0 div 1000 + week_seconds \<le> (604800000::nat) div 1000" by (simp add: week_seconds_def)
  from session_token_lifetime [where decode = ?dec and now' = 604799999, OF dec tr u] a
       session_token_lifetime [where decode = ?dec and now' = 604800000, OF dec tr u] b
  show ?thesis by (simp add: sample_user_def)
qed

end
