(* ===== verification/App_Store.thy ===== *)
theory App_Store
  imports AdminSlice
begin

text \<open>
  The Redux store of \<open>frontend/src/store/store.ts\<close>: \<open>configureStore\<close> combines the six
  slices under the keys \<open>auth\<close>, \<open>restaurants\<close>, \<open>menu\<close>, \<open>cart\<close>, \<open>orders\<close> and
  \<open>admin\<close>. The combined reducer hands every action to every slice; the action types
  carry the slice's name as prefix and no slice lists another slice's actions among its
  \<open>extraReducers\<close>, so an action changes its own slice only. The store is created once
  per page load, when each slice reads its initial state, the auth and cart slices from
  \<open>localStorage\<close>.
\<close>

record app_state =
  ap_auth :: auth_store
  ap_restaurants :: restaurant_state
  ap_menu :: menu_state
  ap_cart :: fe_store
  ap_orders :: order_state
  ap_admin :: admin_state

definition app_load :: "auth_local \<Rightarrow> local_cart \<Rightarrow> app_state" where
  "app_load al lc =
     \<lparr>ap_auth = auth_load al, ap_restaurants = restaurant_initial, ap_menu = menu_initial,
      ap_cart = load_store lc, ap_orders = order_initial, ap_admin = admin_initial\<rparr>"

datatype app_action =
    Auth_Action auth_action
  | Restaurant_Action restaurant_action
  | Menu_Action menu_action
  | Cart_Action cart_action
  | Order_Action order_action
  | Admin_Action admin_action

fun app_reducer :: "app_state \<Rightarrow> app_action \<Rightarrow> app_state" where
  "app_reducer s (Auth_Action a) = s\<lparr>ap_auth := auth_reducer (ap_auth s) a\<rparr>"
| "app_reducer s (Restaurant_Action a) = s\<lparr>ap_restaurants := restaurant_reducer (ap_restaurants s) a\<rparr>"
| "app_reducer s (Menu_Action a) = s\<lparr>ap_menu := menu_reducer (ap_menu s) a\<rparr>"
| "app_reducer s (Cart_Action a) = s\<lparr>ap_cart := cart_reducer (ap_cart s) a\<rparr>"
| "app_reducer s (Order_Action a) = s\<lparr>ap_orders := order_reducer (ap_orders s) a\<rparr>"
| "app_reducer s (Admin_Action a) = s\<lparr>ap_admin := admin_reducer (ap_admin s) a\<rparr>"

text \<open>The actions of one slice in a run of the store.\<close>

definition cart_actions :: "app_action list \<Rightarrow> cart_action list" where
  "cart_actions = List.map_filter (\<lambda>a. case a of Cart_Action c \<Rightarrow> Some c | _ \<Rightarrow> None)"

definition auth_actions :: "app_action list \<Rightarrow> auth_action list" where
  "auth_actions = List.map_filter (\<lambda>a. case a of Auth_Action c \<Rightarrow> Some c | _ \<Rightarrow> None)"

subsection \<open>Each slice runs on its own actions\<close>

lemma app_run_cart:
  "ap_cart (foldl app_reducer s as) = foldl cart_reducer (ap_cart s) (cart_actions as)"
  by (induction as arbitrary: s)
     (auto simp: cart_actions_def map_filter_simps split: app_action.split)

lemma app_run_auth:
  "ap_auth (foldl app_reducer s as) = foldl auth_reducer (ap_auth s) (auth_actions as)"
  by (induction as arbitrary: s)
     (auto simp: auth_actions_def map_filter_simps split: app_action.split)

text \<open>The cart invariant of \<open>CartSlice\<close> (totals are the sums, one restaurant, storage
  equal to the entries) holds for the cart of the whole store along every run from an
  empty browser.\<close>

lemma app_run_cart_ok:
  assumes "list_all action_ok (cart_actions as)"
  shows "slice_ok (ap_cart (foldl app_reducer (app_load al None) as))"
  using cart_run_inv [OF slice_ok_fresh assms] by (simp add: app_run_cart app_load_def)

subsection \<open>Signing out leaves the previous user's data in the browser\<close>

text \<open>
  C29. \<open>logout\<close> clears the session and its \<open>localStorage\<close> keys, but the cart, the
  orders and the administration data stay in the store, and the cart's
  \<open>localStorage\<close> key stays too: after a reload the next user of the browser finds the
  previous user's cart entries.
\<close>

theorem logout_keeps_other_slices:
  "let s' = app_reducer s (Auth_Action Logout)
   in \<not> as_authenticated (au_state (ap_auth s')) \<and> au_local (ap_auth s') = \<lparr>al_token = None, al_user = None\<rparr> \<and>
      ap_cart s' = ap_cart s \<and> ap_orders s' = ap_orders s \<and> ap_admin s' = ap_admin s \<and>
      cs_items (fs_cart (ap_cart (app_load (au_local (ap_auth s')) (fs_local (ap_cart s'))))) =
        (case fs_local (ap_cart s) of None \<Rightarrow> [] | Some xs \<Rightarrow> xs)"
  by (simp add: logout_def app_load_def load_store_def initial_state_def)

end
