(* ===== verification/Filter_Sidebar.thy ===== *)
theory Filter_Sidebar
  imports Ui_Components
begin

text \<open>
  The filter sidebar of \<open>frontend/src/components/filter-sidebar.tsx\<close> as a state
  machine: its selections (\<open>sidebar\<close> of \<open>Ui_Components\<close>) and the open state of its
  three collapsible sections (\<open>FilterSection\<close>, lines 10--61; only the cuisine section
  starts open). An input is rendered, and can be used, only while its section is open;
  the badges of the active-filter summary only while a filter is selected. Every
  handler only sets the component's state: none dispatches an action.
\<close>

definition sidebar_cuisines :: "string list" where
  "sidebar_cuisines =
     [''Italian'', ''Chinese'', ''Indian'', ''Mexican'', ''Japanese'',
      ''Thai'', ''American'', ''Mediterranean'', ''French'', ''Korean'']"

definition rating_options :: "string list" where
  "rating_options = [''4.5+'', ''4.0+'', ''3.5+'', ''3.0+'']"

definition price_options :: "string list" where
  "price_options = [''$'', ''$$'', ''$$$'', ''$$$$'']"

datatype filter_section = Cuisine_Section | Rating_Section | Price_Section

record sidebar_ui =
  su_sel :: sidebar
  su_open :: "filter_section \<Rightarrow> bool"

definition sidebar_initial :: sidebar_ui where
  "sidebar_initial =
     \<lparr>su_sel = \<lparr>sb_cuisines = [], sb_rating = [], sb_price = []\<rparr>, su_open = (\<lambda>x. x = Cuisine_Section)\<rparr>"

datatype sidebar_event =
    Toggle_Section filter_section
  | Check_Cuisine string
  | Pick_Rating string
  | Pick_Price string
  | Clear_Button
  | Badge_Cuisine string
  | Badge_Rating
  | Badge_Price

text \<open>The elements rendered in a state (lines 86--248).\<close>

fun sidebar_enabled :: "sidebar_ui \<Rightarrow> sidebar_event \<Rightarrow> bool" where
  "sidebar_enabled u (Toggle_Section x) \<longleftrightarrow> True"
| "sidebar_enabled u (Check_Cuisine c) \<longleftrightarrow> su_open u Cuisine_Section \<and> c \<in> set sidebar_cuisines"
| "sidebar_enabled u (Pick_Rating r) \<longleftrightarrow> su_open u Rating_Section \<and> r \<in> set rating_options"
| "sidebar_enabled u (Pick_Price p) \<longleftrightarrow> su_open u Price_Section \<and> p \<in> set price_options"
| "sidebar_enabled u Clear_Button \<longleftrightarrow> True"
| "sidebar_enabled u (Badge_Cuisine c) \<longleftrightarrow> c \<in> set (sb_cuisines (su_sel u))"
| "sidebar_enabled u Badge_Rating \<longleftrightarrow> sb_rating (su_sel u) \<noteq> []"
| "sidebar_enabled u Badge_Price \<longleftrightarrow> sb_price (su_sel u) \<noteq> []"

text \<open>The handlers: \<open>setIsOpen(!isOpen)\<close> (line 29), \<open>toggleCuisine\<close> from a checkbox
  (line 117) or a badge (line 196), \<open>setSelectedRating(e.target.value)\<close> (line 139),
  \<open>setSelectedPrice(e.target.value)\<close> (line 166), \<open>clearFilters\<close> (line 99) and the
  badges' resets (lines 216, 236). The second component is the list of actions
  dispatched to the store.\<close>

fun sidebar_handle :: "sidebar_ui \<Rightarrow> sidebar_event \<Rightarrow> sidebar_ui \<times> restaurant_action list" where
  "sidebar_handle u (Toggle_Section x) = (u\<lparr>su_open := (su_open u)(x := \<not> su_open u x)\<rparr>, [])"
| "sidebar_handle u (Check_Cuisine c) = (u\<lparr>su_sel := toggle_cuisine c (su_sel u)\<rparr>, [])"
| "sidebar_handle u (Pick_Rating r) = (u\<lparr>su_sel := (su_sel u)\<lparr>sb_rating := r\<rparr>\<rparr>, [])"
| "sidebar_handle u (Pick_Price p) = (u\<lparr>su_sel := (su_sel u)\<lparr>sb_price := p\<rparr>\<rparr>, [])"
| "sidebar_handle u Clear_Button = (u\<lparr>su_sel := clear_sidebar (su_sel u)\<rparr>, [])"
| "sidebar_handle u (Badge_Cuisine c) = (u\<lparr>su_sel := toggle_cuisine c (su_sel u)\<rparr>, [])"
| "sidebar_handle u Badge_Rating = (u\<lparr>su_sel := (su_sel u)\<lparr>sb_rating := []\<rparr>\<rparr>, [])"
| "sidebar_handle u Badge_Price = (u\<lparr>su_sel := (su_sel u)\<lparr>sb_price := []\<rparr>\<rparr>, [])"

inductive sidebar_reach :: "sidebar_ui \<Rightarrow> restaurant_action list \<Rightarrow> bool" where
  sidebar_start: "sidebar_reach sidebar_initial []"
| sidebar_next: "sidebar_reach u acts \<Longrightarrow> sidebar_enabled u e \<Longrightarrow>
                   sidebar_reach (fst (sidebar_handle u e)) (acts @ snd (sidebar_handle u e))"

text \<open>The selections a reachable sidebar can hold: distinct cuisines of the list, and a
  rating and a price that are empty or one of the options.\<close>

definition sidebar_ok :: "sidebar \<Rightarrow> bool" where
  "sidebar_ok s \<longleftrightarrow>
     distinct (sb_cuisines s) \<and> set (sb_cuisines s) \<subseteq> set sidebar_cuisines \<and>
     (sb_rating s = [] \<or> sb_rating s \<in> set rating_options) \<and>
     (sb_price s = [] \<or> sb_price s \<in> set price_options)"

subsection \<open>The sidebar's selections stay well formed and never reach the store\<close>

lemma toggle_cuisine_ok:
  "sidebar_ok s \<Longrightarrow> c \<in> set sidebar_cuisines \<or> c \<in> set (sb_cuisines s) \<Longrightarrow> sidebar_ok (toggle_cuisine c s)"
  by (auto simp: sidebar_ok_def toggle_cuisine_def)

lemma sidebar_handle_ok:
  assumes "sidebar_ok (su_sel u)" and "sidebar_enabled u e"
  shows "sidebar_ok (su_sel (fst (sidebar_handle u e))) \<and> snd (sidebar_handle u e) = []"
proof (cases e)
  case (Check_Cuisine c)
  with assms show ?thesis by (simp add: toggle_cuisine_ok)
next
  case (Badge_Cuisine c)
  with assms show ?thesis by (simp add: toggle_cuisine_ok)
qed (use assms in \<open>auto simp: sidebar_ok_def clear_sidebar_def\<close>)

lemma sidebar_reach_ok:
  "sidebar_reach u acts \<Longrightarrow> sidebar_ok (su_sel u) \<and> acts = []"
proof (induction rule: sidebar_reach.induct)
  case sidebar_start
  show ?case by (simp add: sidebar_initial_def sidebar_ok_def)
next
  case (sidebar_next u acts e)
  then show ?case using sidebar_handle_ok [of u e] by simp
qed

text \<open>Any selection the sidebar offers can be made: from every reachable state, opening
  the rating section if needed and picking a rating selects it, and still nothing is
  dispatched.\<close>

lemma sidebar_pick_rating:
  assumes "sidebar_reach u acts" and "r \<in> set rating_options"
  shows "\<exists>u'. sidebar_reach u' [] \<and> sb_rating (su_sel u') = r"
proof -
  have a: "acts = []" using sidebar_reach_ok [OF assms(1)] by simp
  define u1 where "u1 = (if su_open u Rating_Section then u else fst (sidebar_handle u (Toggle_Section Rating_Section)))"
  have r1: "sidebar_reach u1 []" and o1: "su_open u1 Rating_Section"
    using assms(1) sidebar_reach.sidebar_next [OF assms(1), of "Toggle_Section Rating_Section"]
    by (auto simp: u1_def a)
  have "sidebar_reach (fst (sidebar_handle u1 (Pick_Rating r))) ([] @ snd (sidebar_handle u1 (Pick_Rating r)))"
    using o1 assms(2) by (intro sidebar_reach.sidebar_next [OF r1]) simp
  then show ?thesis by force
qed

end
