(* ===== verification/Navigation.thy ===== *)
theory Navigation
  imports Ui_Components
begin

text \<open>
  The client-side pages: the routes of \<open>frontend/src/App.tsx\<close> (React Router; a
  location is the list of its path segments, matched as the server's routes are, with
  \<open>seg_match\<close>), the components each page renders, the links of the header, footer,
  hero section and restaurant grid, and the restaurant page, which looks the restaurant
  up in the hard-coded list of \<open>components/restaurant-info.tsx\<close> by
  \<open>Number(restaurantId)\<close>. JavaScript's \<open>Number\<close> on a text follows the
  StringNumericLiteral grammar; numbers are exact rationals here (rounding and overflow
  to infinity are not modelled). All paths of the application are lower case, so React
  Router's case-insensitive matching is not needed.
\<close>

subsection \<open>Routes and pages (App.tsx lines 20--28)\<close>

datatype page =
    Home_Page | Menu_Page | About_Page | Contact_Page | Restaurant_Page
  | Register_Restaurant_Page | Admin_Page

definition client_routes :: "(seg list \<times> page) list" where
  "client_routes =
     [([], Home_Page), ([Lit ''menu''], Menu_Page), ([Lit ''about''], About_Page),
      ([Lit ''contact''], Contact_Page), ([Lit ''restaurant'', Param ''id''], Restaurant_Page),
      ([Lit ''register-restaurant''], Register_Restaurant_Page), ([Lit ''admin''], Admin_Page)]"

definition client_page :: "string list \<Rightarrow> page option" where
  "client_page p = map_option snd (find (\<lambda>(ps, pg). seg_match ps p) client_routes)"

datatype ui_component =
    Header_C | Footer_C | Hero_Section_C | Featured_Dishes_C | Features_Section_C
  | Testimonials_Section_C | CTA_Section_C | Filter_Sidebar_C | Restaurant_Menu_C
  | Restaurant_Info_C | Admin_Dashboard_C | Restaurant_Grid_C | Auth_Modal_C

text \<open>The components each page renders (the page files under \<open>pages/\<close>).\<close>

definition home_components :: "ui_component list" where
  "home_components =
     [Header_C, Hero_Section_C, Featured_Dishes_C, Features_Section_C, Testimonials_Section_C,
      CTA_Section_C, Footer_C]"

definition menu_page_components :: "ui_component list" where
  "menu_page_components = [Header_C, Filter_Sidebar_C, Restaurant_Menu_C, Footer_C]"

definition restaurant_page_components :: "ui_component list" where
  "restaurant_page_components = [Header_C, Restaurant_Info_C, Footer_C]"

definition admin_page_components :: "ui_component list" where
  "admin_page_components = [Header_C, Admin_Dashboard_C, Footer_C]"

fun page_components :: "page \<Rightarrow> ui_component list" where
  "page_components Home_Page = home_components"
| "page_components Menu_Page = menu_page_components"
| "page_components About_Page = [Header_C, Footer_C]"
| "page_components Contact_Page = [Header_C, Footer_C]"
| "page_components Restaurant_Page = restaurant_page_components"
| "page_components Register_Restaurant_Page = [Header_C, Footer_C]"
| "page_components Admin_Page = admin_page_components"

text \<open>The header renders the sign-in dialog (header.tsx line 171).\<close>

fun sub_components :: "ui_component \<Rightarrow> ui_component list" where
  "sub_components Header_C = [Auth_Modal_C]"
| "sub_components _ = []"

definition rendered :: "page \<Rightarrow> ui_component set" where
  "rendered pg = set (page_components pg) \<union> (\<Union>c\<in>set (page_components pg). set (sub_components c))"

subsection \<open>Links\<close>

text \<open>The header's logo and navigation (lines 41--73, again in the mobile menu, lines
  120--129), the footer's (lines 32--44), the hero section's button (line 44) and the
  grid's card link \<open>/restaurant/${restaurant._id}\<close> (line 129).\<close>

definition header_links :: "string list list" where
  "header_links = [[], [''menu''], [''about''], [''contact'']]"

definition footer_links :: "string list list" where
  "footer_links = [[''menu''], [''about''], [''contact'']]"

definition hero_links :: "string list list" where
  "hero_links = [[''menu'']]"

definition grid_link :: "string \<Rightarrow> string list" where
  "grid_link rid = [''restaurant'', rid]"

subsection \<open>Number() on a text\<close>

datatype js_num = Num rat | Pos_Inf | Neg_Inf | NaN

definition is_digit :: "char \<Rightarrow> bool" where
  "is_digit c \<longleftrightarrow> 48 \<le> (of_char c :: nat) \<and> (of_char c :: nat) \<le> 57"

definition digits_value :: "string \<Rightarrow> nat" where
  "digits_value ds = foldl (\<lambda>a c. 10 * a + (of_char c - 48)) 0 ds"

text \<open>A digit of \<open>0x\<close>, \<open>0o\<close> and \<open>0b\<close> literals.\<close>

definition radix_digit :: "nat \<Rightarrow> char \<Rightarrow> nat option" where
  "radix_digit r c =
     (let n = (of_char c :: nat)
      in if 48 \<le> n \<and> n \<le> 57 then (if n - 48 < r then Some (n - 48) else None)
         else if r = 16 \<and> 97 \<le> n \<and> n \<le> 102 then Some (n - 87)
         else if r = 16 \<and> 65 \<le> n \<and> n \<le> 70 then Some (n - 55)
         else None)"

fun radix_value :: "nat \<Rightarrow> nat \<Rightarrow> string \<Rightarrow> nat option" where
  "radix_value r a [] = Some a"
| "radix_value r a (c # cs) = (case radix_digit r c of None \<Rightarrow> None | Some v \<Rightarrow> radix_value r (r * a + v) cs)"

definition split_sign :: "string \<Rightarrow> int \<times> string" where
  "split_sign t =
     (if t \<noteq> [] \<and> hd t = CHR ''+'' then (1, tl t)
      else if t \<noteq> [] \<and> hd t = CHR ''-'' then (-1, tl t) else (1, t))"

text \<open>A StrDecimalLiteral: a sign, \<open>Infinity\<close> or digits with an optional fraction
  (at least one digit in all), and an optional exponent.\<close>

definition decimal_value :: "string \<Rightarrow> js_num" where
  "decimal_value t =
     (let (sg, u) = split_sign t;
          d1 = takeWhile is_digit u; r1 = dropWhile is_digit u;
          (d2, r2) = (if r1 \<noteq> [] \<and> hd r1 = CHR ''.''
                      then (takeWhile is_digit (tl r1), dropWhile is_digit (tl r1)) else ([], r1))
      in if u = ''Infinity'' then (if sg = 1 then Pos_Inf else Neg_Inf)
         else if d1 = [] \<and> d2 = [] then NaN
         else let m = of_int sg * of_nat (digits_value (d1 @ d2)) :: rat
              in if r2 = [] then Num (m / 10 ^ length d2)
                 else if hd r2 = CHR ''e'' \<or> hd r2 = CHR ''E'' then
                   (let (es, r3) = split_sign (tl r2)
                    in if r3 \<noteq> [] \<and> list_all is_digit r3 then
                         (let e = es * int (digits_value r3) - int (length d2)
                          in Num (if 0 \<le> e then m * 10 ^ nat e else m / 10 ^ nat (- e)))
                       else NaN)
                 else NaN)"

definition radix_of :: "char \<Rightarrow> nat option" where
  "radix_of c =
     (if c = CHR ''x'' \<or> c = CHR ''X'' then Some 16 else if c = CHR ''o'' \<or> c = CHR ''O'' then Some 8
      else if c = CHR ''b'' \<or> c = CHR ''B'' then Some 2 else None)"

definition js_number :: "string \<Rightarrow> js_num" where
  "js_number s =
     (let t = js_trim s
      in if t = [] then Num 0
         else case (if 2 \<le> length t \<and> hd t = CHR ''0'' then radix_of (t ! 1) else None) of
                Some r \<Rightarrow> (if drop 2 t = [] then NaN
                           else case radix_value r 0 (drop 2 t) of None \<Rightarrow> NaN | Some v \<Rightarrow> Num (of_nat v))
              | None \<Rightarrow> decimal_value t)"

subsection \<open>The restaurant page (restaurant-info.tsx lines 7--123)\<close>

definition static_restaurants :: "(nat \<times> string) list" where
  "static_restaurants =
     [(1, ''Bella Italia''), (2, ''Spice Garden''), (3, ''Tokyo Sushi''), (4, ''Burger Palace''),
      (5, ''Green Bowl''), (6, ''Dragon Palace'')]"

text \<open>\<open>restaurants.find((r) => r.id === Number(restaurantId))\<close>; \<open>Number(undefined)\<close>
  is \<open>NaN\<close>, and \<open>NaN\<close> equals nothing. \<open>None\<close> renders "Restaurant Not Found".\<close>

definition restaurant_info :: "string option \<Rightarrow> (nat \<times> string) option" where
  "restaurant_info rid =
     find (\<lambda>(i, n). (case rid of None \<Rightarrow> NaN | Some s \<Rightarrow> js_number s) = Num (of_nat i)) static_restaurants"

subsection \<open>Number() on texts: digits and object ids\<close>

lemma js_trim_id: "\<forall>x\<in>set s. \<not> js_space x \<Longrightarrow> js_trim s = s"
proof -
  assume a: "\<forall>x\<in>set s. \<not> js_space x"
  have "dropWhile js_space s = s" using a by (cases s) simp_all
  moreover have "dropWhile js_space (rev s) = rev s"
    using a by (cases "s = []") (simp_all add: dropWhile_eq_self_iff hd_rev)
  ultimately show ?thesis by (simp add: js_trim_def)
qed

lemma radix_value_None: "c \<in> set cs \<Longrightarrow> radix_digit r c = None \<Longrightarrow> radix_value r a cs = None"
  by (induction cs arbitrary: a) (auto split: option.splits)

lemma split_sign_plain: "t = [] \<or> (hd t \<noteq> CHR ''+'' \<and> hd t \<noteq> CHR ''-'') \<Longrightarrow> split_sign t = (1, t)"
  by (auto simp: split_sign_def)

lemma decimal_value_bad:
  assumes c: "c \<in> set t" and nd: "\<not> is_digit c" and nc: "c \<notin> set ''.eE''"
    and ns: "\<forall>x\<in>set t. x \<noteq> CHR ''+'' \<and> x \<noteq> CHR ''-''" and ni: "t \<noteq> ''Infinity''"
  shows "decimal_value t = NaN"
proof -
  have sg: "split_sign t = (1, t)" using ns by (intro split_sign_plain) (cases t, simp_all)
  define r1 where "r1 = dropWhile is_digit t"
  have c1: "c \<in> set r1"
    using c nd unfolding r1_def by (metis set_takeWhileD takeWhile_dropWhile_id Un_iff set_append)
  define d2 where "d2 = (if r1 \<noteq> [] \<and> hd r1 = CHR ''.'' then takeWhile is_digit (tl r1) else [])"
  define r2 where "r2 = (if r1 \<noteq> [] \<and> hd r1 = CHR ''.'' then dropWhile is_digit (tl r1) else r1)"
  have p: "(if r1 \<noteq> [] \<and> hd r1 = CHR ''.'' then (takeWhile is_digit (tl r1), dropWhile is_digit (tl r1)) else ([], r1)) = (d2, r2)"
    by (simp add: d2_def r2_def)
  have c2: "c \<in> set r2"
  proof (cases "r1 \<noteq> [] \<and> hd r1 = CHR ''.''")
    case True
    then have "c \<in> set (tl r1)" using c1 nc by (cases r1) auto
    then show ?thesis using True nd unfolding r2_def
      by (metis set_takeWhileD takeWhile_dropWhile_id Un_iff set_append)
  next
    case False
    then show ?thesis using c1 by (auto simp: r2_def)
  qed
  have ne: "r2 \<noteq> []" using c2 by auto
  have ns2: "\<forall>x\<in>set r2. x \<noteq> CHR ''+'' \<and> x \<noteq> CHR ''-''"
  proof -
    have "set r1 \<subseteq> set t" unfolding r1_def by (rule set_dropWhileD [THEN subsetI])
    moreover have "set r2 \<subseteq> set r1"
      unfolding r2_def by (auto dest!: set_dropWhileD list.set_sel(2))
    ultimately show ?thesis using ns by blast
  qed
  have ex1: "hd r2 = CHR ''e'' \<or> hd r2 = CHR ''E'' \<Longrightarrow> c \<in> set (tl r2)"
    using c2 nc ne by (cases r2) auto
  have ex2: "split_sign (tl r2) = (1, tl r2)"
  proof (rule split_sign_plain)
    have "\<forall>x\<in>set (tl r2). x \<noteq> CHR ''+'' \<and> x \<noteq> CHR ''-''" using ns2 ne by (cases r2) auto
    then show "tl r2 = [] \<or> hd (tl r2) \<noteq> CHR ''+'' \<and> hd (tl r2) \<noteq> CHR ''-''" by (cases "tl r2") auto
  qed
  have ex3: "hd r2 = CHR ''e'' \<or> hd r2 = CHR ''E'' \<Longrightarrow> \<not> list_all is_digit (tl r2)"
    using ex1 nd by (auto simp: list_all_iff)
  show ?thesis
    unfolding decimal_value_def
    apply (simp only: sg prod.case Let_def)
    apply (simp only: r1_def [symmetric] p prod.case)
    using ne ni ex2 ex3 by auto
qed

lemma js_number_object_id:
  assumes hex: "set s \<subseteq> set ''0123456789abcdef''" and c: "c \<in> set s" and bad: "c \<in> set ''acdf''"
  shows "js_number s = NaN"
proof -
  have tr: "js_trim s = s"
    by (rule js_trim_id) (use hex in \<open>auto simp: js_space_def\<close>)
  have ne: "s \<noteq> []" using c by auto
  have nd: "\<not> is_digit c" and rd: "radix_digit 2 c = None"
    using bad by (auto simp: is_digit_def radix_digit_def)
  show ?thesis
  proof (cases "if 2 \<le> length s \<and> hd s = CHR ''0'' then radix_of (s ! 1) else None")
    case None
    have "decimal_value s = NaN"
    proof (rule decimal_value_bad [OF c nd])
      show "c \<notin> set ''.eE''" using bad by auto
      show "\<forall>x\<in>set s. x \<noteq> CHR ''+'' \<and> x \<noteq> CHR ''-''" using hex by auto
      show "s \<noteq> ''Infinity''" using hex by auto
    qed
    with None tr ne show ?thesis by (simp add: js_number_def)
  next
    case (Some r)
    then have l: "2 \<le> length s" and h: "hd s = CHR ''0''" and r: "radix_of (s ! 1) = Some r"
      by (auto split: if_splits)
    have "s ! 1 \<in> set s" using l by simp
    then have b: "s ! 1 = CHR ''b''" and r2: "r = 2" using hex r by (auto simp: radix_of_def split: if_splits)
    have s: "s = hd s # s ! 1 # drop 2 s"
      using l by (cases s; cases "tl s") auto
    have cd: "c \<in> set (drop 2 s)"
    proof -
      have "c \<noteq> hd s" "c \<noteq> s ! 1" using bad h b by auto
      then show ?thesis using c s by (metis set_ConsD)
    qed
    have "radix_value 2 0 (drop 2 s) = None" by (rule radix_value_None [OF cd rd])
    with Some tr ne cd r2 show ?thesis by (auto simp: js_number_def)
  qed
qed

lemma js_number_digits:
  assumes "s \<noteq> []" and "list_all is_digit s"
  shows "js_number s = Num (of_nat (digits_value s))"
proof -
  have d: "\<forall>x\<in>set s. is_digit x" using assms(2) by (simp add: list_all_iff)
  have tr: "js_trim s = s"
    by (rule js_trim_id) (use d in \<open>auto simp: js_space_def is_digit_def\<close>)
  have nr: "(if 2 \<le> length s \<and> hd s = CHR ''0'' then radix_of (s ! 1) else None) = None"
  proof -
    have "2 \<le> length s \<Longrightarrow> is_digit (s ! 1)" using d by simp
    then show ?thesis by (auto simp: radix_of_def is_digit_def)
  qed
  have sg: "split_sign s = (1, s)"
    using assms(1) d by (intro split_sign_plain) (cases s, auto simp: is_digit_def)
  have tw: "takeWhile is_digit s = s" and dw: "dropWhile is_digit s = []"
    using d by (simp_all add: takeWhile_eq_all_conv dropWhile_eq_Nil_conv)
  have ni: "s \<noteq> ''Infinity''" using d by (auto simp: is_digit_def)
  show ?thesis
    using assms(1) ni by (simp add: js_number_def tr nr decimal_value_def sg tw dw Let_def)
qed

text \<open>Every link of the header, footer and hero section opens a page, and none opens
  the restaurant registration or the administration page: those are reached only by
  typing their address.\<close>

lemma links_resolve:
  "\<forall>l\<in>set (header_links @ footer_links @ hero_links).
     client_page l \<noteq> None \<and> client_page l \<noteq> Some Register_Restaurant_Page \<and> client_page l \<noteq> Some Admin_Page"
  by (simp add: header_links_def footer_links_def hero_links_def client_page_def client_routes_def)

text \<open>
  C34. The restaurant grid is rendered by no page, and its card links would not help:
  the link of a restaurant leads to the restaurant page, but that page looks the id up
  with \<open>Number(restaurantId)\<close> among six hard-coded restaurants numbered 1 to 6, and a
  MongoDB object id (24 hexadecimal digits, here with one of the letters a, c, d or f)
  is not a number, so the page shows "Restaurant Not Found" for every stored
  restaurant. Only the texts of the numbers 1 to 6 find a restaurant.
\<close>

theorem restaurant_link_not_found:
  assumes "set k \<subseteq> set ''0123456789abcdef''" and "c \<in> set k" and "c \<in> set ''acdf''"
  shows "(\<forall>pg. Restaurant_Grid_C \<notin> rendered pg) \<and>
         client_page (grid_link k) = Some Restaurant_Page \<and> restaurant_info (Some k) = None \<and>
         restaurant_info (Some ''3'') = Some (3, ''Tokyo Sushi'')"
proof (intro conjI allI)
  fix pg
  show "Restaurant_Grid_C \<notin> rendered pg"
    by (cases pg) (simp_all add: rendered_def home_components_def menu_page_components_def
                               restaurant_page_components_def admin_page_components_def)
next
  have "k \<noteq> []" using assms(2) by auto
  then show "client_page (grid_link k) = Some Restaurant_Page"
    by (simp add: client_page_def client_routes_def grid_link_def)
next
  show "restaurant_info (Some k) = None"
    using js_number_object_id [OF assms] by (simp add: restaurant_info_def static_restaurants_def)
next
  have "js_number ''3'' = Num 3"
    using js_number_digits [of "''3''"] by (simp add: is_digit_def digits_value_def)
  then show "restaurant_info (Some ''3'') = Some (3, ''Tokyo Sushi'')"
    by (simp add: restaurant_info_def static_restaurants_def)
qed

theorem restaurant_link_not_found_witness:
  "client_page (grid_link ''64b7f0c2a1e4d3b2a1c0f9e8'') = Some Restaurant_Page \<and>
   restaurant_info (Some ''64b7f0c2a1e4d3b2a1c0f9e8'') = None"
proof -
  have h: "set ''64b7f0c2a1e4d3b2a1c0f9e8'' \<subseteq> set ''0123456789abcdef''" by auto
  have c: "CHR ''a'' \<in> set ''64b7f0c2a1e4d3b2a1c0f9e8''" "CHR ''a'' \<in> set ''acdf''" by simp_all
  from restaurant_link_not_found [OF h c] show ?thesis by blast
qed

end
