(* ===== verification/Account_Views.thy ===== *)
theory Account_Views
  imports Sessions
begin

text \<open>
  What the account routes send back. Registration and login (\<open>routes/auth.js\<close>, lines
  67--80 and 147--162) answer a hand-built user object and the token of
  \<open>generateToken\<close>; \<open>GET /me\<close> (lines 179--186) answers the document, which
  \<open>toJSON\<close> of \<open>models/User.js\<close> (lines 94--98) serialises without its password. Of the
  login object the fields \<open>address\<close>, \<open>avatar\<close> and \<open>preferences\<close> are not part of
  the model's user.
\<close>

record session_user =
  sv_id :: oid
  sv_name :: string
  sv_email :: string
  sv_phone :: string
  sv_role :: role

definition session_view :: "oid \<Rightarrow> user \<Rightarrow> session_user" where
  "session_view uid u =
     \<lparr>sv_id = uid, sv_name = user_name u, sv_email = user_email u, sv_phone = user_phone u, sv_role = user_role u\<rparr>"

record user_json =
  uj_name :: string
  uj_email :: string
  uj_phone :: string
  uj_role :: role
  uj_active :: bool
  uj_last_login :: "ms option"

definition user_to_json :: "user \<Rightarrow> user_json" where
  "user_to_json u =
     \<lparr>uj_name = user_name u, uj_email = user_email u, uj_phone = user_phone u, uj_role = user_role u,
      uj_active = user_active u, uj_last_login = user_last_login u\<rparr>"

definition register_response :: "db \<Rightarrow> ms \<Rightarrow> register_form \<Rightarrow> db \<times> (session_user \<times> jwt_claims) response" where
  "register_response d now f =
     (case register_user d f of
        (d', Inl e) \<Rightarrow> (d', Inl e)
      | (d', Inr (uid, u)) \<Rightarrow> (d', Inr (session_view uid u, generate_token uid now)))"

definition login_response ::
    "db \<Rightarrow> ms \<Rightarrow> string \<Rightarrow> string option \<Rightarrow> bool \<Rightarrow> db \<times> (session_user \<times> jwt_claims) response" where
  "login_response d now e pw ok =
     (case login d now e pw ok of
        (d', Inl err) \<Rightarrow> (d', Inl err)
      | (d', Inr (uid, u)) \<Rightarrow> (d', Inr (session_view uid u, generate_token uid now)))"

definition me_response :: "db \<Rightarrow> oid \<Rightarrow> user_json option response" where
  "me_response d uid = map_sum id (map_option user_to_json) (get_me d uid)"

subsection \<open>No answer carries the password\<close>

lemma views_ignore_password:
  "session_view uid (u\<lparr>user_password := p\<rparr>) = session_view uid u \<and>
   user_to_json (u\<lparr>user_password := p\<rparr>) = user_to_json u"
  by (simp add: session_view_def user_to_json_def)

subsection \<open>The token of a registration admits the new account\<close>

text \<open>The client keeps the token of a successful registration; sent back as
  \<open>Bearer\<close> header it admits the new account until seven days have passed.\<close>

lemma register_token_admits:
  assumes r: "register_response d now f = (d', Inr (v, c))"
    and dec: "decode t = Some c" and tr: "js_trim t = t"
    and w: "now' div 1000 < now div 1000 + week_seconds"
  shows "\<exists>u. auth (jwt_verifier decode now') d' (Some (bearer @ t)) = Inr (sv_id v, u) \<and>
             session_view (sv_id v) u = v"
proof -
  obtain uid u where ru: "register_user d f = (d', Inr (uid, u))" and v: "v = session_view uid u"
    and c: "c = generate_token uid now"
    using r by (auto simp: register_response_def split: prod.splits sum.splits)
  have m: "map_of (users d') uid = Some u" using register_user_InrD [OF ru] by blast
  have "auth (jwt_verifier decode now') d' (Some (bearer @ t)) = Inr (uid, u)"
    using auth_generated_token [of decode t uid now now' d'] dec tr w m c by simp
  then show ?thesis using v by (simp add: session_view_def)
qed

end
