(* ===== verification/Spec2Isabelle.thy ===== *)
theory Spec2Isabelle
  imports Cart Auth Order_Lifecycle Order_Queries Catalog Menu_Queries Users Admin Analytics CartSlice CatalogSlices AuthSlice OrderSlice AdminSlice Http_Routes Api_Client Contact Ui_Components Services Validation Admin_Script Email_Templates Restaurant_Listing Sessions App_Store Filter_Sidebar Navigation Account_Views
begin

text \<open>
  \<^bold>\<open>A verification model of the Dine-flow backend and of its React client.\<close>

  Dine-flow is a food-delivery marketplace: an Express REST API over MongoDB
  (\<open>src/backend\<close>) and a React/Redux client (\<open>src/frontend\<close>). Customers fill a
  cart with the menu items of one restaurant and check it out into an order; restaurant
  owners advance the order's status; customers cancel and rate orders; admins approve
  restaurants. Every request passes the bearer-token gate of
  \<open>middleware/auth.js\<close> first.

  \<^bold>\<open>Theories.\<close>
  \<^item> \<open>Prelude\<close>: type synonyms (\<open>oid\<close>, \<open>money\<close> in cents, \<open>ms\<close>), collections as
    association lists in insertion order, the JavaScript idioms \<open>x || d\<close>,
    \<open>findIndex\<close>, \<open>splice\<close> and \<open>Math.round\<close> (\<open>js_round\<close>, proved equal to
    \<open>\<lfloor>a/b + 1/2\<rfloor>\<close>).
  \<^item> \<open>Store\<close>: the Mongoose schemas of \<open>models/*.js\<close> as records and datatypes, the
    database record \<open>db\<close> of all collections, the error responses \<open>api_error\<close> with
    their HTTP status, and the sample data of the specification's scenario.
  \<^item> \<open>Pricing\<close>: the nested loop adding option prices (\<open>add_options\<close>,
    \<open>add_customizations\<close>) proved equal to a closed sum, the service fee and tax
    (\<open>Math.round(subtotal * 0.05)\<close>, \<open>* 0.08\<close>) and their rounding bounds.
  \<^item> \<open>Auth\<close>: \<open>auth\<close>, \<open>adminAuth\<close>, \<open>restaurantAuth\<close>, with the JWT verifier
    as a parameter.
  \<^item> \<open>Cart\<close>: the handlers of \<open>routes/cart.js\<close> (\<open>get_cart\<close>, \<open>add_to_cart\<close> in
    its three blocks, \<open>update_cart_item\<close>, \<open>remove_cart_item\<close>, \<open>clear_cart\<close>), the
    operations as one step function \<open>cart_step\<close>, and the cart invariant
    \<open>carts_wf\<close> proved preserved by every step. The match of an added item against
    the cart's entries is \<open>JSON.stringify\<close> of the stored customization subdocuments
    (with their \<open>_id\<close> and the default option price) against that of the request's:
    a JSON value type \<open>json\<close> and the two serialisers model it. Stored customizations
    never serialise as requested ones, so only entries without customizations are
    merged, and repeating an add with customizations appends a duplicate entry.
  \<^item> \<open>Orders\<close>: order creation (\<open>POST /api/orders\<close> of \<open>routes/orders.js\<close>):
    the item loop \<open>price_order_items\<close>, \<open>build_order\<close> (restaurant check, pricing,
    minimum order, the new document), and \<open>save_order\<close>, which is
    \<open>order.save()\<close> on \<open>models/Order.js\<close>: schema validation first, then the
    \<open>pre('save')\<close> hook that numbers the order and adds the first timeline entry,
    then the unique index. Its lemmas show the pricing of a built order and that the
    handler, as written, never stores an order.
  \<^item> \<open>Order_Lifecycle\<close>: the handlers on a stored order (\<open>GET /:id\<close>,
    \<open>PUT /:id/status\<close>, \<open>POST /:id/cancel\<close>, \<open>POST /:id/rate\<close> with the
    restaurant's rating recomputation), the writing ones as one step function
    \<open>order_step\<close>, the reachable databases \<open>order_reach\<close> as an inductive
    relation, the invariant \<open>orders_ok\<close> proved by rule induction, the history of a
    stored order (\<open>order_succ\<close>), and the effect, guards and authorisation of each
    handler. Liveness: from any database satisfying the invariant, an unrated stored
    order is driven by three status updates and a rating to a delivered, rated order.
  \<^item> \<open>Catalog\<close>: the writing handlers of \<open>routes/restaurants.js\<close> and
    \<open>routes/menu.js\<close> and their single-document reads. A request body is a record
    of optional fields applied over the stored (or default) document, as the spread
    \<open>{...req.body}\<close> and \<open>findByIdAndUpdate(id, req.body)\<close> do. The invariant
    \<open>catalog_ok\<close> (distinct ids below the counter, valid documents) is preserved by
    every handler; its lemmas also show who may write what, the cascade of a restaurant
    deletion, and that an owner may reassign or approve a restaurant and move a menu item
    to another restaurant through the update bodies.
  \<^item> \<open>Menu_Queries\<close>: the public menu of a restaurant
    (\<open>GET /api/menu/restaurant/:id\<close>): the availability and category filters, the
    sort by category and name (strings ordered by \<open>List_Lexorder\<close>) and the grouping
    into an object keyed by category. The groups partition the listed items, and without
    the \<open>available\<close> parameter unavailable items are listed.
  \<^item> \<open>Users\<close>: the account handlers of \<open>routes/auth.js\<close> (register, login, current
    user, profile, password change) and \<open>user.save()\<close> on \<open>models/User.js\<close> with its
    password-hashing hook. bcrypt is idealised as the constructor \<open>Bcrypt\<close> of the
    hashed text. The invariant \<open>users_ok\<close> (distinct ids and emails, valid documents)
    is preserved; the round trips register-then-login and change-password-then-login
    are proved, as are the login guard and that registration never creates an admin.
  \<^item> \<open>Paging\<close>: the MongoDB pagination of every listing route
    (\<open>.limit(l).skip((p - 1) * l)\<close> as \<open>mongo_window\<close>, \<open>Math.ceil(total / l)\<close> as
    \<open>page_count\<close>, the response as \<open>paginate\<close>), with the theorem that for a positive
    limit the pages \<open>1..k\<close> cover the listing exactly once.
  \<^item> \<open>Order_Queries\<close>: the customer's and the restaurant's order listings of
    \<open>routes/orders.js\<close> (validators, defaults, status and day filters, ownership), with
    what they may return.
  \<^item> \<open>Admin\<close>: the handlers of \<open>routes/admin.js\<close>: the user, pending-restaurant
    and order listings with their filters, user activation, restaurant approval and
    rejection, the dashboard, broadcast and health counters. The writes form
    \<open>admin_step\<close>, proved to keep accounts and catalogue valid.
  \<^item> \<open>Analytics\<close>: the revenue and order analytics of \<open>routes/admin.js\<close> as
    MongoDB aggregations (\<open>group_sum\<close> for \<open>$group\<close>, a stable sort for
    \<open>$sort\<close>), grouped by day, hour of day and day of week. Grouping keeps the totals,
    so the summary's revenue and order count are those of the period's orders that are
    not cancelled, and the top list holds at most ten stored restaurants by revenue,
    descending, each with its orders' revenue and count; the average order value is a
    mean of daily means.
  \<^item> \<open>CartSlice\<close>: the Redux slice \<open>frontend/src/store/slices/cartSlice.ts\<close>: its
    state with the \<open>localStorage\<close> copy (\<open>fe_store\<close>), every reducer and the
    fulfilled and rejected cases of its thunks as \<open>cart_reducer\<close>. The invariant
    \<open>slice_ok\<close> (totals are the sums, one entry per menu item, one restaurant,
    storage equal to the entries) holds along every run from an empty browser, and the
    reducers refine an abstract cart (\<open>abs_cart\<close>, \<open>abs_step\<close>: the restaurant and a
    \<open>Mapping\<close> from menu item to quantity). A reload, which restores the entries
    without their restaurant, breaks the scope.
  \<^item> \<open>CatalogSlices\<close>, \<open>AuthSlice\<close> and \<open>OrderSlice\<close>: the other Redux slices,
    \<open>menuSlice.ts\<close> and \<open>restaurantSlice.ts\<close> (the menu and restaurants on screen),
    \<open>authSlice.ts\<close> (session, with the \<open>localStorage\<close> keys \<open>token\<close> and
    \<open>user\<close>) and \<open>orderSlice.ts\<close> (the order list). The menu on screen stays with
    one restaurant unless an update moves an item; the restaurant list stays empty
    because the backend sends the array itself as \<open>data\<close>. The session's user and token always equal the stored ones, so a
    reload restores them, but a rejected login drops only the signed-in flag; the
    in-place order replacement is a map over the list when order ids are distinct.
  \<^item> \<open>AdminSlice\<close>: \<open>adminSlice.ts\<close>, every reducer and thunk result case as
    \<open>admin_reducer\<close>; the lists on screen keep distinct ids.
  \<^item> \<open>Http_Routes\<close>: every route declaration of the seven routers as a \<open>route\<close>
    record (method, path pattern of literal and parameter segments, middleware gate, the
    body fields its validators require), each router a list in declaration order, and
    \<open>route_for\<close>, Express's first-match dispatch under the mount points
    \<open>/api/<router>\<close>. The mounts are in \<open>server.js\<close>, outside \<open>src\<close>, and are
    taken from the specification (\<open>api_mounts\<close>).
  \<^item> \<open>Api_Client\<close>: the request every thunk of the slices sends (\<open>api.ts\<close>
    with its base URL, query and the body fields \<open>JSON.stringify\<close> keeps), the two
    interceptors of \<open>api.ts\<close> (bearer header, sign-out on 401), and
    \<open>api_outcome\<close>, the composition with \<open>route_for\<close>: no route (404), a
    required field missing (400), or the route reached. Its lemmas classify every client
    request and follow a refused login through the interceptor and the slice.
  \<^item> \<open>Contact\<close>: \<open>POST /api/contact\<close>: the validators and sanitizers, the global
    replacement \<open>message.replace(/\n/g, "<br>")\<close> as the ECMAScript loop over
    \<open>lastIndex\<close> (a \<open>while_option\<close>, proved to terminate and equal to a reference
    definition), both mails and the answers, including a 500 after the first mail left.
  \<^item> \<open>Ui_Components\<close>: the components with handlers as state machines: the
    three-step restaurant registration wizard (its reachable states as an inductive
    relation; its submit button dispatches nothing), the sign-in/sign-up dialog, the
    header buttons, the filter sidebar and the restaurant grid's paging.
  \<^item> \<open>Services\<close>: the service modules of \<open>frontend/src/services\<close>; they send the
    slices' requests, and the calls without a slice counterpart match no route.
  \<^item> \<open>Validation\<close>: the shared validator chains of \<open>middleware/validation.js\<close> and
    \<open>utils/validation.js\<close> with \<open>handleValidationErrors\<close>; no route uses them and
    they disagree with the routes' own chains.
  \<^item> \<open>Admin_Script\<close>: the set-up script \<open>scripts/createAdmin.js\<close>, the only code
    that creates an admin, through the User document's save; the admin it stores can
    log in with the configured email and password.
  \<^item> \<open>Email_Templates\<close>: the three mail bodies of \<open>utils/emailTemplates.js\<close>, which
    no route calls.
  \<^item> \<open>Restaurant_Listing\<close>: the public listing \<open>GET /api/restaurants\<close> (validators,
    filter, the four sort orders, pagination) and the category list of \<open>routes/menu.js\<close>;
    a geographic query fails with 500 because \<open>countDocuments\<close> refuses \<open>$near\<close>, and the
    default order is newest first. Its composition with the grid's request is proved too.
  \<^item> \<open>Sessions\<close>: the token of \<open>generateToken\<close> (seven days, in whole seconds) and the
    logout handler, composed with \<open>auth\<close>: a token admits its user, active or not, for
    exactly seven days, and logging out does not revoke it.
  \<^item> \<open>App_Store\<close>: \<open>store.ts\<close>, the six slices combined; each slice runs on its own
    actions, so the cart invariant carries over to the store, and logout leaves the cart,
    orders and admin data of the previous user.
  \<^item> \<open>Filter_Sidebar\<close>: the sidebar with its collapsible sections as a state machine;
    its reachable selections are well formed and it never dispatches an action.
  \<^item> \<open>Navigation\<close>: the client routes of \<open>App.tsx\<close>, the components of each page,
    the links, JavaScript's \<open>Number\<close> on texts, and the restaurant page's lookup: no page
    renders the restaurant grid, and an object id finds no restaurant.
  \<^item> \<open>Account_Views\<close>: what registration, login and \<open>GET /me\<close> send back (the
    hand-built user objects with the token, \<open>toJSON\<close> without the password); the
    token of a registration admits the new account.
  \<^item> This theory composes the components as the routes do: \<open>api_step\<close> runs the
    middleware a route declares (\<open>op_gate\<close>, \<open>run_gate\<close>) and then its handler
    (\<open>run_op\<close>), for the cart, order, catalogue, account and admin routes. \<open>api_reach\<close> is the inductive closure of requests from a
    database; \<open>system_ok\<close> (accounts, stored orders and catalogue valid) holds along it. The
    remaining lemmas here show properties spanning components: only an admin gets
    through the approval route, an owner approves a restaurant through the update route,
    and an owner's menu update that names another restaurant breaks the
    single-restaurant scope of every cart holding the item.

  \<^bold>\<open>Modelling choices.\<close> Each handler takes the database, the request time and
  the authenticated user id and returns the database after its writes with the
  response, an \<open>api_error + 'a\<close>; every early \<open>return res.status(..)\<close> of the
  source is an \<open>Inl\<close> branch, and a \<open>TypeError\<close> on a missing populated document
  is \<open>Server_Error\<close>. Writes that the source performs before failing stay in the
  returned database. Amounts are exact cents: floating-point error is not modelled.
  Object ids are naturals drawn from the counter \<open>next_oid\<close>. The loops are
  structural recursion over the lists they iterate, so every handler is total and
  executable; no fuel is needed. The one loop that is not structural, the global
  regular-expression replacement of the contact route, is a \<open>while_option\<close> whose
  termination is proved with the measure \<open>length s - lastIndex\<close>. Interaction with a
  page is a sequence of events on the elements rendered at that moment.

  The admin listings sort by creation time (insertion order, reversed for the default
  descending order); the search of the user listing is a case-insensitive substring
  test, the meaning of \<open>$regex\<close> for a text without pattern operators. The browser
  cart is a separate state machine: its prices are integers and \<open>JSON.stringify\<close>
  followed by \<open>JSON.parse\<close> is the identity on its entries.

  \<^bold>\<open>Not modelled.\<close> Mail delivery (the transport's outcome is a parameter), the
  week and month groupings of the revenue analytics and the date-grouped aggregations
  of the dashboard (they need a calendar), sorting the admin listings on fields other
  than the creation time, password hashing, the signature of JWT tokens (their claims
  and expiry are modelled) and the validator library's format checks
  (library calls, passed in as parameters), MongoDB's text-search match (a parameter of
  the listing) and geographic distances (a geographic listing fails before they
  matter), the restaurant and order chains of the shared validators (arrays and nested
  objects), request bodies with other shapes than the modelled records (a request
  customization without \<open>selectedOptions\<close>, which makes the order route's loop throw,
  or one that carries an \<open>_id\<close>: the modelled requests always have the option list
  and never an \<open>_id\<close>), and the
  presentational components and pages (\<open>admin-dashboard.tsx\<close>, the markup of
  \<open>ContactPage.tsx\<close> and \<open>AboutPage.tsx\<close>, the rendering of \<open>restaurant-info.tsx\<close>
  and \<open>restaurant-menu.tsx\<close>, the landing sections): static markup with hard-coded
  data, no handler that changes state or sends a request (the contact form and the menu
  page's buttons have none, which is recorded as a finding).
\<close>

section \<open>The API as one step function\<close>

text \<open>
  Each route declares the middleware in front of its handler: \<open>auth\<close> for the cart
  routes, order placement, cancel, rate and restaurant registration;
  \<open>restaurantAuth\<close> for status updates, restaurant updates and the menu writes;
  \<open>adminAuth\<close> for restaurant deletion and approval.
\<close>

datatype api_op =
    Cart_Op cart_op
  | Place_Order order_request
  | Order_Op order_op
  | Catalog_Op catalog_op
  | Account_Op account_op
  | Admin_Op admin_op

fun op_gate :: "api_op \<Rightarrow> gate" where
  "op_gate (Cart_Op _) = Auth_Gate"
| "op_gate (Place_Order _) = Auth_Gate"
| "op_gate (Order_Op (Set_Status _ _ _)) = Restaurant_Gate"
| "op_gate (Order_Op _) = Auth_Gate"
| "op_gate (Catalog_Op (Register_Restaurant _ _)) = Auth_Gate"
| "op_gate (Catalog_Op (Delete_Restaurant _)) = Admin_Gate"
| "op_gate (Catalog_Op (Set_Restaurant_Status _ _)) = Admin_Gate"
| "op_gate (Catalog_Op _) = Restaurant_Gate"
| "op_gate (Account_Op _) = Auth_Gate"
| "op_gate (Admin_Op _) = Admin_Gate"

fun run_gate :: "gate \<Rightarrow> (string \<Rightarrow> token_result) \<Rightarrow> db \<Rightarrow> string option \<Rightarrow> (oid \<times> user) response" where
  "run_gate Auth_Gate = auth"
| "run_gate Restaurant_Gate = restaurant_auth"
| "run_gate Admin_Gate = admin_auth"

fun run_op :: "db \<Rightarrow> ms \<Rightarrow> oid \<Rightarrow> user \<Rightarrow> api_op \<Rightarrow> db" where
  "run_op d now uid u (Cart_Op op) = cart_step d now uid op"
| "run_op d now uid u (Place_Order rq) = fst (create_order d now uid rq)"
| "run_op d now uid u (Order_Op op) = order_step d now uid u op"
| "run_op d now uid u (Catalog_Op op) = catalog_step d uid u op"
| "run_op d now uid u (Account_Op op) = account_step d now uid op"
| "run_op d now uid u (Admin_Op op) = admin_step d op"

text \<open>One request: registration and login are public; every other route runs its gate,
  then the handler as the authenticated user, and a refused request writes nothing. The
  token verifier is a parameter of each step.\<close>

definition api_step :: "(string \<Rightarrow> token_result) \<Rightarrow> db \<Rightarrow> ms \<Rightarrow> string option \<Rightarrow> api_op \<Rightarrow> db" where
  "api_step verify d now hdr op =
     (case op of
        Account_Op (Register f) \<Rightarrow> fst (register_user d f)
      | Account_Op (Login e p ok) \<Rightarrow> fst (login d now e p ok)
      | _ \<Rightarrow>
          (case run_gate (op_gate op) verify d hdr of
             Inl e \<Rightarrow> d
           | Inr (uid, u) \<Rightarrow> run_op d now uid u op))"

inductive api_reach :: "db \<Rightarrow> db \<Rightarrow> bool" where
  api_refl: "api_reach d d"
| api_next: "api_reach d d' \<Longrightarrow> api_reach d (api_step verify d' now hdr op)"

text \<open>The invariants of the accounts, the stored orders and the catalogue together.\<close>

definition system_ok :: "db \<Rightarrow> bool" where
  "system_ok d \<longleftrightarrow> users_ok d \<and> orders_ok d \<and> catalog_ok d"

section \<open>Properties across components\<close>

lemma order_step_catalog_ok:
  assumes ok: "catalog_ok d"
  shows "catalog_ok (order_step d now uid u op)"
proof -
  let ?d' = "order_step d now uid u op"
  note fr = order_step_frame [of d now uid u op]
  show ?thesis
  proof (cases "restaurants ?d' = restaurants d")
    case True
    with fr ok show ?thesis by (auto intro: catalog_ok_frame)
  next
    case False
    with fr obtain rid r0 r where k: "map_of (restaurants d) rid = Some r0" and v: "restaurant_valid r"
      and upd: "restaurants ?d' = AList.update rid r (restaurants d)" by blast
    have "catalog_ok (d\<lparr>restaurants := AList.update rid r (restaurants d)\<rparr>)"
      by (rule catalog_ok_put_restaurant [OF ok k v])
    then show ?thesis using fr upd by (auto intro: catalog_ok_frame)
  qed
qed

lemma system_ok_frame:
  assumes u: "users_ok d" and o: "orders_ok d" and c: "catalog_ok d"
    and us: "users d' = users d" and os: "orders d' = orders d"
    and rs: "restaurants d' = restaurants d" and ms: "menu_items d' = menu_items d"
    and n: "next_oid d \<le> next_oid d'"
  shows "system_ok d'"
proof -
  have "users_ok d'" by (rule users_ok_next [OF u n us])
  moreover have "orders_ok d'" using o os by (simp add: orders_ok_def)
  moreover have "catalog_ok d'" by (rule catalog_ok_frame [OF c rs ms n])
  ultimately show ?thesis by (simp add: system_ok_def)
qed

lemma run_op_ok:
  assumes ok: "system_ok d"
  shows "system_ok (run_op d now uid u op)"
proof -
  from ok have u: "users_ok d" and o: "orders_ok d" and c: "catalog_ok d"
    by (simp_all add: system_ok_def)
  show ?thesis
  proof (cases op)
    case (Cart_Op x)
    have "carts_frame d (cart_step d now uid x)" by (rule cart_step_frame)
    then have "system_ok (cart_step d now uid x)"
      unfolding carts_frame_def by (intro system_ok_frame [OF u o c]) simp_all
    with Cart_Op show ?thesis by simp
  next
    case (Place_Order rq)
    with ok show ?thesis by (simp add: create_order_fails)
  next
    case (Order_Op x)
    note fr = order_step_frame [of d now uid u x]
    have "orders_ok (order_step d now uid u x)" by (rule orders_ok_written [OF o order_step_written])
    moreover have "catalog_ok (order_step d now uid u x)" by (rule order_step_catalog_ok [OF c])
    moreover have "users_ok (order_step d now uid u x)"
      by (rule users_ok_next [OF u]) (simp_all add: fr)
    ultimately show ?thesis using Order_Op by (simp add: system_ok_def)
  next
    case (Catalog_Op x)
    note fr = catalog_step_frame [of d uid u x]
    have "orders_ok (catalog_step d uid u x)" using o fr by (simp add: orders_ok_def)
    moreover have "catalog_ok (catalog_step d uid u x)" by (rule catalog_step_ok [OF c])
    moreover have "users_ok (catalog_step d uid u x)"
      by (rule users_ok_next [OF u]) (simp_all add: fr)
    ultimately show ?thesis using Catalog_Op by (simp add: system_ok_def)
  next
    case (Account_Op x)
    note fr = account_step_frame [of d now uid x]
    have "orders_ok (account_step d now uid x)" using o fr by (simp add: orders_ok_def)
    moreover have "catalog_ok (account_step d now uid x)"
      by (rule catalog_ok_frame [OF c]) (simp_all add: fr)
    moreover have "users_ok (account_step d now uid x)" by (rule account_step_ok [OF u])
    ultimately show ?thesis using Account_Op by (simp add: system_ok_def)
  next
    case (Admin_Op x)
    note fr = admin_step_frame [of d x]
    have "orders_ok (admin_step d x)" using o fr by (simp add: orders_ok_def)
    moreover have "catalog_ok (admin_step d x)" by (rule admin_step_catalog_ok [OF c])
    moreover have "users_ok (admin_step d x)" by (rule admin_step_users_ok [OF u])
    ultimately show ?thesis using Admin_Op by (simp add: system_ok_def)
  qed
qed

lemma api_step_run:
  "api_step verify d now hdr op = d \<or> (\<exists>uid u. api_step verify d now hdr op = run_op d now uid u op)"
proof (cases op)
  case (Account_Op a)
  then show ?thesis by (cases a) (auto simp: api_step_def split: sum.splits)
qed (auto simp: api_step_def split: sum.splits)

lemma api_step_ok: "system_ok d \<Longrightarrow> system_ok (api_step verify d now hdr op)"
  using api_step_run [of verify d now hdr op] run_op_ok by metis

text \<open>
  C30. Invariant of the whole API: from a database whose accounts, stored orders and
  catalogue satisfy their invariants, every sequence of requests (public registration and
  login, every other route through its middleware and handler, whatever tokens the
  clients send) keeps all three invariants.
\<close>

theorem api_reach_system_ok:
  assumes "api_reach d d'" and "system_ok d"
  shows "system_ok d'"
  using assms by (induction rule: api_reach.induct) (auto intro: api_step_ok)

theorem api_reach_system_ok_witness:
  "system_ok sample_order_db \<and>
   system_ok (api_step (\<lambda>t. Token_Ok 1) sample_order_db 5 (Some (bearer @ ''t''))
                (Order_Op (Rate_Order 50 sample_rate)))"
proof -
  have r: "api_reach sample_order_db
             (api_step (\<lambda>t. Token_Ok 1) sample_order_db 5 (Some (bearer @ ''t''))
                (Order_Op (Rate_Order 50 sample_rate)))"
    by (rule api_next [OF api_refl])
  have ok: "system_ok sample_order_db"
    by (simp add: system_ok_def orders_ok_def catalog_ok_def sample_order_db_def sample_order_def
                  order_valid_def coll_wf_def sample_db_def sample_restaurant_def restaurant_valid_def
                  menu_item_valid_def menu_categories_def users_ok_def sample_user_def user_valid_def)
  from api_reach_system_ok [OF r ok] ok show ?thesis by simp
qed

text \<open>
  C31. Only an admin changes anything through the restaurant status route: a request that
  changes the database carries a token of a stored admin.
\<close>

theorem restaurant_status_admin_only:
  assumes "api_step verify d now hdr (Catalog_Op (Set_Restaurant_Status rid s)) \<noteq> d"
  shows "\<exists>uid u. auth verify d hdr = Inr (uid, u) \<and> map_of (users d) uid = Some u \<and> user_role u = Admin"
  using assms
  by (auto simp: api_step_def admin_auth_def role_gate_def auth_Inr_user split: sum.splits if_splits)

theorem restaurant_status_admin_only_witness:
  "api_step (\<lambda>t. Token_Ok 3) sample_db 5 (Some (bearer @ ''t'')) (Catalog_Op (Set_Restaurant_Status 10 R_Suspended))
     \<noteq> sample_db \<and>
   (\<exists>uid u. auth (\<lambda>t. Token_Ok 3) sample_db (Some (bearer @ ''t'')) = Inr (uid, u) \<and>
            map_of (users sample_db) uid = Some u \<and> user_role u = Admin)"
proof -
  have ch: "api_step (\<lambda>t. Token_Ok 3) sample_db 5 (Some (bearer @ ''t''))
              (Catalog_Op (Set_Restaurant_Status 10 R_Suspended)) \<noteq> sample_db"
    by (simp add: api_step_def admin_auth_def role_gate_def auth_bearer_token sample_db_def sample_user_def
                  set_restaurant_status_def sample_restaurant_def)
  from restaurant_status_admin_only [OF ch] ch show ?thesis by blast
qed

text \<open>
  Approval is not reserved to admins: the owner of a suspended restaurant sets it
  \<open>approved\<close> through \<open>PUT /api/restaurants/:id\<close>, whose body may carry a status.
\<close>

theorem owner_self_approves:
  "user_role (sample_user ''bob'' Restaurant_Owner) \<noteq> Admin \<and>
   map_of (restaurants (api_step (\<lambda>t. Token_Ok 2)
              (sample_db\<lparr>restaurants := [(10, (sample_restaurant 2 200 1000)\<lparr>rest_status := R_Suspended\<rparr>)]\<rparr>)
              5 (Some (bearer @ ''t''))
              (Catalog_Op (Update_Restaurant 10 (no_restaurant_fields\<lparr>rb_status := Some R_Approved\<rparr>))))) 10 =
     Some (sample_restaurant 2 200 1000)"
  by (simp add: api_step_def restaurant_auth_def role_gate_def auth_bearer_token sample_db_def sample_user_def
                update_restaurant_def sample_restaurant_def apply_restaurant_body_def no_restaurant_fields_def
                restaurant_valid_def Let_def)

text \<open>
  C33. The cart invariant does not survive the catalogue: the owner of a restaurant may
  update one of its menu items with a body that names another restaurant, and every
  cart holding that item is then no longer scoped to a single restaurant.
\<close>

theorem menu_update_breaks_cart_scope:
  assumes wf: "carts_wf d" and c: "map_of (carts d) cu = Some c" and e: "e \<in> set (cart_items c)"
    and m: "map_of (menu_items d) (ce_menu_item e) = Some m" and gate: "owner_gate d uid u (mi_restaurant m) = None"
    and ne: "rid' \<noteq> mi_restaurant m" and v: "menu_item_valid m"
  shows "\<not> carts_wf (catalog_step d uid u (Update_Menu_Item (ce_menu_item e) (no_menu_fields\<lparr>mb_restaurant := Some rid'\<rparr>)))"
proof
  let ?d' = "catalog_step d uid u (Update_Menu_Item (ce_menu_item e) (no_menu_fields\<lparr>mb_restaurant := Some rid'\<rparr>))"
  assume wf': "carts_wf ?d'"
  have step: "?d' = d\<lparr>menu_items := AList.update (ce_menu_item e) (m\<lparr>mi_restaurant := rid'\<rparr>) (menu_items d)\<rparr>"
    using m gate v
    by (simp add: update_menu_item_def apply_menu_body_def no_menu_fields_def patched_def menu_item_valid_def Let_def)
  obtain r where r: "cart_restaurant c = Some r"
    and sc: "\<forall>e\<in>set (cart_items c). case map_of (menu_items d) (ce_menu_item e) of None \<Rightarrow> True | Some mi \<Rightarrow> mi_restaurant mi = r"
    using carts_wf_lookup [OF wf c] by (auto simp: cart_wf_def cart_scoped_def)
  have "mi_restaurant m = r" using sc e m by fastforce
  have c': "map_of (carts ?d') cu = Some c" using c step by simp
  obtain r' where r': "cart_restaurant c = Some r'"
    and sc': "\<forall>e\<in>set (cart_items c). case map_of (menu_items ?d') (ce_menu_item e) of None \<Rightarrow> True | Some mi \<Rightarrow> mi_restaurant mi = r'"
    using carts_wf_lookup [OF wf' c'] by (auto simp: cart_wf_def cart_scoped_def)
  have "rid' = r'" using sc' e step by (fastforce simp: coll_simps)
  with r r' ne \<open>mi_restaurant m = r\<close> show False by simp
qed

theorem menu_update_breaks_cart_scope_witness:
  "\<not> carts_wf (catalog_step sample_db 2 (sample_user ''bob'' Restaurant_Owner)
                 (Update_Menu_Item 20 (no_menu_fields\<lparr>mb_restaurant := Some 11\<rparr>)))"
proof -
  let ?e = "\<lparr>ce_id = 30, ce_menu_item = 20, ce_quantity = 1, ce_customizations = [], ce_instructions = []\<rparr>"
  let ?m = "\<lparr>mi_restaurant = 10, mi_name = ''Burger'', mi_category = ''Burgers'', mi_price = 900, mi_available = True\<rparr>"
  have wf: "carts_wf sample_db"
    by (simp add: carts_wf_def cart_wf_def cart_scoped_def plain_items_def coll_wf_def sample_db_def)
  have c: "map_of (carts sample_db) 1 = Some (the (map_of (carts sample_db) 1))"
    and e: "?e \<in> set (cart_items (the (map_of (carts sample_db) 1)))"
    and m: "map_of (menu_items sample_db) (ce_menu_item ?e) = Some ?m"
    and gate: "owner_gate sample_db 2 (sample_user ''bob'' Restaurant_Owner) (mi_restaurant ?m) = None"
    and ne: "(11::oid) \<noteq> mi_restaurant ?m" and v: "menu_item_valid ?m"
    by (simp_all add: sample_db_def owner_gate_def sample_user_def sample_restaurant_def menu_item_valid_def
                      menu_categories_def)
  from menu_update_breaks_cart_scope [OF wf c e m gate ne v] show ?thesis by simp
qed

end
